(* ===== verification/Prelude.thy ===== *)
theory Prelude
  imports Complex_Main "HOL-Library.AList" "HOL-Library.Char_ord" "HOL-Library.List_Lexorder"
begin

text \<open>
  The vocabulary every component of the development shares.

  \<^item> Names of the program's types: session and task ids, references, times.
  \<^item> Python dictionaries. A \<open>dict\<close> keeps the order in which its keys were first put,
    and the code relies on it wherever it iterates; so a dictionary is an association
    list with distinct keys, updated in place (\<open>AList.update\<close>) and appended at the end
    for a new key, exactly as CPython does. Where only lookups matter, \<open>map_of\<close> of it
    is the map.
  \<^item> Python truthiness of optional strings (\<open>a or b\<close>, \<open>if x\<close>).
  \<^item> Decimal numerals, as \<open>f"\<dots>{n}"\<close> prints them, with their injectivity.
  \<^item> The rules about filtering lists and dictionaries that the component proofs share.

  The named theorem collections: \<open>dict_simps\<close> holds what a dictionary operation does to
  lookups and keys, and \<open>inv_intros\<close> the preservation lemmas of the components' invariants.
\<close>

named_theorems dict_simps
named_theorems inv_intros

section \<open>Names of the program's types\<close>

type_synonym session_id = string
type_synonym task_id = string
type_synonym reference = string
type_synonym frame_key = "session_id \<times> int"

section \<open>Python dictionaries\<close>

type_synonym ('k, 'v) dict = "('k \<times> 'v) list"

abbreviation dict_get :: "('k, 'v) dict \<Rightarrow> 'k \<Rightarrow> 'v option" where
  "dict_get d k \<equiv> map_of d k"

abbreviation dict_put :: "('k, 'v) dict \<Rightarrow> 'k \<Rightarrow> 'v \<Rightarrow> ('k, 'v) dict" where
  "dict_put d k v \<equiv> AList.update k v d"

abbreviation dict_pop :: "('k, 'v) dict \<Rightarrow> 'k \<Rightarrow> ('k, 'v) dict" where
  "dict_pop d k \<equiv> AList.delete k d"

abbreviation dict_keys :: "('k, 'v) dict \<Rightarrow> 'k list" where
  "dict_keys d \<equiv> map fst d"

abbreviation dict_values :: "('k, 'v) dict \<Rightarrow> 'v list" where
  "dict_values d \<equiv> map snd d"

definition dict_setdefault :: "('k, 'v) dict \<Rightarrow> 'k \<Rightarrow> 'v \<Rightarrow> ('k, 'v) dict" where
  "dict_setdefault d k v = (case dict_get d k of None \<Rightarrow> dict_put d k v | Some _ \<Rightarrow> d)"

definition dict_getdefault :: "('k, 'v) dict \<Rightarrow> 'k \<Rightarrow> 'v \<Rightarrow> 'v" where
  "dict_getdefault d k v = (case dict_get d k of None \<Rightarrow> v | Some w \<Rightarrow> w)"

text \<open>\<open>for key in [k for k in d if P k]: del d[k]\<close>.\<close>

definition dict_drop :: "('k \<Rightarrow> bool) \<Rightarrow> ('k, 'v) dict \<Rightarrow> ('k, 'v) dict" where
  "dict_drop P d = filter (\<lambda>p. \<not> P (fst p)) d"

definition dict_ok :: "('k, 'v) dict \<Rightarrow> bool" where
  "dict_ok d = distinct (dict_keys d)"

lemma dict_get_put [dict_simps, simp]: "dict_get (dict_put d k v) = (dict_get d)(k \<mapsto> v)"
  by (rule AList.update_conv')

lemma dict_get_pop [dict_simps, simp]: "dict_get (dict_pop d k) = (dict_get d)(k := None)"
  by (rule AList.delete_conv')

lemma dict_get_setdefault [dict_simps]:
  "dict_get (dict_setdefault d k v) =
     (dict_get d)(k \<mapsto> (case dict_get d k of None \<Rightarrow> v | Some w \<Rightarrow> w))"
  by (auto simp: dict_setdefault_def fun_eq_iff split: option.splits)

lemma dict_get_drop [dict_simps]:
  "dict_get (dict_drop P d) = dict_get d |` {k. \<not> P k}"
  by (induction d) (auto simp: dict_drop_def fun_eq_iff restrict_map_def)

lemma dict_keys_drop: "dict_keys (dict_drop P d) = filter (\<lambda>k. \<not> P k) (dict_keys d)"
  by (induction d) (auto simp: dict_drop_def)

lemma dict_ok_empty [simp, inv_intros]: "dict_ok []"
  by (simp add: dict_ok_def)

lemma dict_ok_put [simp, inv_intros]: "dict_ok d \<Longrightarrow> dict_ok (dict_put d k v)"
  by (simp add: dict_ok_def AList.distinct_update)

lemma dict_ok_pop [simp, inv_intros]: "dict_ok d \<Longrightarrow> dict_ok (dict_pop d k)"
  by (simp add: dict_ok_def AList.distinct_delete)

lemma dict_ok_setdefault [simp, inv_intros]: "dict_ok d \<Longrightarrow> dict_ok (dict_setdefault d k v)"
  by (simp add: dict_setdefault_def split: option.splits)

lemma dict_ok_drop [simp, inv_intros]: "dict_ok d \<Longrightarrow> dict_ok (dict_drop P d)"
  by (simp add: dict_ok_def dict_keys_drop)

lemma dict_get_in_keys: "dict_get d k = Some v \<Longrightarrow> k \<in> set (dict_keys d)"
  by (force dest: map_of_SomeD)

lemma dict_get_None_iff: "dict_get d k = None \<longleftrightarrow> k \<notin> set (dict_keys d)"
  by (simp add: map_of_eq_None_iff)

lemma dict_items_iff: "dict_ok d \<Longrightarrow> (k, v) \<in> set d \<longleftrightarrow> dict_get d k = Some v"
  by (simp add: dict_ok_def)

lemma dict_drop_never [simp]: "(\<And>k. k \<in> set (dict_keys d) \<Longrightarrow> \<not> P k) \<Longrightarrow> dict_drop P d = d"
  by (auto simp: dict_drop_def filter_id_conv)

lemma dict_drop_drop: "dict_drop P (dict_drop Q d) = dict_drop (\<lambda>k. P k \<or> Q k) d"
  by (simp add: dict_drop_def conj_commute)

lemma dict_keys_pop: "fst ` set (dict_pop d k) = fst ` set d - {k}"
  by (induction d) auto

lemma dict_put_new: "k \<notin> set (dict_keys d) \<Longrightarrow> dict_put d k v = d @ [(k, v)]"
  by (induction d) auto

section \<open>Python truthiness\<close>

text \<open>\<open>a or b\<close> for an optional string \<open>a\<close>: the empty string is false too.\<close>

definition str_or :: "string option \<Rightarrow> string \<Rightarrow> string" where
  "str_or a b = (case a of None \<Rightarrow> b | Some s \<Rightarrow> if s = [] then b else s)"

text \<open>\<open>a or b\<close> where both may be \<open>None\<close>.\<close>

definition opt_or :: "string option \<Rightarrow> string option \<Rightarrow> string option" where
  "opt_or a b = (case a of None \<Rightarrow> b | Some s \<Rightarrow> if s = [] then b else Some s)"

definition truthy :: "string option \<Rightarrow> bool" where
  "truthy a = (case a of None \<Rightarrow> False | Some s \<Rightarrow> s \<noteq> [])"

lemma truthy_simps [simp]:
  "\<not> truthy None" "truthy (Some s) = (s \<noteq> [])"
  by (simp_all add: truthy_def)

lemma opt_or_simps [simp]:
  "opt_or None b = b" "opt_or (Some []) b = b" "opt_or (Some (c # cs)) b = Some (c # cs)"
  by (simp_all add: opt_or_def)

section \<open>JSON\<close>

text \<open>What \<open>json.loads\<close> builds, and what the wire models carry as free-form values.\<close>

datatype json =
    J_Null
  | J_Bool bool
  | J_Number rat
  | J_String string
  | J_List "json list"
  | J_Object "(string \<times> json) list"

section \<open>Decimal numerals\<close>

definition digit_char :: "nat \<Rightarrow> char" where
  "digit_char d = char_of (48 + d)"

fun nat_str :: "nat \<Rightarrow> string" where
  "nat_str n = (if n < 10 then [digit_char n] else nat_str (n div 10) @ [digit_char (n mod 10)])"

declare nat_str.simps [simp del]

definition digit_value :: "char \<Rightarrow> nat" where
  "digit_value c = of_char c - 48"

definition str_nat :: "string \<Rightarrow> nat" where
  "str_nat s = foldl (\<lambda>acc c. acc * 10 + digit_value c) 0 s"

lemma digit_value_char: "d < 10 \<Longrightarrow> digit_value (digit_char d) = d"
  by (simp add: digit_value_def digit_char_def)

lemma str_nat_nat_str: "str_nat (nat_str n) = n"
proof (induction n rule: nat_str.induct)
  case (1 n)
  show ?case
  proof (cases "n < 10")
    case True
    then show ?thesis
      by (subst nat_str.simps) (simp add: str_nat_def digit_value_char)
  next
    case False
    with "1.IH" have "str_nat (nat_str (n div 10)) = n div 10" by simp
    with False show ?thesis
      by (subst nat_str.simps) (simp add: str_nat_def digit_value_char)
  qed
qed

lemma nat_str_inject [simp]: "nat_str m = nat_str n \<longleftrightarrow> m = n"
  by (metis str_nat_nat_str)

lemma digit_char_not_colon: "d < 10 \<Longrightarrow> digit_char d \<noteq> CHR '':''"
  using digit_value_char [of d] by (auto simp: digit_value_def)

lemma colon_notin_nat_str: "CHR '':'' \<notin> set (nat_str n)"
proof (induction n rule: nat_str.induct)
  case (1 n)
  then show ?case
    by (subst nat_str.simps)
      (auto dest: digit_char_not_colon simp: digit_char_not_colon [symmetric])
qed

text \<open>A separator that the last part cannot hold splits a string in one way.\<close>

lemma split_at_last:
  assumes "xs @ c # ys = us @ c # vs" and "c \<notin> set ys" and "c \<notin> set vs"
  shows "xs = us \<and> ys = vs"
proof -
  have "rev ys @ c # rev xs = rev vs @ c # rev us"
    using arg_cong [OF assms(1), of rev] by simp
  moreover have "takeWhile (\<lambda>x. x \<noteq> c) (rev ys @ c # rev xs) = rev ys"
    using assms(2) by (subst takeWhile_append2) auto
  moreover have "takeWhile (\<lambda>x. x \<noteq> c) (rev vs @ c # rev us) = rev vs"
    using assms(3) by (subst takeWhile_append2) auto
  ultimately have "rev ys = rev vs" by simp
  with assms(1) show ?thesis by simp
qed

section \<open>Lists\<close>

lemma filter_map_fst: "map fst (filter (\<lambda>p. P (fst p)) d) = filter P (map fst d)"
  by (induction d) auto

lemma filter_set_eqI:
  "(\<And>x. x \<in> set xs \<Longrightarrow> P x = Q x) \<Longrightarrow> filter P xs = filter Q xs"
  by (rule filter_cong) auto

section \<open>Evaluating on tables\<close>

text \<open>
  With these a table is searched and a condition decided without rewriting what is not needed:
  the rest of the table, or the second half of a condition whose first one decides it.
\<close>

lemma search_cong: "k = k' \<Longrightarrow> map_of xs k = map_of xs k'"
  by simp

lemma conj_left_cong: "P = P' \<Longrightarrow> (P \<and> Q) = (P' \<and> Q)"
  by simp

lemma disj_left_cong: "P = P' \<Longrightarrow> (P \<or> Q) = (P' \<or> Q)"
  by simp

lemmas lazy_congs = search_cong conj_left_cong disj_left_cong

lemma search_simps:
  "map_of ((k, v) # xs) l = (if l = k then Some v else map_of xs l)"
  "map_of [] l = None"
  by simp_all

end
