(* ===== verification/Retention.thy ===== *)
theory Retention
  imports Prelude Complex_Main
begin

text \<open>
  The on-disk store of unacknowledged frames: \<open>rekuest/agents/retention.py\<close>.

  A SQLite file holds two tables, \<open>journal\<close> (the retained frames) and
  \<open>journal_sync\<close> (per session, its creation time and how far the server acknowledged
  it). A table is a list of rows whose primary keys are distinct (\<open>db_ok\<close>); its row
  order is never observed, since the one \<open>SELECT\<close> of several rows has an \<open>ORDER BY\<close>.
  Every statement of the class is one definition over the tables; a \<open>RetainedFrames\<close>
  object is a record of its path, its agent name, the tables of the file it opened and
  whether it was closed. A statement fails with \<open>ProgrammingError\<close> on a closed
  connection and with \<open>OperationalError\<close> while the file cannot be written
  (\<open>rf_disk_ok\<close>, set by the environment); \<open>with self._db\<close> rolls a failed transaction
  back, so a failure leaves the tables alone.

  Times are rationals (a Python float is one, and they are only compared); the order in
  which frames are sent again is the lexicographic order of \<open>resend_key\<close>.

  The locale \<open>frame_store\<close> is what the agent relies on: an added frame is held, an
  acknowledged one is not, and nothing else changes. It is interpreted on the tables.
\<close>

section \<open>The order of the backlog\<close>

type_synonym timestamp = rat

datatype resend_key = Resend_Key (rk_created: timestamp) (rk_session: session_id) (rk_pos: int)

instantiation resend_key :: linorder
begin

definition less_eq_resend_key :: "resend_key \<Rightarrow> resend_key \<Rightarrow> bool" where
  "less_eq_resend_key a b \<longleftrightarrow>
     rk_created a < rk_created b \<or>
     rk_created a = rk_created b \<and>
       (rk_session a < rk_session b \<or> rk_session a = rk_session b \<and> rk_pos a \<le> rk_pos b)"

definition less_resend_key :: "resend_key \<Rightarrow> resend_key \<Rightarrow> bool" where
  "less_resend_key a b \<longleftrightarrow> a \<le> b \<and> \<not> b \<le> (a::resend_key)"

instance
  by intro_classes
    (auto simp: less_eq_resend_key_def less_resend_key_def intro: resend_key.expand)

end

section \<open>Tables\<close>

record journal_row =
  jr_agent :: string
  jr_session :: session_id
  jr_pos :: int
  jr_frame :: string

record sync_row =
  sr_agent :: string
  sr_session :: session_id
  sr_created_at :: timestamp
  sr_acked_pos :: int

record database =
  db_journal :: "journal_row list"
  db_journal_sync :: "sync_row list"

record stored_frame =
  sf_session_id :: session_id
  sf_created_at :: timestamp
  sf_pos :: int
  sf_frame :: string

record retained_frames =
  rf_path :: "string option"
  rf_agent :: string
  rf_db :: database
  rf_closed :: bool
  rf_disk_ok :: bool

datatype store_error = ProgrammingError | OperationalError

abbreviation journal_pk :: "journal_row \<Rightarrow> string \<times> session_id \<times> int" where
  "journal_pk r \<equiv> (jr_agent r, jr_session r, jr_pos r)"

abbreviation sync_pk :: "sync_row \<Rightarrow> string \<times> session_id" where
  "sync_pk r \<equiv> (sr_agent r, sr_session r)"

text \<open>The primary keys of both tables.\<close>

definition db_ok :: "database \<Rightarrow> bool" where
  "db_ok db \<longleftrightarrow> distinct (map journal_pk (db_journal db)) \<and>
     distinct (map sync_pk (db_journal_sync db))"

definition empty_db :: database where
  "empty_db = \<lparr>db_journal = [], db_journal_sync = []\<rparr>"

section \<open>Statements\<close>

text \<open>The row of \<open>journal_sync\<close> a session of an agent has: the one the primary key picks.\<close>

definition sync_of :: "database \<Rightarrow> string \<Rightarrow> session_id \<Rightarrow> sync_row option" where
  "sync_of db ag s = find (\<lambda>r. sr_agent r = ag \<and> sr_session r = s) (db_journal_sync db)"

text \<open>\<open>INSERT OR IGNORE INTO journal_sync\<close>; \<open>acked_pos\<close> defaults to 0.\<close>

definition insert_or_ignore_sync :: "string \<Rightarrow> session_id \<Rightarrow> timestamp \<Rightarrow> database \<Rightarrow> database" where
  "insert_or_ignore_sync ag s t db =
     (case sync_of db ag s of
        Some _ \<Rightarrow> db
      | None \<Rightarrow> db\<lparr>db_journal_sync := db_journal_sync db @
          [\<lparr>sr_agent = ag, sr_session = s, sr_created_at = t, sr_acked_pos = 0\<rparr>]\<rparr>)"

text \<open>\<open>INSERT OR REPLACE INTO journal\<close>: the row with the same primary key goes first.\<close>

definition insert_or_replace_journal ::
    "string \<Rightarrow> session_id \<Rightarrow> int \<Rightarrow> string \<Rightarrow> database \<Rightarrow> database" where
  "insert_or_replace_journal ag s p f db =
     db\<lparr>db_journal := filter (\<lambda>r. journal_pk r \<noteq> (ag, s, p)) (db_journal db) @
          [\<lparr>jr_agent = ag, jr_session = s, jr_pos = p, jr_frame = f\<rparr>]\<rparr>"

text \<open>\<open>DELETE FROM journal WHERE \<dots> pos <= ?\<close> and \<open>UPDATE journal_sync SET acked_pos = MAX\<close>.\<close>

definition delete_upto_journal :: "string \<Rightarrow> session_id \<Rightarrow> int \<Rightarrow> database \<Rightarrow> database" where
  "delete_upto_journal ag s p db =
     db\<lparr>db_journal :=
          filter (\<lambda>r. \<not> (jr_agent r = ag \<and> jr_session r = s \<and> jr_pos r \<le> p)) (db_journal db)\<rparr>"

definition raise_acked_sync :: "string \<Rightarrow> session_id \<Rightarrow> int \<Rightarrow> database \<Rightarrow> database" where
  "raise_acked_sync ag s p db =
     db\<lparr>db_journal_sync :=
          map (\<lambda>r. if sr_agent r = ag \<and> sr_session r = s
                   then r\<lparr>sr_acked_pos := max (sr_acked_pos r) p\<rparr> else r) (db_journal_sync db)\<rparr>"

text \<open>\<open>DELETE FROM journal_sync WHERE \<dots> AND NOT EXISTS (SELECT 1 FROM journal \<dots>)\<close>.\<close>

definition delete_empty_sync :: "string \<Rightarrow> session_id \<Rightarrow> database \<Rightarrow> database" where
  "delete_empty_sync ag keep db =
     db\<lparr>db_journal_sync :=
          filter (\<lambda>r. \<not> (sr_agent r = ag \<and> sr_session r \<noteq> keep \<and>
                        \<not> (\<exists>j \<in> set (db_journal db).
                             jr_agent j = sr_agent r \<and> jr_session j = sr_session r)))
            (db_journal_sync db)\<rparr>"

text \<open>The \<open>SELECT\<close> with its \<open>LEFT JOIN\<close>: no sync row reads as created at 0, acked up to 0.\<close>

definition joined_created :: "database \<Rightarrow> string \<Rightarrow> session_id \<Rightarrow> timestamp" where
  "joined_created db ag s = (case sync_of db ag s of None \<Rightarrow> 0 | Some r \<Rightarrow> sr_created_at r)"

definition joined_acked :: "database \<Rightarrow> string \<Rightarrow> session_id \<Rightarrow> int" where
  "joined_acked db ag s = (case sync_of db ag s of None \<Rightarrow> 0 | Some r \<Rightarrow> sr_acked_pos r)"

definition select_backlog :: "string \<Rightarrow> database \<Rightarrow> stored_frame list" where
  "select_backlog ag db =
     sort_key (\<lambda>f. Resend_Key (sf_created_at f) (sf_session_id f) (sf_pos f))
       (map (\<lambda>j. \<lparr>sf_session_id = jr_session j, sf_created_at = joined_created db ag (jr_session j),
                  sf_pos = jr_pos j, sf_frame = jr_frame j\<rparr>)
         (filter (\<lambda>j. jr_agent j = ag \<and> jr_pos j > joined_acked db ag (jr_session j))
           (db_journal db)))"

section \<open>RetainedFrames\<close>

definition DEFAULT_JOURNAL_PATH :: string where
  "DEFAULT_JOURNAL_PATH = ''.arkitekt/rekuest_journal.db''"

text \<open>\<open>os.environ.get(JOURNAL_PATH_ENV) or DEFAULT_JOURNAL_PATH\<close>.\<close>

definition default_journal_path :: "(string \<Rightarrow> string option) \<Rightarrow> string" where
  "default_journal_path environ = str_or (environ ''REKUEST_JOURNAL_PATH'') DEFAULT_JOURNAL_PATH"

text \<open>
  \<open>__init__\<close>. \<open>disk\<close> is what opening a path gives: the tables of the file there (empty
  ones where there is no file yet), or nothing where it cannot be opened. A path of
  \<open>None\<close>, empty or \<open>":memory:"\<close> is a database of its own, in memory.
\<close>

definition in_memory :: "string option \<Rightarrow> bool" where
  "in_memory path \<longleftrightarrow> \<not> truthy path \<or> path = Some '':memory:''"

definition open_frames ::
    "(string \<Rightarrow> database option) \<Rightarrow> string option \<Rightarrow> string \<Rightarrow> store_error + retained_frames" where
  "open_frames disk path ag =
     (if in_memory path
      then Inr \<lparr>rf_path = path, rf_agent = ag, rf_db = empty_db, rf_closed = False, rf_disk_ok = True\<rparr>
      else case disk (the path) of
             None \<Rightarrow> Inl OperationalError
           | Some db \<Rightarrow> Inr \<lparr>rf_path = path, rf_agent = ag, rf_db = db, rf_closed = False, rf_disk_ok = True\<rparr>)"

text \<open>\<open>with self._lock, self._db:\<close> around the statements of one method.\<close>

definition transaction ::
    "(database \<Rightarrow> database) \<Rightarrow> retained_frames \<Rightarrow> store_error + retained_frames" where
  "transaction f st =
     (if rf_closed st then Inl ProgrammingError
      else if \<not> rf_disk_ok st then Inl OperationalError
      else Inr (st\<lparr>rf_db := f (rf_db st)\<rparr>))"

definition open_session ::
    "retained_frames \<Rightarrow> session_id \<Rightarrow> timestamp option \<Rightarrow> timestamp
      \<Rightarrow> store_error + timestamp \<times> retained_frames" where
  "open_session st s created_at now =
     (case transaction
             (insert_or_ignore_sync (rf_agent st) s (case created_at of None \<Rightarrow> now | Some t \<Rightarrow> t)) st of
        Inl e \<Rightarrow> Inl e
      | Inr st' \<Rightarrow> Inr (joined_created (rf_db st') (rf_agent st) s, st'))"

definition add_frame ::
    "retained_frames \<Rightarrow> session_id \<Rightarrow> int \<Rightarrow> string \<Rightarrow> store_error + retained_frames" where
  "add_frame st s p f = transaction (insert_or_replace_journal (rf_agent st) s p f) st"

definition ack_frames ::
    "retained_frames \<Rightarrow> session_id \<Rightarrow> int \<Rightarrow> store_error + retained_frames" where
  "ack_frames st s p =
     transaction (raise_acked_sync (rf_agent st) s p \<circ> delete_upto_journal (rf_agent st) s p) st"

definition prune_sessions ::
    "retained_frames \<Rightarrow> session_id option \<Rightarrow> store_error + retained_frames" where
  "prune_sessions st keep = transaction (delete_empty_sync (rf_agent st) (str_or keep [])) st"

text \<open>\<open>load\<close> only reads, so a file that cannot be written does not stop it.\<close>

definition load_frames :: "retained_frames \<Rightarrow> store_error + stored_frame list" where
  "load_frames st =
     (if rf_closed st then Inl ProgrammingError else Inr (select_backlog (rf_agent st) (rf_db st)))"

definition close_frames :: "retained_frames \<Rightarrow> retained_frames" where
  "close_frames st = st\<lparr>rf_closed := True\<rparr>"

section \<open>What the tables hold\<close>

text \<open>
  The abstract state of one agent's rows: the frames it holds, by session and position.
\<close>

definition held :: "string \<Rightarrow> database \<Rightarrow> frame_key \<Rightarrow> string option" where
  "held ag db = map_of (map (\<lambda>j. ((jr_session j, jr_pos j), jr_frame j))
     (filter (\<lambda>j. jr_agent j = ag) (db_journal db)))"

definition holds :: "retained_frames \<Rightarrow> frame_key \<Rightarrow> string option" where
  "holds st = held (rf_agent st) (rf_db st)"

definition acked :: "retained_frames \<Rightarrow> session_id \<Rightarrow> int" where
  "acked st s = joined_acked (rf_db st) (rf_agent st) s"

definition created :: "retained_frames \<Rightarrow> session_id \<Rightarrow> timestamp" where
  "created st s = joined_created (rf_db st) (rf_agent st) s"

definition store_ok :: "retained_frames \<Rightarrow> bool" where
  "store_ok st \<longleftrightarrow> db_ok (rf_db st)"

lemma transaction_Inr [simp]:
  "transaction f st = Inr st' \<longleftrightarrow>
     \<not> rf_closed st \<and> rf_disk_ok st \<and> st' = st\<lparr>rf_db := f (rf_db st)\<rparr>"
  by (auto simp: transaction_def)

lemma transaction_fails [simp]:
  "transaction f st = Inl e \<longleftrightarrow>
     (rf_closed st \<and> e = ProgrammingError \<or> \<not> rf_closed st \<and> \<not> rf_disk_ok st \<and> e = OperationalError)"
  by (auto simp: transaction_def)

subsection \<open>Primary keys are kept\<close>

lemma distinct_pk_update:
  assumes "distinct (map pk rs)" and "pk r = k"
  shows "distinct (map pk (filter (\<lambda>x. pk x \<noteq> k) rs @ [r]))"
  using assms by (auto simp: distinct_map_filter)

lemma db_ok_empty [inv_intros]: "db_ok empty_db"
  by (simp add: db_ok_def empty_db_def)

lemma sync_of_None: "sync_of db ag s = None \<longleftrightarrow> (ag, s) \<notin> set (map sync_pk (db_journal_sync db))"
  by (auto simp: sync_of_def find_None_iff)

lemma db_ok_insert_or_ignore [inv_intros]: "db_ok db \<Longrightarrow> db_ok (insert_or_ignore_sync ag s t db)"
  by (auto simp: db_ok_def insert_or_ignore_sync_def sync_of_None split: option.splits)

lemma db_ok_insert_or_replace [inv_intros]:
  "db_ok db \<Longrightarrow> db_ok (insert_or_replace_journal ag s p f db)"
  by (auto simp: db_ok_def insert_or_replace_journal_def distinct_map_filter)

lemma db_ok_delete_upto [inv_intros]: "db_ok db \<Longrightarrow> db_ok (delete_upto_journal ag s p db)"
  by (simp add: db_ok_def delete_upto_journal_def distinct_map_filter)

lemma sync_pk_raise: "map sync_pk (db_journal_sync (raise_acked_sync ag s p db)) =
    map sync_pk (db_journal_sync db)"
  by (simp add: raise_acked_sync_def comp_def cong: if_cong)

lemma db_ok_raise_acked [inv_intros]: "db_ok db \<Longrightarrow> db_ok (raise_acked_sync ag s p db)"
  using sync_pk_raise [of ag s p db]
  by (simp add: db_ok_def) (simp add: raise_acked_sync_def)

lemma db_ok_delete_empty [inv_intros]: "db_ok db \<Longrightarrow> db_ok (delete_empty_sync ag k db)"
  by (simp add: db_ok_def delete_empty_sync_def distinct_map_filter)

subsection \<open>What a statement does to the frames held\<close>

lemma held_insert_or_ignore [simp]: "held a (insert_or_ignore_sync ag s t db) = held a db"
  by (simp add: held_def insert_or_ignore_sync_def split: option.splits)

lemma held_raise_acked [simp]: "held a (raise_acked_sync ag s p db) = held a db"
  by (simp add: held_def raise_acked_sync_def)

lemma held_delete_empty [simp]: "held a (delete_empty_sync ag k db) = held a db"
  by (simp add: held_def delete_empty_sync_def)

abbreviation rows_map :: "string \<Rightarrow> journal_row list \<Rightarrow> frame_key \<Rightarrow> string option" where
  "rows_map a rs \<equiv> map_of (map (\<lambda>j. ((jr_session j, jr_pos j), jr_frame j)) (filter (\<lambda>j. jr_agent j = a) rs))"

lemma rows_map_filter:
  assumes "\<And>j. jr_agent j = a \<Longrightarrow> Q j \<longleftrightarrow> (jr_session j, jr_pos j) \<notin> K"
  shows "rows_map a (filter Q rs) = rows_map a rs |` (- K)"
  using assms by (induction rs) (auto simp: fun_eq_iff restrict_map_def)

lemma rows_map_snoc:
  "rows_map a (rs @ [r]) =
     (if jr_agent r = a then [(jr_session r, jr_pos r) \<mapsto> jr_frame r] ++ rows_map a rs
      else rows_map a rs)"
  by simp

lemma journal_insert_or_replace:
  "db_journal (insert_or_replace_journal ag s p f db) =
     filter (\<lambda>r. journal_pk r \<noteq> (ag, s, p)) (db_journal db) @
       [\<lparr>jr_agent = ag, jr_session = s, jr_pos = p, jr_frame = f\<rparr>]"
  by (simp add: insert_or_replace_journal_def)

lemma held_insert_or_replace:
  "held a (insert_or_replace_journal ag s p f db) =
     (if a = ag then (held a db)((s, p) \<mapsto> f) else held a db)"
proof -
  let ?rest = "filter (\<lambda>r. journal_pk r \<noteq> (ag, s, p)) (db_journal db)"
  have "rows_map a ?rest = rows_map a (db_journal db) |` (- (if a = ag then {(s, p)} else {}))"
    by (rule rows_map_filter) auto
  then have rest: "rows_map a ?rest =
      (if a = ag then (held a db)((s, p) := None) else held a db)"
    by (simp only: held_def) (auto simp: restrict_map_def fun_eq_iff)
  have "held a (insert_or_replace_journal ag s p f db) =
      (if ag = a then [(s, p) \<mapsto> f] ++ rows_map a ?rest else rows_map a ?rest)"
    by (simp only: held_def journal_insert_or_replace rows_map_snoc journal_row.select_convs)
  also have "\<dots> = (if a = ag then (held a db)((s, p) \<mapsto> f) else held a db)"
    by (simp only: rest) (auto simp: map_add_def fun_eq_iff split: option.splits)
  finally show ?thesis .
qed

lemma held_delete_upto:
  "held a (delete_upto_journal ag s p db) =
     (if a = ag then held a db |` {k. \<not> (fst k = s \<and> snd k \<le> p)} else held a db)"
proof -
  have "rows_map a (filter (\<lambda>r. \<not> (jr_agent r = ag \<and> jr_session r = s \<and> jr_pos r \<le> p)) (db_journal db)) =
      rows_map a (db_journal db) |` (- (if a = ag then {k. fst k = s \<and> snd k \<le> p} else {}))"
    by (rule rows_map_filter) auto
  then show ?thesis
    by (auto simp: held_def delete_upto_journal_def fun_eq_iff restrict_map_def)
qed

lemmas held_simps [simp] = held_insert_or_replace held_delete_upto

subsection \<open>What a statement does to the session table\<close>

lemma find_append: "find P (xs @ ys) = (case find P xs of None \<Rightarrow> find P ys | Some x \<Rightarrow> Some x)"
  by (induction xs) auto

lemma find_map_key:
  assumes "\<And>x. P (g x) = P x"
  shows "find P (map g xs) = map_option g (find P xs)"
  using assms by (induction xs) auto

lemma find_map_option_cong:
  "(\<And>x. P x \<Longrightarrow> g x = h x) \<Longrightarrow> map_option g (find P xs) = map_option h (find P xs)"
  by (auto simp: find_Some_iff intro!: option.map_cong)

lemma sync_of_insert_or_ignore:
  "sync_of (insert_or_ignore_sync ag s t db) a s' =
     (case sync_of db a s' of Some r \<Rightarrow> Some r
      | None \<Rightarrow> if a = ag \<and> s' = s
          then Some \<lparr>sr_agent = ag, sr_session = s, sr_created_at = t, sr_acked_pos = 0\<rparr> else None)"
  by (auto simp: sync_of_def insert_or_ignore_sync_def find_append split: option.splits)

lemma sync_of_insert_or_replace [simp]: "sync_of (insert_or_replace_journal ag s p f db) a s' = sync_of db a s'"
  by (simp add: sync_of_def insert_or_replace_journal_def)

lemma sync_of_delete_upto [simp]: "sync_of (delete_upto_journal ag s p db) a s' = sync_of db a s'"
  by (simp add: sync_of_def delete_upto_journal_def)

lemma sync_of_raise_acked:
  "sync_of (raise_acked_sync ag s p db) a s' =
     map_option (\<lambda>r. if a = ag \<and> s' = s then r\<lparr>sr_acked_pos := max (sr_acked_pos r) p\<rparr> else r)
       (sync_of db a s')"
  unfolding sync_of_def raise_acked_sync_def
  by (simp, subst find_map_key) (auto intro!: find_map_option_cong)

lemma find_filter_key:
  assumes "\<And>x. P x \<Longrightarrow> Q x = b"
  shows "find P (filter Q xs) = (if b then find P xs else None)"
  using assms by (induction xs) auto

lemma sync_of_delete_empty:
  "sync_of (delete_empty_sync ag keep db) a s =
     (if a = ag \<and> s \<noteq> keep \<and> (\<forall>p. held a db (s, p) = None) then None else sync_of db a s)"
proof -
  have none: "(\<forall>p. held a db (s, p) = None) \<longleftrightarrow>
      \<not> (\<exists>j \<in> set (db_journal db). jr_agent j = a \<and> jr_session j = s)"
    by (force simp: held_def image_iff map_of_eq_None_iff)
  show ?thesis
    unfolding none
    using find_filter_key [where P = "\<lambda>r. sr_agent r = a \<and> sr_session r = s" and xs = "db_journal_sync db"
        and Q = "\<lambda>r. \<not> (sr_agent r = ag \<and> sr_session r \<noteq> keep \<and>
             \<not> (\<exists>j \<in> set (db_journal db). jr_agent j = sr_agent r \<and> jr_session j = sr_session r))"
        and b = "\<not> (a = ag \<and> s \<noteq> keep \<and>
             \<not> (\<exists>j \<in> set (db_journal db). jr_agent j = a \<and> jr_session j = s))"]
    by (simp only: sync_of_def delete_empty_sync_def database.select_convs database.update_convs) auto
qed

lemmas sync_of_simps = sync_of_insert_or_ignore sync_of_raise_acked sync_of_delete_empty

subsection \<open>The backlog\<close>

abbreviation stored_key :: "stored_frame \<Rightarrow> resend_key" where
  "stored_key f \<equiv> Resend_Key (sf_created_at f) (sf_session_id f) (sf_pos f)"

lemma held_row_iff:
  assumes "db_ok db"
  shows "held ag db (s, p) = Some f \<longleftrightarrow>
    (\<exists>j \<in> set (db_journal db). jr_agent j = ag \<and> jr_session j = s \<and> jr_pos j = p \<and> jr_frame j = f)"
proof -
  have "distinct (map journal_pk (filter (\<lambda>j. jr_agent j = ag) (db_journal db)))"
    using assms by (simp add: db_ok_def distinct_map_filter)
  then have "distinct (map fst (map (\<lambda>j. ((jr_session j, jr_pos j), jr_frame j))
      (filter (\<lambda>j. jr_agent j = ag) (db_journal db))))"
    by (auto simp: distinct_map inj_on_def)
  then show ?thesis
    unfolding held_def by (subst map_of_eq_Some_iff) auto
qed

lemma select_backlog_iff:
  assumes "db_ok db"
  shows "f \<in> set (select_backlog ag db) \<longleftrightarrow>
    held ag db (sf_session_id f, sf_pos f) = Some (sf_frame f) \<and>
    sf_pos f > joined_acked db ag (sf_session_id f) \<and>
    sf_created_at f = joined_created db ag (sf_session_id f)"
  by (auto simp: select_backlog_def held_row_iff [OF assms] image_iff)

lemma distinct_backlog_keys:
  assumes "db_ok db"
  shows "distinct (map stored_key (select_backlog ag db))"
proof -
  have "distinct (map journal_pk
      (filter (\<lambda>j. jr_agent j = ag \<and> jr_pos j > joined_acked db ag (jr_session j)) (db_journal db)))"
    using assms by (simp add: db_ok_def distinct_map_filter)
  then show ?thesis
    unfolding select_backlog_def
    by (simp add: distinct_map distinct_sort) (auto simp: inj_on_def)
qed

lemma sorted_backlog:
  assumes "db_ok db"
  shows "sorted_wrt (<) (map stored_key (select_backlog ag db))"
  using distinct_backlog_keys [OF assms, of ag]
  by (simp add: select_backlog_def strict_sorted_iff)

section \<open>The interface the agent relies on\<close>

definition covered :: "session_id \<Rightarrow> int \<Rightarrow> frame_key \<Rightarrow> bool" where
  "covered s p k \<longleftrightarrow> fst k = s \<and> snd k \<le> p"

definition unacked :: "(frame_key \<Rightarrow> string option) \<Rightarrow> (session_id \<Rightarrow> int) \<Rightarrow> bool" where
  "unacked m a \<longleftrightarrow> (\<forall>s p. m (s, p) \<noteq> None \<longrightarrow> a s < p)"

locale frame_store =
  fixes add :: "'s \<Rightarrow> session_id \<Rightarrow> int \<Rightarrow> string \<Rightarrow> 'e + 's"
    and ack :: "'s \<Rightarrow> session_id \<Rightarrow> int \<Rightarrow> 'e + 's"
    and frames :: "'s \<Rightarrow> frame_key \<Rightarrow> string option"
    and ok :: "'s \<Rightarrow> bool"
  assumes add_ok: "ok st \<Longrightarrow> add st s p f = Inr st' \<Longrightarrow> ok st'"
    and add_frames: "ok st \<Longrightarrow> add st s p f = Inr st' \<Longrightarrow> frames st' = (frames st)((s, p) \<mapsto> f)"
    and ack_ok: "ok st \<Longrightarrow> ack st s p = Inr st' \<Longrightarrow> ok st'"
    and ack_frames: "ok st \<Longrightarrow> ack st s p = Inr st' \<Longrightarrow>
      frames st' = frames st |` {k. \<not> covered s p k}"
begin

lemma add_mirrors:
  assumes "ok st" and "frames st = (\<lambda>k. map_option dump (m k))" and "add st s p (dump f) = Inr st'"
  shows "frames st' = (\<lambda>k. map_option dump ((m((s, p) \<mapsto> f)) k))"
  using add_frames [OF assms(1,3)] assms(2) by (simp add: fun_eq_iff)

lemma ack_mirrors:
  assumes "ok st" and "frames st = (\<lambda>k. map_option dump (m k))" and "ack st s p = Inr st'"
  shows "frames st' = (\<lambda>k. map_option dump ((m |` {k. \<not> covered s p k}) k))"
  using ack_frames [OF assms(1,3)] assms(2) by (simp add: fun_eq_iff restrict_map_def)

end

text \<open>A store that can also be read back: the backlog is what it holds and no ack covered.\<close>

locale backlog_store = frame_store add ack frames ok
  for add :: "'s \<Rightarrow> session_id \<Rightarrow> int \<Rightarrow> string \<Rightarrow> 'e + 's"
    and ack :: "'s \<Rightarrow> session_id \<Rightarrow> int \<Rightarrow> 'e + 's"
    and frames :: "'s \<Rightarrow> frame_key \<Rightarrow> string option"
    and ok :: "'s \<Rightarrow> bool" +
  fixes upto :: "'s \<Rightarrow> session_id \<Rightarrow> int"
    and backlog :: "'s \<Rightarrow> 'e + stored_frame list"
  assumes add_upto: "add st s p f = Inr st' \<Longrightarrow> upto st' = upto st"
    and ack_upto: "ack st s p = Inr st' \<Longrightarrow>
      upto st' t \<le> (if t = s then max (upto st t) p else upto st t)"
    and backlog_iff: "ok st \<Longrightarrow> backlog st = Inr fs \<Longrightarrow>
      (\<exists>f \<in> set fs. sf_session_id f = s \<and> sf_pos f = p \<and> sf_frame f = x) \<longleftrightarrow>
        frames st (s, p) = Some x \<and> upto st s < p"
begin

lemma add_unacked:
  assumes "ok st" and "unacked (frames st) (upto st)" and "add st s p f = Inr st'" and "upto st s < p"
  shows "unacked (frames st') (upto st')"
  using assms add_frames [OF assms(1,3)] add_upto [OF assms(3)] by (auto simp: unacked_def)

lemma ack_unacked:
  assumes "ok st" and "unacked (frames st) (upto st)" and "ack st s p = Inr st'"
  shows "unacked (frames st') (upto st')"
  unfolding unacked_def
proof (intro allI impI)
  fix t q
  assume "frames st' (t, q) \<noteq> None"
  then have "frames st (t, q) \<noteq> None" and fresh: "\<not> covered s p (t, q)"
    using ack_frames [OF assms(1,3)] by (auto simp: restrict_map_def split: if_splits)
  then have "upto st t < q"
    using assms(2) by (auto simp: unacked_def)
  with fresh show "upto st' t < q"
    using ack_upto [OF assms(3), of t] by (auto simp: covered_def split: if_splits)
qed

lemma backlog_complete:
  assumes "ok st" and "unacked (frames st) (upto st)" and "backlog st = Inr fs"
  shows "(\<exists>f \<in> set fs. sf_session_id f = s \<and> sf_pos f = p \<and> sf_frame f = x) \<longleftrightarrow> frames st (s, p) = Some x"
  using backlog_iff [OF assms(1,3)] assms(2) by (auto simp: unacked_def)

end

lemmas store_defs = add_frame_def ack_frames_def prune_sessions_def holds_def acked_def store_ok_def

lemma joined_acked_raise:
  "joined_acked (raise_acked_sync ag s p db) a t \<le>
     (if t = s then max (joined_acked db a t) p else joined_acked db a t)"
  by (auto simp: joined_acked_def sync_of_simps split: option.splits)

lemma joined_acked_delete_upto [simp]: "joined_acked (delete_upto_journal ag s p db) = joined_acked db"
  by (auto simp: joined_acked_def fun_eq_iff)

lemma joined_acked_insert_or_replace [simp]:
  "joined_acked (insert_or_replace_journal ag s p f db) = joined_acked db"
  by (auto simp: joined_acked_def fun_eq_iff)

interpretation rf: frame_store add_frame ack_frames holds store_ok
  by unfold_locales
    (auto simp: store_defs covered_def intro: inv_intros)

interpretation rb: backlog_store add_frame ack_frames holds store_ok acked load_frames
proof unfold_locales
  fix st s p f st'
  assume "add_frame st s p f = Inr st'"
  then show "acked st' = acked st"
    by (auto simp: store_defs fun_eq_iff)
next
  fix st s p st' t
  assume "ack_frames st s p = Inr st'"
  then show "acked st' t \<le> (if t = s then max (acked st t) p else acked st t)"
    using joined_acked_raise [of "rf_agent st" s p "delete_upto_journal (rf_agent st) s p (rf_db st)" "rf_agent st" t]
    by (auto simp: store_defs)
next
  fix st fs s p x
  assume "store_ok st" and "load_frames st = Inr fs"
  then have ok: "db_ok (rf_db st)" and fs: "fs = select_backlog (rf_agent st) (rf_db st)"
    by (auto simp: store_ok_def load_frames_def split: if_splits)
  have "(\<exists>f \<in> set fs. sf_session_id f = s \<and> sf_pos f = p \<and> sf_frame f = x) \<longleftrightarrow>
      (\<exists>f. f \<in> set fs \<and> sf_session_id f = s \<and> sf_pos f = p \<and> sf_frame f = x)"
    by blast
  also have "\<dots> \<longleftrightarrow> holds st (s, p) = Some x \<and> acked st s < p"
    unfolding fs select_backlog_iff [OF ok] holds_def acked_def
    by (auto intro!: exI [of _ "\<lparr>sf_session_id = s, sf_created_at = joined_created (rf_db st) (rf_agent st) s,
        sf_pos = p, sf_frame = x\<rparr>"])
  finally show "(\<exists>f \<in> set fs. sf_session_id f = s \<and> sf_pos f = p \<and> sf_frame f = x) \<longleftrightarrow>
      holds st (s, p) = Some x \<and> acked st s < p" .
qed

section \<open>Properties of the store\<close>

lemmas backlog_view_simps = select_backlog_iff sorted_backlog

text \<open>
  C11. \<open>RetainedFrames.load\<close> returns the backlog in the order of the journal contract:
  strictly increasing in (session created, session, position), so without duplicates, and
  exactly the rows of this agent that no acknowledgement covers.
\<close>

theorem load_frames_in_order:
  assumes "store_ok st" and "load_frames st = Inr fs"
  shows "sorted_wrt (<) (map (\<lambda>f. Resend_Key (sf_created_at f) (sf_session_id f) (sf_pos f)) fs) \<and>
    (\<forall>f. f \<in> set fs \<longleftrightarrow>
       holds st (sf_session_id f, sf_pos f) = Some (sf_frame f) \<and>
       sf_pos f > acked st (sf_session_id f) \<and>
       sf_created_at f = created st (sf_session_id f))"
proof -
  have "fs = select_backlog (rf_agent st) (rf_db st)" and "db_ok (rf_db st)"
    using assms by (auto simp: load_frames_def store_ok_def split: if_splits)
  then show ?thesis
    by (simp add: backlog_view_simps holds_def acked_def created_def)
qed

text \<open>Two sessions, the later-created one first in the file, and one acknowledged frame.\<close>

definition demo_db :: database where
  "demo_db = \<lparr>db_journal =
       [\<lparr>jr_agent = ''a'', jr_session = ''s2'', jr_pos = 1, jr_frame = ''x''\<rparr>,
        \<lparr>jr_agent = ''a'', jr_session = ''s1'', jr_pos = 4, jr_frame = ''z''\<rparr>,
        \<lparr>jr_agent = ''a'', jr_session = ''s1'', jr_pos = 3, jr_frame = ''y''\<rparr>],
     db_journal_sync =
       [\<lparr>sr_agent = ''a'', sr_session = ''s2'', sr_created_at = 20, sr_acked_pos = 0\<rparr>,
        \<lparr>sr_agent = ''a'', sr_session = ''s1'', sr_created_at = 10, sr_acked_pos = 2\<rparr>]\<rparr>"

definition demo_store :: retained_frames where
  "demo_store = \<lparr>rf_path = Some ''j.db'', rf_agent = ''a'', rf_db = demo_db, rf_closed = False, rf_disk_ok = True\<rparr>"

lemma demo_store_ok: "store_ok demo_store"
  by (simp add: store_ok_def demo_store_def demo_db_def db_ok_def)

lemma demo_store_load:
  "load_frames demo_store = Inr
     [\<lparr>sf_session_id = ''s1'', sf_created_at = 10, sf_pos = 3, sf_frame = ''y''\<rparr>,
      \<lparr>sf_session_id = ''s1'', sf_created_at = 10, sf_pos = 4, sf_frame = ''z''\<rparr>,
      \<lparr>sf_session_id = ''s2'', sf_created_at = 20, sf_pos = 1, sf_frame = ''x''\<rparr>]"
  by (simp add: load_frames_def demo_store_def demo_db_def select_backlog_def joined_acked_def
      joined_created_def sync_of_def less_eq_resend_key_def)

theorem load_frames_in_order_witness:
  "map sf_frame [\<lparr>sf_session_id = ''s1'', sf_created_at = 10, sf_pos = 3, sf_frame = ''y''\<rparr>,
      \<lparr>sf_session_id = ''s1'', sf_created_at = 10, sf_pos = 4, sf_frame = ''z''\<rparr>,
      \<lparr>sf_session_id = ''s2'', sf_created_at = 20, sf_pos = 1, sf_frame = ''x''\<rparr>] = [''y'', ''z'', ''x''] \<and>
   holds demo_store (''s2'', 1) = Some ''x''"
  using load_frames_in_order [OF demo_store_ok demo_store_load, THEN conjunct2, rule_format,
      of "\<lparr>sf_session_id = ''s2'', sf_created_at = 20, sf_pos = 1, sf_frame = ''x''\<rparr>"]
  by simp

text \<open>
  C12. Acknowledgements are cumulative. Two acks of a session leave the file exactly as the
  one ack of the higher position does, in whichever order they arrive, so a repeated or an
  overtaken \<open>JOURNAL_ACK\<close> changes nothing.
\<close>

theorem ack_frames_cumulative:
  assumes "ack_frames st s p = Inr st1" and "ack_frames st1 s q = Inr st2"
  shows "ack_frames st s (max p q) = Inr st2"
proof -
  have "delete_upto_journal ag s q (raise_acked_sync ag s p (delete_upto_journal ag s p db)) =
      raise_acked_sync ag s p (delete_upto_journal ag s (max p q) db)" for ag db
    by (cases db) (auto simp: delete_upto_journal_def raise_acked_sync_def intro!: filter_cong)
  moreover have "raise_acked_sync ag s q (raise_acked_sync ag s p db) =
      raise_acked_sync ag s (max p q) db" for ag db
    by (simp add: raise_acked_sync_def ac_simps)
  ultimately show ?thesis
    using assms by (auto simp: ack_frames_def)
qed

theorem ack_frames_cumulative_witness:
  "\<exists>st1 st2. ack_frames demo_store ''s1'' 4 = Inr st1 \<and> ack_frames st1 ''s1'' 3 = Inr st2 \<and>
     ack_frames demo_store ''s1'' 4 = Inr st2 \<and> acked st2 ''s1'' = 4"
proof -
  have a: "ack_frames demo_store ''s1'' 4 = Inr (projr (ack_frames demo_store ''s1'' 4))"
    by (simp add: ack_frames_def demo_store_def transaction_def)
  have b: "ack_frames (projr (ack_frames demo_store ''s1'' 4)) ''s1'' 3 =
      Inr (projr (ack_frames (projr (ack_frames demo_store ''s1'' 4)) ''s1'' 3))"
    by (simp add: ack_frames_def demo_store_def transaction_def)
  have "acked (projr (ack_frames (projr (ack_frames demo_store ''s1'' 4)) ''s1'' 3)) ''s1'' = 4"
    by (simp add: ack_frames_def demo_store_def demo_db_def transaction_def acked_def
        joined_acked_def sync_of_def raise_acked_sync_def delete_upto_journal_def)
  moreover have "max 4 3 = (4::int)" by simp
  ultimately show ?thesis
    using a b ack_frames_cumulative [OF a b] by metis
qed

lemma select_backlog_cong:
  assumes "filter (\<lambda>j. jr_agent j = b) (db_journal db') = filter (\<lambda>j. jr_agent j = b) (db_journal db)"
    and "\<And>j. j \<in> set (db_journal db) \<Longrightarrow> jr_agent j = b \<Longrightarrow>
      joined_acked db' b (jr_session j) = joined_acked db b (jr_session j) \<and>
      joined_created db' b (jr_session j) = joined_created db b (jr_session j)"
  shows "select_backlog b db' = select_backlog b db"
proof -
  have split: "filter (\<lambda>j. jr_agent j = b \<and> Q j) rs = filter Q (filter (\<lambda>j. jr_agent j = b) rs)"
    for Q :: "journal_row \<Rightarrow> bool" and rs
    by (simp add: conj_commute)
  have "filter (\<lambda>j. jr_agent j = b \<and> jr_pos j > joined_acked db' b (jr_session j)) (db_journal db') =
      filter (\<lambda>j. jr_agent j = b \<and> jr_pos j > joined_acked db b (jr_session j)) (db_journal db)"
    unfolding split assms(1) using assms(2) by (intro filter_cong) auto
  then show ?thesis
    unfolding select_backlog_def using assms(2) by (intro arg_cong [where f = "sort_key _"]) auto
qed

text \<open>The mutating calls as data, and a run of them: a call that raises leaves the store alone.\<close>

datatype store_op =
    Op_Open session_id "timestamp option" timestamp
  | Op_Add session_id int string
  | Op_Ack session_id int
  | Op_Prune "session_id option"

fun try_op :: "retained_frames \<Rightarrow> store_op \<Rightarrow> store_error + retained_frames" where
  "try_op st (Op_Open s c now) = map_sum id snd (open_session st s c now)"
| "try_op st (Op_Add s p f) = add_frame st s p f"
| "try_op st (Op_Ack s p) = ack_frames st s p"
| "try_op st (Op_Prune keep) = prune_sessions st keep"

definition exec_op :: "retained_frames \<Rightarrow> store_op \<Rightarrow> retained_frames" where
  "exec_op st op = (case try_op st op of Inl _ \<Rightarrow> st | Inr st' \<Rightarrow> st')"

fun exec_ops :: "retained_frames \<Rightarrow> store_op list \<Rightarrow> retained_frames" where
  "exec_ops st [] = st"
| "exec_ops st (op # ops) = exec_ops (exec_op st op) ops"

lemma try_op_Inr:
  assumes "try_op st op = Inr st'"
  shows "rf_agent st' = rf_agent st \<and> rf_db st' = (case op of
      Op_Open s c now \<Rightarrow> insert_or_ignore_sync (rf_agent st) s (case c of None \<Rightarrow> now | Some t \<Rightarrow> t) (rf_db st)
    | Op_Add s p f \<Rightarrow> insert_or_replace_journal (rf_agent st) s p f (rf_db st)
    | Op_Ack s p \<Rightarrow> raise_acked_sync (rf_agent st) s p (delete_upto_journal (rf_agent st) s p (rf_db st))
    | Op_Prune keep \<Rightarrow> delete_empty_sync (rf_agent st) (str_or keep []) (rf_db st))"
  using assms
  by (cases op) (auto simp: store_defs open_session_def split: sum.splits)

lemma exec_op_agent [simp]: "rf_agent (exec_op st op) = rf_agent st"
  using try_op_Inr [of st op] by (simp add: exec_op_def split: sum.splits)

lemma store_ok_exec_op [inv_intros]: "store_ok st \<Longrightarrow> store_ok (exec_op st op)"
  using try_op_Inr [of st op]
  by (auto simp: exec_op_def store_ok_def split: sum.splits store_op.splits intro!: inv_intros)

lemma store_ok_exec_ops [inv_intros]: "store_ok st \<Longrightarrow> store_ok (exec_ops st ops)"
  by (induction ops arbitrary: st) (auto intro: inv_intros)

lemma filter_agent_insert_or_replace:
  "b \<noteq> ag \<Longrightarrow> filter (\<lambda>j. jr_agent j = b) (db_journal (insert_or_replace_journal ag s p f db)) =
     filter (\<lambda>j. jr_agent j = b) (db_journal db)"
  by (auto simp: insert_or_replace_journal_def intro!: filter_cong)

lemma filter_agent_delete_upto:
  "b \<noteq> ag \<Longrightarrow> filter (\<lambda>j. jr_agent j = b) (db_journal (delete_upto_journal ag s p db)) =
     filter (\<lambda>j. jr_agent j = b) (db_journal db)"
  by (auto simp: delete_upto_journal_def intro!: filter_cong)

lemma sync_of_other_agent:
  assumes "b \<noteq> ag"
  shows "sync_of (insert_or_ignore_sync ag s t db) b u = sync_of db b u"
    and "sync_of (raise_acked_sync ag s p db) b u = sync_of db b u"
    and "sync_of (delete_empty_sync ag k db) b u = sync_of db b u"
  using assms by (auto simp: sync_of_simps option.map_ident split: option.splits)

lemma exec_op_isolated:
  assumes "b \<noteq> rf_agent st"
  shows "select_backlog b (rf_db (exec_op st op)) = select_backlog b (rf_db st)"
proof (cases "try_op st op")
  case (Inl e)
  then show ?thesis by (simp add: exec_op_def)
next
  case (Inr st')
  show ?thesis
  proof (rule select_backlog_cong)
    show "filter (\<lambda>j. jr_agent j = b) (db_journal (rf_db (exec_op st op))) =
        filter (\<lambda>j. jr_agent j = b) (db_journal (rf_db st))"
      using Inr try_op_Inr [OF Inr] assms filter_agent_insert_or_replace filter_agent_delete_upto
      by (auto simp: exec_op_def raise_acked_sync_def delete_empty_sync_def insert_or_ignore_sync_def
          split: store_op.splits option.splits)
  qed (use Inr try_op_Inr [OF Inr] assms sync_of_other_agent [OF assms] in
      \<open>auto simp: exec_op_def joined_acked_def joined_created_def split: store_op.splits\<close>)
qed

text \<open>
  C13. Rows are scoped by agent. Whatever one agent does to the shared file (register a
  session, retain, acknowledge, prune, in any order, failing or not), the backlog another
  agent would load from it is the same list as before.
\<close>

theorem agents_isolated:
  assumes "b \<noteq> rf_agent st"
  shows "select_backlog b (rf_db (exec_ops st ops)) = select_backlog b (rf_db st)"
  using assms by (induction ops arbitrary: st) (simp_all add: exec_op_isolated)

theorem agents_isolated_witness:
  "(''b'' \<noteq> rf_agent demo_store) \<and>
   select_backlog ''b'' (rf_db (exec_ops demo_store [Op_Add ''s1'' 9 ''w'', Op_Ack ''s2'' 1, Op_Prune None])) = []"
  by (subst agents_isolated)
    (simp_all add: demo_store_def demo_db_def select_backlog_def)

text \<open>
  C14. \<open>prune\<close> only forgets sessions with nothing left to send: the backlog \<open>load\<close> returns
  afterwards is the same list, in the same order, and a session that goes had no frame and
  was not the one kept.
\<close>

theorem prune_keeps_backlog:
  assumes "prune_sessions st keep = Inr st'"
  shows "load_frames st' = load_frames st \<and>
    (\<forall>s. sync_of (rf_db st') (rf_agent st) s \<noteq> sync_of (rf_db st) (rf_agent st) s \<longrightarrow>
       s \<noteq> str_or keep [] \<and> (\<forall>p. holds st (s, p) = None))"
proof -
  let ?ag = "rf_agent st" and ?db = "rf_db st"
  have st': "st' = st\<lparr>rf_db := delete_empty_sync ?ag (str_or keep []) ?db\<rparr>" and open_st: "\<not> rf_closed st"
    using assms by (auto simp: prune_sessions_def)
  have "select_backlog ?ag (delete_empty_sync ?ag (str_or keep []) ?db) = select_backlog ?ag ?db"
  proof (rule select_backlog_cong)
    fix j
    assume "j \<in> set (db_journal ?db)" and "jr_agent j = ?ag"
    then have "\<exists>p. held ?ag ?db (jr_session j, p) \<noteq> None"
      by (force simp: held_def image_iff map_of_eq_None_iff)
    then show "joined_acked (delete_empty_sync ?ag (str_or keep []) ?db) ?ag (jr_session j) =
        joined_acked ?db ?ag (jr_session j) \<and>
        joined_created (delete_empty_sync ?ag (str_or keep []) ?db) ?ag (jr_session j) =
        joined_created ?db ?ag (jr_session j)"
      by (auto simp: joined_acked_def joined_created_def sync_of_delete_empty)
  qed (simp add: delete_empty_sync_def)
  with st' open_st show ?thesis
    by (auto simp: load_frames_def holds_def sync_of_delete_empty)
qed

theorem prune_keeps_backlog_witness:
  "\<exists>st1 st2. ack_frames demo_store ''s1'' 4 = Inr st1 \<and> prune_sessions st1 None = Inr st2 \<and>
     load_frames st2 = load_frames st1 \<and> sync_of (rf_db st2) ''a'' ''s1'' = None"
proof -
  define st1 where "st1 = projr (ack_frames demo_store ''s1'' 4)"
  define st2 where "st2 = projr (prune_sessions st1 None)"
  have a: "ack_frames demo_store ''s1'' 4 = Inr st1"
    by (simp add: st1_def ack_frames_def demo_store_def transaction_def)
  have b: "prune_sessions st1 None = Inr st2"
    by (simp add: st2_def st1_def prune_sessions_def ack_frames_def demo_store_def transaction_def)
  have "sync_of (rf_db st2) ''a'' ''s1'' = None"
    by (simp add: st2_def st1_def prune_sessions_def ack_frames_def demo_store_def demo_db_def
        transaction_def sync_of_def delete_empty_sync_def raise_acked_sync_def delete_upto_journal_def
        str_or_def)
  with a b prune_keeps_backlog [OF b] show ?thesis by blast
qed

end
