(* ===== verification/Persisted_State.thy ===== *)
theory Persisted_State
  imports Retention
begin

text \<open>
  The last value of each persisted state: \<open>rekuest/agents/persisted_state.py\<close>.

  One table, \<open>last_state\<close>, whose primary key is (agent, state name): a \<open>put\<close> replaces
  the state's row, \<open>load\<close> returns this agent's rows as a dictionary by state name. The
  object is a record of its path, its agent name, the table of the file it opened, and
  whether it is closed or the file cannot be written, as for the retained frames.

  The hash of a state's ports is SHA-256 of pydantic's JSON: both are parameters.
\<close>

record stored_state =
  ss_state_name :: string
  ss_schema_hash :: string
  ss_session_id :: session_id
  ss_global_rev :: int
  ss_value :: string

record state_row =
  tr_agent :: string
  tr_state :: stored_state

record persisted_states =
  ps_path :: string
  ps_agent :: string
  ps_rows :: "state_row list"
  ps_closed :: bool
  ps_disk_ok :: bool

abbreviation state_pk :: "state_row \<Rightarrow> string \<times> string" where
  "state_pk r \<equiv> (tr_agent r, ss_state_name (tr_state r))"

definition state_rows_ok :: "state_row list \<Rightarrow> bool" where
  "state_rows_ok rs \<longleftrightarrow> distinct (map state_pk rs)"

definition STATE_FILE_NAME :: string where
  "STATE_FILE_NAME = ''rekuest_state.db''"

text \<open>
  \<open>os.path.dirname\<close>: what comes before the last slash, without trailing slashes unless it
  is nothing but slashes; \<open>os.path.join\<close> of a directory and a relative name.
\<close>

definition path_head :: "string \<Rightarrow> string" where
  "path_head p = rev (dropWhile (\<lambda>c. c \<noteq> CHR ''/'') (rev p))"

definition dirname :: "string \<Rightarrow> string" where
  "dirname p = (let head = path_head p
     in if head \<noteq> [] \<and> (\<exists>c \<in> set head. c \<noteq> CHR ''/'')
        then rev (dropWhile (\<lambda>c. c = CHR ''/'') (rev head)) else head)"

definition path_join :: "string \<Rightarrow> string \<Rightarrow> string" where
  "path_join d name =
     (if d = [] then name else if last d = CHR ''/'' then d @ name else d @ ''/'' @ name)"

definition state_store_path :: "string \<Rightarrow> string" where
  "state_store_path journal_path = path_join (dirname journal_path) STATE_FILE_NAME"

definition schema_hash :: "(string \<Rightarrow> string) \<Rightarrow> ('schema \<Rightarrow> string) \<Rightarrow> 'schema \<Rightarrow> string" where
  "schema_hash sha256 model_dump_json schema = sha256 (model_dump_json schema)"

definition open_states ::
    "(string \<Rightarrow> state_row list option) \<Rightarrow> string \<Rightarrow> string \<Rightarrow> store_error + persisted_states" where
  "open_states disk path ag =
     (case disk path of
        None \<Rightarrow> Inl OperationalError
      | Some rows \<Rightarrow>
          Inr \<lparr>ps_path = path, ps_agent = ag, ps_rows = rows, ps_closed = False, ps_disk_ok = True\<rparr>)"

definition put_state :: "persisted_states \<Rightarrow> stored_state \<Rightarrow> store_error + persisted_states" where
  "put_state st x =
     (if ps_closed st then Inl ProgrammingError
      else if \<not> ps_disk_ok st then Inl OperationalError
      else Inr (st\<lparr>ps_rows :=
             filter (\<lambda>r. state_pk r \<noteq> (ps_agent st, ss_state_name x)) (ps_rows st) @
               [\<lparr>tr_agent = ps_agent st, tr_state = x\<rparr>]\<rparr>))"

text \<open>\<open>{row[0]: StoredState(*row) for row in rows}\<close>.\<close>

definition load_states :: "persisted_states \<Rightarrow> store_error + (string, stored_state) dict" where
  "load_states st =
     (if ps_closed st then Inl ProgrammingError
      else Inr (fold (\<lambda>r d. dict_put d (ss_state_name (tr_state r)) (tr_state r))
             (filter (\<lambda>r. tr_agent r = ps_agent st) (ps_rows st)) []))"

definition close_states :: "persisted_states \<Rightarrow> persisted_states" where
  "close_states st = st\<lparr>ps_closed := True\<rparr>"

section \<open>What the table holds\<close>

definition state_value :: "persisted_states \<Rightarrow> string \<Rightarrow> stored_state option" where
  "state_value st name =
     map_option tr_state (find (\<lambda>r. state_pk r = (ps_agent st, name)) (ps_rows st))"

lemma put_state_Inr:
  assumes "put_state st x = Inr st'"
  shows "state_value st' = (state_value st)(ss_state_name x \<mapsto> x)"
    and "ps_agent st' = ps_agent st \<and> ps_closed st' = ps_closed st \<and> ps_disk_ok st' = ps_disk_ok st"
proof -
  have st': "st' = st\<lparr>ps_rows :=
      filter (\<lambda>r. state_pk r \<noteq> (ps_agent st, ss_state_name x)) (ps_rows st) @
        [\<lparr>tr_agent = ps_agent st, tr_state = x\<rparr>]\<rparr>"
    using assms by (auto simp: put_state_def split: if_splits)
  then show "ps_agent st' = ps_agent st \<and> ps_closed st' = ps_closed st \<and> ps_disk_ok st' = ps_disk_ok st"
    by simp
  show "state_value st' = (state_value st)(ss_state_name x \<mapsto> x)"
  proof
    fix name
    have "find (\<lambda>r. state_pk r = (ps_agent st, name))
          (filter (\<lambda>r. state_pk r \<noteq> (ps_agent st, ss_state_name x)) (ps_rows st)) =
        (if name \<noteq> ss_state_name x then find (\<lambda>r. state_pk r = (ps_agent st, name)) (ps_rows st) else None)"
      by (rule find_filter_key) auto
    then show "state_value st' name = ((state_value st)(ss_state_name x \<mapsto> x)) name"
      by (auto simp: state_value_def st' find_append split: option.splits)
  qed
qed

lemma state_rows_ok_put [inv_intros]:
  "state_rows_ok (ps_rows st) \<Longrightarrow> put_state st x = Inr st' \<Longrightarrow> state_rows_ok (ps_rows st')"
  by (auto simp: state_rows_ok_def put_state_def distinct_map_filter split: if_splits)

lemma fold_put_get:
  "dict_get (fold (\<lambda>r d. dict_put d (ss_state_name (tr_state r)) (tr_state r)) rs d) name =
     (case find (\<lambda>r. ss_state_name (tr_state r) = name) (rev rs) of
        Some r \<Rightarrow> Some (tr_state r) | None \<Rightarrow> dict_get d name)"
proof (induction rs arbitrary: d)
  case Nil
  show ?case by simp
next
  case (Cons r rs)
  have last: "find (\<lambda>r. ss_state_name (tr_state r) = name) (rev (r # rs)) =
      (case find (\<lambda>r. ss_state_name (tr_state r) = name) (rev rs) of
         None \<Rightarrow> if ss_state_name (tr_state r) = name then Some r else None | Some x \<Rightarrow> Some x)"
    unfolding rev.simps find_append by (simp split: option.split)
  show ?case
    unfolding last fold_simps Cons.IH dict_get_put
    by (cases "find (\<lambda>r. ss_state_name (tr_state r) = name) (rev rs)") simp_all
qed

lemma find_unique:
  assumes "x \<in> set xs" and "P x" and "\<And>y. y \<in> set xs \<Longrightarrow> P y \<Longrightarrow> y = x"
  shows "find P xs = Some x"
proof (cases "find P xs")
  case None
  with assms(1,2) show ?thesis by (auto simp: find_None_iff)
next
  case (Some y)
  then have "y \<in> set xs" and "P y" by (auto simp: find_Some_iff)
  with assms(3) Some show ?thesis by simp
qed

lemma load_states_value:
  assumes "state_rows_ok (ps_rows st)" and "load_states st = Inr d"
  shows "dict_get d = state_value st"
proof
  fix name
  let ?P = "\<lambda>r. state_pk r = (ps_agent st, name)"
  let ?Q = "\<lambda>r. ss_state_name (tr_state r) = name"
  let ?mine = "filter (\<lambda>r. tr_agent r = ps_agent st) (ps_rows st)"
  have d: "d = fold (\<lambda>r d. dict_put d (ss_state_name (tr_state r)) (tr_state r)) ?mine []"
    using assms(2) by (auto simp: load_states_def split: if_splits)
  have unique: "r = r'" if "r \<in> set (ps_rows st)" "r' \<in> set (ps_rows st)" "?P r" "?P r'" for r r'
    using assms(1) that by (auto simp: state_rows_ok_def distinct_map inj_on_def)
  have "find ?Q (rev ?mine) = find ?P (ps_rows st)"
  proof (cases "find ?P (ps_rows st)")
    case None
    then have "find ?Q (rev ?mine) = None" by (auto simp: find_None_iff)
    with None show ?thesis by simp
  next
    case (Some r)
    then have r: "r \<in> set (ps_rows st)" "?P r" by (auto simp: find_Some_iff)
    have "find ?Q (rev ?mine) = Some r"
      by (rule find_unique) (use r unique in auto)
    with Some show ?thesis by simp
  qed
  then show "dict_get d name = state_value st name"
    unfolding d fold_put_get by (simp add: state_value_def split: option.splits)
qed

text \<open>
  C15. What \<open>put\<close> stores, \<open>load\<close> returns: after a \<open>put\<close> of a state the dictionary maps its
  name to exactly that record (the value before is gone), and every other state of the
  agent to what it was.
\<close>

theorem put_then_load:
  assumes "state_rows_ok (ps_rows st)" and "put_state st x = Inr st'" and "load_states st' = Inr d"
  shows "dict_get d = (state_value st)(ss_state_name x \<mapsto> x)"
  using assms load_states_value [OF state_rows_ok_put] put_state_Inr(1) by metis

definition demo_state :: "string \<Rightarrow> int \<Rightarrow> stored_state" where
  "demo_state name n = \<lparr>ss_state_name = name, ss_schema_hash = ''h'', ss_session_id = ''s'',
     ss_global_rev = n, ss_value = ''{}''\<rparr>"

definition demo_states :: persisted_states where
  "demo_states = \<lparr>ps_path = ''rekuest_state.db'', ps_agent = ''a'',
     ps_rows = [\<lparr>tr_agent = ''a'', tr_state = demo_state ''cam'' 1\<rparr>,
                \<lparr>tr_agent = ''b'', tr_state = demo_state ''cam'' 7\<rparr>],
     ps_closed = False, ps_disk_ok = True\<rparr>"

theorem put_then_load_witness:
  "\<exists>st' d. put_state demo_states (demo_state ''cam'' 2) = Inr st' \<and> load_states st' = Inr d \<and>
     dict_get d = (state_value demo_states)(''cam'' \<mapsto> demo_state ''cam'' 2)"
proof -
  define st' where "st' = projr (put_state demo_states (demo_state ''cam'' 2))"
  have ok: "state_rows_ok (ps_rows demo_states)"
    by (simp add: state_rows_ok_def demo_states_def demo_state_def)
  have a: "put_state demo_states (demo_state ''cam'' 2) = Inr st'"
    by (simp add: st'_def put_state_def demo_states_def)
  have b: "load_states st' = Inr (projr (load_states st'))"
    by (simp add: st'_def put_state_def demo_states_def load_states_def)
  show ?thesis
    using a b put_then_load [OF ok a b] by (auto simp: demo_state_def)
qed

lemma state_store_path_default:
  "state_store_path DEFAULT_JOURNAL_PATH = ''.arkitekt/rekuest_state.db''"
  by (simp add: state_store_path_def path_join_def dirname_def path_head_def
      DEFAULT_JOURNAL_PATH_def STATE_FILE_NAME_def Let_def)

end
