(* ===== verification/Agent_Journal.thy ===== *)
theory Agent_Journal
  imports Persisted_State "HOL-Library.Multiset"
begin

text \<open>
  What the distributed agent keeps of the frames it sent: the retention half and the
  persisted-state half of \<open>rekuest/agents/agent.py\<close> (class \<open>RekuestAgent\<close>).

  The state is a record with one field per private attribute. The message classes are
  \<open>arkitekt_runtime\<close>'s, which is not part of this repository: a frame is the part of them
  this code reads (its class where the code branches on it, its \<open>task\<close> and \<open>task_step\<close>),
  and what the code calls of that library stays a parameter: \<open>dump\<close>
  (\<open>model_dump_json\<close>), \<open>validate\<close> (\<open>_FRAME.validate_json\<close>), \<open>terminal\<close>
  (\<open>isinstance(_, TERMINAL_REPORTS)\<close>). Their one documented law, that a dumped frame
  validates to itself, is a hypothesis where it is needed.

  Opening the store takes \<open>disk\<close>, what opening a path gives; the clock is an argument.
  The code logs and swallows every storage error, so these operations return a new agent
  and never an error; what a failure leaves half done is in the model as it is in the code.
\<close>

section \<open>Frames\<close>

datatype frame_body =
    Effect_Frame "string option" string string \<comment> \<open>\<open>key\<close>, \<open>effect\<close>, \<open>value\<close>\<close>
  | State_Patch_Frame string \<comment> \<open>\<open>state_name\<close>\<close>
  | Session_Init_Frame
  | Progress_Frame string int \<comment> \<open>\<open>message\<close>, \<open>progress\<close>\<close>
  | Critical_Frame string \<comment> \<open>\<open>error\<close>\<close>
  | Heartbeat_Event_Frame
  | Other_Frame string \<comment> \<open>every other class, by its wire \<open>type\<close>\<close>

record frame =
  fr_body :: frame_body
  fr_task :: "task_id option"
  fr_task_step :: "int option"

record journal_entry =
  je_session_id :: session_id
  je_pos :: int

record recorded_effect =
  re_key :: string
  re_effect :: string
  re_value :: string

record resume_journal =
  rj_effects :: "recorded_effect list"
  rj_last_step :: int

record assign =
  as_task :: task_id
  as_resume :: "resume_journal option"

section \<open>The agent\<close>

text \<open>A state's \<open>persist\<close>: written at every change, or at most once per period (seconds).\<close>

datatype persist = Synchronous | Periodic rat

text \<open>
  Where the flush loop of a state stands: created and not yet run, waiting for its period
  or the stop, or waiting for the thread that writes the value it took.
\<close>

datatype flusher = Starting | Waiting | Writing stored_state

record agent =
  ag_name :: "string option"
  ag_journal_path :: "string option"
  ag_retained :: "(frame_key, frame) dict"
  ag_session_created :: "(session_id, timestamp) dict"
  ag_store :: "retained_frames option"
  ag_current_session :: session_id
  ag_state_store :: "persisted_states option"
  ag_state_policies :: "(string, persist) dict"
  ag_state_hashes :: "(string, string) dict"
  ag_state_flushers :: "(string, flusher) dict" \<comment> \<open>the flush loop of each periodic state\<close>
  ag_previous_states :: "(string, string) dict"
  ag_dirty_states :: "string list"
  ag_current_shrunk :: "string \<Rightarrow> string option" \<comment> \<open>the JSON of each current state\<close>
  ag_global_revision :: int

abbreviation agent_name :: "agent \<Rightarrow> string" where
  "agent_name ag \<equiv> str_or (ag_name ag) []"

subsection \<open>The resend order\<close>

definition created_or_0 :: "agent \<Rightarrow> session_id \<Rightarrow> timestamp" where
  "created_or_0 ag s = dict_getdefault (ag_session_created ag) s 0"

abbreviation key_order :: "agent \<Rightarrow> frame_key \<Rightarrow> resend_key" where
  "key_order ag k \<equiv> Resend_Key (created_or_0 ag (fst k)) (fst k) (snd k)"

definition resend_order :: "agent \<Rightarrow> frame_key list" where
  "resend_order ag = sort_key (key_order ag) (dict_keys (ag_retained ag))"

text \<open>The \<open>retained\<close> property, and the loop of \<open>_aresend_retained\<close> over the keys.\<close>

definition retained_list :: "agent \<Rightarrow> frame list" where
  "retained_list ag = map (\<lambda>k. the (dict_get (ag_retained ag) k)) (resend_order ag)"

fun resend_keys :: "agent \<Rightarrow> frame_key list \<Rightarrow> frame list" where
  "resend_keys ag [] = []"
| "resend_keys ag (k # ks) =
     (case dict_get (ag_retained ag) k of
        Some message \<Rightarrow> message # resend_keys ag ks
      | None \<Rightarrow> resend_keys ag ks)"

definition aresend_retained :: "agent \<Rightarrow> frame list" where
  "aresend_retained ag = resend_keys ag (resend_order ag)"

definition retained_terminal_reports :: "(frame \<Rightarrow> bool) \<Rightarrow> agent \<Rightarrow> task_id \<Rightarrow> frame list" where
  "retained_terminal_reports terminal ag t =
     filter (\<lambda>m. terminal m \<and> fr_task m = Some t) (retained_list ag)"

definition has_retained_terminal_report :: "(frame \<Rightarrow> bool) \<Rightarrow> agent \<Rightarrow> task_id \<Rightarrow> bool" where
  "has_retained_terminal_report terminal ag t \<longleftrightarrow> retained_terminal_reports terminal ag t \<noteq> []"

text \<open>\<open>_aresend_retained_report\<close>: what it sends, and whether it sent anything.\<close>

definition aresend_retained_report :: "(frame \<Rightarrow> bool) \<Rightarrow> agent \<Rightarrow> task_id \<Rightarrow> bool \<times> frame list" where
  "aresend_retained_report terminal ag t =
     (let reports = retained_terminal_reports terminal ag t
      in if reports = [] then (False, []) else (True, reports))"

subsection \<open>Opening the store\<close>

text \<open>One row of the backlog: a frame that does not validate is skipped.\<close>

definition take_stored :: "(string \<Rightarrow> frame option) \<Rightarrow> stored_frame \<Rightarrow> agent \<Rightarrow> agent" where
  "take_stored validate f ag =
     (case validate (sf_frame f) of
        None \<Rightarrow> ag
      | Some m \<Rightarrow>
          ag\<lparr>ag_session_created :=
               dict_setdefault (ag_session_created ag) (sf_session_id f) (sf_created_at f),
             ag_retained := dict_setdefault (ag_retained ag) (sf_session_id f, sf_pos f) m\<rparr>)"

definition connect_store :: "(string \<Rightarrow> database option) \<Rightarrow> agent \<Rightarrow> retained_frames" where
  "connect_store disk ag =
     (case open_frames disk (ag_journal_path ag) (agent_name ag) of
        Inr st \<Rightarrow> st
      | Inl _ \<Rightarrow> projr (open_frames disk None (agent_name ag)))"

definition open_store ::
    "(string \<Rightarrow> database option) \<Rightarrow> (string \<Rightarrow> frame option) \<Rightarrow> agent \<Rightarrow> agent" where
  "open_store disk validate ag =
     (case ag_store ag of
        Some _ \<Rightarrow> ag
      | None \<Rightarrow>
          let st = connect_store disk ag
          in fold (take_stored validate) (projr (load_frames st)) (ag\<lparr>ag_store := Some st\<rparr>))"

text \<open>
  \<open>_know_session\<close>; the second component says whether it raised. The store is opened
  before the statement can fail, and stays open.
\<close>

definition know_session ::
    "(string \<Rightarrow> database option) \<Rightarrow> (string \<Rightarrow> frame option) \<Rightarrow> timestamp \<Rightarrow> session_id
      \<Rightarrow> agent \<Rightarrow> agent \<times> bool" where
  "know_session disk validate now s ag =
     (if s \<in> set (dict_keys (ag_session_created ag)) then (ag, False)
      else let ag1 = open_store disk validate ag
           in case open_session (the (ag_store ag1)) s (Some now) now of
                Inl _ \<Rightarrow> (ag1, True)
              | Inr (t, st) \<Rightarrow>
                  (ag1\<lparr>ag_store := Some st,
                       ag_session_created := dict_put (ag_session_created ag1) s t\<rparr>, False))"

subsection \<open>Completing a resume journal\<close>

definition held_effects :: "agent \<Rightarrow> task_id \<Rightarrow> string list \<Rightarrow> recorded_effect list" where
  "held_effects ag t known =
     List.map_filter (\<lambda>m. case fr_body m of
         Effect_Frame (Some key) effect val \<Rightarrow>
           if fr_task m = Some t \<and> key \<noteq> [] \<and> key \<notin> set known
           then Some \<lparr>re_key = key, re_effect = effect, re_value = val\<rparr> else None
       | _ \<Rightarrow> None) (dict_values (ag_retained ag))"

definition held_steps :: "agent \<Rightarrow> task_id \<Rightarrow> int list" where
  "held_steps ag t =
     List.map_filter (\<lambda>m. case fr_task_step m of
         Some n \<Rightarrow> if fr_task m = Some t \<and> n \<noteq> 0 then Some n else None
       | None \<Rightarrow> None) (dict_values (ag_retained ag))"

text \<open>\<open>_complete_resume\<close>; \<open>None\<close> is the \<open>AssertionError\<close> of a message with no resume journal.\<close>

definition complete_resume ::
    "(string \<Rightarrow> database option) \<Rightarrow> (string \<Rightarrow> frame option) \<Rightarrow> agent \<Rightarrow> assign
      \<Rightarrow> (agent \<times> assign) option" where
  "complete_resume disk validate ag0 message =
     (case as_resume message of
        None \<Rightarrow> None
      | Some journal \<Rightarrow>
          let ag = open_store disk validate ag0;
              held = held_effects ag (as_task message) (map re_key (rj_effects journal));
              steps = held_steps ag (as_task message)
          in Some (ag,
               if held = [] \<and> steps = [] then message
               else message\<lparr>as_resume := Some (journal\<lparr>rj_effects := rj_effects journal @ held,
                                     rj_last_step := fold max steps (rj_last_step journal)\<rparr>)\<rparr>))"

subsection \<open>Persisted states\<close>

definition take_dirty_state :: "string \<Rightarrow> agent \<Rightarrow> agent \<times> stored_state option" where
  "take_dirty_state name ag =
     (if name \<notin> set (ag_dirty_states ag) then (ag, None)
      else (ag\<lparr>ag_dirty_states := removeAll name (ag_dirty_states ag)\<rparr>,
            map_option (\<lambda>shrunk.
                \<lparr>ss_state_name = name, ss_schema_hash = the (dict_get (ag_state_hashes ag) name),
                 ss_session_id = ag_current_session ag, ss_global_rev = ag_global_revision ag,
                 ss_value = shrunk\<rparr>)
              (ag_current_shrunk ag name)))"

definition write_state :: "stored_state \<Rightarrow> agent \<Rightarrow> agent" where
  "write_state x ag =
     (case ag_state_store ag of
        None \<Rightarrow> ag
      | Some st \<Rightarrow> (case put_state st x of
            Inl _ \<Rightarrow> ag
          | Inr st' \<Rightarrow> ag\<lparr>ag_state_store := Some st'\<rparr>))"

text \<open>Take a state's value if it changed, and write it.\<close>

definition flush_state :: "string \<Rightarrow> agent \<Rightarrow> agent" where
  "flush_state name ag =
     (case take_dirty_state name ag of
        (ag', None) \<Rightarrow> ag'
      | (ag', Some x) \<Rightarrow> write_state x ag')"

definition note_changed :: "string \<Rightarrow> agent \<Rightarrow> agent" where
  "note_changed name ag =
     (case dict_get (ag_state_policies ag) name of
        None \<Rightarrow> ag
      | Some policy \<Rightarrow>
          let ag' = ag\<lparr>ag_dirty_states := List.insert name (ag_dirty_states ag)\<rparr>
          in if policy = Synchronous then flush_state name ag' else ag')"

definition note_state_change :: "frame \<Rightarrow> agent \<Rightarrow> agent" where
  "note_state_change m ag =
     (if ag_state_store ag = None then ag
      else case fr_body m of
             State_Patch_Frame name \<Rightarrow> note_changed name ag
           | Session_Init_Frame \<Rightarrow> fold note_changed (dict_keys (ag_state_policies ag)) ag
           | _ \<Rightarrow> ag)"

text \<open>
  \<open>_open_state_store\<close>. \<open>declared\<close> is the registry's states with their \<open>persist\<close>,
  \<open>hash_of\<close> the hash of a collected state schema.
\<close>

definition open_state_store ::
    "(string \<Rightarrow> state_row list option) \<Rightarrow> (string, persist option) dict \<Rightarrow> (string \<Rightarrow> string)
      \<Rightarrow> agent \<Rightarrow> agent" where
  "open_state_store disk declared hash_of ag =
     (if ag_state_store ag \<noteq> None then ag
      else
        let policies = List.map_filter (\<lambda>(name, pol). map_option (Pair name) pol) declared
        in if policies = [] then ag
           else if ag_journal_path ag = None \<or> ag_journal_path ag = Some '':memory:'' then ag
           else case open_states disk (state_store_path (the (ag_journal_path ag))) (agent_name ag) of
                  Inl _ \<Rightarrow> ag
                | Inr st \<Rightarrow>
                    (case load_states st of
                       Inl _ \<Rightarrow> ag
                     | Inr stored \<Rightarrow>
                         ag\<lparr>ag_state_store := Some st,
                            ag_state_policies := policies,
                            ag_state_hashes := map (\<lambda>(name, _). (name, hash_of name)) policies,
                            ag_state_flushers := map (\<lambda>(name, _). (name, Starting))
                              (filter (\<lambda>(_, pol). pol \<noteq> Synchronous) policies),
                            ag_previous_states :=
                              List.map_filter (\<lambda>(name, x).
                                if name \<in> set (dict_keys policies) \<and> ss_schema_hash x = hash_of name
                                then Some (name, ss_value x) else None) stored\<rparr>))"

text \<open>
  \<open>_aflush_state_loop\<close>, from one suspension point to the next: its first step, a wake-up
  after the period, the return of the thread that writes. With the stop set the loop ends:
  one that has not run, or that is in its write, takes nothing more.
\<close>

definition flusher_begins :: "string \<Rightarrow> agent \<Rightarrow> agent" where
  "flusher_begins name ag =
     (case dict_get (ag_state_flushers ag) name of
        Some Starting \<Rightarrow> ag\<lparr>ag_state_flushers := dict_put (ag_state_flushers ag) name Waiting\<rparr>
      | _ \<Rightarrow> ag)"

definition flusher_wakes :: "string \<Rightarrow> agent \<Rightarrow> agent" where
  "flusher_wakes name ag =
     (case dict_get (ag_state_flushers ag) name of
        Some Waiting \<Rightarrow>
          (case take_dirty_state name ag of
             (ag', None) \<Rightarrow> ag'
           | (ag', Some x) \<Rightarrow>
               ag'\<lparr>ag_state_flushers := dict_put (ag_state_flushers ag) name (Writing x)\<rparr>)
      | _ \<Rightarrow> ag)"

definition flusher_wrote :: "string \<Rightarrow> agent \<Rightarrow> agent" where
  "flusher_wrote name ag =
     (case dict_get (ag_state_flushers ag) name of
        Some (Writing x) \<Rightarrow>
          write_state x (ag\<lparr>ag_state_flushers := dict_put (ag_state_flushers ag) name Waiting\<rparr>)
      | _ \<Rightarrow> ag)"

definition stop_flusher :: "string \<times> flusher \<Rightarrow> agent \<Rightarrow> agent" where
  "stop_flusher = (\<lambda>(name, phase) ag.
     case phase of
       Starting \<Rightarrow> ag
     | Waiting \<Rightarrow> flush_state name ag
     | Writing x \<Rightarrow> write_state x ag)"

text \<open>
  \<open>_aclose_state_store\<close>: the stop is set, every flush loop ends, then the file closes; the
  second component is what it was closed with.
\<close>

definition aclose_state_store :: "agent \<Rightarrow> agent \<times> persisted_states option" where
  "aclose_state_store ag =
     (let ag' = fold stop_flusher (ag_state_flushers ag) (ag\<lparr>ag_state_flushers := []\<rparr>)
      in (ag'\<lparr>ag_state_store := None\<rparr>,
          map_option close_states (ag_state_store ag')))"

subsection \<open>Emitting and acknowledging\<close>

text \<open>
  \<open>_retain_emitted\<close>: memory first, then (where the session is known and the write goes
  through) the disk; then the persisted states.
\<close>

definition retain_emitted ::
    "(string \<Rightarrow> database option) \<Rightarrow> (string \<Rightarrow> frame option) \<Rightarrow> (frame \<Rightarrow> string) \<Rightarrow> timestamp
      \<Rightarrow> frame \<Rightarrow> journal_entry option \<Rightarrow> agent \<Rightarrow> agent" where
  "retain_emitted disk validate dump now m entry ag =
     (case entry of
        None \<Rightarrow> ag
      | Some e \<Rightarrow>
          let s = je_session_id e; p = je_pos e;
              ag1 = ag\<lparr>ag_retained := dict_put (ag_retained ag) (s, p) m\<rparr>;
              ag2 = (case know_session disk validate now s ag1 of
                       (agk, True) \<Rightarrow> agk
                     | (agk, False) \<Rightarrow>
                         let ago = open_store disk validate agk
                         in case add_frame (the (ag_store ago)) s p (dump m) of
                              Inl _ \<Rightarrow> ago
                            | Inr st \<Rightarrow> ago\<lparr>ag_store := Some st\<rparr>)
          in note_state_change m ag2)"

definition drop_covered :: "session_id \<Rightarrow> int \<Rightarrow> agent \<Rightarrow> agent" where
  "drop_covered s p ag = ag\<lparr>ag_retained := dict_drop (covered s p) (ag_retained ag)\<rparr>"

definition journal_ack ::
    "(string \<Rightarrow> database option) \<Rightarrow> (string \<Rightarrow> frame option) \<Rightarrow> session_id \<Rightarrow> int \<Rightarrow> agent \<Rightarrow> agent" where
  "journal_ack disk validate s p ag =
     (let ag1 = open_store disk validate (drop_covered s p ag)
      in case ack_frames (the (ag_store ag1)) s p of
           Inl _ \<Rightarrow> ag1
         | Inr st \<Rightarrow>
             if \<exists>k \<in> set (dict_keys (ag_retained ag1)). fst k = s then ag1\<lparr>ag_store := Some st\<rparr>
             else (case prune_sessions st (Some (ag_current_session ag1)) of
                     Inl _ \<Rightarrow> ag1\<lparr>ag_store := Some st\<rparr>
                   | Inr st' \<Rightarrow> ag1\<lparr>ag_store := Some st'\<rparr>))"

text \<open>
  \<open>astart\<close>, from where \<open>BaseAgent.astart\<close> has minted the session. What \<open>_know_session\<close>
  raises there is not caught: \<open>None\<close>.
\<close>

definition astart ::
    "(string \<Rightarrow> database option) \<Rightarrow> (string \<Rightarrow> frame option) \<Rightarrow> timestamp \<Rightarrow> session_id
      \<Rightarrow> (string \<Rightarrow> state_row list option) \<Rightarrow> (string, persist option) dict \<Rightarrow> (string \<Rightarrow> string)
      \<Rightarrow> agent \<Rightarrow> agent option" where
  "astart disk validate now session state_disk declared hash_of ag =
     (case know_session disk validate now session
             (open_store disk validate (ag\<lparr>ag_current_session := session\<rparr>)) of
        (_, True) \<Rightarrow> None
      | (ag', False) \<Rightarrow> Some (open_state_store state_disk declared hash_of ag'))"

section \<open>The resend order\<close>

lemma inj_key_order: "inj (key_order ag)"
  by (auto intro!: injI prod_eqI)

lemma set_resend_order [simp]: "set (resend_order ag) = set (dict_keys (ag_retained ag))"
  by (simp add: resend_order_def)

lemma distinct_key_order_map:
  "dict_ok (ag_retained ag) \<Longrightarrow> distinct (map (key_order ag) (resend_order ag))"
  by (simp add: resend_order_def distinct_map dict_ok_def inj_on_subset [OF inj_key_order])

lemma sorted_resend_order:
  "dict_ok (ag_retained ag) \<Longrightarrow> sorted_wrt (<) (map (key_order ag) (resend_order ag))"
  using distinct_key_order_map [of ag] by (simp add: resend_order_def strict_sorted_iff)

lemma resend_order_unique:
  assumes "dict_ok (ag_retained a)"
    and "sorted_wrt (<) (map (key_order a) ks)" and "set ks = set (dict_keys (ag_retained a))"
  shows "resend_order a = ks"
proof -
  have "map (key_order a) (resend_order a) = map (key_order a) ks"
    by (rule strict_sorted_equal) (use assms sorted_resend_order [OF assms(1)] in auto)
  then show ?thesis
    by (rule map_injective) (rule inj_key_order)
qed

lemma resend_order_cong:
  assumes "dict_ok (ag_retained a)" and "dict_ok (ag_retained b)"
    and keys: "set (dict_keys (ag_retained a)) = set (dict_keys (ag_retained b))"
    and created: "\<And>k. k \<in> set (dict_keys (ag_retained b)) \<Longrightarrow> created_or_0 a (fst k) = created_or_0 b (fst k)"
  shows "resend_order a = resend_order b"
proof (rule resend_order_unique)
  have eq: "map (key_order a) (resend_order b) = map (key_order b) (resend_order b)"
  proof (rule map_cong [OF refl])
    fix k
    assume "k \<in> set (resend_order b)"
    then show "key_order a k = key_order b k"
      by (simp only: set_resend_order created)
  qed
  show "sorted_wrt (<) (map (key_order a) (resend_order b))"
    unfolding eq by (rule sorted_resend_order [OF assms(2)])
qed (use assms in auto)

lemma resend_keys_map:
  "set ks \<subseteq> set (dict_keys (ag_retained ag)) \<Longrightarrow>
     resend_keys ag ks = map (\<lambda>k. the (dict_get (ag_retained ag) k)) ks"
proof (induction ks)
  case (Cons k ks)
  then have "dict_get (ag_retained ag) k \<noteq> None" by (simp add: dict_get_None_iff)
  with Cons show ?case by auto
qed simp

lemma aresend_retained_eq: "aresend_retained ag = retained_list ag"
  by (simp add: aresend_retained_def retained_list_def resend_keys_map)

lemma aresend_cong:
  assumes "dict_ok (ag_retained a)" and "dict_ok (ag_retained b)"
    and get: "dict_get (ag_retained a) = dict_get (ag_retained b)"
    and created: "\<And>k. k \<in> set (dict_keys (ag_retained b)) \<Longrightarrow> created_or_0 a (fst k) = created_or_0 b (fst k)"
  shows "aresend_retained a = aresend_retained b"
proof -
  have "set (dict_keys (ag_retained a)) = set (dict_keys (ag_retained b))"
    using get dict_get_None_iff by (metis (no_types, lifting) Collect_cong subsetI subset_antisym)
  then have "resend_order a = resend_order b"
    by (rule resend_order_cong [OF assms(1,2) _ created])
  then show ?thesis
    by (simp add: aresend_retained_eq retained_list_def get)
qed

section \<open>Reading the backlog back\<close>

lemma fold_take_stored_frame [simp]:
  "ag_store (fold (take_stored validate) fs ag) = ag_store ag"
  "ag_name (fold (take_stored validate) fs ag) = ag_name ag"
  "ag_journal_path (fold (take_stored validate) fs ag) = ag_journal_path ag"
  "ag_current_session (fold (take_stored validate) fs ag) = ag_current_session ag"
  by (induction fs arbitrary: ag) (auto simp: take_stored_def split: option.splits)

lemma fold_take_stored_ok:
  "dict_ok (ag_retained ag) \<Longrightarrow> dict_ok (ag_retained (fold (take_stored validate) fs ag))"
  by (induction fs arbitrary: ag) (auto simp: take_stored_def split: option.splits)

lemma fold_take_stored_retained:
  assumes "distinct (map (\<lambda>f. (sf_session_id f, sf_pos f)) fs)"
  shows "dict_get (ag_retained (fold (take_stored validate) fs ag)) k =
    (case dict_get (ag_retained ag) k of Some m \<Rightarrow> Some m
     | None \<Rightarrow> (case find (\<lambda>f. (sf_session_id f, sf_pos f) = k) fs of
          None \<Rightarrow> None | Some f \<Rightarrow> validate (sf_frame f)))"
  using assms
proof (induction fs arbitrary: ag)
  case Nil
  show ?case by (simp split: option.split)
next
  case (Cons f fs)
  have absent: "find (\<lambda>f. (sf_session_id f, sf_pos f) = (sf_session_id f', sf_pos f')) fs = None"
    if "f' = f" for f'
    using Cons.prems that by (auto simp: find_None_iff image_iff)
  show ?case
  proof (cases "validate (sf_frame f)")
    case None
    then have "take_stored validate f ag = ag" by (simp add: take_stored_def)
    with Cons None absent [OF refl] show ?thesis
      by (auto split: option.split)
  next
    case (Some m)
    then have "dict_get (ag_retained (take_stored validate f ag)) =
        (dict_get (ag_retained ag))((sf_session_id f, sf_pos f) \<mapsto>
          (case dict_get (ag_retained ag) (sf_session_id f, sf_pos f) of None \<Rightarrow> m | Some w \<Rightarrow> w))"
      by (simp add: take_stored_def dict_get_setdefault fun_eq_iff)
    with Cons Some absent [OF refl] show ?thesis
      by (auto split: option.split)
  qed
qed

text \<open>The sessions of the frames taken are known, with the creation time the store gave.\<close>

lemma fold_take_stored_created:
  fixes validate :: "string \<Rightarrow> frame option"
  assumes "\<And>f. f \<in> set fs \<Longrightarrow> sf_created_at f = c (sf_session_id f)"
    and "\<And>s t. dict_get (ag_session_created ag) s = Some t \<Longrightarrow> t = c s"
    and "\<And>k. k \<in> set (dict_keys (ag_retained ag)) \<Longrightarrow> dict_get (ag_session_created ag) (fst k) \<noteq> None"
  defines "ag' \<equiv> fold (take_stored validate) fs ag"
  shows "dict_get (ag_session_created ag') s = Some t \<Longrightarrow> t = c s"
    and "k \<in> set (dict_keys (ag_retained ag')) \<Longrightarrow> dict_get (ag_session_created ag') (fst k) = Some (c (fst k))"
proof -
  let ?P = "\<lambda>a. (\<forall>s t. dict_get (ag_session_created a) s = Some t \<longrightarrow> t = c s) \<and>
      (\<forall>k. dict_get (ag_retained a) k \<noteq> None \<longrightarrow> dict_get (ag_session_created a) (fst k) \<noteq> None)"
  have "?P (fold (take_stored validate) fs ag)" if "?P ag" for ag
    using that assms(1)
  proof (induction fs arbitrary: ag)
    case (Cons f fs)
    have "?P (take_stored validate f ag)"
    proof (cases "validate (sf_frame f)")
      case None
      then show ?thesis using Cons.prems(1) by (simp only: take_stored_def option.case)
    next
      case (Some m)
      then have new:
        "dict_get (ag_session_created (take_stored validate f ag)) =
           (dict_get (ag_session_created ag))(sf_session_id f \<mapsto>
             (case dict_get (ag_session_created ag) (sf_session_id f) of
                None \<Rightarrow> sf_created_at f | Some w \<Rightarrow> w))"
        "dict_get (ag_retained (take_stored validate f ag)) =
           (dict_get (ag_retained ag))((sf_session_id f, sf_pos f) \<mapsto>
             (case dict_get (ag_retained ag) (sf_session_id f, sf_pos f) of None \<Rightarrow> m | Some w \<Rightarrow> w))"
        by (simp_all add: take_stored_def dict_get_setdefault fun_eq_iff)
      have "sf_created_at f = c (sf_session_id f)" by (rule Cons.prems(2)) simp
      with Cons.prems(1) show ?thesis
        unfolding new by (auto split: option.splits if_splits)
    qed
    then have "?P (fold (take_stored validate) fs (take_stored validate f ag))"
      by (rule Cons.IH) (rule Cons.prems(2), simp)
    then show ?case by (simp only: fold_simps)
  qed simp
  moreover have "?P ag" using assms(2,3) by (simp add: dict_get_None_iff)
  ultimately have P: "?P ag'" unfolding ag'_def by blast
  then show "dict_get (ag_session_created ag') s = Some t \<Longrightarrow> t = c s" by blast
  assume "k \<in> set (dict_keys (ag_retained ag'))"
  then have "dict_get (ag_retained ag') k \<noteq> None" by (simp add: dict_get_None_iff)
  with P show "dict_get (ag_session_created ag') (fst k) = Some (c (fst k))" by fastforce
qed

text \<open>
  What a restart would read: the unacknowledged rows that validate. The invariant of an
  agent whose disk works says that this is what it has in memory.
\<close>

definition readable :: "(string \<Rightarrow> frame option) \<Rightarrow> retained_frames \<Rightarrow> frame_key \<Rightarrow> frame option" where
  "readable validate st k =
     (if acked st (fst k) < snd k then Option.bind (holds st k) validate else None)"

definition mirrored :: "(string \<Rightarrow> frame option) \<Rightarrow> agent \<Rightarrow> retained_frames \<Rightarrow> bool" where
  "mirrored validate ag st \<longleftrightarrow>
     ag_store ag = Some st \<and> store_ok st \<and> \<not> rf_closed st \<and> rf_disk_ok st \<and>
     rf_agent st = agent_name ag \<and> dict_ok (ag_retained ag) \<and>
     dict_get (ag_retained ag) = readable validate st \<and>
     (\<forall>k \<in> set (dict_keys (ag_retained ag)).
        dict_get (ag_session_created ag) (fst k) = Some (created st (fst k)))"

definition session_known :: "agent \<Rightarrow> retained_frames \<Rightarrow> bool" where
  "session_known ag st \<longleftrightarrow>
     sync_of (rf_db st) (rf_agent st) (ag_current_session ag) \<noteq> None \<and>
     dict_get (ag_session_created ag) (ag_current_session ag) = Some (created st (ag_current_session ag))"

lemma mirrored_key_created:
  "mirrored validate ag st \<Longrightarrow> k \<in> set (dict_keys (ag_retained ag)) \<Longrightarrow>
     created_or_0 ag (fst k) = created st (fst k)"
  by (force simp: mirrored_def created_or_0_def dict_getdefault_def)

text \<open>An agent as a process starts it: nothing in memory, no store open.\<close>

definition fresh_agent :: "string \<Rightarrow> string option \<Rightarrow> agent" where
  "fresh_agent name path =
     \<lparr>ag_name = Some name, ag_journal_path = path, ag_retained = [], ag_session_created = [],
      ag_store = None, ag_current_session = [], ag_state_store = None, ag_state_policies = [],
      ag_state_hashes = [], ag_state_flushers = [], ag_previous_states = [], ag_dirty_states = [],
      ag_current_shrunk = (\<lambda>_. None), ag_global_revision = 0\<rparr>"

definition unopened :: "agent \<Rightarrow> bool" where
  "unopened ag \<longleftrightarrow> ag_store ag = None \<and> ag_retained ag = [] \<and> ag_session_created ag = []"

lemma open_store_mirrored:
  assumes "unopened ag" and "\<not> in_memory (ag_journal_path ag)"
    and "disk (the (ag_journal_path ag)) = Some db" and "db_ok db"
  shows "\<exists>st. mirrored validate (open_store disk validate ag) st \<and> rf_db st = db \<and>
    (\<forall>s t. dict_get (ag_session_created (open_store disk validate ag)) s = Some t \<longrightarrow> t = created st s)"
proof -
  define st where "st = connect_store disk ag"
  have st: "rf_db st = db" "rf_agent st = agent_name ag" "\<not> rf_closed st" "rf_disk_ok st"
    using assms by (simp_all add: st_def connect_store_def open_frames_def)
  then have ok: "store_ok st" using assms(4) by (simp add: store_ok_def)
  define fs where "fs = select_backlog (rf_agent st) db"
  have load: "load_frames st = Inr fs"
    using st by (simp add: load_frames_def fs_def)
  define ag' where "ag' = fold (take_stored validate) fs (ag\<lparr>ag_store := Some st\<rparr>)"
  have opened: "open_store disk validate ag = ag'"
    using assms(1) load by (simp add: open_store_def ag'_def Let_def unopened_def st_def)
  have iff: "f \<in> set fs \<longleftrightarrow> holds st (sf_session_id f, sf_pos f) = Some (sf_frame f) \<and>
      acked st (sf_session_id f) < sf_pos f \<and> sf_created_at f = created st (sf_session_id f)" for f
    using load_frames_in_order [OF ok load] by simp
  have dist: "distinct (map (\<lambda>f. (sf_session_id f, sf_pos f)) fs)"
    using distinct_backlog_keys [OF assms(4), of "rf_agent st"] unfolding fs_def [symmetric]
    by (auto simp: distinct_map inj_on_def iff)
  have "dict_get (ag_retained ag') k = readable validate st k" for k
  proof -
    have "find (\<lambda>f. (sf_session_id f, sf_pos f) = k) fs =
        (if acked st (fst k) < snd k then map_option (\<lambda>x.
           \<lparr>sf_session_id = fst k, sf_created_at = created st (fst k), sf_pos = snd k, sf_frame = x\<rparr>)
           (holds st k) else None)"
      (is "?find = ?want")
    proof (cases ?want)
      case None
      then show ?thesis by (force simp: find_None_iff iff split: if_splits)
    next
      case (Some f)
      show ?thesis unfolding Some
      proof (rule find_unique)
        show "f \<in> set fs" "(sf_session_id f, sf_pos f) = k"
          using Some by (auto simp: iff split: if_splits)
        fix y
        assume "y \<in> set fs" and "(sf_session_id y, sf_pos y) = k"
        with Some show "y = f" by (auto simp: iff split: if_splits)
      qed
    qed
    then show ?thesis
      using assms(1) fold_take_stored_retained [OF dist, of validate "ag\<lparr>ag_store := Some st\<rparr>" k]
      by (auto simp: ag'_def unopened_def readable_def split: option.split)
  qed
  then have get: "dict_get (ag_retained ag') = readable validate st" by blast
  have c1: "\<And>f. f \<in> set fs \<Longrightarrow> sf_created_at f = created st (sf_session_id f)" by (simp add: iff)
  have c2: "\<And>s t. dict_get (ag_session_created (ag\<lparr>ag_store := Some st\<rparr>)) s = Some t \<Longrightarrow> t = created st s"
    using assms(1) by (simp add: unopened_def)
  have c3: "\<And>k. k \<in> set (dict_keys (ag_retained (ag\<lparr>ag_store := Some st\<rparr>))) \<Longrightarrow>
      dict_get (ag_session_created (ag\<lparr>ag_store := Some st\<rparr>)) (fst k) \<noteq> None"
    using assms(1) by (simp add: unopened_def)
  note created = fold_take_stored_created
    [where fs = fs and c = "created st" and ag = "ag\<lparr>ag_store := Some st\<rparr>" and validate = validate,
      OF c1 c2 c3, folded ag'_def]
  have "mirrored validate ag' st"
    unfolding mirrored_def
  proof (intro conjI ballI)
    show "dict_ok (ag_retained ag')"
      unfolding ag'_def by (rule fold_take_stored_ok) (use assms(1) in \<open>simp add: unopened_def\<close>)
    fix k assume "k \<in> set (dict_keys (ag_retained ag'))"
    then show "dict_get (ag_session_created ag') (fst k) = Some (created st (fst k))"
      using created(2) by blast
  qed (use get st ok in \<open>simp_all add: ag'_def\<close>)
  moreover have "\<forall>s t. dict_get (ag_session_created ag') s = Some t \<longrightarrow> t = created st s"
    using created(1) by blast
  ultimately show ?thesis
    unfolding opened using st(1) by blast
qed

section \<open>The operations keep memory and disk together\<close>

lemma flush_state_frame [simp]:
  "ag_retained (flush_state n ag) = ag_retained ag"
  "ag_session_created (flush_state n ag) = ag_session_created ag"
  "ag_store (flush_state n ag) = ag_store ag"
  "ag_name (flush_state n ag) = ag_name ag"
  "ag_journal_path (flush_state n ag) = ag_journal_path ag"
  "ag_current_session (flush_state n ag) = ag_current_session ag"
  by (auto simp: flush_state_def take_dirty_state_def write_state_def split: option.splits sum.splits)

lemma note_changed_frame [simp]:
  "ag_retained (note_changed n ag) = ag_retained ag"
  "ag_session_created (note_changed n ag) = ag_session_created ag"
  "ag_store (note_changed n ag) = ag_store ag"
  "ag_name (note_changed n ag) = ag_name ag"
  "ag_journal_path (note_changed n ag) = ag_journal_path ag"
  "ag_current_session (note_changed n ag) = ag_current_session ag"
  by (auto simp: note_changed_def Let_def split: option.splits)

lemma fold_note_changed_frame [simp]:
  "ag_retained (fold note_changed ns ag) = ag_retained ag"
  "ag_session_created (fold note_changed ns ag) = ag_session_created ag"
  "ag_store (fold note_changed ns ag) = ag_store ag"
  "ag_name (fold note_changed ns ag) = ag_name ag"
  "ag_journal_path (fold note_changed ns ag) = ag_journal_path ag"
  "ag_current_session (fold note_changed ns ag) = ag_current_session ag"
  by (induction ns arbitrary: ag) auto

lemma note_state_change_frame [simp]:
  "ag_retained (note_state_change m ag) = ag_retained ag"
  "ag_session_created (note_state_change m ag) = ag_session_created ag"
  "ag_store (note_state_change m ag) = ag_store ag"
  "ag_name (note_state_change m ag) = ag_name ag"
  "ag_journal_path (note_state_change m ag) = ag_journal_path ag"
  "ag_current_session (note_state_change m ag) = ag_current_session ag"
  by (auto simp: note_state_change_def split: frame_body.splits)

lemma open_store_opened [simp]: "ag_store ag = Some st \<Longrightarrow> open_store disk validate ag = ag"
  by (simp add: open_store_def)

lemma open_store_frame [simp]:
  "ag_name (open_store disk validate ag) = ag_name ag"
  "ag_journal_path (open_store disk validate ag) = ag_journal_path ag"
  "ag_current_session (open_store disk validate ag) = ag_current_session ag"
  by (auto simp: open_store_def Let_def split: option.splits)

lemma mirrored_frame:
  assumes "mirrored validate a st"
    and "ag_retained b = ag_retained a" "ag_session_created b = ag_session_created a"
      "ag_store b = ag_store a" "ag_name b = ag_name a"
  shows "mirrored validate b st"
  using assms by (simp add: mirrored_def)

lemma know_session_mirrored:
  assumes "mirrored validate ag st" and "s \<notin> set (dict_keys (ag_session_created ag))"
  shows "\<exists>ag' st'. know_session disk validate now s ag = (ag', False) \<and> mirrored validate ag' st' \<and>
    ag_current_session ag' = ag_current_session ag \<and> ag_name ag' = ag_name ag \<and>
    ag_journal_path ag' = ag_journal_path ag \<and>
    acked st' = acked st \<and> sync_of (rf_db st') (rf_agent st') s \<noteq> None \<and>
    dict_get (ag_session_created ag') s = Some (created st' s)"
proof -
  note m = assms(1)[unfolded mirrored_def]
  define st' where "st' = st\<lparr>rf_db := insert_or_ignore_sync (rf_agent st) s now (rf_db st)\<rparr>"
  define ag' where "ag' = ag\<lparr>ag_store := Some st',
      ag_session_created := dict_put (ag_session_created ag) s (created st' s)\<rparr>"
  have sync: "sync_of (rf_db st') (rf_agent st) t =
      (case sync_of (rf_db st) (rf_agent st) t of Some r \<Rightarrow> Some r
       | None \<Rightarrow> if t = s then Some \<lparr>sr_agent = rf_agent st, sr_session = s, sr_created_at = now,
           sr_acked_pos = 0\<rparr> else None)" for t
    by (simp add: st'_def sync_of_insert_or_ignore split: option.split)
  have know: "know_session disk validate now s ag = (ag', False)"
    using m assms(2) by (simp add: know_session_def Let_def open_session_def transaction_def ag'_def st'_def created_def)
  have acked: "acked st' = acked st"
    using sync by (auto simp: acked_def joined_acked_def fun_eq_iff st'_def split: option.splits)
  have created: "created st' t = created st t" if "t \<noteq> s" for t
    using sync [of t] that by (simp add: created_def joined_created_def st'_def split: option.splits)
  have fresh: "fst k \<noteq> s" if "k \<in> set (dict_keys (ag_retained ag))" for k
    using m assms(2) that dict_get_in_keys [of "ag_session_created ag"] by fastforce
  have "holds st' = holds st" by (simp add: holds_def st'_def)
  then have "mirrored validate ag' st'"
    using m acked fresh created
    by (auto simp: mirrored_def ag'_def readable_def fun_eq_iff store_ok_def st'_def intro: inv_intros)
  moreover have "sync_of (rf_db st') (rf_agent st') s \<noteq> None"
    using sync [of s] by (simp add: st'_def split: option.splits)
  ultimately show ?thesis
    using know acked by (intro exI [of _ ag'] exI [of _ st']) (simp add: ag'_def)
qed

lemma retain_emitted_mirrored:
  fixes disk :: "string \<Rightarrow> database option" and now :: timestamp
  assumes m: "mirrored validate ag st" and known: "session_known ag st"
    and "acked st (ag_current_session ag) < p" and "validate (dump f) = Some f"
  defines "ag' \<equiv> retain_emitted disk validate dump now f
      (Some \<lparr>je_session_id = ag_current_session ag, je_pos = p\<rparr>) ag"
  shows "\<exists>st'. mirrored validate ag' st' \<and> session_known ag' st' \<and> acked st' = acked st \<and>
    ag_current_session ag' = ag_current_session ag"
proof -
  let ?cur = "ag_current_session ag"
  define st' where "st' = st\<lparr>rf_db := insert_or_replace_journal (rf_agent st) ?cur p (dump f) (rf_db st)\<rparr>"
  have add: "add_frame st ?cur p (dump f) = Inr st'"
    using m by (simp add: mirrored_def add_frame_def st'_def)
  have cur: "?cur \<in> set (dict_keys (ag_session_created ag))"
    using known dict_get_in_keys [of "ag_session_created ag" ?cur] by (simp add: session_known_def)
  have ag': "ag' = note_state_change f (ag\<lparr>ag_retained := dict_put (ag_retained ag) (?cur, p) f,
      ag_store := Some st'\<rparr>)"
    using m cur add by (simp add: ag'_def retain_emitted_def know_session_def mirrored_def Let_def)
  have same: "acked st' = acked st" "created st' = created st" "rf_agent st' = rf_agent st"
    "sync_of (rf_db st') = sync_of (rf_db st)"
    by (auto simp: st'_def acked_def created_def joined_acked_def joined_created_def fun_eq_iff)
  have "store_ok st'" using rf.add_ok [OF _ add] m by (simp add: mirrored_def)
  moreover have "holds st' = (holds st)((?cur, p) \<mapsto> dump f)"
    using rf.add_frames [OF _ add] m by (simp add: mirrored_def)
  moreover have "\<not> rf_closed st'" "rf_disk_ok st'"
    using m by (simp_all add: st'_def mirrored_def)
  ultimately have "mirrored validate ag' st'"
    using m known assms(3,4) unfolding ag'
    by (auto simp: mirrored_def same readable_def fun_eq_iff session_known_def AList.dom_update)
  moreover have "session_known ag' st'"
    using known unfolding ag' by (simp add: session_known_def same)
  ultimately show ?thesis using same by (intro exI [of _ st']) (simp add: ag')
qed

lemma acked_ack:
  assumes "ack_frames st s p = Inr st'"
  shows "acked st' t = (if t = s \<and> sync_of (rf_db st) (rf_agent st) s \<noteq> None
      then max (acked st t) p else acked st t)"
    and "created st' = created st"
    and "sync_of (rf_db st') (rf_agent st') t \<noteq> None \<longleftrightarrow> sync_of (rf_db st) (rf_agent st) t \<noteq> None"
proof -
  have st': "st' = st\<lparr>rf_db := raise_acked_sync (rf_agent st) s p (delete_upto_journal (rf_agent st) s p (rf_db st))\<rparr>"
    using assms by (simp add: ack_frames_def)
  show "acked st' t = (if t = s \<and> sync_of (rf_db st) (rf_agent st) s \<noteq> None
      then max (acked st t) p else acked st t)"
    by (auto simp: st' acked_def joined_acked_def sync_of_raise_acked split: option.split)
  show "created st' = created st"
    by (rule ext, auto simp: st' created_def joined_created_def sync_of_raise_acked split: option.split)
  show "sync_of (rf_db st') (rf_agent st') t \<noteq> None \<longleftrightarrow> sync_of (rf_db st) (rf_agent st) t \<noteq> None"
    by (simp add: st' sync_of_raise_acked)
qed

lemma ack_mirrored:
  assumes m: "mirrored validate ag st" and known: "session_known ag st"
    and ack: "ack_frames st s p = Inr st'"
  defines "ag' \<equiv> (drop_covered s p ag)\<lparr>ag_store := Some st'\<rparr>"
  shows "mirrored validate ag' st' \<and> session_known ag' st'"
proof
  have ok: "store_ok st" using m by (simp add: mirrored_def)
  have st: "\<not> rf_closed st'" "rf_disk_ok st'" "rf_agent st' = rf_agent st"
    using m ack by (auto simp: mirrored_def ack_frames_def)
  have "(dict_get (ag_retained ag) |` {k. \<not> covered s p k}) k = readable validate st' k" for k
    using m by (auto simp: mirrored_def readable_def rf.ack_frames [OF ok ack] acked_ack(1) [OF ack]
        restrict_map_def covered_def)
  then have "dict_get (ag_retained ag') = readable validate st'"
    by (simp add: ag'_def drop_covered_def dict_get_drop fun_eq_iff)
  moreover have "k \<in> set (dict_keys (ag_retained ag))" if "k \<in> set (dict_keys (ag_retained ag'))" for k
    using that by (auto simp: ag'_def drop_covered_def dict_drop_def)
  moreover have "\<forall>k \<in> set (dict_keys (ag_retained ag)).
      dict_get (ag_session_created ag') (fst k) = Some (created st' (fst k))"
    using m by (simp add: mirrored_def ag'_def drop_covered_def acked_ack(2) [OF ack])
  ultimately have "\<forall>k \<in> set (dict_keys (ag_retained ag')).
      dict_get (ag_session_created ag') (fst k) = Some (created st' (fst k))"
    by blast
  then show "mirrored validate ag' st'"
    using m st rf.ack_ok [OF ok ack] \<open>dict_get (ag_retained ag') = readable validate st'\<close>
    by (simp add: mirrored_def) (simp add: ag'_def drop_covered_def)
  show "session_known ag' st'"
    using known acked_ack(2,3) [OF ack] by (simp add: session_known_def ag'_def drop_covered_def)
qed

lemma prune_mirrored:
  assumes m: "mirrored validate ag st" and known: "session_known ag st"
    and prune: "prune_sessions st (Some (ag_current_session ag)) = Inr st'"
  shows "mirrored validate (ag\<lparr>ag_store := Some st'\<rparr>) st' \<and> session_known (ag\<lparr>ag_store := Some st'\<rparr>) st' \<and>
    acked st' (ag_current_session ag) = acked st (ag_current_session ag)"
proof -
  let ?cur = "ag_current_session ag"
  have st': "st' = st\<lparr>rf_db := delete_empty_sync (rf_agent st) (str_or (Some ?cur) []) (rf_db st)\<rparr>"
    using prune by (simp add: prune_sessions_def)
  have keep: "str_or (Some ?cur) [] = ?cur" by (simp add: str_or_def)
  have sync: "sync_of (rf_db st') (rf_agent st') t =
      (if t \<noteq> ?cur \<and> (\<forall>q. holds st (t, q) = None) then None else sync_of (rf_db st) (rf_agent st) t)" for t
    by (simp add: st' keep sync_of_delete_empty holds_def)
  have same: "holds st' = holds st"
    "rf_agent st' = rf_agent st" "rf_closed st' = rf_closed st" "rf_disk_ok st' = rf_disk_ok st"
    by (auto simp: st' holds_def)
  have ok: "store_ok st'"
    using m by (auto simp: st' store_ok_def mirrored_def intro: inv_intros)
  have acked: "acked st' t = acked st t" and created: "created st' t = created st t"
    if "t = ?cur \<or> (\<exists>q. holds st (t, q) \<noteq> None)" for t
    using sync [of t] that by (auto simp: acked_def created_def joined_acked_def joined_created_def st')
  have "readable validate st' k = readable validate st k" for k
  proof (cases "holds st k")
    case None
    then show ?thesis by (simp add: readable_def same)
  next
    case (Some x)
    then have "holds st (fst k, snd k) \<noteq> None" by simp
    then have "acked st' (fst k) = acked st (fst k)" by (intro acked) blast
    then show ?thesis by (simp add: readable_def same)
  qed
  moreover have "\<exists>q. holds st (fst k, q) \<noteq> None" if "k \<in> set (dict_keys (ag_retained ag))" for k
  proof -
    have "readable validate st k \<noteq> None"
      using m that by (metis dict_get_None_iff mirrored_def)
    then have "holds st (fst k, snd k) \<noteq> None"
      by (cases "holds st k") (auto simp: readable_def split: if_splits)
    then show ?thesis by blast
  qed
  ultimately have "mirrored validate (ag\<lparr>ag_store := Some st'\<rparr>) st'"
    using m ok same created by (simp add: mirrored_def fun_eq_iff)
  moreover have "session_known (ag\<lparr>ag_store := Some st'\<rparr>) st'"
    using known sync [of ?cur] created [of ?cur] by (simp add: session_known_def)
  ultimately show ?thesis using acked by blast
qed

lemma journal_ack_mirrored:
  fixes disk :: "string \<Rightarrow> database option" and s :: session_id and p :: int
  assumes m: "mirrored validate ag st" and known: "session_known ag st"
  defines "ag' \<equiv> journal_ack disk validate s p ag"
  shows "\<exists>st'. mirrored validate ag' st' \<and> session_known ag' st' \<and>
    acked st' (ag_current_session ag) \<le>
      (if s = ag_current_session ag then max (acked st (ag_current_session ag)) p
       else acked st (ag_current_session ag)) \<and>
    ag_current_session ag' = ag_current_session ag"
proof -
  have store: "ag_store (drop_covered s p ag) = Some st" and disk: "\<not> rf_closed st" "rf_disk_ok st"
    using m by (simp_all add: mirrored_def drop_covered_def)
  define st1 where "st1 = projr (ack_frames st s p)"
  have ack: "ack_frames st s p = Inr st1"
    using disk by (simp add: st1_def ack_frames_def transaction_def)
  define ag1 where "ag1 = (drop_covered s p ag)\<lparr>ag_store := Some st1\<rparr>"
  have m1: "mirrored validate ag1 st1" "session_known ag1 st1"
    using ack_mirrored [OF m known ack] by (simp_all add: ag1_def)
  have cur: "ag_current_session ag1 = ag_current_session ag"
    by (simp add: ag1_def drop_covered_def)
  have le: "acked st1 (ag_current_session ag) \<le>
      (if s = ag_current_session ag then max (acked st (ag_current_session ag)) p
       else acked st (ag_current_session ag))"
    using acked_ack(1) [OF ack] by auto
  define st2 where "st2 = projr (prune_sessions st1 (Some (ag_current_session ag1)))"
  have prune: "prune_sessions st1 (Some (ag_current_session ag1)) = Inr st2"
    using m1 by (simp add: st2_def prune_sessions_def transaction_def mirrored_def)
  have ag': "ag' = ag1 \<or> ag' = ag1\<lparr>ag_store := Some st2\<rparr>"
    using store ack prune by (auto simp: ag'_def journal_ack_def ag1_def drop_covered_def Let_def)
  then show ?thesis
  proof
    assume "ag' = ag1"
    then show ?thesis using m1 cur le by (intro exI [of _ st1]) simp
  next
    assume "ag' = ag1\<lparr>ag_store := Some st2\<rparr>"
    then show ?thesis using prune_mirrored [OF m1 prune] cur le by (intro exI [of _ st2]) simp
  qed
qed

section \<open>Runs of the agent\<close>

text \<open>
  What happens to the journal while a process runs: the agent reports (a frame gets the
  next position of the current session) or the server acknowledges.
\<close>

datatype report = Emit frame int timestamp | Ack session_id int

fun do_report ::
    "(string \<Rightarrow> database option) \<Rightarrow> (string \<Rightarrow> frame option) \<Rightarrow> (frame \<Rightarrow> string)
      \<Rightarrow> report \<Rightarrow> agent \<Rightarrow> agent" where
  "do_report disk validate dump (Emit f p now) ag =
     retain_emitted disk validate dump now f
       (Some \<lparr>je_session_id = ag_current_session ag, je_pos = p\<rparr>) ag"
| "do_report disk validate dump (Ack s p) ag = journal_ack disk validate s p ag"

text \<open>
  The journal's discipline, as \<open>docs/journal.md\<close> states it: positions of the session
  increase, and the server acknowledges only what it received, so a new position lies
  above every acknowledged one (\<open>hi\<close>). A dumped frame validates to itself.
\<close>

fun wf_reports ::
    "(string \<Rightarrow> frame option) \<Rightarrow> (frame \<Rightarrow> string) \<Rightarrow> session_id \<Rightarrow> int \<Rightarrow> report list \<Rightarrow> bool" where
  "wf_reports validate dump cur hi [] \<longleftrightarrow> True"
| "wf_reports validate dump cur hi (Emit f p now # rs) \<longleftrightarrow>
     hi < p \<and> validate (dump f) = Some f \<and> wf_reports validate dump cur hi rs"
| "wf_reports validate dump cur hi (Ack s p # rs) \<longleftrightarrow>
     wf_reports validate dump cur (if s = cur then max hi p else hi) rs"

lemma know_session_frame:
  assumes "know_session disk validate now s ag = (ag', b)"
  shows "ag_name ag' = ag_name ag \<and> ag_journal_path ag' = ag_journal_path ag \<and>
    ag_current_session ag' = ag_current_session ag"
  using assms by (auto simp: know_session_def Let_def split: if_splits sum.splits)

lemma retain_emitted_frame:
  "ag_name (retain_emitted disk validate dump now f e ag) = ag_name ag \<and>
   ag_journal_path (retain_emitted disk validate dump now f e ag) = ag_journal_path ag \<and>
   ag_current_session (retain_emitted disk validate dump now f e ag) = ag_current_session ag"
proof (cases e)
  case (Some e)
  let ?ag1 = "ag\<lparr>ag_retained := dict_put (ag_retained ag) (je_session_id e, je_pos e) f\<rparr>"
  obtain agk b where "know_session disk validate now (je_session_id e) ?ag1 = (agk, b)" by fastforce
  with know_session_frame [OF this] Some show ?thesis
    by (auto simp: retain_emitted_def Let_def split: sum.splits bool.splits)
qed (simp add: retain_emitted_def)

lemma do_report_frame [simp]:
  "ag_name (do_report disk validate dump r ag) = ag_name ag"
  "ag_journal_path (do_report disk validate dump r ag) = ag_journal_path ag"
  "ag_current_session (do_report disk validate dump r ag) = ag_current_session ag"
  using retain_emitted_frame
  by (cases r; auto simp: journal_ack_def drop_covered_def Let_def split: sum.splits)+

lemma do_reports_frame [simp]:
  "ag_name (fold (do_report disk validate dump) rs ag) = ag_name ag"
  "ag_journal_path (fold (do_report disk validate dump) rs ag) = ag_journal_path ag"
  "ag_current_session (fold (do_report disk validate dump) rs ag) = ag_current_session ag"
  by (induction rs arbitrary: ag) simp_all

definition new_session :: "database \<Rightarrow> string \<Rightarrow> session_id \<Rightarrow> bool" where
  "new_session db name s \<longleftrightarrow> sync_of db name s = None \<and> (\<forall>p. held name db (s, p) = None)"

lemma fold_take_stored_sessions:
  "s \<in> set (dict_keys (ag_session_created (fold (take_stored validate) fs ag))) \<Longrightarrow>
     s \<in> set (dict_keys (ag_session_created ag)) \<or> s \<in> sf_session_id ` set fs"
proof (induction fs arbitrary: ag)
  case (Cons f fs)
  then have "s \<in> set (dict_keys (ag_session_created (take_stored validate f ag))) \<or> s \<in> sf_session_id ` set fs"
    by simp
  then show ?case
    by (auto simp: take_stored_def dict_setdefault_def AList.dom_update split: option.splits)
qed simp

lemma open_store_sessions:
  assumes "unopened ag" and "\<not> in_memory (ag_journal_path ag)"
    and "disk (the (ag_journal_path ag)) = Some db" and "db_ok db"
    and "s \<in> set (dict_keys (ag_session_created (open_store disk validate ag)))"
  shows "\<exists>p. held (agent_name ag) db (s, p) \<noteq> None"
proof -
  define ag0 where "ag0 = ag\<lparr>ag_store := Some (connect_store disk ag)\<rparr>"
  have "open_store disk validate ag =
      fold (take_stored validate) (select_backlog (agent_name ag) db) ag0"
    using assms(1-3)
    by (simp add: open_store_def unopened_def connect_store_def open_frames_def load_frames_def Let_def ag0_def)
  moreover have "ag_session_created ag0 = []" using assms(1) by (simp add: ag0_def unopened_def)
  ultimately have "s \<in> sf_session_id ` set (select_backlog (agent_name ag) db)"
    using fold_take_stored_sessions [of s validate "select_backlog (agent_name ag) db" ag0] assms(5) by simp
  then show ?thesis by (auto simp: select_backlog_iff [OF assms(4)]) blast
qed

lemma astart_mirrored:
  assumes "unopened ag" and "\<not> in_memory (ag_journal_path ag)"
    and "disk (the (ag_journal_path ag)) = Some db" and "db_ok db" and "new_session db (agent_name ag) session"
    and "astart disk validate now session sdisk declared hash_of ag = Some ag'"
  shows "\<exists>st. mirrored validate ag' st \<and> session_known ag' st \<and> acked st session = 0 \<and>
    ag_current_session ag' = session \<and> ag_name ag' = ag_name ag \<and> ag_journal_path ag' = ag_journal_path ag"
proof -
  let ?ag = "ag\<lparr>ag_current_session := session\<rparr>"
  have pre: "unopened ?ag" "\<not> in_memory (ag_journal_path ?ag)" "disk (the (ag_journal_path ?ag)) = Some db"
    using assms(1-3) by (simp_all add: unopened_def)
  obtain st where st: "mirrored validate (open_store disk validate ?ag) st" "rf_db st = db"
    using open_store_mirrored [where disk = disk, OF pre assms(4)] by blast
  have agent: "rf_agent st = agent_name ag" using st(1) by (simp add: mirrored_def)
  have new: "session \<notin> set (dict_keys (ag_session_created (open_store disk validate ?ag)))"
  proof
    assume "session \<in> set (dict_keys (ag_session_created (open_store disk validate ?ag)))"
    from open_store_sessions [where disk = disk, OF pre assms(4) this] assms(5)
    show False by (simp add: new_session_def)
  qed
  have "acked st session = 0"
    using assms(5) st(2) agent by (simp add: acked_def joined_acked_def new_session_def)
  with know_session_mirrored [OF st(1) new, of disk now] obtain ag1 st1 where
    know: "know_session disk validate now session (open_store disk validate ?ag) = (ag1, False)"
    and m: "mirrored validate ag1 st1" and cur: "ag_current_session ag1 = session"
    and name: "ag_name ag1 = ag_name ag" "ag_journal_path ag1 = ag_journal_path ag"
    and rest: "acked st1 session = 0" "sync_of (rf_db st1) (rf_agent st1) session \<noteq> None"
      "dict_get (ag_session_created ag1) session = Some (created st1 session)"
    by auto
  have ag': "ag' = open_state_store sdisk declared hash_of ag1"
    using assms(6) know by (simp add: astart_def)
  have frame: "ag_retained ag' = ag_retained ag1" "ag_session_created ag' = ag_session_created ag1"
    "ag_store ag' = ag_store ag1" "ag_name ag' = ag_name ag1" "ag_current_session ag' = ag_current_session ag1"
    "ag_journal_path ag' = ag_journal_path ag1"
    unfolding ag' by (auto simp: open_state_store_def Let_def split: sum.splits)
  have "mirrored validate ag' st1" by (rule mirrored_frame [OF m]) (simp_all add: frame)
  moreover have "session_known ag' st1" using rest cur by (simp add: session_known_def frame)
  ultimately show ?thesis using rest cur name by (intro exI [of _ st1]) (simp add: frame)
qed

lemma do_reports_mirrored:
  assumes "mirrored validate ag st" and "session_known ag st"
    and "acked st (ag_current_session ag) \<le> hi"
    and "wf_reports validate dump (ag_current_session ag) hi rs"
  shows "\<exists>st'. mirrored validate (fold (do_report disk validate dump) rs ag) st'"
  using assms
proof (induction rs arbitrary: ag st hi)
  case Nil
  then show ?case by auto
next
  case (Cons r rs)
  show ?case
  proof (cases r)
    case (Emit f p now)
    then have "acked st (ag_current_session ag) < p" "validate (dump f) = Some f"
      and wf: "wf_reports validate dump (ag_current_session ag) hi rs"
      using Cons.prems by auto
    from retain_emitted_mirrored [where dump = dump and disk = disk and now = now, OF Cons.prems(1,2) this(1,2)]
    obtain st' where
      "mirrored validate (do_report disk validate dump r ag) st'"
      "session_known (do_report disk validate dump r ag) st'" "acked st' = acked st"
      and cur: "ag_current_session (do_report disk validate dump r ag) = ag_current_session ag"
      using Emit by auto
    from Cons.IH [OF this(1,2), of hi] Cons.prems(3) wf this(3) cur show ?thesis by simp
  next
    case (Ack s p)
    let ?hi = "if s = ag_current_session ag then max hi p else hi"
    from journal_ack_mirrored [where disk = disk and s = s and p = p, OF Cons.prems(1,2)] obtain st' where
      st': "mirrored validate (do_report disk validate dump r ag) st'"
      "session_known (do_report disk validate dump r ag) st'"
      and le: "acked st' (ag_current_session ag) \<le>
        (if s = ag_current_session ag then max (acked st (ag_current_session ag)) p
         else acked st (ag_current_session ag))"
      and cur: "ag_current_session (do_report disk validate dump r ag) = ag_current_session ag"
      using Ack by auto
    have "acked st' (ag_current_session ag) \<le> ?hi"
      using le Cons.prems(3) by (auto split: if_splits)
    with Cons.IH [OF st', of ?hi] Cons.prems(4) cur Ack show ?thesis by simp
  qed
qed

text \<open>Two agents over the same rows resend the same frames in the same order.\<close>

lemma mirrored_same_resend:
  assumes "mirrored validate a sa" and "mirrored validate b sb"
    and "rf_db sa = rf_db sb" and "rf_agent sa = rf_agent sb"
  shows "aresend_retained a = aresend_retained b"
proof (rule aresend_cong)
  have same: "readable validate sa = readable validate sb" "created sa = created sb"
    using assms(3,4)
    by (auto simp: readable_def created_def fun_eq_iff acked_def holds_def)
  then show get: "dict_get (ag_retained a) = dict_get (ag_retained b)"
    using assms(1,2) by (simp add: mirrored_def)
  fix k
  assume k: "k \<in> set (dict_keys (ag_retained b))"
  with get have "k \<in> set (dict_keys (ag_retained a))" by (metis dict_get_None_iff)
  with k show "created_or_0 a (fst k) = created_or_0 b (fst k)"
    using mirrored_key_created [OF assms(1)] mirrored_key_created [OF assms(2)] same(2) by metis
qed (use assms(1,2) in \<open>simp_all add: mirrored_def\<close>)

lemma restart_mirrors:
  assumes "\<not> in_memory path" and "disk (the path) = Some db" and "db_ok db"
    and "new_session db name session"
    and "astart disk validate now session sdisk declared hash_of (fresh_agent name path) = Some ag"
    and "wf_reports validate dump session 0 rs"
    and "disk' (the path) = Some (rf_db (the (ag_store (fold (do_report disk validate dump) rs ag))))"
  shows "\<exists>sn sd. mirrored validate (open_store disk' validate (fresh_agent name path)) sn \<and>
    mirrored validate (fold (do_report disk validate dump) rs ag) sd \<and>
    rf_db sn = rf_db sd \<and> rf_agent sn = rf_agent sd"
proof -
  let ?fresh = "fresh_agent name path" and ?dead = "fold (do_report disk validate dump) rs ag"
  have fresh: "unopened ?fresh" "ag_journal_path ?fresh = path" "agent_name ?fresh = name"
    by (simp_all add: unopened_def fresh_agent_def str_or_def)
  obtain st where st: "mirrored validate ag st" "session_known ag st" "acked st session = 0"
    "ag_current_session ag = session" "ag_name ag = Some name"
    using astart_mirrored [where ag = ?fresh and disk = disk and db = db] assms(1-5) fresh
    by (simp add: fresh_agent_def) metis
  then obtain sd where sd: "mirrored validate ?dead sd"
    using do_reports_mirrored [where hi = 0] assms(6) by (metis order_refl)
  then have db': "disk' (the path) = Some (rf_db sd)" and ok': "db_ok (rf_db sd)"
    using assms(7) by (simp_all add: mirrored_def store_ok_def)
  obtain sn where sn: "mirrored validate (open_store disk' validate ?fresh) sn" "rf_db sn = rf_db sd"
    using open_store_mirrored [where ag = ?fresh and disk = disk' and db = "rf_db sd"]
      fresh assms(1) db' ok' by metis
  have "rf_agent sn = rf_agent sd"
    using sn sd st(5) fresh(3) by (simp add: mirrored_def str_or_def)
  then show ?thesis using sn sd by blast
qed

text \<open>
  C1. Crash recovery. Start a process on any readable journal file under a new session, let
  it report and be acknowledged in any interleaving, and kill it at any point: a process
  started afterwards on the file it leaves resends exactly the frames the dead one would
  have resent, in the same order (earlier sessions' first). No frame is lost by the
  restart, none comes back after its acknowledgement, none is reordered.
\<close>

theorem restart_resends_the_same:
  assumes "\<not> in_memory path" and "disk (the path) = Some db" and "db_ok db"
    and "new_session db name session"
    and "astart disk validate now session sdisk declared hash_of (fresh_agent name path) = Some ag"
    and "wf_reports validate dump session 0 rs"
    and "disk' (the path) = Some (rf_db (the (ag_store (fold (do_report disk validate dump) rs ag))))"
  shows "aresend_retained (open_store disk' validate (fresh_agent name path)) =
    aresend_retained (fold (do_report disk validate dump) rs ag)"
  using restart_mirrors [where disk = disk and disk' = disk', OF assms] mirrored_same_resend by blast

text \<open>A journal of the demo file: two frames are sent, one of them and an old one acknowledged.\<close>

definition demo_validate :: "string \<Rightarrow> frame option" where
  "demo_validate t = Some \<lparr>fr_body = Other_Frame t, fr_task = None, fr_task_step = None\<rparr>"

definition demo_dump :: "frame \<Rightarrow> string" where
  "demo_dump f = (case fr_body f of Other_Frame t \<Rightarrow> t | _ \<Rightarrow> [])"

definition demo_frame :: "string \<Rightarrow> frame" where
  "demo_frame t = \<lparr>fr_body = Other_Frame t, fr_task = None, fr_task_step = None\<rparr>"

definition demo_reports :: "report list" where
  "demo_reports = [Emit (demo_frame ''u'') 1 40, Emit (demo_frame ''v'') 2 41, Ack ''s3'' 1, Ack ''s1'' 3]"

lemma demo_codec: "demo_validate (demo_dump (demo_frame t)) = Some (demo_frame t)"
  by (simp add: demo_validate_def demo_dump_def demo_frame_def)

lemma demo_db_ok: "db_ok demo_db"
  using demo_store_ok by (simp add: store_ok_def demo_store_def)

lemma demo_new_session: "new_session demo_db ''a'' ''s3''"
  by (simp add: new_session_def sync_of_def held_def demo_db_def)

definition demo_agent :: "(string \<Rightarrow> frame option) \<Rightarrow> agent option" where
  "demo_agent validate = astart (\<lambda>_. Some demo_db) validate 30 ''s3'' (\<lambda>_. None) [] id
     (fresh_agent ''a'' (Some ''j.db''))"

lemma demo_agent_Some: "demo_agent validate = Some (the (demo_agent validate))"
proof -
  let ?ag = "(fresh_agent ''a'' (Some ''j.db''))\<lparr>ag_current_session := ''s3''\<rparr>"
  have pre: "unopened ?ag" "\<not> in_memory (ag_journal_path ?ag)"
    "(\<lambda>_. Some demo_db) (the (ag_journal_path ?ag)) = Some demo_db"
    by (simp_all add: unopened_def fresh_agent_def in_memory_def)
  obtain st where "mirrored validate (open_store (\<lambda>_. Some demo_db) validate ?ag) st"
    using open_store_mirrored [where disk = "\<lambda>_. Some demo_db", OF pre demo_db_ok] by blast
  moreover have "''s3'' \<notin> set (dict_keys (ag_session_created (open_store (\<lambda>_. Some demo_db) validate ?ag)))"
    using open_store_sessions [where disk = "\<lambda>_. Some demo_db" and s = "''s3''", OF pre demo_db_ok]
      demo_new_session by (auto simp: new_session_def fresh_agent_def str_or_def)
  ultimately obtain ag1 where
    "know_session (\<lambda>_. Some demo_db) validate 30 ''s3''
       (open_store (\<lambda>_. Some demo_db) validate ?ag) = (ag1, False)"
    using know_session_mirrored by blast
  then show ?thesis by (simp add: demo_agent_def astart_def)
qed

theorem restart_resends_the_same_witness:
  "aresend_retained (open_store
       (\<lambda>_. Some (rf_db (the (ag_store (fold (do_report (\<lambda>_. Some demo_db) demo_validate demo_dump)
         demo_reports (the (demo_agent demo_validate))))))) demo_validate (fresh_agent ''a'' (Some ''j.db''))) =
   aresend_retained (fold (do_report (\<lambda>_. Some demo_db) demo_validate demo_dump)
     demo_reports (the (demo_agent demo_validate)))"
proof (rule restart_resends_the_same [where db = demo_db and session = "''s3''"])
  show "\<not> in_memory (Some ''j.db'')" by (simp add: in_memory_def)
  show "db_ok demo_db" by (rule demo_db_ok)
  show "new_session demo_db ''a'' ''s3''" by (rule demo_new_session)
  show "wf_reports demo_validate demo_dump ''s3'' 0 demo_reports"
    by (simp add: demo_reports_def demo_codec)
  show "astart (\<lambda>_. Some demo_db) demo_validate 30 ''s3'' (\<lambda>_. None) [] id
      (fresh_agent ''a'' (Some ''j.db'')) = Some (the (demo_agent demo_validate))"
    using demo_agent_Some [of demo_validate] by (simp add: demo_agent_def)
qed simp_all

section \<open>What is resent: the log, minus what was acknowledged\<close>

text \<open>
  The abstract journal of one process: the frames it sent, in order; an acknowledgement
  of its session drops a prefix of the positions.
\<close>

fun log_report :: "session_id \<Rightarrow> report \<Rightarrow> (int \<times> frame) list \<Rightarrow> (int \<times> frame) list" where
  "log_report cur (Emit f p now) lg = lg @ [(p, f)]"
| "log_report cur (Ack s p) lg = (if s = cur then filter (\<lambda>e. p < fst e) lg else lg)"

fun increasing_from :: "int \<Rightarrow> report list \<Rightarrow> bool" where
  "increasing_from hi [] \<longleftrightarrow> True"
| "increasing_from hi (Emit f p now # rs) \<longleftrightarrow> hi < p \<and> increasing_from p rs"
| "increasing_from hi (Ack s p # rs) \<longleftrightarrow> increasing_from hi rs"

definition follows_log :: "session_id \<Rightarrow> agent \<Rightarrow> int \<Rightarrow> (int \<times> frame) list \<Rightarrow> bool" where
  "follows_log cur ag hi lg \<longleftrightarrow>
     ag_store ag \<noteq> None \<and> ag_current_session ag = cur \<and>
     ag_retained ag = map (\<lambda>(p, f). ((cur, p), f)) lg \<and>
     sorted_wrt (<) (map fst lg) \<and> (\<forall>e \<in> set lg. fst e \<le> hi)"

lemma dict_put_log:
  fixes p :: int
  shows "\<forall>e \<in> set lg. fst e < p \<Longrightarrow>
     dict_put (map (\<lambda>(p, f). ((cur, p), f)) lg) (cur, p) f = map (\<lambda>(p, f). ((cur, p), f)) (lg @ [(p, f)])"
  by (induction lg) auto

lemma know_session_retained:
  "ag_store ag \<noteq> None \<Longrightarrow> know_session disk validate now s ag = (ag', b) \<Longrightarrow>
     ag_retained ag' = ag_retained ag \<and> ag_store ag' \<noteq> None"
  by (auto simp: know_session_def Let_def split: if_splits sum.splits)

lemma follows_log_step:
  assumes "follows_log cur ag hi lg" and "increasing_from hi (r # rs)"
  shows "follows_log cur (do_report disk validate dump r ag)
      (case r of Emit f p now \<Rightarrow> p | Ack s p \<Rightarrow> hi) (log_report cur r lg)"
proof (cases r)
  case (Emit f p now)
  have lg: "ag_store ag \<noteq> None" "ag_current_session ag = cur"
    "ag_retained ag = map (\<lambda>(p, f). ((cur, p), f)) lg"
    "sorted_wrt (<) (map fst lg)" and hi: "\<forall>e \<in> set lg. fst e \<le> hi" and p: "hi < p"
    using assms Emit by (auto simp: follows_log_def)
  have below: "\<forall>e \<in> set lg. fst e < p" using hi p by fastforce
  let ?ag1 = "ag\<lparr>ag_retained := dict_put (ag_retained ag) (cur, p) f\<rparr>"
  obtain agk b where k: "know_session disk validate now cur ?ag1 = (agk, b)" by fastforce
  then have agk: "ag_retained agk = dict_put (ag_retained ag) (cur, p) f" "ag_store agk \<noteq> None"
    using know_session_retained [OF _ k] lg(1) by simp_all
  then obtain st where st: "ag_store agk = Some st" by blast
  have "ag_retained (do_report disk validate dump r ag) = dict_put (ag_retained ag) (cur, p) f \<and>
      ag_store (do_report disk validate dump r ag) \<noteq> None"
    using Emit lg(2) k agk st
    by (auto simp: retain_emitted_def Let_def split: sum.splits bool.splits)
  then show ?thesis
    using Emit lg below dict_put_log [OF below, of cur f]
    by (auto simp: follows_log_def sorted_wrt_append retain_emitted_frame)
next
  case (Ack s p)
  then have "ag_retained (do_report disk validate dump r ag) =
      dict_drop (covered s p) (map (\<lambda>(p, f). ((cur, p), f)) lg) \<and>
      ag_store (do_report disk validate dump r ag) \<noteq> None"
    using assms(1)
    by (auto simp: follows_log_def journal_ack_def drop_covered_def Let_def split: sum.splits)
  moreover have "dict_drop (covered s p) (map (\<lambda>(p, f). ((cur, p), f)) lg) =
      map (\<lambda>(p, f). ((cur, p), f)) (log_report cur r lg)"
    using Ack by (induction lg) (auto simp: dict_drop_def covered_def)
  moreover have "sorted_wrt (<) (map fst (log_report cur r lg))"
    using Ack assms(1) by (auto simp: follows_log_def sorted_wrt_map sorted_wrt_filter)
  ultimately show ?thesis
    using Ack assms(1) by (auto simp: follows_log_def journal_ack_def drop_covered_def Let_def
        split: sum.splits)
qed


lemma follows_log_reports:
  assumes "follows_log cur ag hi lg" and "increasing_from hi rs"
  shows "\<exists>hi'. follows_log cur (fold (do_report disk validate dump) rs ag) hi' (fold (log_report cur) rs lg)"
  using assms
proof (induction rs arbitrary: ag hi lg)
  case (Cons r rs)
  have "increasing_from (case r of Emit f p now \<Rightarrow> p | Ack s p \<Rightarrow> hi) rs"
    using Cons.prems(2) by (cases r) simp_all
  then show ?case
    using Cons.IH [OF follows_log_step [OF Cons.prems]] by simp
qed auto

lemma follows_log_resend:
  assumes "follows_log cur ag hi lg"
  shows "aresend_retained ag = map snd lg"
proof -
  have ret: "ag_retained ag = map (\<lambda>(p, f). ((cur, p), f)) lg" and sorted: "sorted_wrt (<) (map fst lg)"
    using assms by (simp_all add: follows_log_def)
  have keys: "dict_keys (ag_retained ag) = map (Pair cur) (map fst lg)"
    by (simp add: ret case_prod_beta')
  have ok: "dict_ok (ag_retained ag)"
    using sorted by (simp add: dict_ok_def keys distinct_map strict_sorted_iff inj_on_def)
  have order: "resend_order ag = map (Pair cur) (map fst lg)"
    by (rule resend_order_unique [OF ok]) (use sorted keys in \<open>simp_all add: sorted_wrt_map less_le_not_le less_eq_resend_key_def\<close>)
  have "the (dict_get (ag_retained ag) (cur, fst e)) = snd e" if "e \<in> set lg" for e
  proof -
    have "((cur, fst e), snd e) \<in> set (ag_retained ag)"
      using that by (force simp: ret)
    then show ?thesis using ok by (simp add: dict_ok_def)
  qed
  then show ?thesis
    by (simp add: aresend_retained_eq retained_list_def order)
qed

text \<open>
  C5. The retained frames are a log, whatever the disk does. From an agent that holds
  nothing, let it report at increasing positions and be acknowledged in any interleaving:
  what the resend sends is the abstract journal, the reported frames in order without
  the prefix the core acknowledged for this session. It needs no law of the disk, the
  codec or the clock: a journal that cannot be opened, read or written loses nothing a
  living process would resend.
\<close>

theorem resend_is_the_log:
  assumes "ag_store ag \<noteq> None" and "ag_retained ag = []" and "increasing_from 0 rs"
  shows "aresend_retained (fold (do_report disk validate dump) rs ag) =
    map snd (fold (log_report (ag_current_session ag)) rs [])"
proof -
  have "follows_log (ag_current_session ag) ag 0 []"
    using assms by (simp add: follows_log_def)
  then show ?thesis
    using follows_log_reports [OF _ assms(3)] follows_log_resend by metis
qed

lemma open_store_store: "ag_store (open_store disk validate ag) \<noteq> None"
  by (auto simp: open_store_def Let_def split: option.splits)

text \<open>An agent whose journal file cannot be opened: the store falls back to memory.\<close>

theorem resend_is_the_log_witness:
  "aresend_retained (fold (do_report (\<lambda>_. None) (\<lambda>_. None) demo_dump)
     [Emit (demo_frame ''u'') 1 40, Emit (demo_frame ''v'') 2 41, Ack [] 1]
     (open_store (\<lambda>_. None) (\<lambda>_. None) (fresh_agent ''a'' (Some ''j.db'')))) = [demo_frame ''v'']"
proof -
  have held: "ag_retained (open_store (\<lambda>_. None) (\<lambda>_. None) (fresh_agent ''a'' (Some ''j.db''))) = []"
    "ag_current_session (fresh_agent ''a'' (Some ''j.db'')) = []"
    by code_simp+
  show ?thesis
    by (subst resend_is_the_log) (simp_all add: open_store_store held)
qed


section \<open>A resumed run replays what never reached the server\<close>

lemma in_map_filter:
  "y \<in> set (List.map_filter f xs) \<longleftrightarrow> (\<exists>x \<in> set xs. f x = Some y)"
  by (force simp: List.map_filter_def image_iff)

lemma fold_max_start: "(m::int) \<le> fold max ns m"
  by (induction ns arbitrary: m) (auto intro: order_trans [OF max.cobounded2])

lemma fold_max_in: "(n::int) \<in> set ns \<Longrightarrow> n \<le> fold max ns m"
  by (induction ns arbitrary: m) (auto intro: order_trans [OF max.cobounded1 fold_max_start])

lemma fold_max_cases: "fold max ns (m::int) = m \<or> fold max ns m \<in> set ns"
proof (induction ns arbitrary: m)
  case (Cons n ns)
  show ?case using Cons.IH [of "max n m"] by (auto simp: max_def split: if_splits)
qed simp

lemma complete_resume_Some:
  assumes "complete_resume disk validate ag0 m = Some (ag, m')" and "as_resume m = Some j"
  shows "ag = open_store disk validate ag0" and
    "\<exists>j'. as_resume m' = Some j' \<and>
      rj_effects j' = rj_effects j @ held_effects ag (as_task m) (map re_key (rj_effects j)) \<and>
      rj_last_step j' = fold max (held_steps ag (as_task m)) (rj_last_step j)"
  using assms by (auto simp: complete_resume_def Let_def split: if_splits)

lemma in_held_effects:
  "e \<in> set (held_effects ag t known) \<longleftrightarrow>
     (\<exists>f \<in> set (dict_values (ag_retained ag)). fr_task f = Some t \<and>
        fr_body f = Effect_Frame (Some (re_key e)) (re_effect e) (re_value e) \<and>
        re_key e \<noteq> [] \<and> re_key e \<notin> set known)"
  unfolding held_effects_def in_map_filter
proof (rule bex_cong [OF refl])
  fix f
  show "((case fr_body f of
         Effect_Frame (Some key) effect val \<Rightarrow>
           if fr_task f = Some t \<and> key \<noteq> [] \<and> key \<notin> set known
           then Some \<lparr>re_key = key, re_effect = effect, re_value = val\<rparr> else None
       | _ \<Rightarrow> None) = Some e) \<longleftrightarrow>
     fr_task f = Some t \<and> fr_body f = Effect_Frame (Some (re_key e)) (re_effect e) (re_value e) \<and>
        re_key e \<noteq> [] \<and> re_key e \<notin> set known"
    by (cases e; cases "fr_body f") (auto split: option.splits)
qed

lemma in_held_steps:
  "n \<in> set (held_steps ag t) \<longleftrightarrow>
     (\<exists>f \<in> set (dict_values (ag_retained ag)). fr_task f = Some t \<and> fr_task_step f = Some n \<and> n \<noteq> 0)"
  by (auto simp: held_steps_def in_map_filter split: option.splits if_splits)

lemma set_aresend_retained:
  "dict_ok (ag_retained ag) \<Longrightarrow> set (aresend_retained ag) = set (dict_values (ag_retained ag))"
  by (force simp: aresend_retained_eq retained_list_def dict_ok_def image_iff)

text \<open>
  C4. A resumed run replays what the dead one recorded. Kill the process of the crash
  recovery above at any point. When the next process gets a task's Assign with the resume
  journal the server holds, the journal it runs from begins with the server's effects,
  and a further effect is in it exactly when the dead process recorded it for that task,
  under a key the server does not have, in a frame that was still to be resent. Its last
  step is at least the server's and every step in those frames, and is one of them, so no
  step is numbered twice.
\<close>

theorem resume_replays_unsent_effects:
  assumes "\<not> in_memory path" and "disk (the path) = Some db" and "db_ok db"
    and "new_session db name session"
    and "astart disk validate now session sdisk declared hash_of (fresh_agent name path) = Some ag"
    and "wf_reports validate dump session 0 rs"
    and "disk' (the path) = Some (rf_db (the (ag_store (fold (do_report disk validate dump) rs ag))))"
    and "complete_resume disk' validate (fresh_agent name path) m = Some (ag', m')"
    and "as_resume m = Some j"
    and "unsent = aresend_retained (fold (do_report disk validate dump) rs ag)"
  shows "\<exists>j' added. as_resume m' = Some j' \<and> rj_effects j' = rj_effects j @ added \<and>
    (\<forall>e. e \<in> set added \<longleftrightarrow>
       re_key e \<noteq> [] \<and> re_key e \<notin> set (map re_key (rj_effects j)) \<and>
       (\<exists>f \<in> set unsent. fr_task f = Some (as_task m) \<and>
          fr_body f = Effect_Frame (Some (re_key e)) (re_effect e) (re_value e))) \<and>
    rj_last_step j \<le> rj_last_step j' \<and>
    (\<forall>f \<in> set unsent. \<forall>n. fr_task f = Some (as_task m) \<and> fr_task_step f = Some n \<and> n \<noteq> 0
        \<longrightarrow> n \<le> rj_last_step j') \<and>
    (rj_last_step j' = rj_last_step j \<or>
      (\<exists>f \<in> set unsent. fr_task f = Some (as_task m) \<and> fr_task_step f = Some (rj_last_step j')))"
proof -
  let ?next = "open_store disk' validate (fresh_agent name path)"
  obtain sn sd where mirror: "mirrored validate ?next sn"
      "mirrored validate (fold (do_report disk validate dump) rs ag) sd"
      "rf_db sn = rf_db sd" "rf_agent sn = rf_agent sd"
    using restart_mirrors [where disk = disk and disk' = disk', OF assms(1-7)] by blast
  have "set unsent = set (aresend_retained ?next)"
    unfolding assms(10) mirrored_same_resend [OF mirror] ..
  also have "\<dots> = set (dict_values (ag_retained ?next))"
    by (rule set_aresend_retained) (use mirror(1) in \<open>simp add: mirrored_def\<close>)
  finally have unsent: "set (dict_values (ag_retained ?next)) = set unsent" ..
  obtain j' where j': "as_resume m' = Some j'"
      "rj_effects j' = rj_effects j @ held_effects ?next (as_task m) (map re_key (rj_effects j))"
      "rj_last_step j' = fold max (held_steps ?next (as_task m)) (rj_last_step j)"
    using complete_resume_Some [OF assms(8,9)] by blast
  define steps where "steps = held_steps ?next (as_task m)"
  have steps: "n \<in> set steps \<longleftrightarrow>
      (\<exists>f \<in> set unsent. fr_task f = Some (as_task m) \<and> fr_task_step f = Some n \<and> n \<noteq> 0)" for n
    unfolding steps_def in_held_steps unsent ..
  have effects: "e \<in> set (held_effects ?next (as_task m) (map re_key (rj_effects j))) \<longleftrightarrow>
      re_key e \<noteq> [] \<and> re_key e \<notin> set (map re_key (rj_effects j)) \<and>
      (\<exists>f \<in> set unsent. fr_task f = Some (as_task m) \<and>
          fr_body f = Effect_Frame (Some (re_key e)) (re_effect e) (re_value e))" for e
    unfolding in_held_effects unsent by blast
  have step: "rj_last_step j' = fold max steps (rj_last_step j)"
    using j'(3) by (simp only: steps_def)
  have last: "rj_last_step j' = rj_last_step j \<or> rj_last_step j' \<in> set steps"
    unfolding step by (rule fold_max_cases)
  show ?thesis
  proof (intro exI conjI)
    show "as_resume m' = Some j'" "rj_last_step j \<le> rj_last_step j'"
      "rj_effects j' = rj_effects j @ held_effects ?next (as_task m) (map re_key (rj_effects j))"
      by (simp_all only: j' fold_max_start)
    show "\<forall>f \<in> set unsent. \<forall>n. fr_task f = Some (as_task m) \<and> fr_task_step f = Some n \<and> n \<noteq> 0
        \<longrightarrow> n \<le> rj_last_step j'"
      unfolding step using steps fold_max_in by blast
    show "rj_last_step j' = rj_last_step j \<or>
      (\<exists>f \<in> set unsent. fr_task f = Some (as_task m) \<and> fr_task_step f = Some (rj_last_step j'))"
      using last steps by blast
  qed (intro allI effects)
qed

text \<open>
  The demo file's process records an effect of task \<open>t\<close> that never reaches the server;
  the server only knows of \<open>seen\<close>, at step 1.
\<close>

definition demo_effect :: frame where
  "demo_effect = \<lparr>fr_body = Effect_Frame (Some ''clock'') ''now'' ''40'', fr_task = Some ''t'',
     fr_task_step = Some 2\<rparr>"

definition effect_validate :: "string \<Rightarrow> frame option" where
  "effect_validate s = (if s = ''E'' then Some demo_effect else demo_validate s)"

definition effect_dump :: "frame \<Rightarrow> string" where
  "effect_dump f = (if f = demo_effect then ''E'' else demo_dump f)"

definition demo_assign :: assign where
  "demo_assign = \<lparr>as_task = ''t'',
     as_resume = Some \<lparr>rj_effects = [\<lparr>re_key = ''seen'', re_effect = ''now'', re_value = ''1''\<rparr>], rj_last_step = 1\<rparr>\<rparr>"


lemma effect_codec: "effect_validate (effect_dump demo_effect) = Some demo_effect"
  by (simp add: effect_validate_def effect_dump_def)

definition demo_dead :: agent where
  "demo_dead = do_report (\<lambda>_. Some demo_db) effect_validate effect_dump
     (Emit demo_effect 1 40) (the (demo_agent effect_validate))"

lemma demo_dead_fold:
  "demo_dead = fold (do_report (\<lambda>_. Some demo_db) effect_validate effect_dump)
     [Emit demo_effect 1 40] (the (demo_agent effect_validate))"
  by (simp only: demo_dead_def fold_simps)

lemma demo_effect_unsent: "demo_effect \<in> set (aresend_retained demo_dead)"
  unfolding demo_dead_def by code_simp

definition demo_resumed :: "agent \<times> assign" where
  "demo_resumed = the (complete_resume (\<lambda>_. Some (rf_db (the (ag_store demo_dead)))) effect_validate
     (fresh_agent ''a'' (Some ''j.db'')) demo_assign)"

lemma demo_resumed_Some:
  "complete_resume (\<lambda>_. Some (rf_db (the (ag_store demo_dead)))) effect_validate
     (fresh_agent ''a'' (Some ''j.db'')) demo_assign = Some (fst demo_resumed, snd demo_resumed)"
  by (simp add: demo_resumed_def complete_resume_def demo_assign_def Let_def)

theorem resume_replays_unsent_effects_witness:
  "\<exists>j'. as_resume (snd demo_resumed) = Some j' \<and>
     \<lparr>re_key = ''clock'', re_effect = ''now'', re_value = ''40''\<rparr> \<in> set (rj_effects j')"
proof -
  let ?e = "\<lparr>re_key = ''clock'', re_effect = ''now'', re_value = ''40''\<rparr>"
  have path: "\<not> in_memory (Some ''j.db'')" by (simp add: in_memory_def)
  have wf: "wf_reports effect_validate effect_dump ''s3'' 0 [Emit demo_effect 1 40]"
    by (simp add: effect_codec)
  have start: "astart (\<lambda>_. Some demo_db) effect_validate 30 ''s3'' (\<lambda>_. None) [] id
      (fresh_agent ''a'' (Some ''j.db'')) = Some (the (demo_agent effect_validate))"
    using demo_agent_Some [of effect_validate] by (simp add: demo_agent_def)
  have left: "(\<lambda>_. Some (rf_db (the (ag_store demo_dead)))) (the (Some ''j.db'')) =
      Some (rf_db (the (ag_store (fold (do_report (\<lambda>_. Some demo_db) effect_validate effect_dump)
        [Emit demo_effect 1 40] (the (demo_agent effect_validate))))))"
    by (simp only: demo_dead_fold)
  have journal: "as_resume demo_assign = Some (the (as_resume demo_assign))"
    by (simp add: demo_assign_def)
  obtain j' added where j': "as_resume (snd demo_resumed) = Some j'"
      "rj_effects j' = rj_effects (the (as_resume demo_assign)) @ added"
    and added: "\<forall>e. e \<in> set added \<longleftrightarrow> re_key e \<noteq> [] \<and>
       re_key e \<notin> set (map re_key (rj_effects (the (as_resume demo_assign)))) \<and>
       (\<exists>f \<in> set (aresend_retained demo_dead). fr_task f = Some (as_task demo_assign) \<and>
          fr_body f = Effect_Frame (Some (re_key e)) (re_effect e) (re_value e))"
    using resume_replays_unsent_effects [where disk = "\<lambda>_. Some demo_db",
        OF path refl demo_db_ok demo_new_session start wf left demo_resumed_Some journal refl,
        folded demo_dead_fold]
    by (elim exE conjE)
  have "?e \<in> set added"
    unfolding added [rule_format]
  proof (intro conjI bexI [OF _ demo_effect_unsent])
  qed (simp_all add: demo_assign_def demo_effect_def)
  then show ?thesis using j' by auto
qed

end
