(* ===== verification/Agent_States.thy ===== *)
theory Agent_States
  imports Agent_Journal
begin

text \<open>
  What a persisted state's file holds when the agent exits: runs of the persisted-state
  half of \<open>rekuest/agents/agent.py\<close> over the changes of the states, the steps of the flush
  loops between their suspension points, and the clean exit.
\<close>

section \<open>Events\<close>

definition patch_frame :: "string \<Rightarrow> frame" where
  "patch_frame name = \<lparr>fr_body = State_Patch_Frame name, fr_task = None, fr_task_step = None\<rparr>"

definition session_init_frame :: frame where
  "session_init_frame = \<lparr>fr_body = Session_Init_Frame, fr_task = None, fr_task_step = None\<rparr>"

text \<open>
  A change of a state is its new value, the new revision, and the patch the agent then
  reports; the session's start reports every state.
\<close>

datatype state_event =
    Session_Begins
  | Changed string string int
  | Flusher_Begins string
  | Flusher_Wakes string
  | Flusher_Wrote string

fun do_state_event :: "state_event \<Rightarrow> agent \<Rightarrow> agent" where
  "do_state_event Session_Begins ag = note_state_change session_init_frame ag"
| "do_state_event (Changed name v r) ag =
     note_state_change (patch_frame name)
       (ag\<lparr>ag_current_shrunk := (ag_current_shrunk ag)(name := Some v), ag_global_revision := r\<rparr>)"
| "do_state_event (Flusher_Begins name) ag = flusher_begins name ag"
| "do_state_event (Flusher_Wakes name) ag = flusher_wakes name ag"
| "do_state_event (Flusher_Wrote name) ag = flusher_wrote name ag"

section \<open>The file and the agent\<close>

definition disk_value :: "agent \<Rightarrow> string \<Rightarrow> stored_state option" where
  "disk_value ag name = Option.bind (ag_state_store ag) (\<lambda>st. state_value st name)"

definition writable :: "agent \<Rightarrow> bool" where
  "writable ag \<longleftrightarrow> (\<exists>st. ag_state_store ag = Some st \<and> \<not> ps_closed st \<and> ps_disk_ok st)"

definition stored_as :: "agent \<Rightarrow> string \<Rightarrow> string \<Rightarrow> stored_state \<Rightarrow> bool" where
  "stored_as ag name v x \<longleftrightarrow>
     ss_state_name x = name \<and> ss_value x = v \<and>
     ss_schema_hash x = the (dict_get (ag_state_hashes ag) name) \<and>
     ss_session_id x = ag_current_session ag"

definition on_disk :: "agent \<Rightarrow> string \<Rightarrow> string \<Rightarrow> bool" where
  "on_disk ag name v \<longleftrightarrow> (\<exists>x. disk_value ag name = Some x \<and> stored_as ag name v x)"

text \<open>
  A state is in step when its value is on disk, or marked as changed, or in the hands of
  its flush loop's writing thread.
\<close>

definition in_step :: "agent \<Rightarrow> string \<Rightarrow> bool" where
  "in_step ag name \<longleftrightarrow>
     (\<forall>v. ag_current_shrunk ag name = Some v \<longrightarrow>
        name \<in> set (ag_dirty_states ag) \<or>
        (case dict_get (ag_state_flushers ag) name of
           Some (Writing x) \<Rightarrow> stored_as ag name v x
         | _ \<Rightarrow> on_disk ag name v))"

definition flushers_ok :: "agent \<Rightarrow> bool" where
  "flushers_ok ag \<longleftrightarrow>
     dict_ok (ag_state_flushers ag) \<and>
     (\<forall>name x. dict_get (ag_state_flushers ag) name = Some (Writing x) \<longrightarrow> ss_state_name x = name) \<and>
     (\<forall>name. dict_get (ag_state_policies ag) name = Some Synchronous \<longrightarrow>
        dict_get (ag_state_flushers ag) name = None \<and> name \<notin> set (ag_dirty_states ag))"

text \<open>Every persisted state is in step, but those of \<open>A\<close>.\<close>

definition kept_except :: "string set \<Rightarrow> agent \<Rightarrow> bool" where
  "kept_except A ag \<longleftrightarrow> writable ag \<and> flushers_ok ag \<and>
     (\<forall>name \<in> set (dict_keys (ag_state_policies ag)). name \<notin> A \<longrightarrow> in_step ag name)"

lemma write_state_ok:
  assumes "writable ag"
  shows "writable (write_state x ag)"
    and "disk_value (write_state x ag) = (disk_value ag)(ss_state_name x \<mapsto> x)"
    and "\<exists>st. write_state x ag = ag\<lparr>ag_state_store := Some st\<rparr>"
proof -
  obtain st where st: "ag_state_store ag = Some st" "\<not> ps_closed st" "ps_disk_ok st"
    using assms by (auto simp: writable_def)
  then obtain st' where put: "put_state st x = Inr st'"
    by (auto simp: put_state_def)
  then have written: "write_state x ag = ag\<lparr>ag_state_store := Some st'\<rparr>"
    using st by (simp add: write_state_def)
  then show "\<exists>st. write_state x ag = ag\<lparr>ag_state_store := Some st\<rparr>" by blast
  show "writable (write_state x ag)"
    using written st put_state_Inr(2) [OF put] by (simp add: writable_def)
  show "disk_value (write_state x ag) = (disk_value ag)(ss_state_name x \<mapsto> x)"
    using written st put_state_Inr(1) [OF put] by (simp add: disk_value_def fun_eq_iff)
qed

definition taken :: "agent \<Rightarrow> string \<Rightarrow> string \<Rightarrow> stored_state" where
  "taken ag name v =
     \<lparr>ss_state_name = name, ss_schema_hash = the (dict_get (ag_state_hashes ag) name),
      ss_session_id = ag_current_session ag, ss_global_rev = ag_global_revision ag, ss_value = v\<rparr>"

lemma stored_as_taken: "stored_as ag name v (taken ag name v)"
  by (simp add: stored_as_def taken_def)

lemma take_dirty_state_eq:
  "take_dirty_state name ag =
     (ag\<lparr>ag_dirty_states := removeAll name (ag_dirty_states ag)\<rparr>,
      if name \<in> set (ag_dirty_states ag) then map_option (taken ag name) (ag_current_shrunk ag name)
      else None)"
  by (auto simp: take_dirty_state_def taken_def map_option_case split: option.split)


lemma flush_state_ok:
  assumes "writable ag"
  shows "writable (flush_state name ag)"
    and "\<exists>st. flush_state name ag = ag\<lparr>ag_dirty_states := removeAll name (ag_dirty_states ag), ag_state_store := st\<rparr>"
    and "disk_value (flush_state name ag) =
      (if name \<in> set (ag_dirty_states ag) \<and> ag_current_shrunk ag name \<noteq> None
       then (disk_value ag)(name \<mapsto> taken ag name (the (ag_current_shrunk ag name))) else disk_value ag)"
proof -
  let ?ag = "ag\<lparr>ag_dirty_states := removeAll name (ag_dirty_states ag)\<rparr>"
  have w: "writable ?ag" using assms by (simp add: writable_def)
  have d: "disk_value ?ag = disk_value ag" by (simp add: disk_value_def fun_eq_iff)
  have eq: "flush_state name ag =
      (if name \<in> set (ag_dirty_states ag) \<and> ag_current_shrunk ag name \<noteq> None
       then write_state (taken ag name (the (ag_current_shrunk ag name))) ?ag else ?ag)"
    by (auto simp: flush_state_def take_dirty_state_eq)
  show "writable (flush_state name ag)"
    using w write_state_ok(1) [OF w] by (simp add: eq)
  show "\<exists>st. flush_state name ag = ag\<lparr>ag_dirty_states := removeAll name (ag_dirty_states ag), ag_state_store := st\<rparr>"
  proof (cases "name \<in> set (ag_dirty_states ag) \<and> ag_current_shrunk ag name \<noteq> None")
    case True
    then show ?thesis
      using write_state_ok(3) [OF w, of "taken ag name (the (ag_current_shrunk ag name))"] by (auto simp: eq)
  next
    case False
    then have "flush_state name ag = ag\<lparr>ag_dirty_states := removeAll name (ag_dirty_states ag),
        ag_state_store := ag_state_store ag\<rparr>"
      by (auto simp: eq)
    then show ?thesis by blast
  qed
  show "disk_value (flush_state name ag) =
      (if name \<in> set (ag_dirty_states ag) \<and> ag_current_shrunk ag name \<noteq> None
       then (disk_value ag)(name \<mapsto> taken ag name (the (ag_current_shrunk ag name))) else disk_value ag)"
    using write_state_ok(2) [OF w] d by (auto simp: eq taken_def)
qed

lemma in_step_flushed:
  assumes "writable ag" and "in_step ag name" and "ag_current_shrunk ag name = Some v"
    and "\<And>x. dict_get (ag_state_flushers ag) name \<noteq> Some (Writing x)"
  shows "on_disk (flush_state name ag) name v"
proof -
  obtain st where st: "flush_state name ag =
      ag\<lparr>ag_dirty_states := removeAll name (ag_dirty_states ag), ag_state_store := st\<rparr>"
    using flush_state_ok(2) [OF assms(1)] by blast
  have stored: "stored_as (flush_state name ag) = stored_as ag"
    unfolding st by (simp add: stored_as_def fun_eq_iff)
  show ?thesis
  proof (cases "name \<in> set (ag_dirty_states ag)")
    case True
    then show ?thesis
      using flush_state_ok(3) [OF assms(1), of name] assms(3) stored_as_taken
      by (auto simp: on_disk_def stored)
  next
    case False
    then have "on_disk ag name v"
      using assms(2-4) by (auto simp: in_step_def split: option.splits flusher.splits)
    then show ?thesis
      using flush_state_ok(3) [OF assms(1), of name] False by (simp add: on_disk_def stored)
  qed
qed


section \<open>Every step keeps the states in step\<close>

lemma in_step_cong:
  assumes "ag_current_shrunk b name = ag_current_shrunk a name"
    and "name \<in> set (ag_dirty_states b) \<longleftrightarrow> name \<in> set (ag_dirty_states a)"
    and "dict_get (ag_state_flushers b) name = dict_get (ag_state_flushers a) name"
    and "disk_value b name = disk_value a name"
    and "ag_state_hashes b = ag_state_hashes a" and "ag_current_session b = ag_current_session a"
  shows "in_step b name \<longleftrightarrow> in_step a name"
proof -
  have stored: "stored_as b name = stored_as a name" and disk: "on_disk b name = on_disk a name"
    using assms by (simp_all add: stored_as_def on_disk_def fun_eq_iff)
  show ?thesis
    unfolding in_step_def assms stored disk ..
qed

lemma kept_except_step:
  assumes "kept_except A a" and "writable b" and "flushers_ok b"
    and "ag_state_policies b = ag_state_policies a"
    and "name \<in> set (dict_keys (ag_state_policies a)) \<Longrightarrow> in_step b name"
    and "\<And>m. m \<noteq> name \<Longrightarrow> in_step b m \<longleftrightarrow> in_step a m"
  shows "kept_except (A - {name}) b"
  unfolding kept_except_def assms(4)
proof (intro conjI assms(2,3) ballI impI)
  fix m
  assume "m \<in> set (dict_keys (ag_state_policies a))" and "m \<notin> A - {name}"
  then show "in_step b m"
    using assms(1,5,6) by (cases "m = name") (auto simp: kept_except_def)
qed

lemma note_changed_kept:
  assumes "kept_except A ag"
  shows "kept_except (A - {name}) (note_changed name ag)"
proof (cases "dict_get (ag_state_policies ag) name")
  case None
  then have "name \<notin> set (dict_keys (ag_state_policies ag))" by (simp add: dict_get_None_iff)
  then show ?thesis
    using assms None by (auto simp: note_changed_def kept_except_def)
next
  case (Some policy)
  let ?ag = "ag\<lparr>ag_dirty_states := List.insert name (ag_dirty_states ag)\<rparr>"
  have w: "writable ?ag" and ok: "flushers_ok ag"
    using assms by (simp_all add: kept_except_def writable_def)
  have disk: "disk_value ?ag = disk_value ag" by (simp add: disk_value_def fun_eq_iff)
  have others: "in_step ?ag m \<longleftrightarrow> in_step ag m" if "m \<noteq> name" for m
    by (rule in_step_cong) (use that disk in simp_all)
  show ?thesis
  proof (cases "policy = Synchronous")
    case True
    then have eq: "note_changed name ag = flush_state name ?ag"
      using Some by (simp add: note_changed_def)
    define ag' where "ag' = flush_state name ?ag"
    have sel: "ag_state_policies ag' = ag_state_policies ag" "ag_state_flushers ag' = ag_state_flushers ag"
      "ag_state_hashes ag' = ag_state_hashes ag" "ag_current_shrunk ag' = ag_current_shrunk ag"
      "ag_current_session ag' = ag_current_session ag"
      "set (ag_dirty_states ag') = set (ag_dirty_states ag) - {name}"
      using flush_state_ok(2) [OF w, of name] by (auto simp: ag'_def)
    have none: "dict_get (ag_state_flushers ag) name = None"
      using ok Some True by (simp add: flushers_ok_def)
    have "in_step ?ag name" by (simp add: in_step_def)
    then have "on_disk ag' name v" if "ag_current_shrunk ag name = Some v" for v
      unfolding ag'_def using that none by (intro in_step_flushed [OF w]) simp_all
    then have "in_step ag' name" by (simp add: in_step_def sel none)
    moreover have "in_step ag' m \<longleftrightarrow> in_step ag m" if "m \<noteq> name" for m
      by (rule in_step_cong) (use that disk flush_state_ok(3) [OF w, of name] in \<open>simp_all add: sel ag'_def [symmetric]\<close>)
    moreover have "writable ag'" unfolding ag'_def by (rule flush_state_ok(1) [OF w])
    moreover have "flushers_ok ag'" using ok by (simp add: flushers_ok_def sel)
    ultimately show ?thesis
      unfolding eq ag'_def [symmetric] by (intro kept_except_step [OF assms]) (simp_all add: sel)
  next
    case False
    then have eq: "note_changed name ag = ?ag"
      using Some by (simp add: note_changed_def)
    have "in_step ?ag name" by (simp add: in_step_def)
    moreover have "flushers_ok ?ag"
      using ok Some False by (auto simp: flushers_ok_def)
    ultimately show ?thesis
      unfolding eq by (intro kept_except_step [OF assms]) (simp_all add: w others)
  qed
qed

lemma note_changed_policies [simp]:
  "ag_state_policies (note_changed name ag) = ag_state_policies ag"
  "ag_state_hashes (note_changed name ag) = ag_state_hashes ag"
  "ag_current_shrunk (note_changed name ag) = ag_current_shrunk ag"
  by (auto simp: note_changed_def flush_state_def take_dirty_state_eq write_state_def Let_def
      split: option.splits sum.splits)

lemma fold_note_changed_kept:
  "kept_except A ag \<Longrightarrow> kept_except (A - set names) (fold note_changed names ag)"
proof (induction names arbitrary: A ag)
  case (Cons name names)
  show ?case
    using Cons.IH [OF note_changed_kept [OF Cons.prems, of name]]
    by (simp add: Diff_insert2 [symmetric])
qed simp


abbreviation states_kept :: "agent \<Rightarrow> bool" where
  "states_kept \<equiv> kept_except {}"

lemma states_keptD:
  "states_kept ag \<Longrightarrow> name \<in> set (dict_keys (ag_state_policies ag)) \<Longrightarrow> in_step ag name"
  by (auto simp: kept_except_def)

lemma flushers_ok_put:
  assumes "flushers_ok ag" and "dict_get (ag_state_flushers ag) name = Some phase"
    and "\<And>x. phase' = Writing x \<Longrightarrow> ss_state_name x = name"
    and "ag_state_flushers b = dict_put (ag_state_flushers ag) name phase'"
    and "ag_state_policies b = ag_state_policies ag"
    and "set (ag_dirty_states b) \<subseteq> set (ag_dirty_states ag)"
  shows "flushers_ok b"
  using assms by (fastforce simp: flushers_ok_def split: if_splits)

lemma flusher_begins_kept:
  assumes "states_kept ag"
  shows "states_kept (flusher_begins name ag)"
proof (cases "dict_get (ag_state_flushers ag) name = Some Starting")
  case True
  let ?b = "ag\<lparr>ag_state_flushers := dict_put (ag_state_flushers ag) name Waiting\<rparr>"
  have eq: "flusher_begins name ag = ?b" using True by (simp add: flusher_begins_def)
  have disk: "disk_value ?b = disk_value ag" by (simp add: disk_value_def fun_eq_iff)
  have "kept_except ({} - {name}) ?b"
  proof (rule kept_except_step [OF assms])
    show "flushers_ok ?b"
      by (rule flushers_ok_put [OF _ True]) (use assms in \<open>simp_all add: kept_except_def\<close>)
    show "in_step ?b name" if "name \<in> set (dict_keys (ag_state_policies ag))"
      using states_keptD [OF assms that] True
      by (simp add: in_step_def on_disk_def stored_as_def disk)
    show "in_step ?b m \<longleftrightarrow> in_step ag m" if "m \<noteq> name" for m
      by (rule in_step_cong) (use that disk in simp_all)
  qed (use assms in \<open>simp_all add: kept_except_def writable_def\<close>)
  then show ?thesis by (simp add: eq)
next
  case False
  then have "flusher_begins name ag = ag"
    by (auto simp: flusher_begins_def split: option.splits flusher.splits)
  then show ?thesis using assms by simp
qed

lemma flusher_wakes_kept:
  assumes "states_kept ag"
  shows "states_kept (flusher_wakes name ag)"
proof (cases "dict_get (ag_state_flushers ag) name = Some Waiting \<and> name \<in> set (ag_dirty_states ag)")
  case True
  let ?c = "ag\<lparr>ag_dirty_states := removeAll name (ag_dirty_states ag)\<rparr>"
  define b where "b = flusher_wakes name ag"
  have b: "b = (case ag_current_shrunk ag name of None \<Rightarrow> ?c
      | Some v \<Rightarrow> ?c\<lparr>ag_state_flushers := dict_put (ag_state_flushers ag) name (Writing (taken ag name v))\<rparr>)"
    using True by (auto simp: b_def flusher_wakes_def take_dirty_state_eq split: option.splits)
  have sel: "ag_state_policies b = ag_state_policies ag" "ag_current_shrunk b = ag_current_shrunk ag"
    "ag_state_hashes b = ag_state_hashes ag" "ag_current_session b = ag_current_session ag"
    "ag_dirty_states b = removeAll name (ag_dirty_states ag)" "ag_state_store b = ag_state_store ag"
    by (simp_all add: b split: option.split)
  have disk: "disk_value b = disk_value ag" by (simp add: disk_value_def fun_eq_iff sel)
  have "kept_except ({} - {name}) b"
  proof (rule kept_except_step [OF assms])
    show "flushers_ok b"
    proof (cases "ag_current_shrunk ag name")
      case None
      then show ?thesis using assms b by (auto simp: kept_except_def flushers_ok_def)
    next
      case (Some v)
      show ?thesis
        by (rule flushers_ok_put [where ag = ag and phase' = "Writing (taken ag name v)"])
          (use assms True Some b in \<open>auto simp: kept_except_def taken_def\<close>)
    qed
    show "in_step b name"
    proof (cases "ag_current_shrunk ag name")
      case (Some v)
      then have "dict_get (ag_state_flushers b) name = Some (Writing (taken ag name v))"
        by (simp add: b)
      then show ?thesis using Some by (simp add: in_step_def sel stored_as_def taken_def)
    qed (simp add: in_step_def sel)
    show "in_step b m \<longleftrightarrow> in_step ag m" if "m \<noteq> name" for m
    proof (rule in_step_cong)
      show "dict_get (ag_state_flushers b) m = dict_get (ag_state_flushers ag) m"
        using that by (simp add: b split: option.split)
    qed (use that disk in \<open>simp_all add: sel\<close>)
  qed (use assms in \<open>simp_all add: kept_except_def writable_def sel\<close>)
  then show ?thesis by (simp add: b_def)
next
  case False
  then have "flusher_wakes name ag = ag"
    by (auto simp: flusher_wakes_def take_dirty_state_eq split: option.splits flusher.splits)
  then show ?thesis using assms by simp
qed

lemma flusher_wrote_kept:
  assumes "states_kept ag"
  shows "states_kept (flusher_wrote name ag)"
proof (cases "\<exists>x. dict_get (ag_state_flushers ag) name = Some (Writing x)")
  case True
  then obtain x where x: "dict_get (ag_state_flushers ag) name = Some (Writing x)" by blast
  have name: "ss_state_name x = name" and w: "writable ag" and ok: "flushers_ok ag"
    using assms x by (auto simp: kept_except_def flushers_ok_def)
  let ?c = "ag\<lparr>ag_state_flushers := dict_put (ag_state_flushers ag) name Waiting\<rparr>"
  have wc: "writable ?c" and dc: "disk_value ?c = disk_value ag"
    using w by (simp_all add: writable_def disk_value_def fun_eq_iff)
  define b where "b = write_state x ?c"
  have sel: "ag_state_policies b = ag_state_policies ag" "ag_current_shrunk b = ag_current_shrunk ag"
    "ag_state_hashes b = ag_state_hashes ag" "ag_current_session b = ag_current_session ag"
    "ag_dirty_states b = ag_dirty_states ag"
    "ag_state_flushers b = dict_put (ag_state_flushers ag) name Waiting"
    using write_state_ok(3) [OF wc, of x] by (auto simp: b_def)
  have disk: "disk_value b = (disk_value ag)(name \<mapsto> x)"
    using write_state_ok(2) [OF wc, of x] by (simp add: b_def dc name)
  have "kept_except ({} - {name}) b"
  proof (rule kept_except_step [OF assms])
    show "writable b" unfolding b_def by (rule write_state_ok(1) [OF wc])
    show "flushers_ok b"
      by (rule flushers_ok_put [OF ok x]) (simp_all add: sel)
    show "in_step b name" if "name \<in> set (dict_keys (ag_state_policies ag))"
      using states_keptD [OF assms that] x by (simp add: in_step_def on_disk_def stored_as_def sel disk)
    show "in_step b m \<longleftrightarrow> in_step ag m" if "m \<noteq> name" for m
      by (rule in_step_cong) (use that disk in \<open>simp_all add: sel\<close>)
  qed (simp add: sel)
  moreover have "flusher_wrote name ag = b" using x by (simp add: flusher_wrote_def b_def)
  ultimately show ?thesis by simp
next
  case False
  then have "flusher_wrote name ag = ag"
    by (auto simp: flusher_wrote_def split: option.splits flusher.splits)
  then show ?thesis using assms by simp
qed


lemma note_state_change_kept:
  assumes "kept_except A ag"
  shows "kept_except (A - (case fr_body m of State_Patch_Frame name \<Rightarrow> {name}
      | Session_Init_Frame \<Rightarrow> set (dict_keys (ag_state_policies ag)) | _ \<Rightarrow> {})) (note_state_change m ag)"
proof -
  obtain st where "ag_state_store ag = Some st"
    using assms by (auto simp: kept_except_def writable_def)
  then show ?thesis
    using assms note_changed_kept [OF assms]
      fold_note_changed_kept [OF assms, of "dict_keys (ag_state_policies ag)"]
    by (simp add: note_state_change_def split: frame_body.split)
qed

lemma do_state_event_kept:
  assumes "states_kept ag"
  shows "states_kept (do_state_event e ag)"
proof (cases e)
  case Session_Begins
  then show ?thesis
    using note_state_change_kept [OF assms, of session_init_frame] by (simp add: session_init_frame_def)
next
  case (Changed name v r)
  let ?ag = "ag\<lparr>ag_current_shrunk := (ag_current_shrunk ag)(name := Some v), ag_global_revision := r\<rparr>"
  have disk: "disk_value ?ag = disk_value ag" by (simp add: disk_value_def fun_eq_iff)
  have "in_step ?ag m \<longleftrightarrow> in_step ag m" if "m \<noteq> name" for m
    by (rule in_step_cong) (use that disk in simp_all)
  then have "kept_except {name} ?ag"
    using assms by (auto simp: kept_except_def writable_def flushers_ok_def)
  then show ?thesis
    using note_state_change_kept [of "{name}" ?ag "patch_frame name"] Changed
    by (simp add: patch_frame_def)
qed (use assms flusher_begins_kept flusher_wakes_kept flusher_wrote_kept in simp_all)

lemma do_state_events_kept:
  "states_kept ag \<Longrightarrow> states_kept (fold do_state_event es ag)"
  by (induction es arbitrary: ag) (simp_all add: do_state_event_kept)

section \<open>The clean exit\<close>

definition same_for :: "string \<Rightarrow> agent \<Rightarrow> agent \<Rightarrow> bool" where
  "same_for name a b \<longleftrightarrow> writable b \<and> disk_value b name = disk_value a name \<and>
     (name \<in> set (ag_dirty_states b) \<longleftrightarrow> name \<in> set (ag_dirty_states a)) \<and>
     ag_current_shrunk b = ag_current_shrunk a \<and> ag_state_hashes b = ag_state_hashes a \<and>
     ag_current_session b = ag_current_session a \<and> ag_state_flushers b = ag_state_flushers a"

lemma stop_flusher_other:
  assumes "writable a" and "fst p \<noteq> name" and "\<And>x. snd p = Writing x \<Longrightarrow> ss_state_name x = fst p"
  shows "same_for name a (stop_flusher p a)"
proof (cases p)
  case (Pair m phase)
  show ?thesis
  proof (cases phase)
    case Waiting
    obtain st where "flush_state m a =
        a\<lparr>ag_dirty_states := removeAll m (ag_dirty_states a), ag_state_store := st\<rparr>"
      using flush_state_ok(2) [OF assms(1)] by blast
    moreover have "disk_value (flush_state m a) name = disk_value a name"
      using flush_state_ok(3) [OF assms(1), of m] assms(2) Pair by simp
    ultimately show ?thesis
      using flush_state_ok(1) [OF assms(1), of m] assms(2) Pair Waiting
      by (auto simp: same_for_def stop_flusher_def)
  next
    case (Writing x)
    obtain st where "write_state x a = a\<lparr>ag_state_store := Some st\<rparr>"
      using write_state_ok(3) [OF assms(1)] by blast
    moreover have "disk_value (write_state x a) name = disk_value a name"
      using write_state_ok(2) [OF assms(1), of x] assms(2,3) Pair Writing by simp
    ultimately show ?thesis
      using write_state_ok(1) [OF assms(1), of x] Pair Writing
      by (auto simp: same_for_def stop_flusher_def)
  qed (use assms(1) Pair in \<open>simp add: same_for_def stop_flusher_def\<close>)
qed

lemma fold_stop_other:
  assumes "writable a" and "name \<notin> fst ` set ps"
    and "\<And>p x. p \<in> set ps \<Longrightarrow> snd p = Writing x \<Longrightarrow> ss_state_name x = fst p"
  shows "same_for name a (fold stop_flusher ps a)"
  using assms
proof (induction ps arbitrary: a)
  case (Cons p ps)
  have step: "same_for name a (stop_flusher p a)"
    by (rule stop_flusher_other) (use Cons.prems in auto)
  have "same_for name (stop_flusher p a) (fold stop_flusher ps (stop_flusher p a))"
    by (rule Cons.IH) (use Cons.prems step in \<open>auto simp: same_for_def\<close>)
  with step show ?case by (simp add: same_for_def)
qed (simp add: same_for_def)

lemma same_for_on_disk: "same_for name a b \<Longrightarrow> on_disk b name v \<longleftrightarrow> on_disk a name v"
  by (simp add: same_for_def on_disk_def stored_as_def)

lemma stop_own:
  assumes "states_kept ag" and "name \<in> set (dict_keys (ag_state_policies ag))"
    and "ag_current_shrunk ag name = Some v"
    and "name \<notin> set (ag_dirty_states ag) \<or> phase = Waiting"
    and "dict_get (ag_state_flushers ag) name = Some phase"
    and "same_for name (ag\<lparr>ag_state_flushers := []\<rparr>) b"
  shows "on_disk (stop_flusher (name, phase) b) name v \<and> writable (stop_flusher (name, phase) b)"
proof -
  have w: "writable b" and ag_b: "disk_value b name = disk_value ag name"
    "name \<in> set (ag_dirty_states b) \<longleftrightarrow> name \<in> set (ag_dirty_states ag)"
    "ag_current_shrunk b = ag_current_shrunk ag" "ag_state_hashes b = ag_state_hashes ag"
    "ag_current_session b = ag_current_session ag" "ag_state_flushers b = []"
    using assms(6) by (simp_all add: same_for_def disk_value_def)
  have stored: "stored_as b = stored_as ag" and disk: "on_disk b name = on_disk ag name"
    using ag_b by (simp_all add: stored_as_def on_disk_def fun_eq_iff)
  have kept: "in_step ag name" by (rule states_keptD [OF assms(1,2)])
  show ?thesis
  proof (cases phase)
    case Starting
    then show ?thesis
      using kept assms(3-5) w by (simp add: in_step_def stop_flusher_def disk)
  next
    case Waiting
    have "in_step b name"
      using kept assms(3,5) Waiting by (simp add: in_step_def ag_b disk)
    then have "on_disk (flush_state name b) name v"
      by (rule in_step_flushed [OF w]) (simp_all add: ag_b assms(3))
    then show ?thesis
      using flush_state_ok(1) [OF w] Waiting by (simp add: stop_flusher_def)
  next
    case (Writing x)
    have x: "stored_as ag name v x" using kept assms(3-5) Writing by (simp add: in_step_def)
    then have "on_disk (write_state x b) name v"
      using write_state_ok(2,3) [OF w, of x] stored
      by (auto simp: on_disk_def stored_as_def ag_b)
    then show ?thesis
      using write_state_ok(1) [OF w] Writing by (simp add: stop_flusher_def)
  qed
qed


lemma fold_stop_sel [simp]:
  "ag_state_hashes (fold stop_flusher ps a) = ag_state_hashes a"
  "ag_current_session (fold stop_flusher ps a) = ag_current_session a"
  by (induction ps arbitrary: a)
    (auto simp: stop_flusher_def flush_state_def take_dirty_state_def write_state_def
      split: flusher.splits option.splits sum.splits)

lemma close_keeps:
  assumes "states_kept ag" and "name \<in> set (dict_keys (ag_state_policies ag))"
    and "ag_current_shrunk ag name = Some v"
    and "name \<notin> set (ag_dirty_states ag) \<or> dict_get (ag_state_flushers ag) name = Some Waiting"
  shows "\<exists>st x. snd (aclose_state_store ag) = Some (close_states st) \<and>
    state_value st name = Some x \<and> stored_as ag name v x"
proof -
  let ?a = "ag\<lparr>ag_state_flushers := []\<rparr>" and ?fs = "ag_state_flushers ag"
  define b where "b = fold stop_flusher ?fs ?a"
  have w: "writable ?a" and ok: "flushers_ok ag"
    using assms(1) by (simp_all add: kept_except_def writable_def)
  have names: "ss_state_name x = fst p" if "p \<in> set ?fs" "snd p = Writing x" for p x
    using ok that by (cases p) (auto simp: flushers_ok_def dict_ok_def)
  have stored: "stored_as ?a = stored_as ag"
    by (simp add: stored_as_def fun_eq_iff)
  have disk: "on_disk ?a = on_disk ag"
    by (simp add: on_disk_def disk_value_def stored fun_eq_iff)
  have "on_disk b name v \<and> writable b"
  proof (cases "dict_get ?fs name")
    case None
    then have "same_for name ?a b"
      unfolding b_def by (intro fold_stop_other w names) (auto simp: dict_get_None_iff)
    moreover have "on_disk ag name v"
      using states_keptD [OF assms(1,2)] assms(3,4) None by (simp add: in_step_def)
    ultimately show ?thesis
      using same_for_on_disk [of name ?a b v] disk by (simp add: same_for_def)
  next
    case (Some phase)
    then obtain xs ys where fs: "?fs = xs @ (name, phase) # ys"
      using ok by (metis dict_items_iff flushers_ok_def split_list)
    then have out: "name \<notin> fst ` set xs" "name \<notin> fst ` set ys"
      using ok by (auto simp: flushers_ok_def dict_ok_def)
    define c where "c = fold stop_flusher xs ?a"
    have "same_for name ?a c"
      unfolding c_def by (intro fold_stop_other w names out) (simp_all add: fs)
    then have c: "on_disk (stop_flusher (name, phase) c) name v \<and> writable (stop_flusher (name, phase) c)"
      using stop_own [OF assms(1-3) _ Some] assms(4) Some by auto
    have "same_for name (stop_flusher (name, phase) c) b"
      unfolding b_def fs fold_append fold_simps comp_def c_def [symmetric]
      by (intro fold_stop_other names out) (use c in \<open>simp_all add: fs\<close>)
    then show ?thesis
      using c same_for_on_disk [of name "stop_flusher (name, phase) c" b v] by (simp add: same_for_def)
  qed
  then obtain st x where "ag_state_store b = Some st" "state_value st name = Some x" "stored_as b name v x"
    by (auto simp: writable_def on_disk_def disk_value_def)
  moreover have "stored_as b = stored_as ag"
    by (simp add: b_def stored_as_def fun_eq_iff)
  ultimately show ?thesis
    by (auto simp: aclose_state_store_def Let_def b_def)
qed


lemma map_filter_policies:
  assumes "dict_ok declared"
  shows "dict_ok (List.map_filter (\<lambda>(name, pol). map_option (Pair name) pol) declared)"
    and "dict_get (List.map_filter (\<lambda>(name, pol). map_option (Pair name) pol) declared) name = Some policy \<longleftrightarrow>
      dict_get declared name = Some (Some policy)"
proof -
  let ?ps = "List.map_filter (\<lambda>(name, pol). map_option (Pair name) pol) declared"
  have keys: "dict_keys ?ps = map fst (filter (\<lambda>e. snd e \<noteq> None) declared)"
    by (induction declared) (auto simp: List.map_filter_def split: option.splits)
  then show ok: "dict_ok ?ps"
    using assms by (simp add: dict_ok_def distinct_map_filter)
  have "(name, policy) \<in> set ?ps \<longleftrightarrow> (name, Some policy) \<in> set declared"
    by (force simp: in_map_filter)
  then show "dict_get ?ps name = Some policy \<longleftrightarrow> dict_get declared name = Some (Some policy)"
    by (simp add: dict_items_iff assms ok)
qed

lemma open_state_store_fields:
  assumes "ag_state_store ag = None" and "ag_state_store (open_state_store disk declared hash_of ag) \<noteq> None"
  defines "policies \<equiv> List.map_filter (\<lambda>(name, pol). map_option (Pair name) pol) declared"
    and "b \<equiv> open_state_store disk declared hash_of ag"
  shows "\<exists>st. ag_state_store b = Some st \<and> \<not> ps_closed st \<and> ps_disk_ok st"
    and "ag_state_policies b = policies"
    and "ag_state_hashes b = map (\<lambda>(name, _). (name, hash_of name)) policies"
    and "ag_state_flushers b = map (\<lambda>(name, _). (name, Starting)) (filter (\<lambda>(_, pol). pol \<noteq> Synchronous) policies)"
    and "ag_dirty_states b = ag_dirty_states ag" and "ag_current_session b = ag_current_session ag"
  using assms(1,2) unfolding b_def policies_def
  by (auto simp: open_state_store_def open_states_def Let_def split: option.splits sum.splits if_splits)

lemma dict_get_map_const: "k \<in> set (dict_keys d) \<Longrightarrow> dict_get (map (\<lambda>(k, _). (k, f k)) d) k = Some (f k)"
  by (induction d) auto

lemma dict_ok_map_const: "dict_ok d \<Longrightarrow> dict_ok (map (\<lambda>(k, _). (k, f k)) d)"
  by (simp add: dict_ok_def comp_def case_prod_beta')

lemma open_state_store_kept:
  assumes "ag_state_store ag = None" and "ag_dirty_states ag = []" and "dict_ok declared"
    and "ag_state_store (open_state_store disk declared hash_of ag) \<noteq> None"
  shows "kept_except UNIV (open_state_store disk declared hash_of ag)"
proof -
  let ?b = "open_state_store disk declared hash_of ag"
  let ?ps = "List.map_filter (\<lambda>(name, pol). map_option (Pair name) pol) declared"
  let ?fs = "map (\<lambda>(name, _). (name, Starting)) (filter (\<lambda>(_, pol). pol \<noteq> Synchronous) ?ps)"
  note fields = open_state_store_fields [OF assms(1,4)]
  have ok: "dict_ok ?ps" by (rule map_filter_policies(1) [OF assms(3)])
  have okf: "dict_ok ?fs"
    by (rule dict_ok_map_const) (use ok in \<open>simp add: dict_ok_def distinct_map_filter\<close>)
  have "dict_get ?fs name = None" if sync: "dict_get ?ps name = Some Synchronous" for name
  proof -
    have "pol = Synchronous" if "(name, pol) \<in> set ?ps" for pol
      using that sync dict_items_iff [OF ok] by simp
    then have "name \<notin> set (dict_keys ?fs)" by auto
    then show ?thesis by (rule iffD2 [OF dict_get_None_iff])
  qed
  moreover have "dict_get ?fs name \<noteq> Some (Writing x)" for name x
    by (auto dest: map_of_SomeD)
  ultimately have "flushers_ok ?b"
    using okf by (simp add: flushers_ok_def fields assms(2))
  then show ?thesis
    using fields(1) by (simp add: kept_except_def writable_def)
qed

lemma do_state_event_sel:
  "ag_state_policies (do_state_event e ag) = ag_state_policies ag"
  "ag_state_hashes (do_state_event e ag) = ag_state_hashes ag"
  "ag_current_session (do_state_event e ag) = ag_current_session ag"
proof -
  have fold: "ag_state_policies (fold note_changed ns a) = ag_state_policies a"
    "ag_state_hashes (fold note_changed ns a) = ag_state_hashes a" for ns a
    by (induction ns arbitrary: a) simp_all
  have noted: "ag_state_policies (note_state_change m a) = ag_state_policies a"
    "ag_state_hashes (note_state_change m a) = ag_state_hashes a" for m a
    by (simp_all add: note_state_change_def fold split: frame_body.split)
  show "ag_state_policies (do_state_event e ag) = ag_state_policies ag"
    "ag_state_hashes (do_state_event e ag) = ag_state_hashes ag"
    "ag_current_session (do_state_event e ag) = ag_current_session ag"
    by (cases e; auto simp: noted flusher_begins_def flusher_wakes_def flusher_wrote_def
        take_dirty_state_def write_state_def split: option.splits flusher.splits sum.splits)+
qed

lemma do_state_events_sel [simp]:
  "ag_state_policies (fold do_state_event es ag) = ag_state_policies ag"
  "ag_state_hashes (fold do_state_event es ag) = ag_state_hashes ag"
  "ag_current_session (fold do_state_event es ag) = ag_current_session ag"
  by (induction es arbitrary: ag) (simp_all add: do_state_event_sel)

text \<open>
  C10. A clean exit keeps the last value. Open the state store, start the session, and let
  the states change and the flush loops run in any interleaving, then close it. Every
  state declared \<open>persist=\<close> that has a value is in the file with that value, this run's
  session and the hash of its declared ports, provided that no write fails and that the
  stop finds its flush loop waiting for its period or the state unchanged since it was
  last taken. A synchronous state needs no such provision: its value is written at every
  change.
\<close>

theorem clean_exit_keeps_last_value:
  assumes "ag_state_store ag = None" and "ag_dirty_states ag = []" and "dict_ok declared"
    and "ag_state_store (open_state_store disk declared hash_of ag) \<noteq> None"
    and "final = fold do_state_event (Session_Begins # es) (open_state_store disk declared hash_of ag)"
    and "dict_get declared name = Some (Some policy)"
    and "ag_current_shrunk final name = Some v"
    and "policy = Synchronous \<or> name \<notin> set (ag_dirty_states final) \<or>
      dict_get (ag_state_flushers final) name = Some Waiting"
  shows "\<exists>st x. snd (aclose_state_store final) = Some (close_states st) \<and>
    state_value st name = Some x \<and> ss_value x = v \<and> ss_schema_hash x = hash_of name \<and>
    ss_session_id x = ag_current_session ag"
proof -
  let ?b = "open_state_store disk declared hash_of ag"
  let ?ps = "List.map_filter (\<lambda>(name, pol). map_option (Pair name) pol) declared"
  note fields = open_state_store_fields [OF assms(1,4)]
  have "kept_except (UNIV - set (dict_keys (ag_state_policies ?b))) (do_state_event Session_Begins ?b)"
    using note_state_change_kept [OF open_state_store_kept [OF assms(1-4)], of session_init_frame]
    by (simp add: session_init_frame_def)
  then have "states_kept (do_state_event Session_Begins ?b)"
    by (simp add: kept_except_def do_state_event_sel del: do_state_event.simps)
  then have kept: "states_kept final"
    unfolding assms(5) fold_simps by (rule do_state_events_kept)
  have policies: "ag_state_policies final = ?ps"
    by (simp add: assms(5) fields do_state_event_sel del: do_state_event.simps)
  have policy: "dict_get ?ps name = Some policy"
    using map_filter_policies(2) [OF assms(3)] assms(6) by blast
  then have declared: "name \<in> set (dict_keys (ag_state_policies final))"
    unfolding policies by (rule dict_get_in_keys)
  have "name \<notin> set (ag_dirty_states final) \<or> dict_get (ag_state_flushers final) name = Some Waiting"
    using assms(8) kept policy by (auto simp: kept_except_def flushers_ok_def policies)
  from close_keeps [OF kept declared assms(7) this]
  obtain st x where st: "snd (aclose_state_store final) = Some (close_states st)"
      "state_value st name = Some x" "stored_as final name v x"
    by blast
  have "dict_get (ag_state_hashes final) name = Some (hash_of name)"
    using dict_get_map_const [of name ?ps hash_of] declared
    by (simp add: policies, simp add: assms(5) fields do_state_event_sel del: do_state_event.simps)
  then show ?thesis
    using st by (auto simp: stored_as_def assms(5) fields do_state_event_sel simp del: do_state_event.simps)
qed


text \<open>An agent with a periodic state \<open>cam\<close>, a synchronous one and one that is not persisted.\<close>

definition demo_declared :: "(string, persist option) dict" where
  "demo_declared = [(''cam'', Some (Periodic 5)), (''stage'', Some Synchronous), (''light'', None)]"

definition demo_start :: agent where
  "demo_start = (fresh_agent ''a'' (Some ''j.db''))\<lparr>ag_current_session := ''s3'',
     ag_current_shrunk := [''cam'' \<mapsto> ''0'', ''stage'' \<mapsto> ''0'', ''light'' \<mapsto> ''0'']\<rparr>"

definition demo_opened :: agent where
  "demo_opened = open_state_store (\<lambda>_. Some []) demo_declared id demo_start"

theorem clean_exit_keeps_last_value_witness:
  "\<exists>st x. snd (aclose_state_store (fold do_state_event
       [Session_Begins, Flusher_Begins ''cam'', Flusher_Wakes ''cam'', Changed ''cam'' ''7'' 2,
        Flusher_Wrote ''cam''] demo_opened)) = Some (close_states st) \<and>
     state_value st ''cam'' = Some x \<and> ss_value x = ''7'' \<and> ss_schema_hash x = id ''cam'' \<and>
     ss_session_id x = ag_current_session demo_start"
proof -
  have ok: "dict_ok demo_declared" by (simp add: dict_ok_def demo_declared_def)
  have store: "ag_state_store (open_state_store (\<lambda>_. Some []) demo_declared id demo_start) \<noteq> None"
    by code_simp
  have policy: "dict_get demo_declared ''cam'' = Some (Some (Periodic 5))"
    by (simp add: demo_declared_def)
  have val: "ag_current_shrunk (fold do_state_event
       [Session_Begins, Flusher_Begins ''cam'', Flusher_Wakes ''cam'', Changed ''cam'' ''7'' 2,
        Flusher_Wrote ''cam''] demo_opened) ''cam'' = Some ''7''"
    by code_simp
  have waiting: "dict_get (ag_state_flushers (fold do_state_event
       [Session_Begins, Flusher_Begins ''cam'', Flusher_Wakes ''cam'', Changed ''cam'' ''7'' 2,
        Flusher_Wrote ''cam''] demo_opened)) ''cam'' = Some Waiting"
    by code_simp
  have start: "ag_state_store demo_start = None" "ag_dirty_states demo_start = []"
    by (simp_all add: demo_start_def fresh_agent_def)
  show ?thesis
    using val waiting unfolding demo_opened_def
    by (intro clean_exit_keeps_last_value [OF start ok store refl policy]) blast+
qed

text \<open>
  The provision is needed: a clean exit can lose the last value. The flush loop of
  \<open>cam\<close> has handed the value it took to the writing thread; the state changes again; the
  agent closes. The loop finds the stop set when its write returns and ends, the new
  value stays marked as changed, and the file keeps the old one.
\<close>

theorem exit_during_write_loses_value:
  "let final = fold do_state_event [Session_Begins, Flusher_Begins ''cam'', Flusher_Wakes ''cam'',
       Changed ''cam'' ''7'' 2] demo_opened
   in ag_current_shrunk final ''cam'' = Some ''7'' \<and>
      ''cam'' \<in> set (ag_dirty_states (fst (aclose_state_store final))) \<and>
      map_option (\<lambda>st. map_option ss_value (state_value st ''cam'')) (snd (aclose_state_store final)) =
        Some (Some ''0'')"
  by code_simp

definition set_disk_ok :: "bool \<Rightarrow> agent \<Rightarrow> agent" where
  "set_disk_ok ok ag = ag\<lparr>ag_state_store := map_option (\<lambda>st. st\<lparr>ps_disk_ok := ok\<rparr>) (ag_state_store ag)\<rparr>"

text \<open>
  A write that fails is not repeated. The mark of a change is cleared when the value is
  taken, not when it is on disk: if the file cannot be written at that moment, and can be
  again afterwards, neither a later wake-up nor the clean exit writes the value.
\<close>

theorem failed_write_is_not_repeated:
  "let before = fold do_state_event [Session_Begins, Flusher_Begins ''cam'', Flusher_Wakes ''cam'',
         Flusher_Wrote ''cam'', Changed ''cam'' ''7'' 2] demo_opened;
       failed = fold do_state_event [Flusher_Wakes ''cam'', Flusher_Wrote ''cam''] (set_disk_ok False before);
       final = do_state_event (Flusher_Wakes ''cam'') (set_disk_ok True failed)
   in ag_current_shrunk final ''cam'' = Some ''7'' \<and>
      map_option (\<lambda>st. map_option ss_value (state_value st ''cam'')) (snd (aclose_state_store final)) =
        Some (Some ''0'')"
  by code_simp

end
