(* ===== verification/Async_Queue.thy ===== *)
theory Async_Queue
  imports Prelude
begin

text \<open>
  \<open>asyncio.Queue\<close> as this program uses it: unbounded, with \<open>put_nowait\<close>, \<open>get_nowait\<close>,
  \<open>task_done\<close> and \<open>join\<close>, and the two contracts the components share: a first-in-first-out
  queue, and a router that parks what arrives for a receiver that is not there yet.

  A put on an unbounded queue never suspends, so \<open>await put\<close> and \<open>put_nowait\<close> are the same
  step; \<open>await get\<close> is the step \<open>get_nowait\<close> takes once an item is there. The unfinished
  count is a natural number and \<open>task_done\<close> below zero raises \<open>ValueError\<close>, here \<open>None\<close>.
  The coroutines suspended in \<open>join\<close> are counted, and so are those it let go.
\<close>

record 'a async_queue =
  aq_items :: "'a list"
  aq_unfinished :: nat
  aq_joining :: nat
  aq_joined :: nat

definition aq_new :: "'a async_queue" where
  "aq_new = \<lparr>aq_items = [], aq_unfinished = 0, aq_joining = 0, aq_joined = 0\<rparr>"

definition aq_put :: "'a \<Rightarrow> 'a async_queue \<Rightarrow> 'a async_queue" where
  "aq_put x q = q\<lparr>aq_items := aq_items q @ [x], aq_unfinished := aq_unfinished q + 1\<rparr>"

definition aq_get :: "'a async_queue \<Rightarrow> ('a \<times> 'a async_queue) option" where
  "aq_get q = (case aq_items q of [] \<Rightarrow> None | x # xs \<Rightarrow> Some (x, q\<lparr>aq_items := xs\<rparr>))"

definition aq_task_done :: "'a async_queue \<Rightarrow> 'a async_queue option" where
  "aq_task_done q =
     (case aq_unfinished q of
        0 \<Rightarrow> None
      | Suc n \<Rightarrow>
          let q' = q\<lparr>aq_unfinished := n\<rparr>
          in Some (if n = 0 then q'\<lparr>aq_joined := aq_joined q + aq_joining q, aq_joining := 0\<rparr> else q'))"

definition aq_join :: "'a async_queue \<Rightarrow> 'a async_queue" where
  "aq_join q =
     (if aq_unfinished q = 0 then q\<lparr>aq_joined := aq_joined q + 1\<rparr>
      else q\<lparr>aq_joining := aq_joining q + 1\<rparr>)"

text \<open>The loop that empties a queue with \<open>get_nowait\<close>: what it took, and the empty queue.\<close>

definition aq_take_all :: "'a async_queue \<Rightarrow> 'a list \<times> 'a async_queue" where
  "aq_take_all q = (aq_items q, q\<lparr>aq_items := []\<rparr>)"

section \<open>First in, first out\<close>

locale fifo =
  fixes enq :: "'a \<Rightarrow> 'q \<Rightarrow> 'q" and deq :: "'q \<Rightarrow> ('a \<times> 'q) option" and items :: "'q \<Rightarrow> 'a list"
  assumes items_enq: "items (enq x q) = items q @ [x]"
    and deq_None: "deq q = None \<longleftrightarrow> items q = []"
    and deq_Some: "deq q = Some (x, q') \<Longrightarrow> items q = x # items q'"
begin

lemma items_fold_enq [simp]: "items (fold enq xs q) = items q @ xs"
  by (induction xs arbitrary: q) (simp_all add: items_enq)

lemma deq_cases:
  obtains "items q = []" "deq q = None"
  | x q' where "items q = x # items q'" "deq q = Some (x, q')"
proof (cases "deq q")
  case None
  then show thesis using that(1) deq_None by blast
next
  case (Some p)
  then show thesis using that(2) deq_Some by (cases p) blast
qed

lemma deq_after_enq:
  "\<exists>q'. deq (fold enq xs (enq x q)) = Some (hd (items q @ [x]), q') \<and>
     items q' = tl (items q @ [x]) @ xs"
proof -
  have "items (fold enq xs (enq x q)) = items q @ x # xs" by (simp add: items_enq)
  then show ?thesis
    by (cases rule: deq_cases [of "fold enq xs (enq x q)"]) (cases "items q"; auto)+
qed

end

lemma aq_get_eq:
  "aq_get q = Some (x, q') \<longleftrightarrow> aq_items q = x # aq_items q' \<and> q' = q\<lparr>aq_items := aq_items q'\<rparr>"
  by (auto simp: aq_get_def split: list.splits)

interpretation aq: fifo aq_put aq_get aq_items
  by unfold_locales (auto simp: aq_put_def aq_get_def split: list.splits)

lemma aq_fold_put:
  "fold aq_put xs q = q\<lparr>aq_items := aq_items q @ xs, aq_unfinished := aq_unfinished q + length xs\<rparr>"
  by (induction xs arbitrary: q) (simp_all add: aq_put_def)

section \<open>Waiting for an item, bounded\<close>

text \<open>
  The loop both postmen run to see a confirmation: take items until one is \<open>wanted\<close>, give up
  at the deadline, or at once on an item after which nothing can come (\<open>lost\<close>). Items come
  with the time they are available; the result is whether the item was seen, what is left,
  and when the wait returned.
\<close>

fun await_item ::
    "('e \<Rightarrow> bool) \<Rightarrow> ('e \<Rightarrow> bool) \<Rightarrow> rat \<Rightarrow> rat \<Rightarrow> (rat \<times> 'e) list \<Rightarrow> bool \<times> (rat \<times> 'e) list \<times> rat" where
  "await_item wanted lost deadline now [] = (False, [], max now deadline)"
| "await_item wanted lost deadline now ((due, e) # es) =
     (if deadline \<le> now then (False, (due, e) # es, now)
      else if deadline \<le> due then (False, (due, e) # es, deadline)
      else if lost e then (False, es, max now due)
      else if wanted e then (True, es, max now due)
      else await_item wanted lost deadline (max now due) es)"

text \<open>
  The exchange that cancels a task: after the cancel is out (it takes \<open>sending\<close>), wait for
  \<open>cancelled\<close>; if it does not come and the caller escalates, interrupt and wait for \<open>ended\<close>.
  The result is whether the interrupt was sent, and when the exchange returned.
\<close>

definition confirm_phases ::
    "('e \<Rightarrow> bool) \<Rightarrow> ('e \<Rightarrow> bool) \<Rightarrow> ('e \<Rightarrow> bool) \<Rightarrow> (rat \<times> 'e) list \<Rightarrow> bool \<Rightarrow> rat \<Rightarrow> rat \<Rightarrow> rat \<Rightarrow> bool \<times> rat" where
  "confirm_phases cancelled ended lost arrivals escalate timeout sending now =
     (let start = now + sending
      in case await_item cancelled lost (start + timeout) start arrivals of
           (True, _, now1) \<Rightarrow> (False, now1)
         | (False, rest, now1) \<Rightarrow>
             if \<not> escalate then (False, now1)
             else (let start2 = now1 + sending
                   in case await_item ended lost (start2 + timeout) start2 rest of
                        (_, _, now2) \<Rightarrow> (True, now2)))"

lemma await_item_time:
  assumes "await_item wanted lost deadline now arrivals = (b, rest, finished)" and "now \<le> deadline"
  shows "now \<le> finished \<and> finished \<le> deadline"
  using assms
proof (induction arrivals arbitrary: now)
  case (Cons a arrivals)
  then show ?case by (cases a) (fastforce split: if_splits)
qed auto

lemma await_item_found:
  assumes "sorted (map fst arrivals)" and "now < deadline" and "\<forall>(due, e) \<in> set arrivals. \<not> lost e"
  shows "fst (await_item wanted lost deadline now arrivals) \<longleftrightarrow>
    (\<exists>(due, e) \<in> set arrivals. due < deadline \<and> wanted e)"
  using assms
proof (induction arrivals arbitrary: now)
  case (Cons a arrivals)
  obtain due e where a: "a = (due, e)" by fastforce
  show ?case
  proof (cases "due < deadline \<and> \<not> wanted e")
    case True
    then have "max now due < deadline" using Cons.prems(2) by simp
    with Cons.IH [of "max now due"] Cons.prems True show ?thesis by (auto simp: a)
  next
    case False
    have "\<not> due' < deadline" if "(due', e') \<in> set arrivals" "deadline \<le> due" for due' e'
      using Cons.prems(1) that by (force simp: a)
    with False Cons.prems show ?thesis by (auto simp: a)
  qed
qed auto

lemma confirm_phases_bounded:
  assumes "0 < timeout" and "0 \<le> sending"
    and "confirm_phases cancelled ended lost arrivals escalate timeout sending now = (interrupted, finished)"
  shows "now \<le> finished \<and> finished \<le> now + 2 * (sending + timeout) \<and> (interrupted \<longrightarrow> escalate)"
proof -
  let ?s = "now + sending"
  obtain seen rest now1 where first: "await_item cancelled lost (?s + timeout) ?s arrivals = (seen, rest, now1)"
    using prod_cases3 by blast
  obtain b2 r2 now2 where second:
    "await_item ended lost (now1 + sending + timeout) (now1 + sending) rest = (b2, r2, now2)"
    using prod_cases3 by blast
  have "?s \<le> now1 \<and> now1 \<le> ?s + timeout" "now1 + sending \<le> now2 \<and> now2 \<le> now1 + sending + timeout"
    using await_item_time [OF first] await_item_time [OF second] assms(1) by simp_all
  moreover have "finished = now1 \<or> finished = now2" "interrupted \<longrightarrow> escalate"
    using assms(3) first second by (auto simp: confirm_phases_def Let_def split: bool.splits if_splits)
  ultimately show ?thesis using assms(1,2) by auto
qed

lemma confirm_phases_interrupts:
  assumes "sorted (map fst arrivals)" and "0 < timeout" and "\<forall>(due, e) \<in> set arrivals. \<not> lost e"
    and "confirm_phases cancelled ended lost arrivals escalate timeout sending now = (interrupted, finished)"
  shows "interrupted \<longleftrightarrow>
    escalate \<and> \<not> (\<exists>(due, e) \<in> set arrivals. due < now + sending + timeout \<and> cancelled e)"
proof -
  let ?s = "now + sending"
  obtain seen rest now1 where first: "await_item cancelled lost (?s + timeout) ?s arrivals = (seen, rest, now1)"
    using prod_cases3 by blast
  have "seen \<longleftrightarrow> (\<exists>(due, e) \<in> set arrivals. due < ?s + timeout \<and> cancelled e)"
    using await_item_found [OF assms(1) _ assms(3), of ?s "?s + timeout" cancelled] assms(2) first by simp
  moreover have "interrupted \<longleftrightarrow> \<not> seen \<and> escalate"
    using assms(4) first by (auto simp: confirm_phases_def Let_def split: bool.splits if_splits prod.splits)
  ultimately show ?thesis by blast
qed

section \<open>Routing with parking\<close>

text \<open>
  What a receiver will get: \<open>pending s k\<close> lists, in order, what arrived for \<open>k\<close> and was not
  taken. An arrival is appended (if the router accepts it); that a receiver attaches only
  moves what was parked, and changes no one's pending list.
\<close>

locale router =
  fixes arrive :: "'e \<Rightarrow> 's \<Rightarrow> 's" and attach :: "'r \<Rightarrow> 's \<Rightarrow> 's"
    and pending :: "'s \<Rightarrow> 'k \<Rightarrow> 'e list" and key :: "'e \<Rightarrow> 'k"
    and accepts :: "'s \<Rightarrow> 'e \<Rightarrow> bool" and admits :: "'s \<Rightarrow> 'r \<Rightarrow> bool" and ok :: "'s \<Rightarrow> bool"
  assumes pending_arrive: "ok s \<Longrightarrow>
      pending (arrive e s) k = pending s k @ (if key e = k \<and> accepts s e then [e] else [])"
    and pending_attach: "ok s \<Longrightarrow> admits s r \<Longrightarrow> pending (attach r s) k = pending s k"
    and ok_arrive: "ok s \<Longrightarrow> ok (arrive e s)"
    and ok_attach: "ok s \<Longrightarrow> admits s r \<Longrightarrow> ok (attach r s)"
begin

text \<open>Arrivals (\<open>Inl\<close>) and attachments (\<open>Inr\<close>) in any interleaving.\<close>

abbreviation route_step :: "'e + 'r \<Rightarrow> 's \<Rightarrow> 's" where
  "route_step a s \<equiv> (case a of Inl e \<Rightarrow> arrive e s | Inr r \<Rightarrow> attach r s)"

text \<open>A run in which every attachment is admitted when it happens.\<close>

fun admitted :: "('e + 'r) list \<Rightarrow> 's \<Rightarrow> bool" where
  "admitted [] s \<longleftrightarrow> True"
| "admitted (a # as) s \<longleftrightarrow> (case a of Inl e \<Rightarrow> True | Inr r \<Rightarrow> admits s r) \<and> admitted as (route_step a s)"

lemma route_step_ok: "ok s \<Longrightarrow> admitted [a] s \<Longrightarrow> ok (route_step a s)"
  by (cases a) (simp_all add: ok_arrive ok_attach)

text \<open>What is pending afterwards is what was pending before and the arrivals it accepted.\<close>

fun accepted :: "('e + 'r) list \<Rightarrow> 's \<Rightarrow> 'k \<Rightarrow> 'e list" where
  "accepted [] s k = []"
| "accepted (a # as) s k =
     (case a of Inl e \<Rightarrow> if key e = k \<and> accepts s e then [e] else [] | Inr r \<Rightarrow> []) @ accepted as (route_step a s) k"

lemma pending_run:
  "ok s \<Longrightarrow> admitted as s \<Longrightarrow>
     pending (fold route_step as s) k = pending s k @ accepted as s k \<and> ok (fold route_step as s)"
proof (induction as arbitrary: s)
  case (Cons a as)
  have ok: "ok (route_step a s)" using route_step_ok [of s a] Cons.prems by simp
  show ?case
    using Cons.IH [OF ok] Cons.prems by (cases a) (simp_all add: pending_arrive pending_attach)
qed simp

end

end
