(* ===== verification/Agent_Caller.thy ===== *)
theory Agent_Caller
  imports Async_Queue "HOL-Library.Multiset"
begin

text \<open>
  The agent as a caller: \<open>rekuest/agents/caller.py\<close>, class \<open>AgentPostman\<close>.

  The record \<open>agent_postman\<close> has one field per attribute. A call is a coroutine; it is
  modelled by what it does between its suspension points: it registers its future, takes
  its response, takes events off its queue, and leaves by one of its exits. Futures are
  \<open>None\<close> until they have a result. The messages are \<open>arkitekt_runtime\<close>'s: the model has
  the fields this code reads; which mirrors are terminal (\<open>TERMINAL_EVENT_MIRRORS\<close>) and the
  digest of the arguments (SHA-256 of their JSON) are parameters.
\<close>

section \<open>Events\<close>

datatype execution_body =
    Yield_Event "json option"
  | Completed_Event
  | Failed_Event "string option" "string option" \<comment> \<open>\<open>error\<close>, \<open>code\<close>\<close>
  | Critical_Event "string option"
  | Lost_Event json json json "string option" \<comment> \<open>\<open>started\<close>, \<open>last_progress\<close>, \<open>effects\<close>, \<open>reason\<close>\<close>
  | Held_Event "string option option" \<comment> \<open>the prompt, by its title\<close>
  | Denied_Event "string option" \<comment> \<open>\<open>answer\<close>\<close>
  | Cancelled_Event
  | Interrupted_Event
  | Bookkeeping_Event string \<comment> \<open>Bound, Queued, Started, Progress, Log, ...\<close>

record execution_event =
  ee_task :: task_id
  ee_seq :: int
  ee_body :: execution_body

datatype task_event_kind =
  YIELD | COMPLETED | FAILED | CRITICAL | LOST | HELD | DENIED | CANCELLED | INTERRUPTED | OTHER_KIND string

record caller_task_event =
  ct_kind :: task_event_kind
  ct_returns :: "json option"
  ct_message :: "string option"
  ct_value :: "(string, json) dict option"
  ct_task :: "task_id option"

definition kind_event :: "task_event_kind \<Rightarrow> caller_task_event" where
  "kind_event k = \<lparr>ct_kind = k, ct_returns = None, ct_message = None, ct_value = None, ct_task = None\<rparr>"

definition json_opt :: "string option \<Rightarrow> json" where
  "json_opt s = (case s of None \<Rightarrow> J_Null | Some s \<Rightarrow> J_String s)"

text \<open>\<open>_adapt\<close>.\<close>

definition adapt :: "execution_event \<Rightarrow> caller_task_event option" where
  "adapt event =
     (case ee_body event of
        Yield_Event returns \<Rightarrow> Some ((kind_event YIELD)\<lparr>ct_returns := returns\<rparr>)
      | Completed_Event \<Rightarrow> Some (kind_event COMPLETED)
      | Failed_Event error code \<Rightarrow>
          Some ((kind_event FAILED)\<lparr>ct_message := error,
            ct_value := (if truthy code then Some [(''code'', json_opt code)] else None),
            ct_task := Some (ee_task event)\<rparr>)
      | Critical_Event error \<Rightarrow> Some ((kind_event CRITICAL)\<lparr>ct_message := error\<rparr>)
      | Lost_Event started last_progress effects reason \<Rightarrow>
          Some ((kind_event LOST)\<lparr>ct_message := reason,
            ct_value := Some [(''started'', started), (''last_progress'', last_progress),
              (''effects'', effects), (''reason'', json_opt reason)]\<rparr>)
      | Held_Event prompt \<Rightarrow>
          Some ((kind_event HELD)\<lparr>ct_message := Option.bind prompt id, ct_task := Some (ee_task event)\<rparr>)
      | Denied_Event answer \<Rightarrow>
          Some ((kind_event DENIED)\<lparr>ct_message := answer, ct_task := Some (ee_task event)\<rparr>)
      | Cancelled_Event \<Rightarrow>
          Some ((kind_event CRITICAL)\<lparr>ct_message :=
            Some ''The delegated task was cancelled or interrupted before completion.''\<rparr>)
      | Interrupted_Event \<Rightarrow>
          Some ((kind_event CRITICAL)\<lparr>ct_message :=
            Some ''The delegated task was cancelled or interrupted before completion.''\<rparr>)
      | Bookkeeping_Event _ \<Rightarrow> None)"

section \<open>Responses and requests\<close>

datatype response_id_field = Task_Id "task_id option" | Probe_Id "task_id option" | No_Id

text \<open>An \<open>AssignResponse\<close>, \<open>ProbeResponse\<close> or \<open>StateRevisionResponse\<close>.\<close>

record response =
  rs_request :: string
  rs_id :: response_id_field
  rs_error :: "string option"

definition response_id :: "response \<Rightarrow> task_id option" where
  "response_id r = (case rs_id r of Probe_Id p \<Rightarrow> p | Task_Id t \<Rightarrow> t | No_Id \<Rightarrow> None)"

record agent_postman =
  pm_cancel_timeout :: rat
  pm_pending :: "(string, response option) dict"
  pm_queues :: "(task_id, execution_event async_queue) dict"
  pm_orphans :: "(task_id, execution_event list) dict"
  pm_occurrences :: "(task_id \<times> string, nat) dict"
  pm_reference_to_task :: "(reference, task_id) dict"
  pm_last_seq :: "(task_id, int) dict"

definition new_postman :: "rat \<Rightarrow> agent_postman" where
  "new_postman cancel_timeout = \<lparr>pm_cancel_timeout = cancel_timeout, pm_pending = [], pm_queues = [],
     pm_orphans = [], pm_occurrences = [], pm_reference_to_task = [], pm_last_seq = []\<rparr>"

subsection \<open>Call keys\<close>

definition forget_parent :: "task_id \<Rightarrow> agent_postman \<Rightarrow> agent_postman" where
  "forget_parent parent pm =
     pm\<lparr>pm_occurrences := dict_drop (\<lambda>k. fst k = parent) (pm_occurrences pm)\<rparr>"

definition call_base :: "('args \<Rightarrow> string) \<Rightarrow> string \<Rightarrow> 'args \<Rightarrow> string" where
  "call_base digest target args = target @ '':'' @ digest args"

definition derive_call_key ::
    "('args \<Rightarrow> string) \<Rightarrow> task_id \<Rightarrow> string \<Rightarrow> 'args \<Rightarrow> agent_postman \<Rightarrow> string \<times> agent_postman" where
  "derive_call_key digest parent target args pm =
     (let base = call_base digest target args;
          occurrence = dict_getdefault (pm_occurrences pm) (parent, base) 0 + 1
      in (base @ '':'' @ nat_str occurrence,
          pm\<lparr>pm_occurrences := dict_put (pm_occurrences pm) (parent, base) occurrence\<rparr>))"

text \<open>The call description, as far as \<open>aassign\<close> looks into it.\<close>

record 'args call_description =
  cd_args :: 'args
  cd_reference :: "string option"
  cd_action :: "string option"
  cd_action_hash :: "string option"
  cd_implementation :: "string option"
  cd_parent :: "task_id option"
  cd_dependency :: "string option"
  cd_method :: "string option"
  cd_interface :: "string option"
  cd_call_key :: "string option"

record 'args assign_request =
  ar_reference :: string
  ar_parent_step :: "int option"
  ar_call_key :: "string option"
  ar_call :: "'args call_description" \<comment> \<open>what is sent as it was given\<close>

text \<open>\<open>action or action_hash or implementation or (f"{dependency}.{method}" if dependency else
  interface) or "call"\<close>.\<close>

definition call_target :: "'args call_description \<Rightarrow> string" where
  "call_target c =
     str_or (opt_or (cd_action c) (opt_or (cd_action_hash c) (opt_or (cd_implementation c)
       (if truthy (cd_dependency c)
        then Some (the (cd_dependency c) @ ''.'' @ (case cd_method c of None \<Rightarrow> ''None'' | Some m \<Rightarrow> m))
        else cd_interface c)))) ''call''"

text \<open>
  \<open>aassign\<close> up to where it streams: \<open>step\<close> is what \<open>child_step\<close> answered for the parent, if
  there is one, and \<open>fresh\<close> the reference minted for a call without one.
\<close>

definition aassign_request ::
    "('args \<Rightarrow> string) \<Rightarrow> (task_id \<Rightarrow> int option) option \<Rightarrow> string \<Rightarrow> 'args call_description
      \<Rightarrow> agent_postman \<Rightarrow> 'args assign_request \<times> agent_postman" where
  "aassign_request digest child_step fresh c pm =
     (let parent_step = (case (cd_parent c, child_step) of
            (Some p, Some step) \<Rightarrow> step p | _ \<Rightarrow> None);
          (key, pm') = (case (cd_parent c, cd_call_key c) of
            (Some p, None) \<Rightarrow>
              (let (k, pm1) = derive_call_key digest p (call_target c) (cd_args c) pm in (Some k, pm1))
          | (_, given) \<Rightarrow> (given, pm))
      in (\<lparr>ar_reference = str_or (cd_reference c) fresh, ar_parent_step = parent_step,
           ar_call_key = key, ar_call = c\<rparr>, pm'))"

text \<open>\<open>aprobe\<close> up to where it streams: a probe has no parent and takes no key.\<close>

record 'args probe_request =
  pr_reference :: string
  pr_args :: 'args
  pr_action :: "string option"
  pr_implementation :: "string option"
  pr_action_hash :: "string option"

definition aprobe_request ::
    "string \<Rightarrow> 'args \<Rightarrow> string option \<Rightarrow> string option \<Rightarrow> string option \<Rightarrow> string option \<Rightarrow> 'args probe_request" where
  "aprobe_request fresh args ref action implementation action_hash =
     \<lparr>pr_reference = str_or ref fresh, pr_args = args, pr_action = action,
      pr_implementation = implementation, pr_action_hash = action_hash\<rparr>"

subsection \<open>Routing\<close>

definition ensure_queue :: "task_id \<Rightarrow> agent_postman \<Rightarrow> agent_postman" where
  "ensure_queue task pm =
     (let queues = dict_setdefault (pm_queues pm) task aq_new;
          orphans = dict_getdefault (pm_orphans pm) task [];
          q = the (dict_get queues task)
      in pm\<lparr>pm_queues := dict_put queues task (fold aq_put orphans q),
            pm_orphans := dict_pop (pm_orphans pm) task\<rparr>)"

definition register_task :: "reference \<Rightarrow> task_id \<Rightarrow> agent_postman \<Rightarrow> agent_postman" where
  "register_task reference task pm =
     ensure_queue task (pm\<lparr>pm_reference_to_task := dict_put (pm_reference_to_task pm) reference task\<rparr>)"

text \<open>The waiting call's future, if there is one and it has no result yet, gets this one.\<close>

definition resolve :: "response \<Rightarrow> agent_postman \<Rightarrow> agent_postman" where
  "resolve r pm =
     (case dict_get (pm_pending pm) (rs_request r) of
        Some None \<Rightarrow> pm\<lparr>pm_pending := dict_put (pm_pending pm) (rs_request r) (Some r)\<rparr>
      | _ \<Rightarrow> pm)"

definition handle_response :: "response \<Rightarrow> agent_postman \<Rightarrow> agent_postman" where
  "handle_response r pm =
     resolve r (if truthy (response_id r) \<and> \<not> truthy (rs_error r)
                then ensure_queue (the (response_id r)) pm else pm)"

definition handle_state_revision_response :: "response \<Rightarrow> agent_postman \<Rightarrow> agent_postman" where
  "handle_state_revision_response r pm = resolve r pm"

definition handle_execution_event :: "execution_event \<Rightarrow> agent_postman \<Rightarrow> agent_postman" where
  "handle_execution_event e pm =
     (let pm1 = pm\<lparr>pm_last_seq := dict_put (pm_last_seq pm) (ee_task e) (ee_seq e)\<rparr>
      in case dict_get (pm_queues pm1) (ee_task e) of
           Some q \<Rightarrow> pm1\<lparr>pm_queues := dict_put (pm_queues pm1) (ee_task e) (aq_put e q)\<rparr>
         | None \<Rightarrow>
             pm1\<lparr>pm_orphans := dict_put (pm_orphans pm1) (ee_task e)
               (dict_getdefault (pm_orphans pm1) (ee_task e) [] @ [e])\<rparr>)"


subsection \<open>A call\<close>

datatype call_error = Non_Deterministic_Workflow string | Assign_Exception string

text \<open>Before the request goes out: a future for its answer.\<close>

definition expect_response :: "string \<Rightarrow> agent_postman \<Rightarrow> agent_postman" where
  "expect_response request pm = pm\<lparr>pm_pending := dict_put (pm_pending pm) request None\<rparr>"

definition starts_with :: "string \<Rightarrow> string \<Rightarrow> bool" where
  "starts_with s pre \<longleftrightarrow> take (length pre) s = pre"

text \<open>The answer is there: the call fails, or learns its task and gets its queue.\<close>

definition accept_response ::
    "reference \<Rightarrow> response \<Rightarrow> agent_postman \<Rightarrow> call_error + task_id \<times> agent_postman" where
  "accept_response reference r pm =
     (if truthy (rs_error r)
      then if starts_with (the (rs_error r)) ''Nondeterministic workflow''
           then Inl (Non_Deterministic_Workflow (the (rs_error r)))
           else Inl (Assign_Exception (the (rs_error r)))
      else if \<not> truthy (response_id r)
           then Inl (Assign_Exception ''The backend acked the request without an id and without an error.'')
           else Inr (the (response_id r), register_task reference (the (response_id r)) pm))"

text \<open>
  The loop over the queue: the events yielded for these, the seqs seen, and whether a
  terminal mirror ended the stream (what is behind it is not taken).
\<close>

fun stream_events ::
    "(execution_event \<Rightarrow> bool) \<Rightarrow> int list \<Rightarrow> execution_event list \<Rightarrow> caller_task_event list \<times> int list \<times> bool" where
  "stream_events terminal seen [] = ([], seen, False)"
| "stream_events terminal seen (e # es) =
     (if ee_seq e \<in> set seen then stream_events terminal seen es
      else let out = (case adapt e of Some a \<Rightarrow> [a] | None \<Rightarrow> [])
           in if terminal e then (out, ee_seq e # seen, True)
              else let (more, seen', ended) = stream_events terminal (ee_seq e # seen) es
                   in (out @ more, seen', ended))"

text \<open>The \<open>finally\<close> of a call: \<open>task\<close> is \<open>None\<close> until its response was accepted.\<close>

definition finish_call :: "string \<Rightarrow> reference \<Rightarrow> task_id option \<Rightarrow> agent_postman \<Rightarrow> agent_postman" where
  "finish_call request reference task pm =
     (let pm1 = pm\<lparr>pm_pending := dict_pop (pm_pending pm) request\<rparr>;
          pm2 = (case task of
                   None \<Rightarrow> pm1
                 | Some t \<Rightarrow> pm1\<lparr>pm_queues := dict_pop (pm_queues pm1) t,
                                 pm_orphans := dict_pop (pm_orphans pm1) t,
                                 pm_last_seq := dict_pop (pm_last_seq pm1) t\<rparr>)
      in pm2\<lparr>pm_reference_to_task := dict_pop (pm_reference_to_task pm2) reference\<rparr>)"

subsection \<open>Cancelling\<close>

datatype control_request = Cancel_Request task_id | Interrupt_Request task_id

text \<open>
  \<open>_await_terminal\<close>: the mirrors come with the time they are available; the second component
  is what is left on the queue, the third when it returned.
\<close>

definition await_terminal ::
    "(execution_event \<Rightarrow> bool) \<Rightarrow> rat \<Rightarrow> rat \<Rightarrow> (rat \<times> execution_event) list
      \<Rightarrow> bool \<times> (rat \<times> execution_event) list \<times> rat" where
  "await_terminal wanted timeout now arrivals = await_item wanted (\<lambda>_. False) (now + timeout) now arrivals"

text \<open>
  \<open>_confirm_cancellation\<close>: the control requests it sends, and when it returns. Putting a
  request on the send queue takes no time.
\<close>

definition confirm_cancellation ::
    "task_id \<Rightarrow> (rat \<times> execution_event) list \<Rightarrow> bool \<Rightarrow> rat \<Rightarrow> rat \<Rightarrow> control_request list \<times> rat" where
  "confirm_cancellation task arrivals escalate timeout now =
     (case await_terminal (\<lambda>e. ee_body e = Cancelled_Event) timeout now arrivals of
        (True, _, now1) \<Rightarrow> ([Cancel_Request task], now1)
      | (False, rest, now1) \<Rightarrow>
          if \<not> escalate then ([Cancel_Request task], now1)
          else (case await_terminal (\<lambda>e. ee_body e = Cancelled_Event \<or> ee_body e = Interrupted_Event)
                       timeout now1 rest of
                  (_, _, now2) \<Rightarrow> ([Cancel_Request task, Interrupt_Request task], now2)))"

lemma confirm_cancellation_phases:
  "confirm_cancellation task arrivals escalate timeout now =
     (case confirm_phases (\<lambda>e. ee_body e = Cancelled_Event)
         (\<lambda>e. ee_body e = Cancelled_Event \<or> ee_body e = Interrupted_Event) (\<lambda>_. False)
         arrivals escalate timeout 0 now of
        (interrupted, finished) \<Rightarrow>
          (Cancel_Request task # (if interrupted then [Interrupt_Request task] else []), finished))"
  by (auto simp: confirm_cancellation_def confirm_phases_def await_terminal_def Let_def
      split: prod.splits bool.splits)

text \<open>A call is cancelled: \<open>task\<close> is \<open>None\<close> while its response is outstanding.\<close>

definition cancel_call ::
    "string \<Rightarrow> reference \<Rightarrow> task_id option \<Rightarrow> (rat \<times> execution_event) list \<Rightarrow> bool \<Rightarrow> rat option \<Rightarrow> rat
      \<Rightarrow> agent_postman \<Rightarrow> control_request list \<times> agent_postman" where
  "cancel_call request reference task arrivals escalate cancel_timeout now pm =
     (let timeout = (case cancel_timeout of Some s \<Rightarrow> s | None \<Rightarrow> pm_cancel_timeout pm)
      in (case task of
            None \<Rightarrow> []
          | Some t \<Rightarrow> fst (confirm_cancellation t arrivals escalate timeout now),
          finish_call request reference task pm))"

text \<open>The generator is closed (\<open>GeneratorExit\<close>): the cancel is sent and not awaited.\<close>

definition close_call ::
    "string \<Rightarrow> reference \<Rightarrow> task_id option \<Rightarrow> agent_postman \<Rightarrow> control_request list \<times> agent_postman" where
  "close_call request reference task pm =
     (case task of None \<Rightarrow> [] | Some t \<Rightarrow> [Cancel_Request t], finish_call request reference task pm)"

text \<open>\<open>astate_revision\<close> once its future is resolved.\<close>

definition state_revision_answer ::
    "string \<Rightarrow> response \<Rightarrow> agent_postman \<Rightarrow> (call_error + response) \<times> agent_postman" where
  "state_revision_answer request r pm =
     (if truthy (rs_error r) then Inl (Assign_Exception (the (rs_error r))) else Inr r,
      pm\<lparr>pm_pending := dict_pop (pm_pending pm) request\<rparr>)"

section \<open>Events that race their response\<close>

text \<open>What the call of a task will find on its queue.\<close>

definition pending_events :: "agent_postman \<Rightarrow> task_id \<Rightarrow> execution_event list" where
  "pending_events pm task =
     (case dict_get (pm_queues pm) task of Some q \<Rightarrow> aq_items q | None \<Rightarrow> []) @
     dict_getdefault (pm_orphans pm) task []"

definition postman_ok :: "agent_postman \<Rightarrow> bool" where
  "postman_ok pm \<longleftrightarrow> dict_ok (pm_queues pm) \<and> dict_ok (pm_orphans pm) \<and>
     (\<forall>task. dict_get (pm_queues pm) task \<noteq> None \<longrightarrow> dict_get (pm_orphans pm) task = None)"

lemma ensure_queue_pending:
  assumes "postman_ok pm"
  shows "pending_events (ensure_queue task pm) t = pending_events pm t"
    and "postman_ok (ensure_queue task pm)"
    and "\<exists>q. dict_get (pm_queues (ensure_queue task pm)) task = Some q \<and> aq_items q = pending_events pm task"
  using assms
  by (auto simp: pending_events_def postman_ok_def ensure_queue_def dict_getdefault_def dict_get_setdefault
      aq_fold_put aq_new_def Let_def dict_simps split: option.splits)


lemma resolve_queues [simp]:
  "pm_queues (resolve r pm) = pm_queues pm" "pm_orphans (resolve r pm) = pm_orphans pm"
  by (auto simp: resolve_def split: option.splits)

lemma pending_events_resolve [simp]: "pending_events (resolve r pm) t = pending_events pm t"
  by (simp add: pending_events_def)

lemma postman_ok_resolve [simp]: "postman_ok (resolve r pm) = postman_ok pm"
  by (simp add: postman_ok_def)

lemma handle_execution_event_pending:
  assumes "postman_ok pm"
  shows "pending_events (handle_execution_event e pm) t =
      pending_events pm t @ (if ee_task e = t then [e] else [])"
    and "postman_ok (handle_execution_event e pm)"
  using assms
  by (auto simp: pending_events_def postman_ok_def handle_execution_event_def dict_getdefault_def aq_put_def
      Let_def split: option.splits)

interpretation pm: router handle_execution_event handle_response pending_events ee_task
    "\<lambda>_ _. True" "\<lambda>_ _. True" postman_ok
  by unfold_locales
    (simp_all add: handle_execution_event_pending handle_response_def ensure_queue_pending)

lemma new_postman_ok: "postman_ok (new_postman s)"
  by (simp add: new_postman_def postman_ok_def)

definition accepted_events :: "task_id \<Rightarrow> (execution_event + response) list \<Rightarrow> execution_event list" where
  "accepted_events t as =
     filter (\<lambda>e. ee_task e = t) (List.map_filter (\<lambda>a. case a of Inl e \<Rightarrow> Some e | Inr _ \<Rightarrow> None) as)"

definition inbound :: "execution_event + response \<Rightarrow> agent_postman \<Rightarrow> agent_postman" where
  "inbound a pm = (case a of Inl e \<Rightarrow> handle_execution_event e pm | Inr r \<Rightarrow> handle_response r pm)"

lemma pm_accepted: "pm.admitted as pm \<and> pm.accepted as pm t = accepted_events t as"
  by (induction as arbitrary: pm)
    (auto simp: accepted_events_def List.map_filter_def split: sum.split)

lemma inbound_pending:
  assumes "postman_ok pm"
  shows "pending_events (fold inbound as pm) t = pending_events pm t @ accepted_events t as"
    and "postman_ok (fold inbound as pm)"
  using pm.pending_run [OF assms, of as t] pm_accepted [of as pm t]
  by (simp_all add: inbound_def [abs_def])

text \<open>
  C7. No mirror is lost to the race with its response. However the mirrors of all tasks and
  the responses of all calls interleave on the socket, a call that then accepts its
  response finds on its task's queue every mirror of that task received since the postman
  started, in the order received, and no other.
\<close>

theorem mirrors_reach_their_call:
  assumes "accept_response reference r (fold inbound as (new_postman timeout)) = Inr (task, pm)"
  shows "\<exists>q. dict_get (pm_queues pm) task = Some q \<and> aq_items q = accepted_events task as"
proof -
  let ?pm = "fold inbound as (new_postman timeout)"
  have ok: "postman_ok ?pm" and pending: "pending_events ?pm task = accepted_events task as"
    using inbound_pending [OF new_postman_ok] by (simp_all add: pending_events_def new_postman_def dict_getdefault_def)
  let ?bound = "?pm\<lparr>pm_reference_to_task := dict_put (pm_reference_to_task ?pm) reference task\<rparr>"
  have bound: "postman_ok ?bound" "pending_events ?bound task = accepted_events task as"
    using ok pending by (simp_all add: postman_ok_def pending_events_def)
  have "pm = ensure_queue task ?bound"
    using assms by (auto simp: accept_response_def register_task_def split: if_splits)
  then show ?thesis using ensure_queue_pending(3) [OF bound(1), of task] bound(2) by simp
qed

definition demo_event :: "task_id \<Rightarrow> int \<Rightarrow> execution_body \<Rightarrow> execution_event" where
  "demo_event t n b = \<lparr>ee_task = t, ee_seq = n, ee_body = b\<rparr>"

definition demo_response :: "task_id \<Rightarrow> response" where
  "demo_response t = \<lparr>rs_request = ''r'', rs_id = Task_Id (Some t), rs_error = None\<rparr>"

definition demo_inbound :: "(execution_event + response) list" where
  "demo_inbound = [Inl (demo_event ''1'' 1 (Yield_Event None)), Inl (demo_event ''2'' 1 Completed_Event),
     Inr (demo_response ''1''), Inl (demo_event ''1'' 2 Completed_Event)]"

theorem mirrors_reach_their_call_witness:
  "\<exists>pm q. accept_response ''ref'' (demo_response ''1'') (fold inbound demo_inbound (new_postman 5)) = Inr (''1'', pm) \<and>
     dict_get (pm_queues pm) ''1'' = Some q \<and>
     aq_items q = [demo_event ''1'' 1 (Yield_Event None), demo_event ''1'' 2 Completed_Event]"
proof -
  obtain pm where pm: "accept_response ''ref'' (demo_response ''1'') (fold inbound demo_inbound (new_postman 5)) =
      Inr (''1'', pm)"
    by (simp add: accept_response_def demo_response_def response_id_def)
  from mirrors_reach_their_call [OF this] pm show ?thesis
    by (auto simp: accepted_events_def demo_inbound_def demo_event_def List.map_filter_def)
qed

section \<open>The stream of a call\<close>

text \<open>The first event of every seq, in order.\<close>

fun firsts :: "int list \<Rightarrow> execution_event list \<Rightarrow> execution_event list" where
  "firsts seen [] = []"
| "firsts seen (e # es) =
     (if ee_seq e \<in> set seen then firsts seen es else e # firsts (ee_seq e # seen) es)"

fun up_to :: "('a \<Rightarrow> bool) \<Rightarrow> 'a list \<Rightarrow> 'a list" where
  "up_to P [] = []"
| "up_to P (x # xs) = (if P x then [x] else x # up_to P xs)"

lemma stream_events_eq:
  "fst (stream_events terminal seen es) = List.map_filter adapt (up_to terminal (firsts seen es))"
  "snd (snd (stream_events terminal seen es)) \<longleftrightarrow> (\<exists>e \<in> set (firsts seen es). terminal e)"
  by (induction es arbitrary: seen)
    (auto simp: List.map_filter_def case_prod_beta' Let_def split: option.splits)

lemma firsts_seqs:
  "distinct (map ee_seq (firsts seen es)) \<and> set (map ee_seq (firsts seen es)) = ee_seq ` set es - set seen"
proof (induction es arbitrary: seen)
  case (Cons e es)
  show ?case using Cons.IH [of seen] Cons.IH [of "ee_seq e # seen"] by auto
qed simp

text \<open>
  A stream yields each event once, and ends with the first terminal mirror. Whatever the
  replay of a child found again and the live events have in common, the stream is that of
  the events without repetitions: distinct seqs, the first occurrences in order, adapted,
  up to and including the first terminal one; it has ended exactly if one came.
\<close>

theorem stream_yields_once:
  "let (yields, seen, ended) = stream_events terminal [] es; once = firsts [] es
   in yields = List.map_filter adapt (up_to terminal once) \<and>
      (ended \<longleftrightarrow> (\<exists>e \<in> set once. terminal e)) \<and>
      distinct (map ee_seq once) \<and> set (map ee_seq once) = ee_seq ` set es"
proof -
  obtain yields seen ended where run: "stream_events terminal [] es = (yields, seen, ended)"
    using prod_cases3 by blast
  then show ?thesis
    using stream_events_eq [of terminal "[]" es] firsts_seqs [of "[]" es] by simp
qed

section \<open>Cancelling a call\<close>

text \<open>
  C25. Cancelling is bounded and escalates only when it must. A cancelled call that knows its
  task sends one cancel; with escalation it sends an interrupt too, exactly if no
  \<open>CancelledEvent\<close> arrives within the timeout; and it returns after at most two timeouts,
  whatever the backend does or does not send.
\<close>

theorem cancellation_bounded:
  assumes "sorted (map fst arrivals)" and "0 < timeout"
    and "confirm_cancellation task arrivals escalate timeout now = (controls, finished)"
  shows "now \<le> finished \<and> finished \<le> now + 2 * timeout \<and>
    controls = Cancel_Request task #
      (if escalate \<and> \<not> (\<exists>(due, e) \<in> set arrivals. due < now + timeout \<and> ee_body e = Cancelled_Event)
       then [Interrupt_Request task] else [])"
proof -
  obtain interrupted where phases: "confirm_phases (\<lambda>e. ee_body e = Cancelled_Event)
      (\<lambda>e. ee_body e = Cancelled_Event \<or> ee_body e = Interrupted_Event) (\<lambda>_. False)
      arrivals escalate timeout 0 now = (interrupted, finished)"
    and controls: "controls = Cancel_Request task # (if interrupted then [Interrupt_Request task] else [])"
    using assms(3) by (auto simp: confirm_cancellation_phases split: prod.splits)
  show ?thesis
    using confirm_phases_bounded [OF assms(2) order_refl phases]
      confirm_phases_interrupts [OF assms(1,2) _ phases] controls by auto
qed

theorem cancellation_bounded_witness:
  "\<exists>controls finished. confirm_cancellation ''t'' [(7, demo_event ''t'' 1 (Bookkeeping_Event ''Log''))] True 5 0 =
      (controls, finished) \<and> finished \<le> 0 + 2 * 5 \<and> controls = [Cancel_Request ''t'', Interrupt_Request ''t'']"
proof -
  let ?as = "[(7, demo_event ''t'' 1 (Bookkeeping_Event ''Log''))] :: (rat \<times> execution_event) list"
  obtain controls finished where run: "confirm_cancellation ''t'' ?as True 5 0 = (controls, finished)"
    by fastforce
  have "sorted (map fst ?as)" "(0::rat) < 5" by simp_all
  from cancellation_bounded [OF this run] run show ?thesis by auto
qed


section \<open>Derived call keys\<close>

text \<open>The calls of several parents, in the order they take their keys: (parent, target, args).\<close>

fun derive_keys ::
    "('args \<Rightarrow> string) \<Rightarrow> (task_id \<times> string \<times> 'args) list \<Rightarrow> agent_postman \<Rightarrow> string list \<times> agent_postman" where
  "derive_keys digest [] pm = ([], pm)"
| "derive_keys digest ((p, target, args) # cs) pm =
     (let (k, pm1) = derive_call_key digest p target args pm;
          (ks, pm2) = derive_keys digest cs pm1
      in (k # ks, pm2))"

text \<open>What the counters tell apart: the parent, and the target with the digest.\<close>

definition call_id :: "('args \<Rightarrow> string) \<Rightarrow> task_id \<times> string \<times> 'args \<Rightarrow> task_id \<times> string" where
  "call_id digest = (\<lambda>(p, target, args). (p, call_base digest target args))"

definition made :: "agent_postman \<Rightarrow> task_id \<times> string \<Rightarrow> nat" where
  "made pm i = dict_getdefault (pm_occurrences pm) i 0"

definition numbered :: "string \<Rightarrow> nat \<Rightarrow> string" where
  "numbered base n = base @ '':'' @ nat_str n"

lemma numbered_inject: "numbered b m = numbered c n \<longleftrightarrow> b = c \<and> m = n"
  using split_at_last [of b "CHR '':''" "nat_str m" c "nat_str n"] colon_notin_nat_str
  by (auto simp: numbered_def)

lemma derive_call_key_eq:
  assumes "derive_call_key digest p target args pm = (k, pm')"
  shows "k = numbered (call_base digest target args) (made pm (p, call_base digest target args) + 1)"
    and "made pm' = (made pm)((p, call_base digest target args) :=
      made pm (p, call_base digest target args) + 1)"
  using assms by (auto simp: derive_call_key_def numbered_def made_def dict_getdefault_def fun_eq_iff Let_def)

lemma derive_keys_set:
  assumes "derive_keys digest cs pm = (ks, pm')"
  shows "length ks = length cs \<and> distinct (zip (map (call_id digest) cs) ks) \<and>
    set (zip (map (call_id digest) cs) ks) =
      {(i, numbered (snd i) n) |i n. made pm i < n \<and> n \<le> made pm i + count_list (map (call_id digest) cs) i}"
  using assms
proof (induction cs arbitrary: pm ks)
  case (Cons c cs)
  obtain p target args where c: "c = (p, target, args)" by (cases c)
  obtain k pm1 where k: "derive_call_key digest p target args pm = (k, pm1)" by fastforce
  obtain ks1 where ks1: "derive_keys digest cs pm1 = (ks1, pm')" and ks: "ks = k # ks1"
    using Cons.prems c k by (auto split: prod.splits)
  define i where "i = call_id digest c"
  have i: "i = (p, call_base digest target args)" by (simp add: i_def c call_id_def)
  have k_eq: "k = numbered (snd i) (made pm i + 1)" and made: "made pm1 = (made pm)(i := made pm i + 1)"
    using derive_call_key_eq [OF k] by (simp_all add: i)
  note IH = Cons.IH [OF ks1]
  have ids: "map (call_id digest) (c # cs) = i # map (call_id digest) cs" by (simp add: i_def)
  let ?tail = "set (zip (map (call_id digest) cs) ks1)"
  have tail: "?tail = {(j, numbered (snd j) n) |j n. made pm1 j < n \<and>
      n \<le> made pm1 j + count_list (map (call_id digest) cs) j}"
    using IH by blast
  have new: "(i, k) \<notin> ?tail"
    unfolding tail by (auto simp: k_eq numbered_inject made)
  have grown: "insert (i, k) ?tail = {(j, numbered (snd j) n) |j n. made pm j < n \<and>
      n \<le> made pm j + count_list (i # map (call_id digest) cs) j}"
    unfolding tail
  proof (intro set_eqI iffI)
    fix x
    assume "x \<in> insert (i, k) {(j, numbered (snd j) n) |j n. made pm1 j < n \<and>
      n \<le> made pm1 j + count_list (map (call_id digest) cs) j}"
    then show "x \<in> {(j, numbered (snd j) n) |j n. made pm j < n \<and>
      n \<le> made pm j + count_list (i # map (call_id digest) cs) j}"
    proof
      assume "x = (i, k)"
      then show ?thesis by (force simp: k_eq)
    next
      assume "x \<in> {(j, numbered (snd j) n) |j n. made pm1 j < n \<and>
        n \<le> made pm1 j + count_list (map (call_id digest) cs) j}"
      then obtain j n where x: "x = (j, numbered (snd j) n)" and n: "made pm1 j < n"
        "n \<le> made pm1 j + count_list (map (call_id digest) cs) j"
        by blast
      then have "made pm j < n \<and> n \<le> made pm j + count_list (i # map (call_id digest) cs) j"
        by (auto simp: made split: if_splits)
      then show ?thesis using x by blast
    qed
  next
    fix x
    assume "x \<in> {(j, numbered (snd j) n) |j n. made pm j < n \<and>
      n \<le> made pm j + count_list (i # map (call_id digest) cs) j}"
    then obtain j n where x: "x = (j, numbered (snd j) n)" and n: "made pm j < n"
      "n \<le> made pm j + count_list (i # map (call_id digest) cs) j"
      by blast
    show "x \<in> insert (i, k) {(j, numbered (snd j) n) |j n. made pm1 j < n \<and>
      n \<le> made pm1 j + count_list (map (call_id digest) cs) j}"
    proof (cases "j = i \<and> n = made pm i + 1")
      case True
      then show ?thesis by (simp add: x k_eq)
    next
      case False
      then have "made pm1 j < n \<and> n \<le> made pm1 j + count_list (map (call_id digest) cs) j"
        using n by (auto simp: made split: if_splits)
      then show ?thesis using x by blast
    qed
  qed
  show ?case
    unfolding ids ks zip_Cons_Cons list.set distinct.simps
  proof (intro conjI)
    show "length (k # ks1) = length (c # cs)" using conjunct1 [OF IH] by simp
    show "(i, k) \<notin> ?tail" by (rule new)
    show "distinct (zip (map (call_id digest) cs) ks1)" by (rule conjunct1 [OF conjunct2 [OF IH]])
  qed (rule grown)
qed simp

text \<open>
  C23. Two calls of a parent never share a derived key. However the calls of several parents
  interleave, the keys a postman derives for one parent are all different, so the server,
  which finds a child by (parent, key), never takes one call for another.
\<close>

theorem derived_keys_distinct:
  "distinct (zip (map fst calls) (fst (derive_keys digest calls pm)))"
proof -
  obtain ks pm' where ks: "derive_keys digest calls pm = (ks, pm')" by fastforce
  note all = derive_keys_set [OF ks]
  have key: "\<exists>n. k = numbered (snd i) n" if "(i, k) \<in> set (zip (map (call_id digest) calls) ks)" for i k
    using all that by blast
  have "inj_on (\<lambda>(i, k). (fst i, k)) (set (zip (map (call_id digest) calls) ks))"
  proof (rule inj_onI)
    fix x y
    assume xy: "x \<in> set (zip (map (call_id digest) calls) ks)" "y \<in> set (zip (map (call_id digest) calls) ks)"
      and eq: "(case x of (i, k) \<Rightarrow> (fst i, k)) = (case y of (i, k) \<Rightarrow> (fst i, k))"
    obtain i k j l where ij: "x = (i, k)" "y = (j, l)" by (cases x; cases y)
    obtain m n where "k = numbered (snd i) m" "l = numbered (snd j) n"
      using key xy ij by blast
    then have "snd i = snd j" using eq ij by (simp add: numbered_inject)
    then show "x = y" using eq ij by (simp add: prod_eq_iff)
  qed
  then have "distinct (map (\<lambda>(i, k). (fst i, k)) (zip (map (call_id digest) calls) ks))"
    using all by (simp add: distinct_map)
  moreover have "map (\<lambda>(i, k). (fst i, k)) (zip (map (call_id digest) calls) ks) = zip (map fst calls) ks"
    by (simp add: zip_map1 call_id_def case_prod_beta' comp_def)
  ultimately show ?thesis by (simp add: ks)
qed

text \<open>
  C24. The keys do not depend on the order concurrent calls take them in. For two orders of
  the same calls, the same keys are handed out for the same parent, target and arguments:
  what differs is only which of several identical calls gets which.
\<close>

theorem derived_keys_order_independent:
  assumes "mset calls = mset calls'"
  shows "mset (zip (map (call_id digest) calls) (fst (derive_keys digest calls pm))) =
    mset (zip (map (call_id digest) calls') (fst (derive_keys digest calls' pm)))"
proof -
  obtain ks q where ks: "derive_keys digest calls pm = (ks, q)" by fastforce
  obtain ks' q' where ks': "derive_keys digest calls' pm = (ks', q')" by fastforce
  have "mset (map (call_id digest) calls) = mset (map (call_id digest) calls')"
    using assms by simp
  then have "count_list (map (call_id digest) calls) i = count_list (map (call_id digest) calls') i" for i
    by (metis count_mset)
  then have "set (zip (map (call_id digest) calls) ks) = set (zip (map (call_id digest) calls') ks')"
    using derive_keys_set [OF ks] derive_keys_set [OF ks'] by simp
  moreover have "distinct (zip (map (call_id digest) calls) ks)" "distinct (zip (map (call_id digest) calls') ks')"
    using derive_keys_set [OF ks] derive_keys_set [OF ks'] by blast+
  ultimately have "mset (zip (map (call_id digest) calls) ks) = mset (zip (map (call_id digest) calls') ks')"
    using set_eq_iff_mset_eq_distinct by blast
  then show ?thesis by (simp add: ks ks')
qed

theorem derived_keys_order_independent_witness:
  "mset (zip (map (call_id id) [(''p'', ''a'', ''x''), (''p'', ''b'', ''y'')])
      (fst (derive_keys id [(''p'', ''a'', ''x''), (''p'', ''b'', ''y'')] (new_postman 5)))) =
   {# ((''p'', ''b:y''), ''b:y:1''), ((''p'', ''a:x''), ''a:x:1'') #}"
proof -
  have "mset [(''p'', ''a'', ''x''), (''p'', ''b'', ''y'')] = mset [(''p'', ''b'', ''y''), (''p'', ''a'', ''x'')]"
    by simp
  from derived_keys_order_independent [OF this, of id "new_postman 5"]
  have "mset (zip (map (call_id id) [(''p'', ''a'', ''x''), (''p'', ''b'', ''y'')])
      (fst (derive_keys id [(''p'', ''a'', ''x''), (''p'', ''b'', ''y'')] (new_postman 5)))) =
    mset (zip (map (call_id id) [(''p'', ''b'', ''y''), (''p'', ''a'', ''x'')])
      (fst (derive_keys id [(''p'', ''b'', ''y''), (''p'', ''a'', ''x'')] (new_postman 5))))" .
  moreover have "zip (map (call_id id) [(''p'', ''b'', ''y''), (''p'', ''a'', ''x'')])
      (fst (derive_keys id [(''p'', ''b'', ''y''), (''p'', ''a'', ''x'')] (new_postman 5))) =
    [((''p'', ''b:y''), ''b:y:1''), ((''p'', ''a:x''), ''a:x:1'')]"
    by code_simp
  ultimately show ?thesis by simp
qed


text \<open>The keys of one parent's calls, out of everybody's.\<close>

definition keys_of :: "task_id \<Rightarrow> (task_id \<times> string \<times> 'args) list \<Rightarrow> string list \<Rightarrow> string list" where
  "keys_of p calls keys = map snd (filter (\<lambda>c. fst (fst c) = p) (zip calls keys))"

lemma fst_derive_keys_Cons:
  "fst (derive_keys digest ((p, target, args) # cs) pm) =
     fst (derive_call_key digest p target args pm) #
     fst (derive_keys digest cs (snd (derive_call_key digest p target args pm)))"
  by (simp add: case_prod_beta' Let_def)

lemma keys_of_own:
  assumes "\<And>b. made pm (p, b) = made pm' (p, b)"
  shows "keys_of p calls (fst (derive_keys digest calls pm)) =
    fst (derive_keys digest (filter (\<lambda>c. fst c = p) calls) pm')"
  using assms
proof (induction calls arbitrary: pm pm')
  case (Cons c calls)
  obtain q target args where c: "c = (q, target, args)" by (cases c)
  obtain k pm1 where k: "derive_call_key digest q target args pm = (k, pm1)" by fastforce
  obtain k' pm1' where k': "derive_call_key digest q target args pm' = (k', pm1')" by fastforce
  note eq = derive_call_key_eq [OF k] and eq' = derive_call_key_eq [OF k']
  show ?case
  proof (cases "q = p")
    case True
    have "made pm1 (p, b) = made pm1' (p, b)" for b
      using eq(2) eq'(2) Cons.prems True by simp
    from Cons.IH [of pm1 pm1', OF this] show ?thesis
      using True k k' eq(1) eq'(1) Cons.prems
      by (simp add: c keys_of_def fst_derive_keys_Cons del: derive_keys.simps)
  next
    case False
    have "made pm1 (p, b) = made pm' (p, b)" for b
      using eq(2) Cons.prems False by simp
    from Cons.IH [of pm1 pm', OF this] show ?thesis
      using False k by (simp add: c keys_of_def fst_derive_keys_Cons del: derive_keys.simps)
  qed
qed (simp add: keys_of_def)

text \<open>
  A resumed parent derives the same keys again. After a parent's counters were forgotten,
  or in a process that never knew it, its calls get the keys they got the first time, whatever
  calls of other parents came before and come in between.
\<close>

theorem resumed_parent_same_keys:
  "keys_of p calls (fst (derive_keys digest calls (forget_parent p pm))) =
    fst (derive_keys digest (filter (\<lambda>c. fst c = p) calls) (new_postman timeout))"
proof (rule keys_of_own)
  show "made (forget_parent p pm) (p, b) = made (new_postman timeout) (p, b)" for b
    by (simp add: made_def forget_parent_def new_postman_def dict_getdefault_def dict_get_drop restrict_map_def)
qed

text \<open>
  An action and an implementation with the same id are not told apart. The target of a
  derived key is the bare id, so a call of action 5 and a call of implementation 5 with equal
  arguments count as repetitions of one call: which of them is \<open>5:d:1\<close> depends on which came
  first, and a resumed parent that makes them in the other order swaps their keys.
\<close>

theorem key_confuses_action_and_implementation:
  "let base = \<lparr>cd_args = (), cd_reference = None, cd_action = None, cd_action_hash = None,
         cd_implementation = None, cd_parent = Some ''p'', cd_dependency = None, cd_method = None,
         cd_interface = None, cd_call_key = None\<rparr>;
       act = base\<lparr>cd_action := Some ''5''\<rparr>; impl = base\<lparr>cd_implementation := Some ''5''\<rparr>;
       (act1, pm1) = aassign_request (\<lambda>_. ''d'') None ''f'' act (new_postman 5);
       (impl1, pm2) = aassign_request (\<lambda>_. ''d'') None ''g'' impl pm1;
       (impl2, pm3) = aassign_request (\<lambda>_. ''d'') None ''g'' impl (new_postman 5);
       (act2, pm4) = aassign_request (\<lambda>_. ''d'') None ''f'' act pm3
   in ar_call_key act1 = Some ''5:d:1'' \<and> ar_call_key impl1 = Some ''5:d:2'' \<and>
      ar_call_key impl2 = ar_call_key act1 \<and> ar_call_key act2 = ar_call_key impl1"
  by code_simp

section \<open>What a call leaves behind\<close>

definition traces :: "string \<Rightarrow> reference \<Rightarrow> task_id \<Rightarrow> agent_postman \<Rightarrow> bool" where
  "traces request reference task pm \<longleftrightarrow>
     request \<in> set (dict_keys (pm_pending pm)) \<or> reference \<in> set (dict_keys (pm_reference_to_task pm)) \<or>
     task \<in> set (dict_keys (pm_queues pm)) \<or> task \<in> set (dict_keys (pm_orphans pm)) \<or>
     task \<in> set (dict_keys (pm_last_seq pm))"

lemma finish_call_traces: "\<not> traces request reference task (finish_call request reference (Some task) pm)"
  by (simp add: traces_def finish_call_def Let_def dict_keys_pop)

lemma finish_call_others:
  "t \<noteq> task \<Longrightarrow>
     dict_get (pm_queues (finish_call request reference (Some task) pm)) t = dict_get (pm_queues pm) t \<and>
     pending_events (finish_call request reference (Some task) pm) t = pending_events pm t"
  by (simp add: finish_call_def pending_events_def dict_getdefault_def Let_def)

lemma confirm_cancellation_first:
  "\<exists>more. fst (confirm_cancellation task arrivals escalate timeout now) = Cancel_Request task # more"
  by (auto simp: confirm_cancellation_def split: prod.splits bool.splits)

text \<open>
  A call that knew its task leaves nothing behind, however it ends. When it finishes, is
  cancelled or is closed, nothing under its request, reference or task is left in the
  postman, and what is kept for any other task is as it was. A cancelled or closed call
  always sends a cancel for its task first.
\<close>

theorem ended_call_leaves_nothing:
  "(let (controls, pm') = cancel_call request reference (Some task) arrivals escalate timeout now pm
    in hd controls = Cancel_Request task \<and> controls \<noteq> [] \<and> pm' = finish_call request reference (Some task) pm) \<and>
   close_call request reference (Some task) pm =
     ([Cancel_Request task], finish_call request reference (Some task) pm) \<and>
   \<not> traces request reference task (finish_call request reference (Some task) pm) \<and>
   (t \<noteq> task \<longrightarrow>
      dict_get (pm_queues (finish_call request reference (Some task) pm)) t = dict_get (pm_queues pm) t \<and>
      pending_events (finish_call request reference (Some task) pm) t = pending_events pm t)"
  using finish_call_traces [of request reference task pm] finish_call_others [of t task request reference pm]
    confirm_cancellation_first [of task arrivals escalate "case timeout of Some s \<Rightarrow> s | None \<Rightarrow> pm_cancel_timeout pm" now]
  by (auto simp: cancel_call_def close_call_def Let_def)

theorem ended_call_leaves_nothing_witness:
  "pending_events (finish_call ''r'' ''ref'' (Some ''1'')
     (fold inbound demo_inbound (new_postman 5))) ''2'' = [demo_event ''2'' 1 Completed_Event]"
proof -
  have "pending_events (fold inbound demo_inbound (new_postman 5)) ''2'' = [demo_event ''2'' 1 Completed_Event]"
    by code_simp
  moreover have "''2'' \<noteq> ''1''" by simp
  ultimately show ?thesis
    using ended_call_leaves_nothing [of "''r''" "''ref''" "''1''" "[]" False None 0
        "fold inbound demo_inbound (new_postman 5)" "''2''"] by simp
qed



end
