(* ===== verification/Connection_Loop.thy ===== *)
theory Connection_Loop
  imports Prelude Complex_Main
begin

text \<open>
  How the agent's transport keeps its connection: the failures of
  \<open>rekuest/agents/transport/errors.py\<close> and, of \<open>rekuest/agents/transport/websocket.py\<close>, the
  close codes, the retry policy, the flap check, the connect/retry loop
  (\<open>_aconnect_and_receive\<close>, \<open>_aconnection_loop\<close>) and the consumer's side (\<open>areceive\<close>).

  One pass of the loop is an \<open>attempt\<close>: what the network and the server did to it. Which
  exception ends an attempt, the clock's readings and whether a disconnect was requested
  meanwhile are the environment's; everything the loop decides from them is the model's.
  \<open>ConnectionPolicy\<close> and \<open>Backoff\<close> are \<open>arkitekt_runtime\<close>'s: the record has the fields this
  code reads, and \<open>delay_for\<close> is a parameter.
\<close>

section \<open>Failures\<close>

datatype transport_error =
    Agent_Transport_Exception string
  | Bounce_Error string
  | Kick_Error string
  | Correctable_Connection_Fail string
  | Definite_Connection_Fail string
  | Agent_Connection_Fail string
  | Agent_Was_Kicked string
  | Agent_Was_Blocked string
  | Agent_Is_Already_Busy string
  | Cancelled_Error
  | Other_Error string \<comment> \<open>any exception of another library\<close>

definition HEARTBEAT_NOT_RESPONDED_CODE :: int where "HEARTBEAT_NOT_RESPONDED_CODE = 3001"
definition INVALID_JSON_CODE :: int where "INVALID_JSON_CODE = 3002"
definition SCHEMA_MISMATCH_CODE :: int where "SCHEMA_MISMATCH_CODE = 3003"
definition BEFORE_REGISTRATION_CODE :: int where "BEFORE_REGISTRATION_CODE = 3004"
definition BLOCKED_CODE :: int where "BLOCKED_CODE = 4003"
definition BUSY_CODE :: int where "BUSY_CODE = 4004"
definition KICK_CODE :: int where "KICK_CODE = 4005"
definition BOUNCED_CODE :: int where "BOUNCED_CODE = BEFORE_REGISTRATION_CODE"
definition ABNORMAL_CLOSURE :: int where "ABNORMAL_CLOSURE = 1006"

lemmas close_codes =
  HEARTBEAT_NOT_RESPONDED_CODE_def INVALID_JSON_CODE_def SCHEMA_MISMATCH_CODE_def
  BEFORE_REGISTRATION_CODE_def BLOCKED_CODE_def BUSY_CODE_def KICK_CODE_def BOUNCED_CODE_def
  ABNORMAL_CLOSURE_def

definition agent_error_codes :: "(int, string \<Rightarrow> transport_error) dict" where
  "agent_error_codes =
     [(KICK_CODE, Agent_Was_Kicked),
      (BUSY_CODE, Agent_Is_Already_Busy),
      (BLOCKED_CODE, Agent_Was_Blocked),
      (INVALID_JSON_CODE, Definite_Connection_Fail),
      (SCHEMA_MISMATCH_CODE, Definite_Connection_Fail)]"

definition agent_error_message :: "(int, string) dict" where
  "agent_error_message =
     [(KICK_CODE, ''Agent was kicked by the server''),
      (BUSY_CODE, ''Agent can't connect as another instance is already connected. Please kick the other instance first''),
      (BLOCKED_CODE, ''Agent is currently blocked by the server. Unblock first!''),
      (INVALID_JSON_CODE, ''The backend rejected a message from this agent as invalid JSON''),
      (SCHEMA_MISMATCH_CODE, ''The backend rejected a message from this agent as not matching its schema'')]"

text \<open>\<open>rcvd\<close> is the code of the close frame the peer sent, if it sent one; \<open>None\<close> as the result
  is the \<open>KeyError\<close> of a code without a message.\<close>

definition classify_close :: "int option \<Rightarrow> transport_error option" where
  "classify_close rcvd =
     (let close_code = (case rcvd of Some c \<Rightarrow> c | None \<Rightarrow> ABNORMAL_CLOSURE)
      in case dict_get agent_error_codes close_code of
           Some failure \<Rightarrow> map_option failure (dict_get agent_error_message close_code)
         | None \<Rightarrow>
             if close_code = BOUNCED_CODE
             then Some (Correctable_Connection_Fail ''Was bounced. Debug call to reconnect'')
             else Some (Correctable_Connection_Fail ''Connection failed unexpectably. Reconnectable.''))"

section \<open>The policy\<close>

record backoff =
  bo_initial :: rat
  bo_factor :: rat
  bo_max :: rat
  bo_jitter :: rat

record connection_policy =
  cp_max_retries :: int
  cp_backoff :: backoff
  cp_reset_after :: rat
  cp_flap_limit :: "int option"
  cp_flap_window :: rat

text \<open>The transport's deprecated knobs.\<close>

record retry_knobs =
  rk_max_retries :: "int option"
  rk_time_between_retries :: "rat option"
  rk_allow_reconnect :: "bool option"

definition warns_on_deprecated :: "retry_knobs \<Rightarrow> bool" where
  "warns_on_deprecated k \<longleftrightarrow>
     rk_max_retries k \<noteq> None \<or> rk_time_between_retries k \<noteq> None \<or> rk_allow_reconnect k \<noteq> None"

definition effective_policy :: "retry_knobs \<Rightarrow> connection_policy \<Rightarrow> connection_policy" where
  "effective_policy k policy =
     (let p1 = (case rk_max_retries k of
                  None \<Rightarrow> policy | Some n \<Rightarrow> policy\<lparr>cp_max_retries := n\<rparr>);
          p2 = (case rk_time_between_retries k of
                  None \<Rightarrow> p1
                | Some t \<Rightarrow> p1\<lparr>cp_backoff := \<lparr>bo_initial = t, bo_factor = 1, bo_max = t, bo_jitter = 0\<rparr>\<rparr>)
      in if rk_allow_reconnect k = Some False then p2\<lparr>cp_max_retries := 0\<rparr> else p2)"

text \<open>\<open>_is_flapping\<close>, which also forgets the drops that left the window.\<close>

definition is_flapping :: "connection_policy \<Rightarrow> rat \<Rightarrow> rat list \<Rightarrow> bool \<times> rat list" where
  "is_flapping policy now drops =
     (case cp_flap_limit policy of
        None \<Rightarrow> (False, drops)
      | Some limit \<Rightarrow>
          let recent = filter (\<lambda>t. now - cp_flap_window policy \<le> t) drops
          in (limit \<le> int (length recent), recent))"

section \<open>The handshake\<close>

text \<open>
  \<open>HandshakeParams\<close> is \<open>arkitekt_runtime\<close>'s: the fields this code sends on. \<open>'d\<close> is the
  declaration (with its fields in the message), \<open>'x\<close> the supervisor, features and hardware.
\<close>

record ('d, 'x) handshake_params =
  hp_spec_version :: "string option"
  hp_force :: "bool option"
  hp_session_id :: "string option"
  hp_extras :: 'x
  hp_declaration :: "'d option"

record ('d, 'x) register_message =
  rm_token :: string
  rm_spec_version :: "string option"
  rm_force :: bool
  rm_session_id :: "string option"
  rm_extras :: 'x
  rm_declaration :: "'d option"

text \<open>\<open>_aget_handshake\<close>: \<open>defaults\<close> is \<open>HandshakeParams()\<close>, \<open>host\<close> what the host answers, if there is one.\<close>

definition get_handshake ::
    "('d, 'x) handshake_params \<Rightarrow> bool \<Rightarrow> ('d, 'x) handshake_params option \<Rightarrow> ('d, 'x) handshake_params" where
  "get_handshake defaults force host =
     (case host of
        None \<Rightarrow> defaults\<lparr>hp_force := Some force\<rparr>
      | Some params \<Rightarrow> if hp_force params = None then params\<lparr>hp_force := Some force\<rparr> else params)"

definition register :: "string \<Rightarrow> ('d, 'x) handshake_params \<Rightarrow> ('d, 'x) register_message" where
  "register token h =
     \<lparr>rm_token = token, rm_spec_version = hp_spec_version h, rm_force = (hp_force h = Some True),
      rm_session_id = hp_session_id h, rm_extras = hp_extras h, rm_declaration = hp_declaration h\<rparr>"

section \<open>The loop\<close>

text \<open>
  How the body of an attempt ends. Of an exception of another library and of the flap
  check's report only the fact is kept, not the numbers in the message.
\<close>

datatype attempt_end =
    Ended_Cleanly \<comment> \<open>the server closed with a normal code: the iteration just ends\<close>
  | Raised_Invalid_Handshake
  | Raised_Bounce
  | Raised_Kick string
  | Raised_Closed "int option"
  | Raised_Other string
  | Raised_Cancelled

record attempt =
  at_connected :: "rat option" \<comment> \<open>the clock when the socket opened, if it did\<close>
  at_registered :: bool \<comment> \<open>\<open>Register\<close> went out and the receive loop began\<close>
  at_end :: attempt_end
  at_ended :: rat \<comment> \<open>the clock in the \<open>finally\<close>\<close>
  at_closing :: bool \<comment> \<open>a disconnect was requested by then\<close>
  at_checked :: rat \<comment> \<open>the clock at the flap check\<close>
  at_closing_next :: bool \<comment> \<open>a disconnect was requested by the next pass\<close>

text \<open>The inner \<open>except\<close> clauses: what the attempt's end is turned into.\<close>

definition inner_error :: "attempt_end \<Rightarrow> transport_error option" where
  "inner_error e =
     (case e of
        Ended_Cleanly \<Rightarrow> None
      | Raised_Invalid_Handshake \<Rightarrow> Some (Correctable_Connection_Fail ''Received an InvalidHandshake'')
      | Raised_Bounce \<Rightarrow> Some (Correctable_Connection_Fail ''Was bounced. Debug call to reconnect'')
      | Raised_Kick _ \<Rightarrow> Some (Definite_Connection_Fail ''Agent was kicked'')
      | Raised_Closed rcvd \<Rightarrow>
          Some (case classify_close rcvd of Some failure \<Rightarrow> failure | None \<Rightarrow> Other_Error ''KeyError'')
      | Raised_Other what \<Rightarrow> Some (Definite_Connection_Fail what)
      | Raised_Cancelled \<Rightarrow> Some Cancelled_Error)"

record loop_state =
  ls_retry :: nat
  ls_drop_times :: "rat list"
  ls_notified :: "bool list" \<comment> \<open>the connection changes the host was told, oldest first\<close>
  ls_slept :: "rat list" \<comment> \<open>the delays slept, oldest first\<close>

datatype loop_result = Again | Returned | Failed transport_error

text \<open>The inner \<open>finally\<close>: a connection that was up counts as a drop, one that stood long
  enough gives the retries back.\<close>

definition settle_attempt :: "connection_policy \<Rightarrow> attempt \<Rightarrow> loop_state \<Rightarrow> loop_state" where
  "settle_attempt policy a ls =
     (let ls1 = (if at_registered a
                 then ls\<lparr>ls_notified := ls_notified ls @ [True],
                         ls_drop_times := ls_drop_times ls @ [at_ended a]\<rparr>
                 else ls)
      in case at_connected a of
           None \<Rightarrow> ls1
         | Some t \<Rightarrow> if cp_reset_after policy \<le> at_ended a - t then ls1\<lparr>ls_retry := 0\<rparr> else ls1)"

definition run_attempt ::
    "connection_policy \<Rightarrow> (backoff \<Rightarrow> nat \<Rightarrow> rat) \<Rightarrow> attempt \<Rightarrow> loop_state \<Rightarrow> loop_state \<times> loop_result" where
  "run_attempt policy delay_for a ls =
     (let ls1 = settle_attempt policy a ls
      in case inner_error (at_end a) of
           None \<Rightarrow> (ls1, Again)
         | Some (Correctable_Connection_Fail _) \<Rightarrow>
             if at_closing a then (ls1, Returned)
             else
               let ls2 = ls1\<lparr>ls_notified := ls_notified ls1 @ [False]\<rparr>
               in if cp_max_retries policy \<le> int (ls_retry ls2)
                  then (ls2, Failed (Definite_Connection_Fail ''Exceeded Number of Retries''))
                  else (case is_flapping policy (at_checked a) (ls_drop_times ls2) of
                          (True, drops) \<Rightarrow>
                            (ls2\<lparr>ls_drop_times := drops\<rparr>,
                             Failed (Definite_Connection_Fail ''Connection dropped too often''))
                        | (False, drops) \<Rightarrow>
                            (ls2\<lparr>ls_drop_times := drops,
                                 ls_slept := ls_slept ls2 @ [delay_for (cp_backoff policy) (ls_retry ls2)],
                                 ls_retry := ls_retry ls2 + 1\<rparr>, Again))
         | Some failure \<Rightarrow> (ls1, Failed failure))"

text \<open>
  \<open>_aconnect_and_receive\<close> over the attempts the environment grants it; \<open>Again\<close> as the
  result: it is still trying when they are used up.
\<close>

fun connect_and_receive ::
    "connection_policy \<Rightarrow> (backoff \<Rightarrow> nat \<Rightarrow> rat) \<Rightarrow> bool \<Rightarrow> attempt list \<Rightarrow> loop_state
      \<Rightarrow> loop_state \<times> loop_result" where
  "connect_and_receive policy delay_for closing [] ls = (ls, if closing then Returned else Again)"
| "connect_and_receive policy delay_for closing (a # as) ls =
     (if closing then (ls, Returned)
      else case run_attempt policy delay_for a ls of
             (ls', Again) \<Rightarrow> connect_and_receive policy delay_for (at_closing_next a) as ls'
           | ended \<Rightarrow> ended)"

definition loop_start :: "rat list \<Rightarrow> loop_state" where
  "loop_start drops = \<lparr>ls_retry = 0, ls_drop_times = drops, ls_notified = [], ls_slept = []\<rparr>"

section \<open>What the consumer sees\<close>

datatype 'm inbound = Message 'm | Failure transport_error | Closed

text \<open>\<open>_aconnection_loop\<close>: what it puts on the inbound queue when the loop is over.\<close>

definition connection_loop_ends :: "loop_result \<Rightarrow> 'm inbound list" where
  "connection_loop_ends r =
     (case r of
        Again \<Rightarrow> []
      | Returned \<Rightarrow> [Closed]
      | Failed Cancelled_Error \<Rightarrow> [Closed]
      | Failed e \<Rightarrow> [Failure e, Closed])"

text \<open>\<open>areceive\<close>: the messages yielded, and how it ended (\<open>None\<close>: it is waiting for more).\<close>

fun areceive :: "'m inbound list \<Rightarrow> 'm list \<times> transport_error option option" where
  "areceive [] = ([], None)"
| "areceive (Closed # q) = ([], Some None)"
| "areceive (Failure e # q) = ([], Some (Some e))"
| "areceive (Message m # q) = (let (ms, r) = areceive q in (m # ms, r))"


section \<open>Closing codes\<close>

text \<open>
  Every close is classified, and exactly five codes end the agent: invalid JSON, schema
  mismatch, blocked, busy and kicked. Every other close, a missing close frame included,
  is a failure the loop retries. No code is without its message.
\<close>

theorem close_classification:
  "\<exists>e. classify_close rcvd = Some e \<and>
     ((\<exists>m. e = Correctable_Connection_Fail m) \<longleftrightarrow> rcvd \<notin> Some ` {3002, 3003, 4003, 4004, 4005}) \<and>
     ((\<exists>m. e = Agent_Was_Kicked m) \<longleftrightarrow> rcvd = Some 4005) \<and>
     ((\<exists>m. e = Agent_Is_Already_Busy m) \<longleftrightarrow> rcvd = Some 4004) \<and>
     ((\<exists>m. e = Agent_Was_Blocked m) \<longleftrightarrow> rcvd = Some 4003)"
  by (cases rcvd)
    (auto simp: classify_close_def agent_error_codes_def agent_error_message_def close_codes)

section \<open>The retry budget\<close>

definition fails_correctably :: "attempt \<Rightarrow> bool" where
  "fails_correctably a \<longleftrightarrow>
     (\<exists>m. inner_error (at_end a) = Some (Correctable_Connection_Fail m)) \<and>
     \<not> at_closing a \<and> \<not> at_closing_next a"

definition short_lived :: "connection_policy \<Rightarrow> attempt \<Rightarrow> bool" where
  "short_lived policy a \<longleftrightarrow>
     (\<forall>t. at_connected a = Some t \<longrightarrow> at_ended a - t < cp_reset_after policy)"

lemma settle_short [simp]:
  assumes "short_lived policy a"
  shows "ls_retry (settle_attempt policy a ls) = ls_retry ls"
  using assms by (auto simp: short_lived_def settle_attempt_def Let_def split: option.splits)

lemma settle_slept [simp]: "ls_slept (settle_attempt policy a ls) = ls_slept ls"
  by (auto simp: settle_attempt_def Let_def split: option.splits)

lemma settle_drops [simp]:
  "ls_drop_times (settle_attempt policy a ls) =
     (if at_registered a then ls_drop_times ls @ [at_ended a] else ls_drop_times ls)"
  by (auto simp: settle_attempt_def Let_def split: option.splits)

lemma run_attempt_budget:
  assumes "fails_correctably a" and "short_lived policy a" and "cp_flap_limit policy = None"
  shows "int (ls_retry ls) < cp_max_retries policy \<Longrightarrow>
      \<exists>ls'. run_attempt policy d a ls = (ls', Again) \<and> ls_retry ls' = ls_retry ls + 1 \<and>
        ls_slept ls' = ls_slept ls @ [d (cp_backoff policy) (ls_retry ls)]"
    and "cp_max_retries policy \<le> int (ls_retry ls) \<Longrightarrow>
      \<exists>ls'. run_attempt policy d a ls =
          (ls', Failed (Definite_Connection_Fail ''Exceeded Number of Retries'')) \<and>
        ls_slept ls' = ls_slept ls"
  using assms by (auto simp: run_attempt_def fails_correctably_def is_flapping_def Let_def)

lemma budget_from:
  assumes "\<forall>a \<in> set as. fails_correctably a \<and> short_lived policy a" and "cp_flap_limit policy = None"
    and "ls_retry ls \<le> nat (cp_max_retries policy)"
  shows "\<exists>ls'. connect_and_receive policy d False as ls =
      (ls', if length as \<le> nat (cp_max_retries policy) - ls_retry ls then Again
            else Failed (Definite_Connection_Fail ''Exceeded Number of Retries'')) \<and>
    ls_slept ls' = ls_slept ls @ map (d (cp_backoff policy))
      [ls_retry ls ..< ls_retry ls + min (length as) (nat (cp_max_retries policy) - ls_retry ls)]"
  using assms(1,3)
proof (induction as arbitrary: ls)
  case Nil
  then show ?case by simp
next
  case (Cons a as)
  then have a: "fails_correctably a" "short_lived policy a" and closing: "\<not> at_closing_next a"
    by (simp_all add: fails_correctably_def)
  show ?case
  proof (cases "int (ls_retry ls) < cp_max_retries policy")
    case True
    obtain ls1 where ls1: "run_attempt policy d a ls = (ls1, Again)" "ls_retry ls1 = ls_retry ls + 1"
        "ls_slept ls1 = ls_slept ls @ [d (cp_backoff policy) (ls_retry ls)]"
      using run_attempt_budget(1) [OF a assms(2) True] by blast
    have "ls_retry ls1 \<le> nat (cp_max_retries policy)" using True ls1(2) by linarith
    from Cons.IH [OF _ this] Cons.prems(1) obtain ls' where ls':
      "connect_and_receive policy d False as ls1 =
        (ls', if length as \<le> nat (cp_max_retries policy) - ls_retry ls1 then Again
              else Failed (Definite_Connection_Fail ''Exceeded Number of Retries''))"
      "ls_slept ls' = ls_slept ls1 @ map (d (cp_backoff policy))
        [ls_retry ls1 ..< ls_retry ls1 + min (length as) (nat (cp_max_retries policy) - ls_retry ls1)]"
      by auto
    have left: "nat (cp_max_retries policy) - ls_retry ls = Suc (nat (cp_max_retries policy) - ls_retry ls1)"
      using True ls1(2) by linarith
    show ?thesis
      using ls' ls1 closing by (simp add: left upt_conv_Cons del: upt_Suc)
  next
    case False
    then have spent: "cp_max_retries policy \<le> int (ls_retry ls)" by simp
    obtain ls1 where "run_attempt policy d a ls =
        (ls1, Failed (Definite_Connection_Fail ''Exceeded Number of Retries''))"
        "ls_slept ls1 = ls_slept ls"
      using run_attempt_budget(2) [OF a assms(2) spent] by blast
    moreover have "nat (cp_max_retries policy) - ls_retry ls = 0" using False by simp
    ultimately show ?thesis by simp
  qed
qed


definition demo_policy :: connection_policy where
  "demo_policy = \<lparr>cp_max_retries = 2,
     cp_backoff = \<lparr>bo_initial = 1, bo_factor = 2, bo_max = 60, bo_jitter = 0\<rparr>,
     cp_reset_after = 30, cp_flap_limit = None, cp_flap_window = 300\<rparr>"

definition demo_delay :: "backoff \<Rightarrow> nat \<Rightarrow> rat" where
  "demo_delay b n = min (bo_max b) (bo_initial b * bo_factor b ^ n)"

definition demo_attempt :: "attempt_end \<Rightarrow> attempt" where
  "demo_attempt e = \<lparr>at_connected = Some 100, at_registered = True, at_end = e, at_ended = 110,
     at_closing = False, at_checked = 110, at_closing_next = False\<rparr>"



section \<open>The flap limit\<close>

definition within_window :: "connection_policy \<Rightarrow> attempt list \<Rightarrow> bool" where
  "within_window policy as \<longleftrightarrow>
     (\<forall>a \<in> set as. \<forall>b \<in> set as. at_checked a - cp_flap_window policy \<le> at_ended b)"

lemma flap_from:
  assumes "cp_flap_limit policy = Some k"
    and "\<forall>a \<in> set as. fails_correctably a \<and> at_registered a"
    and "\<forall>a \<in> set as. \<forall>t \<in> set (ls_drop_times ls) \<union> at_ended ` set as. at_checked a - cp_flap_window policy \<le> t"
    and "k \<le> int (length (ls_drop_times ls) + length as)" and "as \<noteq> []"
  shows "\<exists>ls' m. connect_and_receive policy d False as ls = (ls', Failed (Definite_Connection_Fail m))"
  using assms(2-)
proof (induction as arbitrary: ls)
  case (Cons a as)
  have a: "fails_correctably a" "at_registered a" and closing: "\<not> at_closing_next a"
    using Cons.prems(1) by (simp_all add: fails_correctably_def)
  let ?drops = "ls_drop_times ls @ [at_ended a]"
  have all: "filter (\<lambda>t. at_checked a - cp_flap_window policy \<le> t) ?drops = ?drops"
    using Cons.prems(2) by (auto simp: filter_id_conv)
  obtain ls1 r where run: "run_attempt policy d a ls = (ls1, r)" by fastforce
  have cases: "(r = Again \<and> ls_drop_times ls1 = ?drops \<and> int (length ?drops) < k) \<or>
      (\<exists>m. r = Failed (Definite_Connection_Fail m))"
  proof -
    have flap: "is_flapping policy (at_checked a) ?drops = (k \<le> int (length ?drops), ?drops)"
      unfolding is_flapping_def assms(1) option.case Let_def all ..
    obtain m where "inner_error (at_end a) = Some (Correctable_Connection_Fail m)" "\<not> at_closing a"
      using a(1) by (auto simp: fails_correctably_def)
    then show ?thesis
      using run flap a(2)
      by (cases "cp_max_retries policy \<le> int (ls_retry (settle_attempt policy a ls))";
          cases "k \<le> int (length ?drops)")
        (auto simp: run_attempt_def Let_def)
  qed
  then show ?case
  proof
    assume again: "r = Again \<and> ls_drop_times ls1 = ?drops \<and> int (length ?drops) < k"
    then have "as \<noteq> []" using Cons.prems(3) by auto
    moreover have "k \<le> int (length (ls_drop_times ls1) + length as)"
      using Cons.prems(3) again by simp
    moreover have "\<forall>b \<in> set as. \<forall>t \<in> set (ls_drop_times ls1) \<union> at_ended ` set as.
        at_checked b - cp_flap_window policy \<le> t"
      using Cons.prems(2) again by auto
    ultimately show ?thesis
      using Cons.IH [of ls1] Cons.prems(1) run again closing by auto
  qed (use run in auto)
qed simp

text \<open>
  C17. The flap limit bounds what \<open>reset_after\<close> cannot. Whatever the retry budget and however
  often long connections refund it: a link that registers and drops again, all within one
  flap window, is given up at the latest at its \<open>flap_limit\<close>-th drop.
\<close>

theorem flapping_link_given_up:
  assumes "cp_flap_limit policy = Some limit" and "limit \<le> int (length as)" and "as \<noteq> []"
    and "\<forall>a \<in> set as. fails_correctably a \<and> at_registered a" and "within_window policy as"
  shows "\<exists>ls' m. connect_and_receive policy delay_for False as (loop_start []) =
    (ls', Failed (Definite_Connection_Fail m))"
  using flap_from [OF assms(1,4), of "loop_start []" delay_for] assms(2,3,5)
  by (simp add: loop_start_def within_window_def)

theorem flapping_link_given_up_witness:
  "\<exists>ls' m. connect_and_receive
      (demo_policy\<lparr>cp_max_retries := 1000, cp_flap_limit := Some 2, cp_reset_after := 5\<rparr>) demo_delay False
      [demo_attempt Raised_Bounce, demo_attempt (Raised_Closed None)] (loop_start []) =
    (ls', Failed (Definite_Connection_Fail m))"
proof (rule flapping_link_given_up [where limit = 2])
  show "\<forall>a \<in> set [demo_attempt Raised_Bounce, demo_attempt (Raised_Closed None)].
      fails_correctably a \<and> at_registered a"
    by (simp add: demo_attempt_def fails_correctably_def inner_error_def classify_close_def
        agent_error_codes_def close_codes)
qed (simp_all add: within_window_def demo_attempt_def demo_policy_def)

section \<open>Failures that are not retried\<close>

text \<open>
  C18. A definite failure ends the loop at once: an attempt that ends in a kick, in one of the
  five definite close codes or in any other exception is the last one. Nothing is slept, the
  host is not told that the connection may come back, the failure is handed to the consumer
  after every message received before it, and the stream then ends.
\<close>

theorem definite_failure_is_final:
  assumes "inner_error (at_end a) = Some e" and "\<And>m. e \<noteq> Correctable_Connection_Fail m"
    and "e \<noteq> Cancelled_Error"
  shows "\<exists>ls'. connect_and_receive policy delay_for False (a # as) ls = (ls', Failed e) \<and>
    ls_slept ls' = ls_slept ls \<and> count_list (ls_notified ls') False = count_list (ls_notified ls) False \<and>
    areceive (map Message ms @ connection_loop_ends (Failed e)) = (ms, Some (Some e))"
proof -
  have "run_attempt policy delay_for a ls = (settle_attempt policy a ls, Failed e)"
    using assms by (cases e) (auto simp: run_attempt_def Let_def)
  moreover have "count_list (ls_notified (settle_attempt policy a ls)) False =
      count_list (ls_notified ls) False"
    by (auto simp: settle_attempt_def Let_def split: option.splits)
  moreover have "areceive (map Message ms @ connection_loop_ends (Failed e)) = (ms, Some (Some e))"
    using assms(3) by (induction ms) (cases e; simp add: connection_loop_ends_def)+
  ultimately show ?thesis by simp
qed

theorem definite_failure_is_final_witness:
  "\<exists>ls' e. connect_and_receive demo_policy demo_delay False
      [demo_attempt (Raised_Closed (Some 4005)), demo_attempt Raised_Bounce] (loop_start []) = (ls', Failed e) \<and>
    ls_slept ls' = [] \<and> areceive (map Message [1, 2 :: int] @ connection_loop_ends (Failed e)) = ([1, 2], Some (Some e))"
proof -
  let ?e = "Agent_Was_Kicked ''Agent was kicked by the server''"
  have "inner_error (at_end (demo_attempt (Raised_Closed (Some 4005)))) = Some ?e"
    by (simp add: demo_attempt_def inner_error_def classify_close_def agent_error_codes_def
        agent_error_message_def close_codes)
  from definite_failure_is_final [OF this, of demo_policy demo_delay "[demo_attempt Raised_Bounce]" "loop_start []" "[1, 2]"]
  show ?thesis by (force simp: loop_start_def)
qed

text \<open>
  \<open>allow_reconnect=False\<close> means what it says, whatever the agent's policy and the other
  knobs: the first failure, correctable or not, ends the connection without a sleep.
\<close>

theorem no_reconnect_knob:
  assumes "rk_allow_reconnect knobs = Some False" and "fails_correctably a"
    and "short_lived (effective_policy knobs policy) a"
  shows "\<exists>ls'. connect_and_receive (effective_policy knobs policy) delay_for False (a # as) (loop_start drops) =
      (ls', Failed (Definite_Connection_Fail ''Exceeded Number of Retries'')) \<and> ls_slept ls' = []"
proof -
  have "cp_max_retries (effective_policy knobs policy) = 0"
    using assms(1) by (simp add: effective_policy_def Let_def)
  then show ?thesis
    using assms(2,3)
    by (auto simp: run_attempt_def fails_correctably_def loop_start_def Let_def)
qed

theorem no_reconnect_knob_witness:
  "\<exists>ls'. connect_and_receive (effective_policy
        \<lparr>rk_max_retries = Some 7, rk_time_between_retries = None, rk_allow_reconnect = Some False\<rparr> demo_policy)
      demo_delay False [demo_attempt Raised_Bounce] (loop_start []) =
      (ls', Failed (Definite_Connection_Fail ''Exceeded Number of Retries'')) \<and> ls_slept ls' = []"
  by (rule no_reconnect_knob)
    (simp_all add: demo_attempt_def fails_correctably_def inner_error_def short_lived_def
      effective_policy_def demo_policy_def Let_def)

section \<open>Where the loop and the documentation differ\<close>

text \<open>
  A clean close is outside the policy. A server that closes every connection with a normal
  code (1000, 1001) is reconnected to for ever: no delay, no retry counted, no flap check,
  and the host is never told that the connection went down, so no disconnect policy acts.
\<close>

theorem clean_closes_are_not_counted:
  assumes "\<forall>a \<in> set as. at_end a = Ended_Cleanly \<and> \<not> at_closing_next a"
  shows "\<exists>ls'. connect_and_receive policy delay_for False as (loop_start drops) = (ls', Again) \<and>
    ls_retry ls' = 0 \<and> ls_slept ls' = [] \<and> False \<notin> set (ls_notified ls')"
proof -
  have "\<exists>ls'. connect_and_receive policy delay_for False as ls = (ls', Again) \<and>
      ls_retry ls' = 0 \<and> ls_slept ls' = ls_slept ls \<and> False \<notin> set (ls_notified ls')"
    if "ls_retry ls = 0" and "False \<notin> set (ls_notified ls)" for ls
    using assms that
  proof (induction as arbitrary: ls)
    case (Cons a as)
    have "ls_retry (settle_attempt policy a ls) = 0" "False \<notin> set (ls_notified (settle_attempt policy a ls))"
      using Cons.prems by (auto simp: settle_attempt_def Let_def split: option.splits)
    with Cons.IH [OF _ this] Cons.prems(1) show ?case
      by (simp add: run_attempt_def inner_error_def Let_def)
  qed simp
  from this [of "loop_start drops"] show ?thesis by (simp add: loop_start_def)
qed

theorem clean_closes_are_not_counted_witness:
  "\<exists>ls'. connect_and_receive demo_policy demo_delay False (replicate 50 (demo_attempt Ended_Cleanly)) (loop_start []) =
      (ls', Again) \<and> ls_retry ls' = 0 \<and> ls_slept ls' = [] \<and> False \<notin> set (ls_notified ls')"
  by (rule clean_closes_are_not_counted) (simp add: demo_attempt_def)

text \<open>
  A restarting server ends the agent. The connection drops, the loop waits and tries
  again, the server is not up yet and refuses the connection: that exception is definite,
  whatever is left of the retry budget.
\<close>

theorem refused_reconnect_is_final:
  assumes "fails_correctably dropped" and "short_lived policy dropped"
    and "cp_flap_limit policy = None" and "0 < cp_max_retries policy"
    and "at_connected refused = None" and "at_end refused = Raised_Other what"
  shows "\<exists>ls'. connect_and_receive policy delay_for False (dropped # refused # as) (loop_start drops) =
      (ls', Failed (Definite_Connection_Fail what)) \<and> ls_retry ls' = 1 \<and>
    ls_slept ls' = [delay_for (cp_backoff policy) 0]"
proof -
  obtain ls1 where ls1: "run_attempt policy delay_for dropped (loop_start drops) = (ls1, Again)"
      "ls_retry ls1 = 1" "ls_slept ls1 = [delay_for (cp_backoff policy) 0]"
    using run_attempt_budget(1) [OF assms(1-3), of "loop_start drops" delay_for] assms(4)
    by (auto simp: loop_start_def)
  have "ls_retry (settle_attempt policy refused ls1) = ls_retry ls1"
    using assms(5) by (simp add: settle_attempt_def Let_def)
  then show ?thesis
    using assms(1,6) ls1 by (simp add: run_attempt_def inner_error_def fails_correctably_def Let_def)
qed

theorem refused_reconnect_is_final_witness:
  "\<exists>ls'. connect_and_receive demo_policy demo_delay False
      [demo_attempt (Raised_Closed (Some 1012)),
       (demo_attempt (Raised_Other ''ConnectionRefusedError''))\<lparr>at_connected := None, at_registered := False\<rparr>]
      (loop_start []) = (ls', Failed (Definite_Connection_Fail ''ConnectionRefusedError'')) \<and>
    ls_retry ls' = 1 \<and> ls_slept ls' = [demo_delay (cp_backoff demo_policy) 0]"
  by (rule refused_reconnect_is_final)
    (simp_all add: demo_attempt_def fails_correctably_def inner_error_def classify_close_def
      agent_error_codes_def close_codes short_lived_def demo_policy_def)

end
