(* ===== verification/Socket_Transport.thy ===== *)
theory Socket_Transport
  imports Agent_Journal Async_Queue Connection_Loop
begin

text \<open>
  The send queue and the inbound side of the agent's websocket transport:
  \<open>rekuest/agents/transport/websocket.py\<close>, class \<open>WebsocketAgentTransport\<close>.

  The sender task is a state of the transport, advanced from one suspension point to the
  next: waiting to be released, waiting for a frame, inside \<open>client.send\<close>. What the socket
  accepted is recorded in \<open>tp_wire\<close>, which the program does not keep: the properties are
  about it. \<open>json.loads\<close> (standard library) and the message models (\<open>arkitekt_runtime\<close>'s,
  read by pydantic) are parameters; a validation error is its number of errors.
\<close>

section \<open>The transport\<close>

datatype 'm to_agent = Heartbeat | Bounce | Kick "string option" | For_Agent 'm

datatype sender = Gated | Ready | Sending string

record 'm transport =
  tp_send_queue :: "string async_queue"
  tp_held :: "string option"
  tp_in_queue :: "'m to_agent inbound async_queue"
  tp_released :: "bool option"
  tp_closing :: bool
  tp_healthy :: bool
  tp_drop_times :: "rat list"
  tp_client :: bool
  tp_sender :: "sender option"
  tp_connecting :: bool \<comment> \<open>the connection task runs\<close>
  tp_wire :: "string list"

definition enter_transport :: "'m transport \<Rightarrow> 'm transport" where
  "enter_transport t = t\<lparr>tp_send_queue := aq_new, tp_held := None, tp_in_queue := aq_new,
     tp_closing := False, tp_client := False, tp_drop_times := []\<rparr>"

text \<open>\<open>aconnect\<close>: a new connection task starts with an inbound queue emptied of the last one's end.\<close>

definition aconnect :: "'m transport \<Rightarrow> 'm transport" where
  "aconnect t =
     (let t1 = t\<lparr>tp_closing := False\<rparr>
      in if tp_connecting t1 then t1
         else t1\<lparr>tp_in_queue := snd (aq_take_all (tp_in_queue t1)), tp_connecting := True\<rparr>)"

subsection \<open>A connection\<close>

text \<open>A socket opened and \<open>Register\<close> went out; \<open>holds_sends\<close> is the host's \<open>holds_sends_until_init\<close>.\<close>

definition open_connection :: "bool \<Rightarrow> 'm transport \<Rightarrow> 'm transport" where
  "open_connection holds_sends t =
     t\<lparr>tp_client := True, tp_released := Some (\<not> holds_sends), tp_sender := Some Gated, tp_healthy := True\<rparr>"

definition requeue :: "string \<Rightarrow> 'm transport \<Rightarrow> 'm transport" where
  "requeue in_flight t = t\<lparr>tp_held := Some in_flight\<rparr>"

text \<open>The connection is gone: the \<open>finally\<close> cancels the sender, wherever it is.\<close>

definition drop_connection :: "rat \<Rightarrow> 'm transport \<Rightarrow> 'm transport" where
  "drop_connection now t =
     (let t1 = (case tp_sender t of Some (Sending f) \<Rightarrow> requeue f t | _ \<Rightarrow> t);
          t2 = t1\<lparr>tp_client := False, tp_sender := None, tp_healthy := False\<rparr>
      in if tp_healthy t then t2\<lparr>tp_drop_times := tp_drop_times t @ [now]\<rparr> else t2)"

subsection \<open>The sender task\<close>

definition sender_released :: "'m transport \<Rightarrow> 'm transport" where
  "sender_released t =
     (if tp_sender t = Some Gated \<and> tp_released t \<noteq> Some False then t\<lparr>tp_sender := Some Ready\<rparr> else t)"

definition sender_takes :: "'m transport \<Rightarrow> 'm transport" where
  "sender_takes t =
     (if tp_sender t \<noteq> Some Ready then t
      else case tp_held t of
             Some f \<Rightarrow> t\<lparr>tp_held := None, tp_sender := Some (Sending f)\<rparr>
           | None \<Rightarrow>
               (case aq_get (tp_send_queue t) of
                  None \<Rightarrow> t
                | Some (f, q) \<Rightarrow> t\<lparr>tp_send_queue := q, tp_sender := Some (Sending f)\<rparr>))"

definition send_done :: "'m transport \<Rightarrow> 'm transport" where
  "send_done t =
     (case tp_sender t of
        Some (Sending f) \<Rightarrow>
          t\<lparr>tp_wire := tp_wire t @ [f], tp_sender := Some Ready,
            tp_send_queue := the (aq_task_done (tp_send_queue t))\<rparr>
      | _ \<Rightarrow> t)"

definition send_fails :: "'m transport \<Rightarrow> 'm transport" where
  "send_fails t =
     (case tp_sender t of Some (Sending f) \<Rightarrow> (requeue f t)\<lparr>tp_sender := None\<rparr> | _ \<Rightarrow> t)"

definition release_sends :: "'m transport \<Rightarrow> 'm transport" where
  "release_sends t = t\<lparr>tp_released := map_option (\<lambda>_. True) (tp_released t)\<rparr>"

definition journaled :: "(string \<Rightarrow> json option) \<Rightarrow> string \<Rightarrow> bool" where
  "journaled loads f =
     (case loads f of
        Some (J_Object d) \<Rightarrow> dict_get d ''pos'' \<noteq> None \<and> dict_get d ''pos'' \<noteq> Some J_Null
      | _ \<Rightarrow> False)"

text \<open>
  \<open>discard_journaled\<close>: the held frame, then the loop over the queue (each frame taken is
  done at once), then what is kept is put back. The count of frames dropped comes first.
\<close>

fun take_kept :: "(string \<Rightarrow> bool) \<Rightarrow> string list \<Rightarrow> string async_queue \<Rightarrow> nat \<Rightarrow> string list
    \<Rightarrow> nat \<times> string list \<times> string async_queue" where
  "take_kept dropping [] q dropped kept = (dropped, kept, q)"
| "take_kept dropping (f # fs) q dropped kept =
     (let q' = the (aq_task_done (q\<lparr>aq_items := fs\<rparr>))
      in if dropping f then take_kept dropping fs q' (dropped + 1) kept
         else take_kept dropping fs q' dropped (kept @ [f]))"

definition discard_journaled :: "(string \<Rightarrow> json option) \<Rightarrow> 'm transport \<Rightarrow> nat \<times> 'm transport" where
  "discard_journaled loads t =
     (let (n, t1) = (case tp_held t of
             Some f \<Rightarrow>
               if journaled loads f
               then (1, t\<lparr>tp_held := None, tp_send_queue := the (aq_task_done (tp_send_queue t))\<rparr>)
               else (0, t)
           | None \<Rightarrow> (0, t));
          (dropped, kept, q) =
            take_kept (journaled loads) (aq_items (tp_send_queue t1)) (tp_send_queue t1) n []
      in (dropped, t1\<lparr>tp_send_queue := fold aq_put kept q\<rparr>))"

subsection \<open>Sending, flushing, disconnecting\<close>

definition asend :: "(frame \<Rightarrow> string) \<Rightarrow> frame \<Rightarrow> 'm transport \<Rightarrow> 'm transport" where
  "asend dump m t = t\<lparr>tp_send_queue := aq_put (dump m) (tp_send_queue t)\<rparr>"

definition aflush :: "'m transport \<Rightarrow> 'm transport" where
  "aflush t = (if \<not> tp_client t then t else t\<lparr>tp_send_queue := aq_join (tp_send_queue t)\<rparr>)"

text \<open>\<open>adisconnect\<close> up to where it closes the socket: it waits for the flush (bounded by the
  environment's clock), then the connection goes.\<close>

definition adisconnect_begins :: "'m transport \<Rightarrow> 'm transport" where
  "adisconnect_begins t =
     (let t1 = t\<lparr>tp_closing := True\<rparr> in if tp_client t1 then aflush t1 else t1)"

definition adisconnect_ends :: "rat \<Rightarrow> 'm transport \<Rightarrow> 'm transport" where
  "adisconnect_ends now t =
     (let t1 = (if tp_client t then drop_connection now t else t)
      in t1\<lparr>tp_connecting := False\<rparr>)"

subsection \<open>Inbound frames\<close>

definition critical_frame :: "task_id \<Rightarrow> string \<Rightarrow> frame" where
  "critical_frame t error = \<lparr>fr_body = Critical_Frame error, fr_task = Some t, fr_task_step = None\<rparr>"

definition heartbeat_event_frame :: frame where
  "heartbeat_event_frame = \<lparr>fr_body = Heartbeat_Event_Frame, fr_task = None, fr_task_step = None\<rparr>"

definition unreadable_assign_error :: "nat \<Rightarrow> string" where
  "unreadable_assign_error n =
     ''The agent could not read this Assign (protocol mismatch?): '' @ nat_str n @ '' validation error(s)''"

text \<open>\<open>assign_type\<close> is the wire name of an \<open>Assign\<close>.\<close>

definition refuse_unreadable_assign ::
    "string \<Rightarrow> (frame \<Rightarrow> string) \<Rightarrow> json \<Rightarrow> nat \<Rightarrow> 'm transport \<Rightarrow> 'm transport" where
  "refuse_unreadable_assign assign_type dump raw errors t =
     (case raw of
        J_Object d \<Rightarrow>
          (case (dict_get d ''type'', dict_get d ''task'') of
             (Some (J_String ty), Some (J_String task)) \<Rightarrow>
               if ty = assign_type
               then asend dump (critical_frame task (unreadable_assign_error errors)) t else t
           | _ \<Rightarrow> t)
      | _ \<Rightarrow> t)"

definition kick_reason :: "string option \<Rightarrow> string" where
  "kick_reason reason = ''Agent was kicked by the server: '' @ str_or reason ''No reason provided''"

text \<open>\<open>_ahandle_inbound\<close>; the second component is what it raises.\<close>

definition handle_inbound ::
    "(string \<Rightarrow> json option) \<Rightarrow> (json \<Rightarrow> nat + 'm to_agent) \<Rightarrow> string \<Rightarrow> (frame \<Rightarrow> string) \<Rightarrow> string
      \<Rightarrow> 'm transport \<Rightarrow> 'm transport \<times> transport_error option" where
  "handle_inbound loads read assign_type dump text t =
     (case loads text of
        None \<Rightarrow> (t, None)
      | Some raw \<Rightarrow>
          (case read raw of
             Inl errors \<Rightarrow> (refuse_unreadable_assign assign_type dump raw errors t, None)
           | Inr Heartbeat \<Rightarrow> (asend dump heartbeat_event_frame t, None)
           | Inr Bounce \<Rightarrow> (t, Some (Bounce_Error ''Was bounced. Debug call to reconnect''))
           | Inr (Kick reason) \<Rightarrow> (t, Some (Kick_Error (kick_reason reason)))
           | Inr m \<Rightarrow> (t\<lparr>tp_in_queue := aq_put (Message m) (tp_in_queue t)\<rparr>, None)))"


text \<open>\<open>connected\<close>, and \<open>__aexit__\<close>: whether it disconnects.\<close>

definition connected :: "'m transport \<Rightarrow> bool" where
  "connected t = tp_healthy t"

definition exit_transport :: "'m transport \<Rightarrow> bool" where
  "exit_transport t \<longleftrightarrow> tp_connecting t \<or> tp_client t"

section \<open>What is still to be sent\<close>

definition in_flight :: "'m transport \<Rightarrow> string list" where
  "in_flight t = (case tp_sender t of Some (Sending f) \<Rightarrow> [f] | _ \<Rightarrow> [])"

definition held_frame :: "'m transport \<Rightarrow> string list" where
  "held_frame t = (case tp_held t of Some f \<Rightarrow> [f] | None \<Rightarrow> [])"

text \<open>The frames queued and not yet accepted by the socket, in the order they will go out.\<close>

definition unsent :: "'m transport \<Rightarrow> string list" where
  "unsent t = in_flight t @ held_frame t @ aq_items (tp_send_queue t)"

definition transport_ok :: "'m transport \<Rightarrow> bool" where
  "transport_ok t \<longleftrightarrow>
     aq_unfinished (tp_send_queue t) = length (unsent t) \<and>
     (in_flight t \<noteq> [] \<longrightarrow> tp_held t = None) \<and> (\<not> tp_client t \<longrightarrow> tp_sender t = None)"

text \<open>Everything that can happen to the send side, one atomic step of the event loop each.\<close>

datatype transport_event =
    Connects bool
  | Drops rat
  | Sender_Released
  | Sender_Takes
  | Send_Done
  | Send_Fails
  | Release
  | Discard
  | Sends frame
  | Flush

fun transport_step ::
    "(string \<Rightarrow> json option) \<Rightarrow> (frame \<Rightarrow> string) \<Rightarrow> transport_event \<Rightarrow> 'm transport \<Rightarrow> 'm transport" where
  "transport_step loads dump (Connects holds_sends) t = (if tp_client t then t else open_connection holds_sends t)"
| "transport_step loads dump (Drops now) t = drop_connection now t"
| "transport_step loads dump Sender_Released t = sender_released t"
| "transport_step loads dump Sender_Takes t = sender_takes t"
| "transport_step loads dump Send_Done t = send_done t"
| "transport_step loads dump Send_Fails t = send_fails t"
| "transport_step loads dump Release t = release_sends t"
| "transport_step loads dump Discard t = snd (discard_journaled loads t)"
| "transport_step loads dump (Sends m) t = asend dump m t"
| "transport_step loads dump Flush t = aflush t"

definition sends_of :: "(frame \<Rightarrow> string) \<Rightarrow> transport_event list \<Rightarrow> string list" where
  "sends_of dump steps = List.map_filter (\<lambda>s. case s of Sends m \<Rightarrow> Some (dump m) | _ \<Rightarrow> None) steps"

lemma sends_of_simps [simp]:
  "sends_of dump [] = []"
  "sends_of dump (s # ss) = (case s of Sends m \<Rightarrow> dump m # sends_of dump ss | _ \<Rightarrow> sends_of dump ss)"
  by (simp_all add: sends_of_def List.map_filter_def split: transport_event.split)

lemma take_kept_result:
  assumes "length fs \<le> aq_unfinished q" and "take_kept dropping fs q n kept = (dropped, kept', q')"
  shows "kept' = kept @ filter (\<lambda>f. \<not> dropping f) fs" and "dropped = n + length (filter dropping fs)"
    and "aq_unfinished q' = aq_unfinished q - length fs" and "aq_items q = fs \<Longrightarrow> aq_items q' = []"
proof -
  have "kept' = kept @ filter (\<lambda>f. \<not> dropping f) fs \<and> dropped = n + length (filter dropping fs) \<and>
      aq_unfinished q' = aq_unfinished q - length fs \<and> (aq_items q = fs \<longrightarrow> aq_items q' = [])"
    using assms
  proof (induction fs arbitrary: q n kept)
    case (Cons f fs)
    obtain m where m: "aq_unfinished q = Suc m" "length fs \<le> m"
      using Cons.prems(1) by (cases "aq_unfinished q") auto
    define r where "r = the (aq_task_done (q\<lparr>aq_items := fs\<rparr>))"
    have r: "aq_unfinished r = m" "aq_items r = fs"
      using m(1) by (auto simp: r_def aq_task_done_def Let_def)
    have "take_kept dropping fs r (if dropping f then n + 1 else n) (if dropping f then kept else kept @ [f]) =
        (dropped, kept', q')"
      using Cons.prems(2) by (simp add: r_def [symmetric] Let_def split: if_splits)
    from Cons.IH [OF _ this] show ?case using r m by simp
  qed auto
  then show "kept' = kept @ filter (\<lambda>f. \<not> dropping f) fs" "dropped = n + length (filter dropping fs)"
    "aq_unfinished q' = aq_unfinished q - length fs" "aq_items q = fs \<Longrightarrow> aq_items q' = []"
    by blast+
qed

lemma discard_journaled_result:
  assumes "transport_ok t" and "discard_journaled loads t = (n, t')"
  shows "held_frame t' @ aq_items (tp_send_queue t') =
      filter (\<lambda>f. \<not> journaled loads f) (held_frame t @ aq_items (tp_send_queue t))"
    and "n = length (filter (journaled loads) (held_frame t @ aq_items (tp_send_queue t)))"
    and "t' = t\<lparr>tp_held := tp_held t', tp_send_queue := tp_send_queue t'\<rparr>"
    and "aq_unfinished (tp_send_queue t') = length (unsent t')"
    and "tp_held t = None \<Longrightarrow> tp_held t' = None"
proof -
  define t1 where "t1 = (case tp_held t of
      Some f \<Rightarrow> if journaled loads f
        then t\<lparr>tp_held := None, tp_send_queue := the (aq_task_done (tp_send_queue t))\<rparr> else t
    | None \<Rightarrow> t)"
  define k where "k = (case tp_held t of Some f \<Rightarrow> if journaled loads f then 1 else 0 | None \<Rightarrow> (0 :: nat))"
  let ?q = "tp_send_queue t" and ?q1 = "tp_send_queue t1"
  have t1: "aq_items ?q1 = aq_items ?q"
    "held_frame t1 = filter (\<lambda>f. \<not> journaled loads f) (held_frame t)"
    "aq_unfinished ?q1 = length (in_flight t) + length (held_frame t1) + length (aq_items ?q)"
    "k = length (filter (journaled loads) (held_frame t))" "in_flight t1 = in_flight t"
    "t1 = t\<lparr>tp_held := tp_held t1, tp_send_queue := tp_send_queue t1\<rparr>" "tp_held t = None \<Longrightarrow> tp_held t1 = None"
    using assms(1)
    by (auto simp: t1_def k_def transport_ok_def unsent_def held_frame_def in_flight_def aq_task_done_def
        Let_def split: option.splits nat.splits)
  obtain d kept q' where take: "take_kept (journaled loads) (aq_items ?q1) ?q1 k [] = (d, kept, q')"
    using prod_cases3 by blast
  have t': "n = d" "t' = t1\<lparr>tp_send_queue := fold aq_put kept q'\<rparr>"
    using assms(2) take
    by (auto simp: discard_journaled_def t1_def k_def Let_def split: option.splits if_splits)
  have "length (aq_items ?q1) \<le> aq_unfinished ?q1" using t1 by simp
  note kept = take_kept_result [OF this take]
  have queue: "aq_items (tp_send_queue t') = filter (\<lambda>f. \<not> journaled loads f) (aq_items ?q)"
    "aq_unfinished (tp_send_queue t') = length (in_flight t) + length (held_frame t1) +
      length (aq_items (tp_send_queue t'))"
    using kept(1,3,4) t1(1,3) by (simp_all add: t'(2) aq_fold_put)
  have same: "held_frame t' = held_frame t1" "in_flight t' = in_flight t"
    using t1(5) by (simp_all add: t'(2) held_frame_def in_flight_def)
  show "held_frame t' @ aq_items (tp_send_queue t') =
      filter (\<lambda>f. \<not> journaled loads f) (held_frame t @ aq_items (tp_send_queue t))"
    using queue(1) same(1) t1(2) by simp
  show "n = length (filter (journaled loads) (held_frame t @ aq_items (tp_send_queue t)))"
    using kept(2) t1(1,4) t'(1) by simp
  show "t' = t\<lparr>tp_held := tp_held t', tp_send_queue := tp_send_queue t'\<rparr>"
    unfolding t'(2) by (subst (1) t1(6)) simp
  show "aq_unfinished (tp_send_queue t') = length (unsent t')"
    using queue(2) same by (simp add: unsent_def)
  show "tp_held t = None \<Longrightarrow> tp_held t' = None" using t1(7) t'(2) by simp
qed


lemma transport_step_other:
  assumes "transport_ok t" and "s \<noteq> Discard"
  shows "transport_ok (transport_step loads dump s t) \<and>
    tp_wire (transport_step loads dump s t) @ unsent (transport_step loads dump s t) =
      tp_wire t @ unsent t @ sends_of dump [s]"
proof (cases s)
  case (Drops now)
  then show ?thesis
    using assms
    by (auto simp: drop_connection_def requeue_def transport_ok_def unsent_def in_flight_def held_frame_def
        Let_def split: option.splits sender.splits)
next
  case Sender_Takes
  then show ?thesis
    using assms
    by (auto simp: sender_takes_def transport_ok_def unsent_def in_flight_def held_frame_def aq_get_def
        split: option.splits sender.splits list.splits)
next
  case Send_Done
  then show ?thesis
    using assms
    by (auto simp: send_done_def transport_ok_def unsent_def in_flight_def held_frame_def aq_task_done_def
        Let_def split: option.splits sender.splits nat.splits)
next
  case Send_Fails
  then show ?thesis
    using assms
    by (auto simp: send_fails_def requeue_def transport_ok_def unsent_def in_flight_def held_frame_def
        split: option.splits sender.splits)
qed (use assms in \<open>auto simp: open_connection_def sender_released_def release_sends_def asend_def aflush_def
  aq_join_def aq_put_def transport_ok_def unsent_def in_flight_def held_frame_def\<close>)

lemma transport_step_discard:
  assumes "transport_ok t"
  shows "transport_ok (transport_step loads dump Discard t) \<and>
    tp_wire (transport_step loads dump Discard t) = tp_wire t \<and>
    unsent (transport_step loads dump Discard t) =
      in_flight t @ filter (\<lambda>f. \<not> journaled loads f) (held_frame t @ aq_items (tp_send_queue t))"
proof -
  obtain n t' where dis: "discard_journaled loads t = (n, t')" by fastforce
  note result = discard_journaled_result [OF assms dis]
  have same: "tp_wire t' = tp_wire t" "in_flight t' = in_flight t" "tp_client t' = tp_client t" "tp_sender t' = tp_sender t"
    by (subst result(3), simp add: in_flight_def)+
  have "unsent t' = in_flight t @ filter (\<lambda>f. \<not> journaled loads f) (held_frame t @ aq_items (tp_send_queue t))"
    unfolding unsent_def same using result(1) by simp
  moreover have "transport_ok t'"
    using assms result(4,5) same by (simp add: transport_ok_def)
  ultimately show ?thesis using dis same by simp
qed

lemma transport_step_kept:
  assumes "transport_ok t"
  shows "filter (\<lambda>f. \<not> journaled loads f)
      (tp_wire (transport_step loads dump s t) @ unsent (transport_step loads dump s t)) =
    filter (\<lambda>f. \<not> journaled loads f) (tp_wire t @ unsent t @ sends_of dump [s])"
proof (cases "s = Discard")
  case True
  then show ?thesis
    using transport_step_discard [OF assms] by (simp add: unsent_def)
next
  case False
  then show ?thesis using transport_step_other [OF assms] by simp
qed

lemma transport_steps_ok: "transport_ok t \<Longrightarrow> transport_ok (fold (transport_step loads dump) ss t)"
proof (induction ss arbitrary: t)
  case (Cons s ss)
  have "transport_ok (transport_step loads dump s t)"
    using transport_step_other [OF Cons.prems, of s loads dump]
      transport_step_discard [OF Cons.prems, of loads dump] by (cases "s = Discard") blast+
  from Cons.IH [OF this] show ?case by simp
qed simp

lemma sends_of_append [simp]: "sends_of dump (xs @ ys) = sends_of dump xs @ sends_of dump ys"
  by (simp add: sends_of_def List.map_filter_def)

lemma sends_of_Cons: "sends_of dump (s # ss) = sends_of dump [s] @ sends_of dump ss"
  using sends_of_append [of dump "[s]" ss] by (simp only: append_Cons append_Nil)

lemma transport_steps_all:
  assumes "transport_ok t" and "Discard \<notin> set ss"
  shows "tp_wire (fold (transport_step loads dump) ss t) @ unsent (fold (transport_step loads dump) ss t) =
    tp_wire t @ unsent t @ sends_of dump ss"
  using assms
proof (induction ss arbitrary: t)
  case (Cons s ss)
  let ?u = "transport_step loads dump s t"
  have step: "transport_ok ?u \<and> tp_wire ?u @ unsent ?u = tp_wire t @ unsent t @ sends_of dump [s]"
    by (rule transport_step_other) (use Cons.prems in auto)
  have "Discard \<notin> set ss" using Cons.prems(2) by simp
  from Cons.IH [OF conjunct1 [OF step] this] show ?case
    unfolding fold_simps comp_def sends_of_Cons [of dump s ss] using step by simp
qed simp

lemma transport_steps_kept:
  assumes "transport_ok t"
  shows "filter (\<lambda>f. \<not> journaled loads f) (tp_wire (fold (transport_step loads dump) ss t) @
      unsent (fold (transport_step loads dump) ss t)) =
    filter (\<lambda>f. \<not> journaled loads f) (tp_wire t @ unsent t @ sends_of dump ss)"
  using assms
proof (induction ss arbitrary: t)
  case (Cons s ss)
  let ?u = "transport_step loads dump s t"
  have ok: "transport_ok ?u" using transport_steps_ok [OF Cons.prems, of loads dump "[s]"] by simp
  have kept: "filter (\<lambda>f. \<not> journaled loads f) (tp_wire ?u @ unsent ?u) =
      filter (\<lambda>f. \<not> journaled loads f) (tp_wire t @ unsent t @ sends_of dump [s])"
    by (rule transport_step_kept [OF Cons.prems])
  show ?case
    unfolding fold_simps comp_def sends_of_Cons [of dump s ss] using Cons.IH [OF ok] kept by simp
qed simp

text \<open>
  C6. No frame is lost, doubled or overtaken by a drop of the connection. Let the socket come
  and go, sends fail or be cut off half-way, and frames be queued and discarded in any
  interleaving. What the sockets accepted followed by what is still queued is everything
  ever queued, in the order it was queued, except for journaled frames a discard removed,
  which the agent sends again itself; without a discard it is exactly that. The queue's
  unfinished count is always the number of frames not yet accepted.
\<close>

theorem sends_in_order:
  assumes "transport_ok t" and "t' = fold (transport_step loads dump) ss t"
  shows "filter (\<lambda>f. \<not> journaled loads f) (tp_wire t' @ unsent t') =
      filter (\<lambda>f. \<not> journaled loads f) (tp_wire t @ unsent t @ sends_of dump ss) \<and>
    (Discard \<notin> set ss \<longrightarrow> tp_wire t' @ unsent t' = tp_wire t @ unsent t @ sends_of dump ss) \<and>
    aq_unfinished (tp_send_queue t') = length (unsent t')"
proof -
  have ok: "transport_ok t'"
    unfolding assms(2) by (rule transport_steps_ok [OF assms(1)])
  show ?thesis
    using ok transport_steps_kept [OF assms(1), of loads dump ss] transport_steps_all [OF assms(1), of ss loads dump]
    unfolding assms(2) by (simp add: transport_ok_def)
qed

text \<open>A frame without a position, and one whose JSON has one.\<close>

definition demo_loads :: "string \<Rightarrow> json option" where
  "demo_loads f = (if f = ''P'' then Some (J_Object [(''pos'', J_Number 3)]) else Some (J_Object []))"

definition text_of :: "frame \<Rightarrow> string" where
  "text_of f = (case fr_body f of Other_Frame s \<Rightarrow> s | _ \<Rightarrow> ''?'')"

definition idle_transport :: "int transport" where
  "idle_transport = \<lparr>tp_send_queue = aq_new, tp_held = None, tp_in_queue = aq_new, tp_released = None,
     tp_closing = False, tp_healthy = False, tp_drop_times = [], tp_client = False, tp_sender = None,
     tp_connecting = False, tp_wire = []\<rparr>"

lemma idle_transport_ok: "transport_ok idle_transport"
  by (simp add: idle_transport_def transport_ok_def unsent_def in_flight_def held_frame_def aq_new_def)

definition demo_drop_run :: "transport_event list" where
  "demo_drop_run = [Sends (demo_frame ''a''), Sends (demo_frame ''b''), Connects False, Sender_Released,
     Sender_Takes, Drops 5, Connects False, Sender_Released, Sender_Takes, Sends (demo_frame ''c''), Send_Done]"

theorem sends_in_order_witness:
  "tp_wire (fold (transport_step demo_loads text_of) demo_drop_run idle_transport) = [''a''] \<and>
   unsent (fold (transport_step demo_loads text_of) demo_drop_run idle_transport) = [''b'', ''c''] \<and>
   aq_unfinished (tp_send_queue (fold (transport_step demo_loads text_of) demo_drop_run idle_transport)) = 2"
proof -
  let ?t = "fold (transport_step demo_loads text_of) demo_drop_run idle_transport"
  have "Discard \<notin> set demo_drop_run" by (simp add: demo_drop_run_def)
  then have "tp_wire ?t @ unsent ?t = [''a'', ''b'', ''c'']"
      and "aq_unfinished (tp_send_queue ?t) = length (unsent ?t)"
    using sends_in_order [OF idle_transport_ok refl, of demo_loads text_of demo_drop_run]
    by (simp_all add: demo_drop_run_def text_of_def demo_frame_def idle_transport_def unsent_def
        in_flight_def held_frame_def aq_new_def)
  moreover have "tp_wire ?t = [''a'']" by code_simp
  ultimately show ?thesis by simp
qed

section \<open>The gate between Register and Init\<close>

text \<open>No sender runs, or it waits behind a gate that is closed.\<close>

definition shut :: "'m transport \<Rightarrow> bool" where
  "shut t \<longleftrightarrow> tp_sender t = None \<or> tp_sender t = Some Gated \<and> tp_released t = Some False"

lemma shut_step:
  assumes "transport_ok t" and "shut t" and "s \<noteq> Release" and "s \<noteq> Connects False"
  shows "shut (transport_step loads dump s t) \<and>
    tp_wire (transport_step loads dump s t) = tp_wire t"
proof (cases "s = Discard")
  case True
  obtain n t' where dis: "discard_journaled loads t = (n, t')" by fastforce
  note same = discard_journaled_result(3) [OF assms(1) dis]
  have "tp_sender t' = tp_sender t" "tp_released t' = tp_released t" "tp_wire t' = tp_wire t"
    by (subst same, simp)+
  then show ?thesis using True dis assms(2) by (simp add: shut_def)
next
  case False
  then show ?thesis
    using assms(2-)
    by (cases s) (auto simp: shut_def sender_released_def sender_takes_def send_done_def
        send_fails_def asend_def aflush_def open_connection_def drop_connection_def requeue_def Let_def)
qed

text \<open>
  C19. Nothing goes out between \<open>Register\<close> and \<open>Init\<close>. With a host that holds its sends, however
  often the connection drops and is made again and whatever is queued meanwhile, no queued
  frame reaches a socket until the host releases the sends; and all of it is still queued.
\<close>

theorem nothing_sent_before_release:
  assumes "transport_ok t" and "tp_client t = False" and "Release \<notin> set ss" and "Connects False \<notin> set ss"
  shows "tp_wire (fold (transport_step loads dump) ss t) = tp_wire t \<and>
    (Discard \<notin> set ss \<longrightarrow> unsent (fold (transport_step loads dump) ss t) = unsent t @ sends_of dump ss)"
proof -
  have "shut t" using assms(1,2) by (simp add: shut_def transport_ok_def)
  then have wire: "tp_wire (fold (transport_step loads dump) ss t) = tp_wire t"
    using assms(1,3,4)
  proof (induction ss arbitrary: t)
    case (Cons s ss)
    have step: "shut (transport_step loads dump s t) \<and> tp_wire (transport_step loads dump s t) = tp_wire t"
      by (rule shut_step) (use Cons.prems in auto)
    moreover have "transport_ok (transport_step loads dump s t)"
      using transport_steps_ok [OF Cons.prems(2), of loads dump "[s]"] by simp
    ultimately show ?case
      using Cons.IH [of "transport_step loads dump s t"] Cons.prems(3,4) by simp
  qed simp
  have "unsent (fold (transport_step loads dump) ss t) = unsent t @ sends_of dump ss" if "Discard \<notin> set ss"
    using assms(1) that wire
  proof -
    have ok: "transport_ok (fold (transport_step loads dump) ss t)" by (rule transport_steps_ok [OF assms(1)])
    have "tp_wire (fold (transport_step loads dump) ss t) @ unsent (fold (transport_step loads dump) ss t) =
        tp_wire t @ unsent t @ sends_of dump ss"
      using assms(1) that by (rule transport_steps_all)
    then show ?thesis by (simp add: wire)
  qed
  then show ?thesis using wire by blast
qed

theorem nothing_sent_before_release_witness:
  "tp_wire (fold (transport_step demo_loads text_of)
      [Sends (demo_frame ''a''), Connects True, Sender_Released, Sender_Takes, Drops 3, Connects True,
       Sender_Released, Sends (demo_frame ''b'')] idle_transport) = []"
  using nothing_sent_before_release [OF idle_transport_ok, of
      "[Sends (demo_frame ''a''), Connects True, Sender_Released, Sender_Takes, Drops 3, Connects True,
       Sender_Released, Sends (demo_frame ''b'')]" demo_loads text_of]
  by (simp add: idle_transport_def)

section \<open>Flushing\<close>


definition demo_flushing :: "int transport" where
  "demo_flushing = fold (transport_step demo_loads text_of)
     [Sends (demo_frame ''a''), Connects False, Sender_Released, Flush, Sender_Takes] idle_transport"


text \<open>
  A discard lets a flush go early. While the host holds its sends and an \<open>aflush\<close> waits,
  the discard at \<open>Init\<close> counts every frame as done before it puts back those it keeps: the
  flush returns though a frame is still queued.
\<close>

theorem discard_ends_flush_early:
  "let t = fold (transport_step demo_loads text_of)
       [Sends (demo_frame ''a''), Connects True, Flush, Discard] idle_transport
   in aq_joined (tp_send_queue t) = 1 \<and> unsent t = [''a'']"
  by code_simp

section \<open>Inbound frames\<close>

text \<open>
  C21. No work is lost in reading. A frame that carries a readable message other than a
  heartbeat, bounce or kick is handed to the agent as the last of its inbound queue; an
  \<open>Assign\<close> with a task that cannot be read is answered with a critical report for that
  task, behind everything queued, and never raises; a heartbeat is answered; a bounce or a
  kick changes nothing and raises; only what is not JSON or names no task is dropped.
\<close>

theorem inbound_is_answered:
  "case loads text of
     None \<Rightarrow> handle_inbound loads read assign_type dump text t = (t, None)
   | Some raw \<Rightarrow>
       (case read raw of
          Inl errors \<Rightarrow>
            (case raw of
               J_Object d \<Rightarrow>
                 (case (dict_get d ''type'', dict_get d ''task'') of
                    (Some (J_String ty), Some (J_String task)) \<Rightarrow>
                      (let (t', raised) = handle_inbound loads read assign_type dump text t
                       in raised = None \<and> tp_in_queue t' = tp_in_queue t \<and>
                          unsent t' = unsent t @ (if ty = assign_type
                            then [dump (critical_frame task (unreadable_assign_error errors))] else []))
                  | _ \<Rightarrow> handle_inbound loads read assign_type dump text t = (t, None))
             | _ \<Rightarrow> handle_inbound loads read assign_type dump text t = (t, None))
        | Inr m \<Rightarrow>
            (let (t', raised) = handle_inbound loads read assign_type dump text t
             in (case m of
                   For_Agent x \<Rightarrow> raised = None \<and> unsent t' = unsent t \<and>
                     aq_items (tp_in_queue t') = aq_items (tp_in_queue t) @ [Message m]
                 | Heartbeat \<Rightarrow> raised = None \<and> tp_in_queue t' = tp_in_queue t \<and>
                     unsent t' = unsent t @ [dump heartbeat_event_frame]
                 | _ \<Rightarrow> t' = t \<and> raised \<noteq> None)))"
  by (auto simp: handle_inbound_def refuse_unreadable_assign_def asend_def unsent_def in_flight_def
      held_frame_def aq_put_def split: option.splits sum.splits to_agent.splits json.splits)

end
