(* ===== verification/Agent_Inbound.thy ===== *)
theory Agent_Inbound
  imports Agent_States Agent_Caller Socket_Transport
begin

text \<open>
  The distributed agent put together: what \<open>RekuestAgent\<close> (\<open>rekuest/agents/agent.py\<close>) does
  with the server's messages, over its transport, its journal and its caller postman; the
  control plane (\<open>rekuest/agents/control.py\<close>) and the backend (\<open>rekuest/agents/backend.py\<close>).

  The base agent (\<open>arkitekt_runtime\<close>) numbers and sends what is dispatched and runs the
  actors: a dispatched frame is a result of the operation here, whether an actor still runs
  a task (\<open>acheck_task\<close>) is a parameter, and a message the base agent handles is
  \<open>Base_Message\<close>.
\<close>

section \<open>The control plane\<close>

record control_plane =
  cp_agent_id :: "string option"
  cp_server_hash :: "string option"
  cp_acknowledged :: bool

record init_message =
  in_agent :: string
  in_hash :: "string option"
  in_inquiries :: "task_id list"

definition new_control_plane :: control_plane where
  "new_control_plane = \<lparr>cp_agent_id = None, cp_server_hash = None, cp_acknowledged = False\<rparr>"

definition handle_init :: "init_message \<Rightarrow> control_plane \<Rightarrow> control_plane" where
  "handle_init m c = c\<lparr>cp_agent_id := Some (in_agent m), cp_server_hash := in_hash m, cp_acknowledged := True\<rparr>"

definition registered_agent_id :: "control_plane \<Rightarrow> string option" where
  "registered_agent_id c = cp_agent_id c"

section \<open>The agent on its socket\<close>

datatype follow_up = Not_Started | Under_Way | Completed

record 'm socket_agent =
  sa_agent :: agent
  sa_transport :: "'m transport"
  sa_postman :: agent_postman
  sa_control :: control_plane
  sa_after_registration :: bool \<comment> \<open>a follow-up is configured\<close>
  sa_follow_up :: follow_up

datatype 'b runtime_message =
    Journal_Ack session_id int
  | Assign_Response response
  | Probe_Response response
  | State_Revision_Response response
  | Execution_Event execution_event
  | Control_Response
  | Base_Message 'b

definition process_caller_message :: "'b runtime_message \<Rightarrow> agent_postman \<Rightarrow> agent_postman" where
  "process_caller_message m pm =
     (case m of
        Assign_Response r \<Rightarrow> handle_response r pm
      | Probe_Response r \<Rightarrow> handle_response r pm
      | State_Revision_Response r \<Rightarrow> handle_state_revision_response r pm
      | Execution_Event e \<Rightarrow> handle_execution_event e pm
      | _ \<Rightarrow> pm)"

text \<open>\<open>_aprocess_runtime_message\<close>; the second component is what is left to the base agent.\<close>

definition process_runtime_message ::
    "(string \<Rightarrow> database option) \<Rightarrow> (string \<Rightarrow> frame option) \<Rightarrow> 'b runtime_message \<Rightarrow> 'm socket_agent
      \<Rightarrow> 'm socket_agent \<times> 'b option" where
  "process_runtime_message disk validate m sa =
     (case m of
        Journal_Ack s p \<Rightarrow> (sa\<lparr>sa_agent := journal_ack disk validate s p (sa_agent sa)\<rparr>, None)
      | Control_Response \<Rightarrow> (sa, None)
      | Base_Message b \<Rightarrow> (sa, Some b)
      | _ \<Rightarrow> (sa\<lparr>sa_postman := process_caller_message m (sa_postman sa)\<rparr>, None))"

definition record_init :: "init_message \<Rightarrow> 'm socket_agent \<Rightarrow> 'm socket_agent" where
  "record_init m sa = sa\<lparr>sa_control := handle_init m (sa_control sa)\<rparr>"

definition task_ended :: "task_id \<Rightarrow> 'm socket_agent \<Rightarrow> 'm socket_agent" where
  "task_ended task sa = sa\<lparr>sa_postman := forget_parent task (sa_postman sa)\<rparr>"

subsection \<open>Liveness inquiries\<close>

definition progress_frame :: "task_id \<Rightarrow> string \<Rightarrow> int \<Rightarrow> frame" where
  "progress_frame t what n = \<lparr>fr_body = Progress_Frame what n, fr_task = Some t, fr_task_step = None\<rparr>"

text \<open>
  \<open>_areport_task_liveness\<close>, the frames it dispatches: \<open>managed\<close> says whether the task is
  assigned to an actor here, \<open>running\<close> what that actor answers.
\<close>

definition report_task_liveness ::
    "(frame \<Rightarrow> bool) \<Rightarrow> (task_id \<Rightarrow> bool) \<Rightarrow> (task_id \<Rightarrow> bool) \<Rightarrow> agent \<Rightarrow> task_id \<Rightarrow> frame list" where
  "report_task_liveness terminal managed running ag task =
     (if has_retained_terminal_report terminal ag task then []
      else if \<not> managed task
      then [critical_frame task ''After disconnect actor was no longer managed (probably the app was restarted)'']
      else if running task then [progress_frame task ''Actor is still running'' 0]
      else [critical_frame task ''The assignment was not running anymore. But the actor was still managed. This could lead to some race conditions''])"

definition reply_to_inquiries ::
    "(frame \<Rightarrow> bool) \<Rightarrow> (task_id \<Rightarrow> bool) \<Rightarrow> (task_id \<Rightarrow> bool) \<Rightarrow> agent \<Rightarrow> task_id list \<Rightarrow> frame list" where
  "reply_to_inquiries terminal managed running ag tasks =
     concat (map (report_task_liveness terminal managed running ag) tasks)"

subsection \<open>After Init\<close>

text \<open>
  \<open>_aafter_init\<close>: what carries a position is discarded, the retained frames are queued, the
  transport may send, then the inquiries are answered (their frames are the second
  component) and the follow-up is started if none is under way or done.
\<close>

definition after_init ::
    "(string \<Rightarrow> json option) \<Rightarrow> (frame \<Rightarrow> string) \<Rightarrow> (frame \<Rightarrow> bool) \<Rightarrow> (task_id \<Rightarrow> bool) \<Rightarrow> (task_id \<Rightarrow> bool)
      \<Rightarrow> init_message \<Rightarrow> 'm socket_agent \<Rightarrow> 'm socket_agent \<times> frame list" where
  "after_init loads dump terminal managed running m sa =
     (let t1 = snd (discard_journaled loads (sa_transport sa));
          t2 = fold (asend dump) (aresend_retained (sa_agent sa)) t1;
          t3 = release_sends t2
      in (sa\<lparr>sa_transport := t3,
             sa_follow_up := (if sa_after_registration sa \<and> sa_follow_up sa = Not_Started
                              then Under_Way else sa_follow_up sa)\<rparr>,
          reply_to_inquiries terminal managed running (sa_agent sa) (in_inquiries m)))"

text \<open>\<open>_arun_after_registration\<close>: a follow-up that raised is tried again at the next Init.\<close>

definition follow_up_ends :: "bool \<Rightarrow> 'm socket_agent \<Rightarrow> 'm socket_agent" where
  "follow_up_ends raised sa = sa\<lparr>sa_follow_up := (if raised then Not_Started else Completed)\<rparr>"

text \<open>
  \<open>atear_down\<close>: the follow-up is cancelled, the base agent tears down (whether it raises or
  not), then the stores are closed; the other components are what they were closed with.
\<close>

definition tear_down ::
    "'m socket_agent \<Rightarrow> 'm socket_agent \<times> persisted_states option \<times> retained_frames option" where
  "tear_down sa =
     (let (ag, states) = aclose_state_store (sa_agent sa)
      in (sa\<lparr>sa_agent := ag\<lparr>ag_store := None\<rparr>, sa_follow_up := Not_Started\<rparr>,
          states, map_option close_frames (ag_store ag)))"

section \<open>What the server gets after Init\<close>

lemma asend_unsent:
  "unsent (asend dump f t) = unsent t @ [dump f]"
  "tp_wire (asend dump f t) = tp_wire t" "tp_released (asend dump f t) = tp_released t"
  "transport_ok t \<Longrightarrow> transport_ok (asend dump f t)"
  by (simp_all add: asend_def unsent_def in_flight_def held_frame_def aq_put_def transport_ok_def)

lemma fold_asend_unsent:
  "unsent (fold (asend dump) fs t) = unsent t @ map dump fs"
  "tp_wire (fold (asend dump) fs t) = tp_wire t" "tp_released (fold (asend dump) fs t) = tp_released t"
  "transport_ok t \<Longrightarrow> transport_ok (fold (asend dump) fs t)"
  by (induction fs arbitrary: t) (simp_all add: asend_unsent)

lemma transport_ok_release [simp]: "transport_ok (release_sends t) = transport_ok t"
  by (simp add: release_sends_def transport_ok_def unsent_def in_flight_def held_frame_def)

lemma unsent_release [simp]: "unsent (release_sends t) = unsent t"
  by (simp add: release_sends_def unsent_def in_flight_def held_frame_def)

lemma after_init_queue:
  assumes "transport_ok (sa_transport sa)" and "shut (sa_transport sa)"
    and "tp_released (sa_transport sa) \<noteq> None"
    and "\<forall>f \<in> set (aresend_retained (sa_agent sa)). journaled loads (dump f)"
    and "after_init loads dump terminal managed running m sa = (sa', frames)"
  shows "transport_ok (sa_transport sa') \<and> tp_released (sa_transport sa') = Some True \<and>
    tp_wire (sa_transport sa') = tp_wire (sa_transport sa) \<and>
    unsent (sa_transport sa') = filter (\<lambda>f. \<not> journaled loads f) (unsent (sa_transport sa)) @
      map dump (aresend_retained (sa_agent sa)) \<and>
    filter (journaled loads) (unsent (sa_transport sa')) = map dump (aresend_retained (sa_agent sa))"
proof -
  let ?t = "sa_transport sa" and ?fs = "aresend_retained (sa_agent sa)"
  obtain n t1 where dis: "discard_journaled loads ?t = (n, t1)" by fastforce
  have t1: "transport_ok t1" "tp_wire t1 = tp_wire ?t"
    "unsent t1 = in_flight ?t @ filter (\<lambda>f. \<not> journaled loads f) (held_frame ?t @ aq_items (tp_send_queue ?t))"
    using transport_step_discard [OF assms(1), of loads dump] dis by simp_all
  have idle: "in_flight ?t = []"
    using assms(2) by (auto simp: shut_def in_flight_def)
  have released: "tp_released t1 = tp_released ?t"
    by (subst discard_journaled_result(3) [OF assms(1) dis]) simp
  have sa': "sa_transport sa' = release_sends (fold (asend dump) ?fs t1)"
    using assms(5) dis by (auto simp: after_init_def Let_def)
  have unsent: "unsent (sa_transport sa') =
      filter (\<lambda>f. \<not> journaled loads f) (unsent ?t) @ map dump ?fs"
  proof -
    have "unsent t1 = filter (\<lambda>f. \<not> journaled loads f) (unsent ?t)"
      using t1(3) idle by (simp add: unsent_def)
    then show ?thesis by (simp add: sa' fold_asend_unsent)
  qed
  moreover have "filter (journaled loads) (unsent (sa_transport sa')) = map dump ?fs"
    unfolding unsent using assms(4) by (auto simp: filter_map comp_def filter_id_conv)
  moreover have "tp_released (sa_transport sa') = Some True" "tp_wire (sa_transport sa') = tp_wire ?t"
    using assms(3) t1(2) released
    by (auto simp: sa' release_sends_def fold_asend_unsent)
  moreover have "transport_ok (sa_transport sa')"
    using t1(1) by (simp add: sa' fold_asend_unsent)
  ultimately show ?thesis by blast
qed



text \<open>A reconnect: the old connection left \<open>P\<close> (journaled, and retained) and \<open>a\<close> unsent.\<close>

definition demo_reconnected :: "int socket_agent" where
  "demo_reconnected =
     \<lparr>sa_agent = (fresh_agent ''a'' None)\<lparr>ag_retained := [((''s'', 1), demo_frame ''P'')]\<rparr>,
      sa_transport = fold (transport_step demo_loads text_of)
        [Sends (demo_frame ''P''), Sends (demo_frame ''a''), Connects True] idle_transport,
      sa_postman = new_postman 5, sa_control = new_control_plane,
      sa_after_registration = False, sa_follow_up = Not_Started\<rparr>"

definition demo_init :: init_message where
  "demo_init = \<lparr>in_agent = ''7'', in_hash = None, in_inquiries = []\<rparr>"


section \<open>Inquiries\<close>


section \<open>Crash, reconnect, Init\<close>

lemma take_stored_agree:
  assumes "ag_retained a = ag_retained b \<and> ag_session_created a = ag_session_created b"
  shows "ag_retained (fold (take_stored validate) fs a) = ag_retained (fold (take_stored validate) fs b) \<and>
    ag_session_created (fold (take_stored validate) fs a) = ag_session_created (fold (take_stored validate) fs b)"
  using assms
proof (induction fs arbitrary: a b)
  case (Cons f fs)
  have "ag_retained (take_stored validate f a) = ag_retained (take_stored validate f b) \<and>
      ag_session_created (take_stored validate f a) = ag_session_created (take_stored validate f b)"
    using Cons.prems by (cases "validate (sf_frame f)") (simp_all add: take_stored_def)
  from Cons.IH [OF this] show ?case by simp
qed simp

lemma open_store_agree:
  assumes "ag_store a = None"
  shows "ag_retained (open_store disk validate (a\<lparr>ag_current_session := s\<rparr>)) = ag_retained (open_store disk validate a) \<and>
    ag_session_created (open_store disk validate (a\<lparr>ag_current_session := s\<rparr>)) =
      ag_session_created (open_store disk validate a)"
proof -
  have "connect_store disk (a\<lparr>ag_current_session := s\<rparr>) = connect_store disk a"
    by (simp add: connect_store_def cong: sum.case_cong)
  then show ?thesis
    using assms take_stored_agree [of "a\<lparr>ag_current_session := s, ag_store := Some (connect_store disk a)\<rparr>"
        "a\<lparr>ag_store := Some (connect_store disk a)\<rparr>" validate "projr (load_frames (connect_store disk a))"]
    by (simp add: open_store_def Let_def)
qed

lemma astart_resend:
  assumes "astart disk validate now s sdisk declared hash_of ag = Some ag'" and "ag_store ag = None"
    and "\<forall>k \<in> set (dict_keys (ag_retained (open_store disk validate ag))). fst k \<noteq> s"
    and "dict_ok (ag_retained (open_store disk validate ag))"
  shows "aresend_retained ag' = aresend_retained (open_store disk validate ag)"
proof -
  let ?b = "open_store disk validate (ag\<lparr>ag_current_session := s\<rparr>)" and ?o = "open_store disk validate ag"
  have b: "ag_retained ?b = ag_retained ?o" "ag_session_created ?b = ag_session_created ?o"
    using open_store_agree [OF assms(2)] by blast+
  obtain ag1 where know: "know_session disk validate now s ?b = (ag1, False)"
    and ag': "ag' = open_state_store sdisk declared hash_of ag1"
    using assms(1) by (auto simp: astart_def split: prod.splits bool.splits)
  have opened: "ag_store ?b \<noteq> None" by (rule open_store_store)
  have ag1: "ag_retained ag1 = ag_retained ?b"
    using know_session_retained [OF opened know] by blast
  have state: "ag_retained ag' = ag_retained ag1" "ag_session_created ag' = ag_session_created ag1"
    unfolding ag' by (auto simp: open_state_store_def Let_def split: option.splits sum.splits)
  show ?thesis
  proof (rule aresend_cong)
    fix k
    assume k: "k \<in> set (dict_keys (ag_retained ?o))"
    then have "fst k \<noteq> s" using assms(3) by blast
    then have "dict_get (ag_session_created ag1) (fst k) = dict_get (ag_session_created ?b) (fst k)"
      using know opened by (auto simp: know_session_def Let_def split: if_splits sum.splits)
    then show "created_or_0 ag' (fst k) = created_or_0 ?o (fst k)"
      by (simp add: created_or_0_def dict_getdefault_def state(2) b(2))
  qed (use assms(4) in \<open>simp_all add: state(1) ag1 b(1)\<close>)
qed

text \<open>
  C2. From a crash to the next Init. A process runs on a journal file, reports and is
  acknowledged in any interleaving, and is killed at any point. Its successor starts on the
  file, connects, and gets its \<open>Init\<close>: the frames with a position it then sends are exactly
  those the dead process had reported and the server had not acknowledged, in the order the
  dead one would have resent them.
\<close>

theorem crash_to_init:
  assumes "\<not> in_memory path" and "disk (the path) = Some db" and "db_ok db"
    and "new_session db name session"
    and "astart disk validate now session sdisk declared hash_of (fresh_agent name path) = Some ag"
    and "wf_reports validate dump session 0 rs"
    and "disk' (the path) = Some (rf_db (the (ag_store (fold (do_report disk validate dump) rs ag))))"
    and "owed = aresend_retained (fold (do_report disk validate dump) rs ag)"
    and "astart disk' validate now' session' sdisk' declared hash_of (fresh_agent name path) = Some (sa_agent sa)"
    and "\<forall>k \<in> set (dict_keys (ag_retained (fold (do_report disk validate dump) rs ag))). fst k \<noteq> session'"
    and "transport_ok (sa_transport sa)" and "shut (sa_transport sa)" and "tp_released (sa_transport sa) \<noteq> None"
    and "\<forall>f \<in> set owed. journaled loads (dump f)"
    and "after_init loads dump terminal managed running m sa = (sa', frames)"
  shows "filter (journaled loads) (unsent (sa_transport sa')) = map dump owed \<and>
    tp_released (sa_transport sa') = Some True"
proof -
  let ?fresh = "fresh_agent name path" and ?dead = "fold (do_report disk validate dump) rs ag"
  obtain sn sd where mirror: "mirrored validate (open_store disk' validate ?fresh) sn"
      "mirrored validate ?dead sd" "rf_db sn = rf_db sd" "rf_agent sn = rf_agent sd"
    using restart_mirrors [where disk = disk and disk' = disk', OF assms(1-7)] by blast
  have keys: "set (dict_keys (ag_retained (open_store disk' validate ?fresh))) = set (dict_keys (ag_retained ?dead))"
  proof -
    have "readable validate sn = readable validate sd"
      using mirror(3,4) by (simp add: readable_def acked_def holds_def fun_eq_iff)
    then have "dict_get (ag_retained (open_store disk' validate ?fresh)) = dict_get (ag_retained ?dead)"
      using mirror(1,2) by (simp add: mirrored_def)
    then show ?thesis using dict_get_None_iff by (metis subsetI subset_antisym)
  qed
  have "aresend_retained (sa_agent sa) = aresend_retained (open_store disk' validate ?fresh)"
  proof (rule astart_resend [OF assms(9)])
    show "ag_store ?fresh = None" by (simp add: fresh_agent_def)
    show "\<forall>k \<in> set (dict_keys (ag_retained (open_store disk' validate ?fresh))). fst k \<noteq> session'"
      unfolding keys by (rule assms(10))
  qed (use mirror(1) in \<open>simp add: mirrored_def\<close>)
  also have "\<dots> = owed"
    unfolding assms(8) by (rule mirrored_same_resend [OF mirror])
  finally have owed: "aresend_retained (sa_agent sa) = owed" .
  show ?thesis
    using after_init_queue [OF assms(11-13) _ assms(15)] assms(14) unfolding owed by blast
qed

text \<open>The effect the demo process recorded reaches the queue of its successor.\<close>

definition demo_successor :: agent where
  "demo_successor = the (astart (\<lambda>_. Some (rf_db (the (ag_store demo_dead)))) effect_validate 60 ''s4''
     (\<lambda>_. None) [] id (fresh_agent ''a'' (Some ''j.db'')))"

definition demo_resumed_agent :: "int socket_agent" where
  "demo_resumed_agent = demo_reconnected\<lparr>sa_agent := demo_successor\<rparr>"

theorem crash_to_init_witness:
  "filter (journaled (\<lambda>_. Some (J_Object [(''pos'', J_Number 1)])))
     (unsent (sa_transport (fst (after_init (\<lambda>_. Some (J_Object [(''pos'', J_Number 1)])) effect_dump
       (\<lambda>_. False) (\<lambda>_. True) (\<lambda>_. True) demo_init demo_resumed_agent)))) =
   map effect_dump (aresend_retained demo_dead)"
proof -
  let ?loads = "\<lambda>_::string. Some (J_Object [(''pos'', J_Number 1)])"
  have path: "\<not> in_memory (Some ''j.db'')" by (simp add: in_memory_def)
  have wf: "wf_reports effect_validate effect_dump ''s3'' 0 [Emit demo_effect 1 40]"
    by (simp add: effect_codec)
  have start: "astart (\<lambda>_. Some demo_db) effect_validate 30 ''s3'' (\<lambda>_. None) [] id
      (fresh_agent ''a'' (Some ''j.db'')) = Some (the (demo_agent effect_validate))"
    using demo_agent_Some [of effect_validate] by (simp add: demo_agent_def)
  have left: "(\<lambda>_. Some (rf_db (the (ag_store demo_dead)))) (the (Some ''j.db'')) =
      Some (rf_db (the (ag_store (fold (do_report (\<lambda>_. Some demo_db) effect_validate effect_dump)
        [Emit demo_effect 1 40] (the (demo_agent effect_validate))))))"
    by (simp only: demo_dead_fold)
  have next_start: "astart (\<lambda>_. Some (rf_db (the (ag_store demo_dead)))) effect_validate 60 ''s4''
     (\<lambda>_. None) [] id (fresh_agent ''a'' (Some ''j.db'')) = Some (sa_agent demo_resumed_agent)"
  proof -
    have "\<not> Option.is_none (astart (\<lambda>_. Some (rf_db (the (ag_store demo_dead)))) effect_validate 60 ''s4''
        (\<lambda>_. None) [] id (fresh_agent ''a'' (Some ''j.db'')))"
      unfolding demo_dead_def by code_simp
    then show ?thesis
      by (simp add: demo_resumed_agent_def demo_successor_def Option.is_none_def)
  qed
  have sessions: "\<forall>k \<in> set (dict_keys (ag_retained demo_dead)). fst k \<noteq> ''s4''"
    unfolding demo_dead_def by code_simp
  have ok: "transport_ok (sa_transport demo_resumed_agent)" "shut (sa_transport demo_resumed_agent)"
    "tp_released (sa_transport demo_resumed_agent) \<noteq> None"
    by (simp only: demo_resumed_agent_def demo_reconnected_def socket_agent.simps
        transport_steps_ok [OF idle_transport_ok]) code_simp+
  have all: "\<forall>f \<in> set (aresend_retained demo_dead). journaled ?loads (effect_dump f)"
    by (simp add: journaled_def)
  show ?thesis
    using crash_to_init [where disk = "\<lambda>_. Some demo_db" and loads = ?loads,
        OF path refl demo_db_ok demo_new_session start wf left refl [of "aresend_retained demo_dead", unfolded demo_dead_fold]
          next_start sessions [unfolded demo_dead_fold] ok all [unfolded demo_dead_fold] prod.collapse [symmetric],
        folded demo_dead_fold]
    by blast
qed

lemma aclose_state_store_closed:
  "ag_store (fst (aclose_state_store ag)) = ag_store ag \<and> ag_state_store (fst (aclose_state_store ag)) = None \<and>
   ag_retained (fst (aclose_state_store ag)) = ag_retained ag"
proof -
  have "ag_store (fold stop_flusher ps a) = ag_store a \<and> ag_retained (fold stop_flusher ps a) = ag_retained a" for ps a
    by (induction ps arbitrary: a)
      (auto simp: stop_flusher_def write_state_def split: flusher.splits option.splits sum.splits)
  then show ?thesis by (simp add: aclose_state_store_def Let_def)
qed

lemma stop_flusher_store [simp]:
  "(ag_state_store (fold stop_flusher ps a) = None) = (ag_state_store a = None)"
  by (induction ps arbitrary: a)
    (auto simp: stop_flusher_def flush_state_def take_dirty_state_def write_state_def
      split: flusher.splits option.splits sum.splits if_splits)

text \<open>
  Tearing down closes both stores and loses no retained frame: afterwards neither store
  is open, each was closed with what it held, and the journal file's content is untouched,
  so the next run finds every frame that was not acknowledged.
\<close>

theorem tear_down_closes_stores:
  "let (sa', states, frames) = tear_down sa
   in ag_store (sa_agent sa') = None \<and> ag_state_store (sa_agent sa') = None \<and>
      frames = map_option (\<lambda>st. st\<lparr>rf_closed := True\<rparr>) (ag_store (sa_agent sa)) \<and>
      (case states of None \<Rightarrow> ag_state_store (sa_agent sa) = None | Some st \<Rightarrow> ps_closed st) \<and>
      ag_retained (sa_agent sa') = ag_retained (sa_agent sa)"
  using aclose_state_store_closed [of "sa_agent sa"]
  by (auto simp: tear_down_def aclose_state_store_def close_states_def close_frames_def Let_def
      map_option_case split: option.splits)

end
