(* ===== verification/Agent_Calls.thy ===== *)
theory Agent_Calls
  imports Agent_Caller
begin

text \<open>
  The calls of one \<open>AgentPostman\<close> (\<open>rekuest/agents/caller.py\<close>) together: any number of
  \<open>_astream\<close> generators, interleaved with each other and with what the socket brings.

  A call is where its generator is suspended. One action is what the generator does from
  there to its next suspension point, or what the agent does with one inbound message, and
  is \<open>None\<close> when the call is not there. Queues are objects: a call holds on to the one it
  got, also after it was taken out of \<open>_task_queues\<close>, so a queue is named by its task and
  how many queues of that task were removed before. Times are left out: that a wait times out
  is an action (its bounds are in \<open>Agent_Caller\<close>). Requests are minted fresh (\<open>uuid4\<close>).
  The state revision requests, which use only their own future, are not among the actions.
\<close>

section \<open>The calls and their queues\<close>

datatype call_outcome =
    Stream_Done
  | Call_Raised call_error
  | Send_Raised string
  | Call_Was_Cancelled
  | Call_Was_Closed

datatype call_phase =
    At_Response \<comment> \<open>\<open>await response_future\<close>\<close>
  | At_Queue "int list" \<comment> \<open>\<open>await queue.get()\<close>, with the seqs seen\<close>
  | At_Yield "int list" bool \<comment> \<open>\<open>yield adapted\<close>, and whether its mirror is terminal\<close>
  | At_Confirmation bool \<comment> \<open>in \<open>_await_terminal\<close>, and whether the interrupt was sent\<close>
  | Call_Over call_outcome

record live_call =
  lc_reference :: reference
  lc_escalate :: bool
  lc_task :: "(task_id \<times> nat) option" \<comment> \<open>\<open>task\<close> and \<open>queue\<close>\<close>
  lc_phase :: call_phase
  lc_yielded :: "caller_task_event list"

record call_world =
  cw_postman :: agent_postman
  cw_calls :: "(string, live_call) dict" \<comment> \<open>by request id\<close>
  cw_removed :: "(task_id, nat) dict" \<comment> \<open>how many queues of a task were removed\<close>
  cw_detached :: "(task_id \<times> nat, execution_event async_queue) dict" \<comment> \<open>the removed ones\<close>
  cw_sent :: "control_request list"

definition new_world :: "rat \<Rightarrow> call_world" where
  "new_world cancel_timeout = \<lparr>cw_postman = new_postman cancel_timeout, cw_calls = [], cw_removed = [],
     cw_detached = [], cw_sent = []\<rparr>"

abbreviation removed :: "call_world \<Rightarrow> task_id \<Rightarrow> nat" where
  "removed w t \<equiv> dict_getdefault (cw_removed w) t 0"

definition held_queue :: "task_id \<times> nat \<Rightarrow> call_world \<Rightarrow> execution_event async_queue option" where
  "held_queue q w =
     (if snd q = removed w (fst q) then dict_get (pm_queues (cw_postman w)) (fst q)
      else dict_get (cw_detached w) q)"

definition put_queue :: "task_id \<times> nat \<Rightarrow> execution_event async_queue \<Rightarrow> call_world \<Rightarrow> call_world" where
  "put_queue q items w =
     (if snd q = removed w (fst q)
      then w\<lparr>cw_postman := (cw_postman w)\<lparr>pm_queues := dict_put (pm_queues (cw_postman w)) (fst q) items\<rparr>\<rparr>
      else w\<lparr>cw_detached := dict_put (cw_detached w) q items\<rparr>)"

definition set_call :: "string \<Rightarrow> live_call \<Rightarrow> call_world \<Rightarrow> call_world" where
  "set_call r c w = w\<lparr>cw_calls := dict_put (cw_calls w) r c\<rparr>"

text \<open>Taking a task's queue out of \<open>_task_queues\<close>: who holds it keeps it.\<close>

definition detach_queue :: "task_id \<Rightarrow> call_world \<Rightarrow> call_world" where
  "detach_queue t w =
     (case dict_get (pm_queues (cw_postman w)) t of
        None \<Rightarrow> w
      | Some q \<Rightarrow> w\<lparr>cw_detached := dict_put (cw_detached w) (t, removed w t) q,
                     cw_removed := dict_put (cw_removed w) t (removed w t + 1)\<rparr>)"

text \<open>The \<open>finally\<close> and the end of the generator; \<open>task\<close> is the value of that variable.\<close>

definition end_call :: "string \<Rightarrow> live_call \<Rightarrow> task_id option \<Rightarrow> call_outcome \<Rightarrow> call_world \<Rightarrow> call_world" where
  "end_call r c task how w =
     (let w1 = (case task of None \<Rightarrow> w | Some t \<Rightarrow> detach_queue t w)
      in set_call r (c\<lparr>lc_phase := Call_Over how\<rparr>)
           (w1\<lparr>cw_postman := finish_call r (lc_reference c) task (cw_postman w1)\<rparr>))"

text \<open>\<open>_send_control\<close>: a request the sink does not take is logged and forgotten.\<close>

definition send_control :: "bool \<Rightarrow> control_request \<Rightarrow> call_world \<Rightarrow> call_world" where
  "send_control taken request w = (if taken then w\<lparr>cw_sent := cw_sent w @ [request]\<rparr> else w)"

section \<open>What a generator does between two suspension points\<close>

definition new_call :: "reference \<Rightarrow> bool \<Rightarrow> live_call" where
  "new_call reference escalate = \<lparr>lc_reference = reference, lc_escalate = escalate, lc_task = None,
     lc_phase = At_Response, lc_yielded = []\<rparr>"

lemma new_call_simps [simp]:
  "lc_reference (new_call reference escalate) = reference" "lc_task (new_call reference escalate) = None"
  "lc_phase (new_call reference escalate) = At_Response" "lc_yielded (new_call reference escalate) = []"
  by (simp_all add: new_call_def)

text \<open>Up to the response: \<open>refused\<close> is what \<open>asend\<close> raised, if it did.\<close>

definition call_starts :: "string \<Rightarrow> reference \<Rightarrow> bool \<Rightarrow> string option \<Rightarrow> call_world \<Rightarrow> call_world option" where
  "call_starts r reference escalate refused w =
     (case dict_get (cw_calls w) r of
        Some _ \<Rightarrow> None
      | None \<Rightarrow>
          let c = new_call reference escalate;
              w1 = set_call r c (w\<lparr>cw_postman := expect_response r (cw_postman w)\<rparr>)
          in Some (case refused of None \<Rightarrow> w1 | Some e \<Rightarrow> end_call r c None (Send_Raised e) w1))"

text \<open>
  The future has its result. An answer without error and with an empty id fails the call
  with \<open>task\<close> set to that id already.
\<close>

definition call_resumes :: "string \<Rightarrow> live_call \<Rightarrow> call_world \<Rightarrow> call_world option" where
  "call_resumes r c w =
     (case (lc_phase c, dict_get (pm_pending (cw_postman w)) r) of
        (At_Response, Some (Some answer)) \<Rightarrow>
          Some (case accept_response (lc_reference c) answer (cw_postman w) of
             Inl e \<Rightarrow> end_call r c (if truthy (rs_error answer) then None else response_id answer) (Call_Raised e) w
           | Inr (t, pm) \<Rightarrow>
               set_call r (c\<lparr>lc_task := Some (t, removed w t), lc_phase := At_Queue []\<rparr>) (w\<lparr>cw_postman := pm\<rparr>))
      | _ \<Rightarrow> None)"

text \<open>The queue has an event: the loop's body up to its \<open>yield\<close>, or around to the next \<open>get\<close>.\<close>

definition call_takes :: "(execution_event \<Rightarrow> bool) \<Rightarrow> string \<Rightarrow> live_call \<Rightarrow> call_world \<Rightarrow> call_world option" where
  "call_takes terminal r c w =
     (case (lc_phase c, lc_task c) of
        (At_Queue seen, Some q) \<Rightarrow>
          (case Option.bind (held_queue q w) aq_get of
             None \<Rightarrow> None
           | Some (e, rest) \<Rightarrow>
               let w1 = put_queue q rest w;
                   (out, seen', ended) = stream_events terminal seen [e];
                   c1 = c\<lparr>lc_yielded := lc_yielded c @ out\<rparr>
               in Some (if out = [] \<and> ended then end_call r c1 (Some (fst q)) Stream_Done w1
                        else set_call r (c1\<lparr>lc_phase := if out = [] then At_Queue seen' else At_Yield seen' ended\<rparr>) w1))
      | _ \<Rightarrow> None)"

text \<open>The consumer asks for the next event.\<close>

definition call_asked :: "string \<Rightarrow> live_call \<Rightarrow> call_world \<Rightarrow> call_world option" where
  "call_asked r c w =
     (case (lc_phase c, lc_task c) of
        (At_Yield seen ended, Some (t, _)) \<Rightarrow>
          Some (if ended then end_call r c (Some t) Stream_Done w
                else set_call r (c\<lparr>lc_phase := At_Queue seen\<rparr>) w)
      | _ \<Rightarrow> None)"

text \<open>The generator is closed: \<open>GeneratorExit\<close> at a \<open>yield\<close>, the terminal one included.\<close>

definition call_closed :: "bool \<Rightarrow> string \<Rightarrow> live_call \<Rightarrow> call_world \<Rightarrow> call_world option" where
  "call_closed taken r c w =
     (case (lc_phase c, lc_task c) of
        (At_Yield _ _, Some (t, _)) \<Rightarrow>
          Some (end_call r c (Some t) Call_Was_Closed (send_control taken (Cancel_Request t) w))
      | _ \<Rightarrow> None)"

text \<open>
  The caller's task is cancelled: \<open>CancelledError\<close> at an \<open>await\<close>. One that comes while the
  confirmation is awaited leaves the \<open>except\<close> clause at once.
\<close>

definition call_cancelled :: "bool \<Rightarrow> string \<Rightarrow> live_call \<Rightarrow> call_world \<Rightarrow> call_world option" where
  "call_cancelled taken r c w =
     (case (lc_phase c, lc_task c) of
        (At_Response, _) \<Rightarrow> Some (end_call r c None Call_Was_Cancelled w)
      | (At_Queue _, Some (t, _)) \<Rightarrow>
          Some (set_call r (c\<lparr>lc_phase := At_Confirmation False\<rparr>) (send_control taken (Cancel_Request t) w))
      | (At_Confirmation _, Some (t, _)) \<Rightarrow> Some (end_call r c (Some t) Call_Was_Cancelled w)
      | _ \<Rightarrow> None)"

definition confirms :: "bool \<Rightarrow> execution_event \<Rightarrow> bool" where
  "confirms interrupted e \<longleftrightarrow>
     ee_body e = Cancelled_Event \<or> (interrupted \<and> ee_body e = Interrupted_Event)"

definition confirmation_takes :: "string \<Rightarrow> live_call \<Rightarrow> call_world \<Rightarrow> call_world option" where
  "confirmation_takes r c w =
     (case (lc_phase c, lc_task c) of
        (At_Confirmation interrupted, Some q) \<Rightarrow>
          (case Option.bind (held_queue q w) aq_get of
             None \<Rightarrow> None
           | Some (e, rest) \<Rightarrow>
               let w1 = put_queue q rest w
               in Some (if confirms interrupted e then end_call r c (Some (fst q)) Call_Was_Cancelled w1 else w1))
      | _ \<Rightarrow> None)"

definition confirmation_times_out :: "bool \<Rightarrow> string \<Rightarrow> live_call \<Rightarrow> call_world \<Rightarrow> call_world option" where
  "confirmation_times_out taken r c w =
     (case (lc_phase c, lc_task c) of
        (At_Confirmation interrupted, Some (t, _)) \<Rightarrow>
          Some (if \<not> interrupted \<and> lc_escalate c
                then set_call r (c\<lparr>lc_phase := At_Confirmation True\<rparr>)
                       (send_control taken (Interrupt_Request t) w)
                else end_call r c (Some t) Call_Was_Cancelled w)
      | _ \<Rightarrow> None)"

section \<open>Runs\<close>

datatype call_action =
    Call_Starts string reference bool "string option"
  | Socket_Brings "execution_event + response"
  | Call_Resumes string
  | Call_Takes string
  | Call_Asked string
  | Call_Closed string bool
  | Call_Cancelled string bool
  | Confirmation_Takes string
  | Confirmation_Times_Out string bool

definition of_call :: "string \<Rightarrow> (string \<Rightarrow> live_call \<Rightarrow> call_world \<Rightarrow> call_world option) \<Rightarrow> call_world \<Rightarrow> call_world option" where
  "of_call r f w = (case dict_get (cw_calls w) r of None \<Rightarrow> None | Some c \<Rightarrow> f r c w)"

fun socket_call_step :: "(execution_event \<Rightarrow> bool) \<Rightarrow> call_action \<Rightarrow> call_world \<Rightarrow> call_world option" where
  "socket_call_step terminal (Call_Starts r reference escalate refused) w = call_starts r reference escalate refused w"
| "socket_call_step terminal (Socket_Brings m) w = Some (w\<lparr>cw_postman := inbound m (cw_postman w)\<rparr>)"
| "socket_call_step terminal (Call_Resumes r) w = of_call r call_resumes w"
| "socket_call_step terminal (Call_Takes r) w = of_call r (call_takes terminal) w"
| "socket_call_step terminal (Call_Asked r) w = of_call r call_asked w"
| "socket_call_step terminal (Call_Closed r taken) w = of_call r (call_closed taken) w"
| "socket_call_step terminal (Call_Cancelled r taken) w = of_call r (call_cancelled taken) w"
| "socket_call_step terminal (Confirmation_Takes r) w = of_call r confirmation_takes w"
| "socket_call_step terminal (Confirmation_Times_Out r taken) w = of_call r (confirmation_times_out taken) w"

fun run_calls :: "(execution_event \<Rightarrow> bool) \<Rightarrow> call_action list \<Rightarrow> call_world \<Rightarrow> call_world option" where
  "run_calls terminal [] w = Some w"
| "run_calls terminal (a # as) w = Option.bind (socket_call_step terminal a w) (run_calls terminal as)"

text \<open>The mirrors of a task the socket brought in a run, in order.\<close>

definition brought :: "call_action list \<Rightarrow> (execution_event + response) list" where
  "brought as = List.map_filter (\<lambda>a. case a of Socket_Brings m \<Rightarrow> Some m | _ \<Rightarrow> None) as"

lemma brought_simps [simp]:
  "brought [] = []"
  "brought (a # as) = (case a of Socket_Brings m \<Rightarrow> [m] | _ \<Rightarrow> []) @ brought as"
  by (simp_all add: brought_def List.map_filter_def split: call_action.split)

lemmas action_defs =
  call_starts_def call_resumes_def call_takes_def call_asked_def call_closed_def call_cancelled_def
  confirmation_takes_def confirmation_times_out_def

lemma call_resumes_cases:
  assumes "call_resumes r c w = Some w'"
  obtains answer where "lc_phase c = At_Response"
    and "w' = (case accept_response (lc_reference c) answer (cw_postman w) of
       Inl e \<Rightarrow> end_call r c (if truthy (rs_error answer) then None else response_id answer) (Call_Raised e) w
     | Inr (t, pm) \<Rightarrow>
         set_call r (c\<lparr>lc_task := Some (t, removed w t), lc_phase := At_Queue []\<rparr>) (w\<lparr>cw_postman := pm\<rparr>))"
  using assms by (auto simp: call_resumes_def split: call_phase.splits option.splits)

lemma of_call_cases:
  assumes "of_call r f w = Some w'"
  obtains c where "dict_get (cw_calls w) r = Some c" and "f r c w = Some w'"
  using assms by (auto simp: of_call_def split: option.splits)

section \<open>What an operation leaves alone\<close>

named_theorems world_simps

lemma calls_kept [world_simps]:
  "cw_calls (put_queue q items w) = cw_calls w"
  "cw_calls (send_control taken m w) = cw_calls w"
  "cw_calls (detach_queue t w) = cw_calls w"
  "cw_calls (set_call r c w) = dict_put (cw_calls w) r c"
  "dict_get (cw_calls (end_call r c task how w)) = (dict_get (cw_calls w))(r \<mapsto> c\<lparr>lc_phase := Call_Over how\<rparr>)"
  by (auto simp: put_queue_def send_control_def detach_queue_def set_call_def end_call_def Let_def
      split: option.splits)

lemma postman_kept [world_simps]:
  "cw_postman (send_control taken m w) = cw_postman w"
  "cw_postman (detach_queue t w) = cw_postman w"
  "cw_postman (set_call r c w) = cw_postman w"
  "cw_postman (end_call r c task how w) = finish_call r (lc_reference c) task (cw_postman w)"
  by (auto simp: send_control_def detach_queue_def set_call_def end_call_def Let_def split: option.splits)

lemma queue_names_kept [world_simps]:
  "cw_removed (put_queue q items w) = cw_removed w"
  "cw_removed (send_control taken m w) = cw_removed w"
  "cw_removed (set_call r c w) = cw_removed w"
  "cw_removed (end_call r c None how w) = cw_removed w"
  "cw_removed (end_call r c (Some t) how w) = cw_removed (detach_queue t w)"
  by (auto simp: put_queue_def send_control_def set_call_def end_call_def Let_def)

lemma removed_detach: "removed (detach_queue t w) t' = 
    removed w t' + (if t' = t \<and> dict_get (pm_queues (cw_postman w)) t \<noteq> None then 1 else 0)"
  by (auto simp: detach_queue_def dict_getdefault_def split: option.splits)

text \<open>What there is of a task: its undelivered mirrors, whether it has a queue, and which.\<close>

definition task_view :: "call_world \<Rightarrow> task_id \<Rightarrow> execution_event list \<times> bool \<times> nat" where
  "task_view w t =
     (pending_events (cw_postman w) t, dict_get (pm_queues (cw_postman w)) t \<noteq> None, removed w t)"

lemma task_view_kept [world_simps]:
  "task_view (send_control taken m w) = task_view w"
  "task_view (set_call r c w) = task_view w"
  "t \<noteq> fst q \<Longrightarrow> task_view (put_queue q items w) t = task_view w t"
  "task_view (end_call r c None how w) t = task_view w t"
  "t \<noteq> t' \<Longrightarrow> task_view (end_call r c (Some t') how w) t = task_view w t"
  by (auto simp: task_view_def world_simps put_queue_def pending_events_def finish_call_def Let_def
      removed_detach [unfolded dict_getdefault_def] dict_getdefault_def)

lemma postman_ok_kept [world_simps]:
  "postman_ok pm \<Longrightarrow> postman_ok (finish_call r reference task pm)"
  "postman_ok (cw_postman w) \<Longrightarrow> held_queue q w \<noteq> None \<Longrightarrow> postman_ok (cw_postman (put_queue q items w))"
  "postman_ok (expect_response r pm) = postman_ok pm"
  by (auto simp: postman_ok_def finish_call_def put_queue_def held_queue_def expect_response_def Let_def
      split: option.splits if_splits)

lemma accept_response_view:
  assumes "postman_ok (cw_postman w)" and "accept_response reference answer (cw_postman w) = Inr (t, pm)"
  shows "task_view (w\<lparr>cw_postman := pm\<rparr>) t' =
      (pending_events (cw_postman w) t', t' = t \<or> dict_get (pm_queues (cw_postman w)) t' \<noteq> None, removed w t')"
    and "postman_ok pm" and "t \<noteq> []"
proof -
  let ?pm = "(cw_postman w)\<lparr>pm_reference_to_task := dict_put (pm_reference_to_task (cw_postman w)) reference t\<rparr>"
  have pm: "pm = ensure_queue t ?pm" and t: "t \<noteq> []"
    using assms(2) by (auto simp: accept_response_def register_task_def truthy_def split: if_splits option.splits)
  have ok: "postman_ok ?pm" using assms(1) by (simp add: postman_ok_def)
  have queues: "dict_get (pm_queues pm) t' \<noteq> None \<longleftrightarrow> t' = t \<or> dict_get (pm_queues (cw_postman w)) t' \<noteq> None"
    by (auto simp: pm ensure_queue_def Let_def dict_get_setdefault split: option.splits)
  show "postman_ok pm" using ensure_queue_pending(2) [OF ok] pm by simp
  show "task_view (w\<lparr>cw_postman := pm\<rparr>) t' =
      (pending_events (cw_postman w) t', t' = t \<or> dict_get (pm_queues (cw_postman w)) t' \<noteq> None, removed w t')"
    using ensure_queue_pending(1) [OF ok, of t t'] queues
    by (simp add: task_view_def pm pending_events_def)
  show "t \<noteq> []" by (rule t)
qed


section \<open>Every call gets its task's mirrors\<close>

text \<open>
  For a call that is alone on its task: the mirrors brought for the task (\<open>evs\<close>) are those it
  took, which account for what it yielded and saw, and those it can still take from the
  task's queue. A call that stopped reading yielded what the ones it had taken account for.
\<close>

definition reads :: "(execution_event \<Rightarrow> bool) \<Rightarrow> execution_event list \<Rightarrow> live_call \<Rightarrow> int list \<Rightarrow> bool
    \<Rightarrow> execution_event list \<Rightarrow> bool" where
  "reads terminal evs c seen ended rest \<longleftrightarrow>
     (\<exists>taken. evs = taken @ rest \<and> stream_events terminal [] taken = (lc_yielded c, seen, ended))"

lemma reads_phase [simp]:
  "reads terminal evs (c\<lparr>lc_phase := p\<rparr>) = reads terminal evs c"
  by (simp add: reads_def [abs_def])

definition stream_inv ::
    "(execution_event \<Rightarrow> bool) \<Rightarrow> execution_event list \<Rightarrow> live_call \<Rightarrow> nat
      \<Rightarrow> execution_event list \<times> bool \<times> nat \<Rightarrow> bool" where
  "stream_inv terminal evs c g v =
     (case v of (pending, bound, current) \<Rightarrow>
       (case lc_phase c of
          At_Response \<Rightarrow> False
        | At_Queue seen \<Rightarrow> bound \<and> g = current \<and> reads terminal evs c seen False pending
        | At_Yield seen ended \<Rightarrow> bound \<and> g = current \<and> reads terminal evs c seen ended pending
        | Call_Over Stream_Done \<Rightarrow> (\<exists>seen rest. reads terminal evs c seen True rest)
        | _ \<Rightarrow> (\<exists>seen ended rest. reads terminal evs c seen ended rest)))"

definition call_task :: "live_call \<Rightarrow> task_id option" where
  "call_task c = map_option fst (lc_task c)"

definition alone :: "call_world \<Rightarrow> string \<Rightarrow> task_id \<Rightarrow> bool" where
  "alone w r t \<longleftrightarrow> (\<forall>r' c. r' \<noteq> r \<longrightarrow> dict_get (cw_calls w) r' = Some c \<longrightarrow> call_task c \<noteq> Some t)"

definition calls_inv :: "(execution_event \<Rightarrow> bool) \<Rightarrow> (task_id \<Rightarrow> execution_event list) \<Rightarrow> call_world \<Rightarrow> bool" where
  "calls_inv terminal evs w \<longleftrightarrow> postman_ok (cw_postman w) \<and>
     (\<forall>t. t \<noteq> [] \<longrightarrow> (\<forall>r c. dict_get (cw_calls w) r = Some c \<longrightarrow> call_task c \<noteq> Some t) \<longrightarrow>
        pending_events (cw_postman w) t = evs t) \<and>
     (\<forall>r c. dict_get (cw_calls w) r = Some c \<longrightarrow> lc_phase c = At_Response \<longrightarrow>
        lc_task c = None \<and> lc_yielded c = []) \<and>
     (\<forall>r c t g. dict_get (cw_calls w) r = Some c \<longrightarrow> lc_task c = Some (t, g) \<longrightarrow>
        t \<noteq> [] \<and> (alone w r t \<longrightarrow> stream_inv terminal (evs t) c g (task_view w t)))"

lemma calls_inv_frame:
  assumes inv: "calls_inv terminal evs w" and ok: "postman_ok (cw_postman w')"
    and put: "\<And>k. dict_get (cw_calls w') k = ((dict_get (cw_calls w))(r \<mapsto> c')) k"
    and view: "\<And>t. t \<noteq> [] \<Longrightarrow> call_task c' \<noteq> Some t \<Longrightarrow> task_view w' t = task_view w t"
    and same: "\<And>c. dict_get (cw_calls w) r = Some c \<Longrightarrow> lc_task c \<noteq> None \<Longrightarrow> lc_task c' = lc_task c"
    and fresh: "lc_phase c' = At_Response \<Longrightarrow> lc_task c' = None \<and> lc_yielded c' = []"
    and own: "\<And>t g. lc_task c' = Some (t, g) \<Longrightarrow>
        t \<noteq> [] \<and> (alone w r t \<longrightarrow> stream_inv terminal (evs t) c' g (task_view w' t))"
  shows "calls_inv terminal evs w'"
proof -
  have calls: "dict_get (cw_calls w') = (dict_get (cw_calls w))(r \<mapsto> c')"
    using put by (rule ext)
  have alone: "alone w r' t" if "alone w' r' t" for r' t
    using that same unfolding alone_def calls
    by (metis call_task_def fun_upd_apply option.map_disc_iff option.inject option.distinct(1))
  have free: "pending_events (cw_postman w') t = evs t"
    if "t \<noteq> []" "\<forall>r c. dict_get (cw_calls w') r = Some c \<longrightarrow> call_task c \<noteq> Some t" for t
  proof -
    have "call_task c' \<noteq> Some t" using that(2) [rule_format, of r c'] calls by simp
    moreover have "\<forall>r c. dict_get (cw_calls w) r = Some c \<longrightarrow> call_task c \<noteq> Some t"
      using that(2) calls same
      by (metis call_task_def calculation fun_upd_apply option.map_disc_iff option.distinct(1))
    ultimately show ?thesis
      using inv view [OF that(1)] that(1) by (simp add: calls_inv_def task_view_def)
  qed
  have others: "t \<noteq> [] \<and> (alone w' r' t \<longrightarrow> stream_inv terminal (evs t) c g (task_view w' t))"
    if "dict_get (cw_calls w') r' = Some c" "lc_task c = Some (t, g)" for r' c t g
  proof (cases "r' = r")
    case True
    with that calls own alone show ?thesis by simp
  next
    case False
    then have old: "dict_get (cw_calls w) r' = Some c" using that(1) calls by simp
    have "task_view w' t = task_view w t" if "alone w' r' t" "t \<noteq> []"
      using that(2) view that(1) [unfolded alone_def, rule_format, of r c'] False calls by simp
    with inv old that(2) alone show ?thesis by (fastforce simp: calls_inv_def)
  qed
  have "lc_task c = None \<and> lc_yielded c = []"
    if "dict_get (cw_calls w') r' = Some c" "lc_phase c = At_Response" for r' c
    using that calls fresh inv by (cases "r' = r") (simp_all add: calls_inv_def)
  with ok free others show ?thesis by (simp add: calls_inv_def)
qed


lemma calls_inv_brings:
  assumes "calls_inv terminal evs w"
  shows "calls_inv terminal (\<lambda>t. evs t @ accepted_events t [m]) (w\<lparr>cw_postman := inbound m (cw_postman w)\<rparr>)"
proof -
  let ?pm = "cw_postman w" and ?w = "w\<lparr>cw_postman := inbound m (cw_postman w)\<rparr>"
  have ok: "postman_ok ?pm" using assms by (simp add: calls_inv_def)
  have pending: "pending_events (inbound m ?pm) t = pending_events ?pm t @ accepted_events t [m]" for t
    using inbound_pending(1) [OF ok, of "[m]"] by simp
  have ok': "postman_ok (inbound m ?pm)" using inbound_pending(2) [OF ok, of "[m]"] by simp
  have bound: "dict_get (pm_queues (inbound m ?pm)) t \<noteq> None" if "dict_get (pm_queues ?pm) t \<noteq> None" for t
    using that by (auto simp: inbound_def handle_execution_event_def handle_response_def ensure_queue_def
        dict_get_setdefault Let_def split: sum.splits option.splits)
  have reads: "reads terminal (es @ more) c seen ended (rest @ more)" if "reads terminal es c seen ended rest"
    for es more c seen ended rest
    using that by (auto simp: reads_def)
  have "stream_inv terminal (evs t @ accepted_events t [m]) c g (task_view ?w t)"
    if "stream_inv terminal (evs t) c g (task_view w t)" for c g t
    using that bound [of t] reads
    by (auto simp: stream_inv_def task_view_def pending split: call_phase.splits call_outcome.splits; blast)
  moreover have "alone ?w = alone w" by (simp add: alone_def fun_eq_iff)
  ultimately show ?thesis using assms ok' pending by (auto simp: calls_inv_def)
qed

lemma stream_inv_over:
  assumes "stream_inv terminal evs c g v" and "how \<noteq> Stream_Done"
  shows "stream_inv terminal evs (c\<lparr>lc_phase := Call_Over how\<rparr>) g v'"
  using assms by (auto simp: stream_inv_def split: prod.splits call_phase.splits call_outcome.splits)

lemma stream_inv_stops:
  assumes "stream_inv terminal evs c g v"
  shows "stream_inv terminal evs (c\<lparr>lc_phase := At_Confirmation i\<rparr>) g v'"
  using assms by (auto simp: stream_inv_def split: prod.splits call_phase.splits call_outcome.splits)

lemma calls_inv_end:
  assumes inv: "calls_inv terminal evs w"
    and old: "\<And>c'. dict_get (cw_calls w) r = Some c' \<Longrightarrow> lc_task c' \<noteq> None \<Longrightarrow> lc_task c = lc_task c'"
    and task: "task = call_task c \<or> task = Some [] \<and> lc_task c = None"
    and own: "\<And>t g. lc_task c = Some (t, g) \<Longrightarrow> t \<noteq> [] \<and>
        (alone w r t \<longrightarrow> (\<forall>v. stream_inv terminal (evs t) (c\<lparr>lc_phase := Call_Over how\<rparr>) g v))"
  shows "calls_inv terminal evs (end_call r c task how w)"
proof (rule calls_inv_frame [OF inv, where r = r and c' = "c\<lparr>lc_phase := Call_Over how\<rparr>"])
  show "postman_ok (cw_postman (end_call r c task how w))"
    using inv by (simp add: calls_inv_def world_simps)
  show "task_view (end_call r c task how w) t = task_view w t"
    if "t \<noteq> []" "call_task (c\<lparr>lc_phase := Call_Over how\<rparr>) \<noteq> Some t" for t
    using that task by (cases "lc_task c") (auto simp: world_simps call_task_def)
  show "lc_task (c\<lparr>lc_phase := Call_Over how\<rparr>) = lc_task c'"
    if "dict_get (cw_calls w) r = Some c'" "lc_task c' \<noteq> None" for c'
    using old [OF that] by simp
  show "t \<noteq> [] \<and> (alone w r t \<longrightarrow> stream_inv terminal (evs t) (c\<lparr>lc_phase := Call_Over how\<rparr>) g
      (task_view (end_call r c task how w) t))"
    if "lc_task (c\<lparr>lc_phase := Call_Over how\<rparr>) = Some (t, g)" for t g
    using own [of t g] that by (simp del: split_paired_All)
qed (simp_all add: world_simps)


lemma calls_inv_own:
  assumes "calls_inv terminal evs w" and "dict_get (cw_calls w) r = Some c" and "lc_task c = Some (t, g)"
  shows "t \<noteq> [] \<and> (alone w r t \<longrightarrow> stream_inv terminal (evs t) c g (task_view w t))"
  using assms by (simp add: calls_inv_def)

lemma calls_inv_send [simp]: "calls_inv terminal evs (send_control taken m w) = calls_inv terminal evs w"
  by (simp add: calls_inv_def world_simps alone_def)

lemma calls_inv_starts:
  assumes inv: "calls_inv terminal evs w" and step: "call_starts r reference escalate refused w = Some w'"
  shows "calls_inv terminal evs w'"
proof -
  let ?c = "new_call reference escalate"
  let ?w = "set_call r ?c (w\<lparr>cw_postman := expect_response r (cw_postman w)\<rparr>)"
  have new: "dict_get (cw_calls w) r = None"
    and w': "w' = (case refused of None \<Rightarrow> ?w | Some e \<Rightarrow> end_call r ?c None (Send_Raised e) ?w)"
    using step by (auto simp: call_starts_def Let_def split: option.splits)
  have "calls_inv terminal evs ?w"
  proof (rule calls_inv_frame [OF inv, where r = r and c' = ?c])
    show "postman_ok (cw_postman ?w)" using inv by (simp add: calls_inv_def world_simps)
    show "task_view ?w t = task_view w t" for t
      by (simp add: world_simps) (simp add: task_view_def expect_response_def pending_events_def)
  qed (simp_all add: world_simps new)
  moreover from this have "calls_inv terminal evs (end_call r ?c None (Send_Raised e) ?w)" for e
    by (rule calls_inv_end) (simp_all add: world_simps call_task_def)
  ultimately show ?thesis using w' by (cases refused) simp_all
qed

lemma calls_inv_resumes:
  assumes inv: "calls_inv terminal evs w" and c: "dict_get (cw_calls w) r = Some c"
    and step: "call_resumes r c w = Some w'"
  shows "calls_inv terminal evs w'"
proof -
  from step obtain answer where phase: "lc_phase c = At_Response"
    and w': "w' = (case accept_response (lc_reference c) answer (cw_postman w) of
       Inl e \<Rightarrow> end_call r c (if truthy (rs_error answer) then None else response_id answer) (Call_Raised e) w
     | Inr (t, pm) \<Rightarrow>
         set_call r (c\<lparr>lc_task := Some (t, removed w t), lc_phase := At_Queue []\<rparr>) (w\<lparr>cw_postman := pm\<rparr>))"
    by (rule call_resumes_cases)
  have no_task: "lc_task c = None" "lc_yielded c = []" using inv c phase by (simp_all add: calls_inv_def)
  show ?thesis
  proof (cases "accept_response (lc_reference c) answer (cw_postman w)")
    case (Inl e)
    then have "(if truthy (rs_error answer) then None else response_id answer) \<in> {None, Some []}"
      by (auto simp: accept_response_def truthy_def split: if_splits option.splits)
    then show ?thesis
      using w' Inl no_task c by (auto intro!: calls_inv_end [OF inv] simp: call_task_def)
  next
    case (Inr p)
    obtain t pm where p: "p = (t, pm)" by fastforce
    have ok: "postman_ok (cw_postman w)" using inv by (simp add: calls_inv_def)
    note view = accept_response_view [OF ok Inr [unfolded p]]
    let ?c = "c\<lparr>lc_task := Some (t, removed w t), lc_phase := At_Queue []\<rparr>"
    have "calls_inv terminal evs (set_call r ?c (w\<lparr>cw_postman := pm\<rparr>))"
    proof (rule calls_inv_frame [OF inv, where r = r and c' = ?c])
      show "task_view (set_call r ?c (w\<lparr>cw_postman := pm\<rparr>)) t' = task_view w t'" if "call_task ?c \<noteq> Some t'" for t'
        using that by (simp add: world_simps view call_task_def) (simp add: task_view_def)
      show "t' \<noteq> [] \<and> (alone w r t' \<longrightarrow> stream_inv terminal (evs t') ?c g
          (task_view (set_call r ?c (w\<lparr>cw_postman := pm\<rparr>)) t'))" if "lc_task ?c = Some (t', g)" for t' g
      proof -
        have "call_task c' \<noteq> Some t'" if "alone w r t'" "dict_get (cw_calls w) r' = Some c'" for r' c'
          using that c no_task by (cases "r' = r") (auto simp: alone_def call_task_def)
        then have "pending_events (cw_postman w) t' = evs t'" if "alone w r t'" "t' \<noteq> []"
          using that inv by (simp add: calls_inv_def)
        then show ?thesis
          using that view(3) no_task by (auto simp: world_simps view stream_inv_def reads_def)
      qed
    qed (simp_all add: world_simps view no_task c)
    then show ?thesis using w' Inr p by simp
  qed
qed


lemma stream_events_append:
  "stream_events terminal seen es = (ys, seen', False) \<Longrightarrow>
     stream_events terminal seen (es @ fs) =
       (case stream_events terminal seen' fs of (zs, seen'', ended) \<Rightarrow> (ys @ zs, seen'', ended))"
  by (induction es arbitrary: seen ys) (auto simp: Let_def split: prod.splits if_splits)

lemma reads_take:
  assumes "reads terminal evs c seen False (e # rest)" and "stream_events terminal seen [e] = (out, seen', ended)"
  shows "reads terminal evs (c\<lparr>lc_yielded := lc_yielded c @ out\<rparr>) seen' ended rest"
proof -
  obtain taken where "evs = taken @ e # rest" "stream_events terminal [] taken = (lc_yielded c, seen, False)"
    using assms(1) by (auto simp: reads_def)
  then show ?thesis
    using stream_events_append [of terminal "[]" taken "lc_yielded c" seen "[e]"] assms(2)
    by (auto simp: reads_def intro!: exI [of _ "taken @ [e]"])
qed

lemma queue_takes:
  assumes "postman_ok (cw_postman w)" and "Option.bind (held_queue (t, removed w t) w) aq_get = Some (e, rest)"
  shows "task_view w t = (e # aq_items rest, True, removed w t)"
    and "task_view (put_queue (t, removed w t) rest w) t = (aq_items rest, True, removed w t)"
proof -
  obtain q where q: "dict_get (pm_queues (cw_postman w)) t = Some q" "aq_get q = Some (e, rest)"
    using assms(2) by (cases "held_queue (t, removed w t) w") (simp_all add: held_queue_def)
  moreover have "aq_items q = e # aq_items rest" by (rule aq.deq_Some [OF q(2)])
  moreover have "dict_get (pm_orphans (cw_postman w)) t = None" using assms(1) q(1) by (simp add: postman_ok_def)
  ultimately show "task_view w t = (e # aq_items rest, True, removed w t)"
    and "task_view (put_queue (t, removed w t) rest w) t = (aq_items rest, True, removed w t)"
    by (simp_all add: task_view_def put_queue_def pending_events_def dict_getdefault_def)
qed

lemma calls_inv_takes:
  assumes inv: "calls_inv terminal evs w" and c: "dict_get (cw_calls w) r = Some c"
    and step: "call_takes terminal r c w = Some w'"
  shows "calls_inv terminal evs w'"
proof -
  obtain seen t g e rest where phase: "lc_phase c = At_Queue seen" and task: "lc_task c = Some (t, g)"
    and got: "Option.bind (held_queue (t, g) w) aq_get = Some (e, rest)"
    using step by (auto simp: call_takes_def split: call_phase.splits option.splits)
  obtain out seen' ended where out: "stream_events terminal seen [e] = (out, seen', ended)"
    by (metis prod_cases3)
  let ?w = "put_queue (t, g) rest w" and ?c = "c\<lparr>lc_yielded := lc_yielded c @ out\<rparr>"
  let ?ends = "out = [] \<and> ended"
  let ?phase = "if ?ends then Call_Over Stream_Done
      else if out = [] then At_Queue seen' else At_Yield seen' ended"
  have w': "w' = (if ?ends then end_call r ?c (Some t) Stream_Done ?w else set_call r (?c\<lparr>lc_phase := ?phase\<rparr>) ?w)"
    using step phase task got out by (auto simp: call_takes_def Let_def)
  have ok: "postman_ok (cw_postman w)" using inv by (simp add: calls_inv_def)
  have ok': "postman_ok (cw_postman ?w)"
    using postman_ok_kept(2) [OF ok, of "(t, g)" rest] got by (cases "held_queue (t, g) w") auto
  show ?thesis
  proof (rule calls_inv_frame [OF inv, where r = r and c' = "?c\<lparr>lc_phase := ?phase\<rparr>"])
    show "postman_ok (cw_postman w')" using w' ok' by (simp add: world_simps)
    show "task_view w' t' = task_view w t'" if "call_task (?c\<lparr>lc_phase := ?phase\<rparr>) \<noteq> Some t'" for t'
      using that w' task by (auto simp: world_simps call_task_def)
    show "t' \<noteq> [] \<and> (alone w r t' \<longrightarrow> stream_inv terminal (evs t') (?c\<lparr>lc_phase := ?phase\<rparr>) g' (task_view w' t'))"
      if "lc_task (?c\<lparr>lc_phase := ?phase\<rparr>) = Some (t', g')" for t' g'
    proof -
      have t': "t' = t" "g' = g" using that task by simp_all
      have "stream_inv terminal (evs t) (?c\<lparr>lc_phase := ?phase\<rparr>) g (task_view w' t)" if "alone w r t"
      proof -
        have old: "stream_inv terminal (evs t) c g (task_view w t)"
          using calls_inv_own [OF inv c task] that by simp
        then have g: "g = removed w t" using phase by (simp add: stream_inv_def task_view_def)
        note view = queue_takes [OF ok got [unfolded g]]
        have "reads terminal (evs t) ?c seen' ended (aq_items rest)"
          using old phase view(1) by (intro reads_take [OF _ out]) (simp add: stream_inv_def)
        then show ?thesis using w' view(2) g by (auto simp: stream_inv_def world_simps; blast)
      qed
      then show ?thesis using t' calls_inv_own [OF inv c task] by simp
    qed
  qed (use w' c in \<open>auto simp: world_simps split: if_splits\<close>)
qed

lemma calls_inv_over:
  assumes inv: "calls_inv terminal evs w" and c: "dict_get (cw_calls w) r = Some c"
    and own: "\<And>t g v. lc_task c = Some (t, g) \<Longrightarrow> stream_inv terminal (evs t) c g v \<Longrightarrow>
        \<forall>v'. stream_inv terminal (evs t) (c\<lparr>lc_phase := Call_Over how\<rparr>) g v'"
  shows "calls_inv terminal evs (end_call r c (call_task c) how w)"
proof (rule calls_inv_end [OF inv])
  show "t \<noteq> [] \<and> (alone w r t \<longrightarrow> (\<forall>v. stream_inv terminal (evs t) (c\<lparr>lc_phase := Call_Over how\<rparr>) g v))"
    if "lc_task c = Some (t, g)" for t g
    using calls_inv_own [OF inv c that] own [OF that] by blast
qed (simp_all add: c)

lemma calls_inv_moves:
  assumes inv: "calls_inv terminal evs w" and c: "dict_get (cw_calls w) r = Some c" and "p \<noteq> At_Response"
    and own: "\<And>t g v. lc_task c = Some (t, g) \<Longrightarrow> stream_inv terminal (evs t) c g v \<Longrightarrow>
        stream_inv terminal (evs t) (c\<lparr>lc_phase := p\<rparr>) g v"
  shows "calls_inv terminal evs (set_call r (c\<lparr>lc_phase := p\<rparr>) w)"
  using inv calls_inv_own [OF inv c] own assms(3) c
  by (intro calls_inv_frame [OF inv, where r = r and c' = "c\<lparr>lc_phase := p\<rparr>"])
    (auto simp: world_simps calls_inv_def)


lemma calls_inv_confirmation:
  assumes inv: "calls_inv terminal evs w" and c: "dict_get (cw_calls w) r = Some c"
    and step: "confirmation_takes r c w = Some w'"
  shows "calls_inv terminal evs w'"
proof -
  obtain i t g e rest where phase: "lc_phase c = At_Confirmation i" and task: "lc_task c = Some (t, g)"
    and got: "Option.bind (held_queue (t, g) w) aq_get = Some (e, rest)"
    and w': "w' = (if confirms i e then end_call r c (Some t) Call_Was_Cancelled (put_queue (t, g) rest w)
                   else put_queue (t, g) rest w)"
    using step by (auto simp: confirmation_takes_def Let_def split: call_phase.splits option.splits)
  let ?w = "put_queue (t, g) rest w"
  have any: "stream_inv terminal (evs t') c g' v'" if "stream_inv terminal (evs t') c g' v" for t' g' v v'
    using that phase by (simp add: stream_inv_def split: prod.splits)
  have inv': "calls_inv terminal evs ?w"
  proof (rule calls_inv_frame [OF inv, where r = r and c' = c])
    show "postman_ok (cw_postman ?w)"
      using inv got by (cases "held_queue (t, g) w") (auto simp: calls_inv_def intro!: postman_ok_kept(2))
    show "task_view ?w t' = task_view w t'" if "call_task c \<noteq> Some t'" for t'
      using that task by (simp add: world_simps call_task_def)
    show "t' \<noteq> [] \<and> (alone w r t' \<longrightarrow> stream_inv terminal (evs t') c g' (task_view ?w t'))"
      if "lc_task c = Some (t', g')" for t' g'
      using calls_inv_own [OF inv c that] any by blast
  qed (use c phase in \<open>auto simp: world_simps\<close>)
  have "calls_inv terminal evs (end_call r c (call_task c) Call_Was_Cancelled ?w)"
    using any by (intro calls_inv_over [OF inv']) (auto simp: world_simps c intro: stream_inv_over)
  then show ?thesis using w' inv' task by (simp add: call_task_def)
qed

lemma calls_inv_step:
  assumes inv: "calls_inv terminal evs w" and step: "socket_call_step terminal a w = Some w'"
  shows "calls_inv terminal (\<lambda>t. evs t @ accepted_events t (brought [a])) w'"
proof -
  have none: "accepted_events t [] = []" for t by (simp add: accepted_events_def List.map_filter_def)
  have over: "calls_inv terminal evs (end_call r c (Some t) how v)"
    if "calls_inv terminal evs v" "dict_get (cw_calls v) r = Some c" "lc_task c = Some (t, g)" "how \<noteq> Stream_Done"
    for r c t g how v
    using calls_inv_over [OF that(1,2)] that(3,4) stream_inv_over by (fastforce simp: call_task_def)
  show ?thesis
  proof (cases a)
    case (Socket_Brings m)
    then show ?thesis using calls_inv_brings [OF inv, of m] step by simp
  next
    case (Call_Starts r reference escalate refused)
    then show ?thesis using calls_inv_starts [OF inv] step by (simp add: none)
  next
    case (Call_Resumes r)
    then show ?thesis using calls_inv_resumes [OF inv] step by (auto simp: none of_call_def split: option.splits)
  next
    case (Call_Takes r)
    then show ?thesis using calls_inv_takes [OF inv] step by (auto simp: none of_call_def split: option.splits)
  next
    case (Call_Asked r)
    then obtain c seen ended t g where c: "dict_get (cw_calls w) r = Some c" "lc_phase c = At_Yield seen ended"
        "lc_task c = Some (t, g)"
      and w': "w' = (if ended then end_call r c (Some t) Stream_Done w else set_call r (c\<lparr>lc_phase := At_Queue seen\<rparr>) w)"
      using step by (auto simp: of_call_def call_asked_def split: option.splits call_phase.splits)
    show ?thesis
    proof (cases ended)
      case True
      have "calls_inv terminal evs (end_call r c (call_task c) Stream_Done w)"
        using c(2) True by (intro calls_inv_over [OF inv c(1)]) (auto simp: stream_inv_def)
      then show ?thesis using Call_Asked w' c(3) True by (simp add: none call_task_def)
    next
      case False
      have "calls_inv terminal evs (set_call r (c\<lparr>lc_phase := At_Queue seen\<rparr>) w)"
        using c(2) False by (intro calls_inv_moves [OF inv c(1)]) (auto simp: stream_inv_def)
      then show ?thesis using Call_Asked w' False by (simp add: none)
    qed
  next
    case (Call_Closed r taken)
    then show ?thesis using step inv
      by (auto simp: none of_call_def call_closed_def world_simps intro!: over split: option.splits call_phase.splits)
  next
    case (Call_Cancelled r taken)
    obtain c where c: "dict_get (cw_calls w) r = Some c" and w': "call_cancelled taken r c w = Some w'"
      using step Call_Cancelled by (auto simp: of_call_def split: option.splits)
    have "calls_inv terminal evs (end_call r c (call_task c) Call_Was_Cancelled w)"
      by (intro calls_inv_over [OF inv c]) (auto intro: stream_inv_over)
    moreover have "lc_phase c = At_Response \<Longrightarrow> call_task c = None"
      using inv c by (simp add: calls_inv_def call_task_def)
    moreover have "calls_inv terminal evs (set_call r (c\<lparr>lc_phase := At_Confirmation False\<rparr>) (send_control taken m w))" for m
      using inv c by (intro calls_inv_moves) (auto simp: world_simps intro: stream_inv_stops)
    ultimately show ?thesis using w' Call_Cancelled
      by (auto simp: none call_cancelled_def call_task_def split: call_phase.splits option.splits)
  next
    case (Confirmation_Takes r)
    then show ?thesis using calls_inv_confirmation [OF inv] step
      by (auto simp: none of_call_def split: option.splits)
  next
    case (Confirmation_Times_Out r taken)
    then show ?thesis using step inv
      by (auto simp: none of_call_def confirmation_times_out_def world_simps
          intro!: over calls_inv_moves intro: stream_inv_stops split: option.splits call_phase.splits if_splits)
  qed
qed

lemma calls_inv_run:
  "calls_inv terminal evs w \<Longrightarrow> run_calls terminal as w = Some w' \<Longrightarrow>
     calls_inv terminal (\<lambda>t. evs t @ accepted_events t (brought as)) w'"
proof (induction as arbitrary: evs w)
  case Nil
  then show ?case by (simp add: accepted_events_def List.map_filter_def)
next
  case (Cons a as)
  then obtain w1 where w1: "socket_call_step terminal a w = Some w1" "run_calls terminal as w1 = Some w'"
    by (cases "socket_call_step terminal a w") simp_all
  have "accepted_events t (brought (a # as)) = accepted_events t (brought [a]) @ accepted_events t (brought as)" for t
    by (simp add: accepted_events_def List.map_filter_def split: call_action.split)
  then show ?case using Cons.IH [OF calls_inv_step [OF Cons.prems(1) w1(1)] w1(2)] by simp
qed

lemma calls_inv_new: "calls_inv terminal (\<lambda>_. []) (new_world s)"
  by (simp add: calls_inv_def new_world_def new_postman_ok)
    (simp add: pending_events_def new_postman_def dict_getdefault_def)

lemmas reachable_calls = calls_inv_run [OF calls_inv_new, simplified]


lemma firsts_append: "\<exists>seen'. firsts seen (xs @ ys) = firsts seen xs @ firsts seen' ys"
  by (induction xs arbitrary: seen) auto

lemma up_to_append: "\<exists>x \<in> set xs. P x \<Longrightarrow> up_to P (xs @ ys) = up_to P xs"
  by (induction xs) auto

lemma reads_eq:
  assumes "reads terminal evs c seen ended rest"
  obtains taken where "evs = taken @ rest"
    and "lc_yielded c = List.map_filter adapt (up_to terminal (firsts [] taken))"
    and "ended \<longleftrightarrow> (\<exists>e \<in> set (firsts [] taken). terminal e)"
    and "ended \<Longrightarrow> lc_yielded c = List.map_filter adapt (up_to terminal (firsts [] evs))"
proof -
  obtain taken where taken: "evs = taken @ rest" "stream_events terminal [] taken = (lc_yielded c, seen, ended)"
    using assms by (auto simp: reads_def)
  have eq: "lc_yielded c = List.map_filter adapt (up_to terminal (firsts [] taken))"
      "ended \<longleftrightarrow> (\<exists>e \<in> set (firsts [] taken). terminal e)"
    using stream_events_eq [of terminal "[]" taken] taken(2) by simp_all
  obtain seen' where "firsts [] evs = firsts [] taken @ firsts seen' rest"
    using firsts_append [of "[]" taken rest] taken(1) by blast
  with eq that [OF taken(1)] show thesis by (simp add: up_to_append)
qed

text \<open>
  C8. Every call streams its task. However any number of calls, their cancellations and what
  the socket brings interleave, a call that is the only one on its task yielded the stream
  of a prefix of the mirrors brought for that task, by the reference definition; once done,
  the stream of all of them. While it reads and there is a further mirror, it can take it.
\<close>

theorem every_call_streams_its_task:
  assumes "run_calls terminal as (new_world s) = Some w" and "dict_get (cw_calls w) r = Some c"
    and "lc_task c = Some (t, g)" and "alone w r t"
  shows "\<exists>taken rest. accepted_events t (brought as) = taken @ rest \<and>
    lc_yielded c = List.map_filter adapt (up_to terminal (firsts [] taken)) \<and>
    (lc_phase c = Call_Over Stream_Done \<longrightarrow>
       lc_yielded c = List.map_filter adapt (up_to terminal (firsts [] (accepted_events t (brought as)))) \<and>
       (\<exists>e \<in> set (firsts [] taken). terminal e)) \<and>
    (\<forall>seen. lc_phase c = At_Queue seen \<longrightarrow> \<not> (\<exists>e \<in> set (firsts [] taken). terminal e) \<and>
       (rest \<noteq> [] \<longrightarrow> socket_call_step terminal (Call_Takes r) w \<noteq> None))"
proof -
  let ?evs = "accepted_events t (brought as)"
  have inv: "calls_inv terminal (\<lambda>t. accepted_events t (brought as)) w" by (rule reachable_calls [OF assms(1)])
  have own: "stream_inv terminal ?evs c g (task_view w t)" using calls_inv_own [OF inv assms(2,3)] assms(4) by simp
  have enabled: "socket_call_step terminal (Call_Takes r) w \<noteq> None"
    if at: "lc_phase c = At_Queue seen" and more: "pending_events (cw_postman w) t \<noteq> []" for seen
  proof -
    obtain q where "dict_get (pm_queues (cw_postman w)) t = Some q" "g = removed w t"
      using own at by (auto simp: stream_inv_def task_view_def)
    moreover have "aq_items q \<noteq> []"
      using more inv calculation by (auto simp: calls_inv_def postman_ok_def pending_events_def dict_getdefault_def)
    ultimately show ?thesis
      using at assms(2,3)
      by (auto simp: of_call_def call_takes_def held_queue_def aq_get_def Let_def split: list.splits prod.splits)
  qed
  have "\<exists>seen ended rest. reads terminal ?evs c seen ended rest \<and>
      (lc_phase c = Call_Over Stream_Done \<longrightarrow> ended) \<and>
      (\<forall>seen'. lc_phase c = At_Queue seen' \<longrightarrow> \<not> ended \<and> rest = pending_events (cw_postman w) t)"
    using own by (auto simp: stream_inv_def task_view_def split: call_phase.splits call_outcome.splits; blast)
  then obtain seen ended rest where reads: "reads terminal ?evs c seen ended rest"
    and over: "lc_phase c = Call_Over Stream_Done \<Longrightarrow> ended"
    and reading: "\<And>seen'. lc_phase c = At_Queue seen' \<Longrightarrow> \<not> ended \<and> rest = pending_events (cw_postman w) t"
    by blast
  show ?thesis by (rule reads_eq [OF reads]) (use over reading enabled in blast)
qed


definition demo_run :: "call_action list" where
  "demo_run =
    [Call_Starts ''r'' ''ref'' False None, Call_Starts ''s'' ''ref2'' True None,
     Socket_Brings (Inl (demo_event ''1'' 1 (Yield_Event None))),
     Socket_Brings (Inr (demo_response ''1'')), Socket_Brings (Inl (demo_event ''2'' 1 Completed_Event)),
     Call_Resumes ''r'', Call_Takes ''r'', Call_Cancelled ''s'' True, Call_Asked ''r'',
     Socket_Brings (Inl (demo_event ''1'' 1 (Yield_Event None))), Call_Takes ''r'',
     Socket_Brings (Inl (demo_event ''1'' 2 Completed_Event)), Call_Takes ''r'', Call_Asked ''r'']"

definition demo_terminal :: "execution_event \<Rightarrow> bool" where
  "demo_terminal e \<longleftrightarrow> ee_body e = Completed_Event"

lemma demo_run_ends:
  "map (\<lambda>(r, c). (r, lc_task c, lc_phase c)) (cw_calls (the (run_calls demo_terminal demo_run (new_world 5)))) =
     [(''r'', Some (''1'', 0), Call_Over Stream_Done), (''s'', None, Call_Over Call_Was_Cancelled)]"
  "run_calls demo_terminal demo_run (new_world 5) \<noteq> None"
  by code_simp+

theorem every_call_streams_its_task_witness:
  "\<exists>c taken rest. dict_get (cw_calls (the (run_calls demo_terminal demo_run (new_world 5)))) ''r'' = Some c \<and>
     accepted_events ''1'' (brought demo_run) = taken @ rest \<and>
     lc_yielded c = List.map_filter adapt (up_to demo_terminal (firsts [] taken)) \<and>
     (\<exists>e \<in> set (firsts [] taken). demo_terminal e)"
proof -
  obtain w where w: "run_calls demo_terminal demo_run (new_world 5) = Some w" using demo_run_ends(2) by blast
  obtain c d where calls: "cw_calls w = [(''r'', c), (''s'', d)]" and c: "lc_task c = Some (''1'', 0)"
      "lc_phase c = Call_Over Stream_Done" and d: "lc_task d = None"
    using demo_run_ends(1) w by auto
  have "dict_get (cw_calls w) ''r'' = Some c" "alone w ''r'' ''1''"
    using calls d by (simp_all add: alone_def call_task_def)
  with every_call_streams_its_task [OF w this(1) c(1) this(2)] w c(2) show ?thesis by auto
qed


section \<open>What the postman holds\<close>

definition is_live :: "live_call \<Rightarrow> bool" where
  "is_live c \<longleftrightarrow> (case lc_phase c of Call_Over _ \<Rightarrow> False | _ \<Rightarrow> True)"

lemma is_live_simps [simp]:
  "\<not> is_live (c\<lparr>lc_phase := Call_Over how\<rparr>)"
  "is_live (c\<lparr>lc_phase := At_Queue seen\<rparr>)" "is_live (c\<lparr>lc_phase := At_Yield seen ended\<rparr>)"
  "is_live (c\<lparr>lc_phase := At_Confirmation i\<rparr>)"
  by (simp_all add: is_live_def)

text \<open>Futures are those of the live calls, and a binding is that of a live call's task.\<close>

definition holds_live :: "call_world \<Rightarrow> bool" where
  "holds_live w \<longleftrightarrow>
     (\<forall>r. dict_get (pm_pending (cw_postman w)) r \<noteq> None \<longleftrightarrow>
        (\<exists>c. dict_get (cw_calls w) r = Some c \<and> is_live c)) \<and>
     (\<forall>reference t. dict_get (pm_reference_to_task (cw_postman w)) reference = Some t \<longrightarrow>
        (\<exists>r c. dict_get (cw_calls w) r = Some c \<and> is_live c \<and> lc_reference c = reference \<and> call_task c = Some t))"

lemma inbound_holds:
  "(\<exists>y. dict_get (pm_pending (inbound m pm)) r = Some y) \<longleftrightarrow> (\<exists>y. dict_get (pm_pending pm) r = Some y)"
  "pm_reference_to_task (inbound m pm) = pm_reference_to_task pm"
  by (auto simp: inbound_def handle_execution_event_def handle_response_def resolve_def ensure_queue_def Let_def
      split: sum.splits option.splits if_splits)

lemma put_queue_holds [simp]:
  "pm_pending (cw_postman (put_queue q items w)) = pm_pending (cw_postman w)"
  "pm_reference_to_task (cw_postman (put_queue q items w)) = pm_reference_to_task (cw_postman w)"
  by (simp_all add: put_queue_def)

lemma accept_response_holds:
  assumes "accept_response reference answer pm = Inr (t, pm')"
  shows "pm_pending pm' = pm_pending pm"
    and "pm_reference_to_task pm' = dict_put (pm_reference_to_task pm) reference t"
  using assms by (auto simp: accept_response_def register_task_def ensure_queue_def Let_def split: if_splits)

lemma holds_live_end:
  assumes "holds_live w"
    and "\<And>c'. dict_get (cw_calls w) r = Some c' \<Longrightarrow> lc_reference c' = lc_reference c"
  shows "holds_live (end_call r c task how w)"
proof -
  have "dict_get (pm_pending (finish_call r (lc_reference c) task (cw_postman w))) =
        (dict_get (pm_pending (cw_postman w)))(r := None)"
    and "dict_get (pm_reference_to_task (finish_call r (lc_reference c) task (cw_postman w))) =
        (dict_get (pm_reference_to_task (cw_postman w)))(lc_reference c := None)"
    by (auto simp: finish_call_def Let_def fun_eq_iff split: option.splits)
  then show ?thesis using assms
    by (simp add: holds_live_def world_simps) (metis option.inject)
qed

lemma holds_live_set:
  assumes "holds_live w" and "dict_get (cw_calls w) r = Some c" and "is_live c" and "is_live c'"
    and "lc_reference c' = lc_reference c" and "lc_task c' = lc_task c"
  shows "holds_live (set_call r c' w)"
  using assms by (simp add: holds_live_def world_simps call_task_def) (metis option.inject)


lemma holds_live_same [simp]:
  "holds_live (put_queue q items w) = holds_live w" "holds_live (send_control taken m w) = holds_live w"
  by (simp_all add: holds_live_def world_simps)

lemma holds_live_starts:
  assumes "holds_live w" and "call_starts r reference escalate refused w = Some w'"
  shows "holds_live w'"
proof -
  let ?c = "new_call reference escalate"
  let ?w = "set_call r ?c (w\<lparr>cw_postman := expect_response r (cw_postman w)\<rparr>)"
  have new: "dict_get (cw_calls w) r = None"
    and w': "w' = (case refused of None \<Rightarrow> ?w | Some e \<Rightarrow> end_call r ?c None (Send_Raised e) ?w)"
    using assms(2) by (auto simp: call_starts_def Let_def split: option.splits)
  have "is_live ?c" by (simp add: is_live_def)
  then have live: "holds_live ?w"
    using assms(1) new
    by (simp add: holds_live_def world_simps expect_response_def) (metis option.distinct(1))
  have "holds_live (end_call r ?c None (Send_Raised e) ?w)" for e
    by (rule holds_live_end [OF live]) (simp add: world_simps)
  with w' live show ?thesis by (cases refused) simp_all
qed

lemma holds_live_resumes:
  assumes "holds_live w" and c: "dict_get (cw_calls w) r = Some c" and step: "call_resumes r c w = Some w'"
  shows "holds_live w'"
proof -
  from step obtain answer where phase: "lc_phase c = At_Response"
    and w': "w' = (case accept_response (lc_reference c) answer (cw_postman w) of
       Inl e \<Rightarrow> end_call r c (if truthy (rs_error answer) then None else response_id answer) (Call_Raised e) w
     | Inr (t, pm) \<Rightarrow>
         set_call r (c\<lparr>lc_task := Some (t, removed w t), lc_phase := At_Queue []\<rparr>) (w\<lparr>cw_postman := pm\<rparr>))"
    by (rule call_resumes_cases)
  show ?thesis
  proof (cases "accept_response (lc_reference c) answer (cw_postman w)")
    case (Inl e)
    then show ?thesis using w' c by (auto intro!: holds_live_end [OF assms(1)])
  next
    case (Inr p)
    obtain t pm where p: "p = (t, pm)" by fastforce
    have live: "is_live c" using phase by (simp add: is_live_def)
    let ?c = "c\<lparr>lc_task := Some (t, removed w t), lc_phase := At_Queue []\<rparr>"
    have "holds_live (set_call r ?c (w\<lparr>cw_postman := pm\<rparr>))"
      unfolding holds_live_def
    proof (intro conjI allI impI)
      show "(dict_get (pm_pending (cw_postman (set_call r ?c (w\<lparr>cw_postman := pm\<rparr>)))) r' \<noteq> None) =
          (\<exists>c'. dict_get (cw_calls (set_call r ?c (w\<lparr>cw_postman := pm\<rparr>))) r' = Some c' \<and> is_live c')" for r'
        using assms(1) live c accept_response_holds(1) [OF Inr [unfolded p]]
        by (simp add: world_simps holds_live_def)
      show "\<exists>r' c'. dict_get (cw_calls (set_call r ?c (w\<lparr>cw_postman := pm\<rparr>))) r' = Some c' \<and> is_live c' \<and>
          lc_reference c' = reference \<and> call_task c' = Some t'"
        if bound: "dict_get (pm_reference_to_task (cw_postman (set_call r ?c (w\<lparr>cw_postman := pm\<rparr>)))) reference = Some t'"
        for reference t'
      proof (cases "reference = lc_reference c")
        case True
        then show ?thesis
          using bound accept_response_holds(2) [OF Inr [unfolded p]]
          by (intro exI [of _ r] exI [of _ ?c]) (simp add: world_simps call_task_def)
      next
        case False
        then obtain r' c' where "dict_get (cw_calls w) r' = Some c'" "is_live c'" "lc_reference c' = reference"
            "call_task c' = Some t'"
          using assms(1) bound accept_response_holds(2) [OF Inr [unfolded p]]
          by (simp add: holds_live_def world_simps) blast
        then show ?thesis using False c by (intro exI [of _ r'] exI [of _ c']) (auto simp: world_simps)
      qed
    qed
    then show ?thesis using w' Inr p by simp
  qed
qed

lemma holds_live_takes:
  assumes "holds_live w" and "dict_get (cw_calls w) r = Some c" and "call_takes terminal r c w = Some w'"
  shows "holds_live w'"
proof -
  obtain seen q where phase: "lc_phase c = At_Queue seen" "lc_task c = Some q"
    using assms(3) by (auto simp: call_takes_def split: call_phase.splits option.splits)
  have "is_live c" using phase by (simp add: is_live_def)
  then show ?thesis
    using assms phase
    by (auto simp: call_takes_def Let_def world_simps intro!: holds_live_end holds_live_set
        split: option.splits prod.splits if_splits)
qed

lemma holds_live_step:
  assumes live: "holds_live w" and step: "socket_call_step terminal a w = Some w'"
  shows "holds_live w'"
proof (cases a)
  case (Socket_Brings m)
  then have "w' = w\<lparr>cw_postman := inbound m (cw_postman w)\<rparr>" using step by simp
  then show ?thesis using live by (simp add: holds_live_def inbound_holds)
next
  case (Call_Starts r reference escalate refused)
  then show ?thesis using holds_live_starts [OF live] step by simp
next
  case (Call_Resumes r)
  then show ?thesis using holds_live_resumes [OF live] step by (auto elim: of_call_cases)
next
  case (Call_Takes r)
  then show ?thesis using holds_live_takes [OF live] step by (auto elim: of_call_cases)
qed (use step live in \<open>auto simp: call_asked_def call_closed_def call_cancelled_def confirmation_takes_def
    confirmation_times_out_def is_live_def world_simps Let_def elim!: of_call_cases
    intro!: holds_live_end holds_live_set split: option.splits prod.splits if_splits call_phase.splits\<close>)


lemma holds_live_run: "holds_live w \<Longrightarrow> run_calls terminal as w = Some w' \<Longrightarrow> holds_live w'"
proof (induction as arbitrary: w)
  case (Cons a as)
  then show ?case using holds_live_step [of w terminal a] by (cases "socket_call_step terminal a w") auto
qed simp

definition task_forgotten :: "call_world \<Rightarrow> task_id \<Rightarrow> bool" where
  "task_forgotten w t \<longleftrightarrow> dict_get (pm_queues (cw_postman w)) t = None \<and>
     dict_get (pm_orphans (cw_postman w)) t = None \<and> dict_get (pm_last_seq (cw_postman w)) t = None"

lemma end_call_forgets: "task_forgotten (end_call r c (Some t) how w) t"
  by (simp add: task_forgotten_def world_simps) (simp add: finish_call_def Let_def)

text \<open>However a call that had its task is ended.\<close>

lemma ending_action_forgets:
  assumes "socket_call_step terminal a w = Some w'" and "dict_get (cw_calls w) r = Some c" and "is_live c"
    and "dict_get (cw_calls w') r = Some c'" and "\<not> is_live c'" and "lc_task c = Some (t, g)"
    and "lc_phase c \<noteq> At_Response"
  shows "task_forgotten w' t"
  using assms
  by (cases a)
    (auto simp: action_defs world_simps Let_def end_call_forgets
      elim!: of_call_cases split: option.splits prod.splits if_splits call_phase.splits sum.splits)

text \<open>
  C28. The postman holds what its live calls need, and nothing of ended ones. In every state a
  run reaches there is a future exactly for each live call, and a binding of a reference only
  to the task of a live call with it; and the action that ends a call leaves no queue, no
  parked mirror and no last seq of its task, however it ended.
\<close>

theorem postman_holds_live_calls:
  assumes "run_calls terminal as (new_world s) = Some w"
  shows "(\<forall>r. dict_get (pm_pending (cw_postman w)) r \<noteq> None \<longleftrightarrow>
      (\<exists>c. dict_get (cw_calls w) r = Some c \<and> is_live c)) \<and>
    (\<forall>reference t. dict_get (pm_reference_to_task (cw_postman w)) reference = Some t \<longrightarrow>
      (\<exists>r c. dict_get (cw_calls w) r = Some c \<and> is_live c \<and> lc_reference c = reference \<and> call_task c = Some t)) \<and>
    (\<forall>a w' r c c' t. socket_call_step terminal a w = Some w' \<and> dict_get (cw_calls w) r = Some c \<and> is_live c \<and>
      dict_get (cw_calls w') r = Some c' \<and> \<not> is_live c' \<and> call_task c = Some t \<longrightarrow> task_forgotten w' t)"
proof -
  have "holds_live w"
    by (rule holds_live_run [OF _ assms]) (simp add: holds_live_def new_world_def new_postman_def)
  moreover have "task_forgotten w' t"
    if ends: "socket_call_step terminal a w = Some w' \<and> dict_get (cw_calls w) r = Some c \<and> is_live c \<and>
      dict_get (cw_calls w') r = Some c' \<and> \<not> is_live c' \<and> call_task c = Some t" for a w' r c c' t
  proof -
    have "lc_phase c \<noteq> At_Response"
      using ends reachable_calls [OF assms] by (auto simp: calls_inv_def call_task_def)
    moreover obtain g where "lc_task c = Some (t, g)" using ends by (auto simp: call_task_def)
    ultimately show ?thesis using ends ending_action_forgets [of terminal a w w' r c c' t g] by blast
  qed
  ultimately show ?thesis unfolding holds_live_def by blast
qed

theorem postman_holds_live_calls_witness:
  "\<exists>w. run_calls demo_terminal demo_run (new_world 5) = Some w \<and> pm_pending (cw_postman w) = []"
proof -
  obtain w where w: "run_calls demo_terminal demo_run (new_world 5) = Some w" using demo_run_ends(2) by blast
  obtain c d where "cw_calls w = [(''r'', c), (''s'', d)]" "\<not> is_live c" "\<not> is_live d"
    using demo_run_ends(1) w by (auto simp: is_live_def)
  then have "dict_get (pm_pending (cw_postman w)) r = None" for r
    using postman_holds_live_calls [OF w] by (auto split: if_splits)
  then have "dict_get (pm_pending (cw_postman w)) = Map.empty" by (rule ext)
  then show ?thesis using w by simp
qed


section \<open>Two calls of one task\<close>

text \<open>Waiting for a mirror, or cancelled.\<close>

definition stuck :: "live_call \<Rightarrow> bool" where
  "stuck c \<longleftrightarrow>
     (case lc_phase c of At_Queue _ \<Rightarrow> True | At_Confirmation _ \<Rightarrow> True
      | Call_Over how \<Rightarrow> how = Call_Was_Cancelled | _ \<Rightarrow> False)"

text \<open>A call on a queue that was removed and is empty: it has not streamed to the end, and cannot.\<close>

definition starves :: "call_world \<Rightarrow> string \<Rightarrow> caller_task_event list \<Rightarrow> bool" where
  "starves w r yielded \<longleftrightarrow>
     (\<exists>c t g q. dict_get (cw_calls w) r = Some c \<and> lc_yielded c = yielded \<and> lc_task c = Some (t, g) \<and>
        stuck c \<and> g < removed w t \<and> dict_get (cw_detached w) (t, g) = Some q \<and> aq_items q = [])"

lemma detached_kept:
  assumes "g < removed w t"
  shows "g < removed (detach_queue t' w) t"
    and "dict_get (cw_detached (detach_queue t' w)) (t, g) = dict_get (cw_detached w) (t, g)"
    and "g < removed (end_call r c task how w) t"
    and "dict_get (cw_detached (end_call r c task how w)) (t, g) = dict_get (cw_detached w) (t, g)"
proof -
  show 1: "g < removed (detach_queue t' w) t" for t' using assms by (simp add: removed_detach)
  show 2: "dict_get (cw_detached (detach_queue t' w)) (t, g) = dict_get (cw_detached w) (t, g)" for t'
    using assms by (auto simp: detach_queue_def split: option.splits)
  show "g < removed (end_call r c task how w) t"
    using 1 assms by (cases task) (simp_all add: world_simps)
  show "dict_get (cw_detached (end_call r c task how w)) (t, g) = dict_get (cw_detached w) (t, g)"
    using 2 by (cases task) (simp_all add: end_call_def set_call_def Let_def)
qed

lemma detached_same [simp]:
  "cw_detached (set_call r c w) = cw_detached w"
  "cw_detached (send_control taken m w) = cw_detached w"
  by (simp_all add: set_call_def send_control_def)

lemma detached_put:
  assumes "g < removed w t" and "dict_get (cw_detached w) (t, g) = Some q" and "aq_items q = []"
    and "Option.bind (held_queue q' w) aq_get = Some (e, rest)"
  shows "q' \<noteq> (t, g)" and "dict_get (cw_detached (put_queue q' rest w)) (t, g) = Some q"
proof -
  show "q' \<noteq> (t, g)" using assms by (auto simp: held_queue_def aq_get_def)
  then show "dict_get (cw_detached (put_queue q' rest w)) (t, g) = Some q"
    using assms(2) by (simp add: put_queue_def)
qed


lemma detached_step:
  assumes "g < removed w t" and "dict_get (cw_detached w) (t, g) = Some q" and "aq_items q = []"
    and "socket_call_step terminal a w = Some w'"
  shows "g < removed w' t \<and> dict_get (cw_detached w') (t, g) = Some q"
proof (cases a)
  case (Call_Starts r reference escalate refused)
  let ?c = "new_call reference escalate"
  let ?w = "set_call r ?c (w\<lparr>cw_postman := expect_response r (cw_postman w)\<rparr>)"
  have "g < removed ?w t \<and> dict_get (cw_detached ?w) (t, g) = Some q" using assms by (simp add: world_simps)
  then show ?thesis
    using Call_Starts assms(4) detached_kept(3,4) [of g ?w t r ?c None]
    by (auto simp: call_starts_def Let_def split: option.splits)
next
  case (Call_Takes r)
  then show ?thesis
    using assms detached_put [OF assms(1-3)]
    by (auto simp: call_takes_def Let_def world_simps detached_kept elim!: of_call_cases
        split: option.splits call_phase.splits prod.splits if_splits)
next
  case (Confirmation_Takes r)
  then show ?thesis
    using assms detached_put [OF assms(1-3)]
    by (auto simp: confirmation_takes_def Let_def world_simps detached_kept elim!: of_call_cases
        split: option.splits call_phase.splits prod.splits if_splits)
qed (use assms in \<open>auto simp: call_resumes_def call_asked_def call_closed_def call_cancelled_def
    confirmation_times_out_def world_simps detached_kept elim!: of_call_cases
    split: option.splits call_phase.splits sum.splits prod.splits if_splits\<close>)

fun acting_call :: "call_action \<Rightarrow> string option" where
  "acting_call (Call_Starts r _ _ _) = Some r"
| "acting_call (Socket_Brings _) = None"
| "acting_call (Call_Resumes r) = Some r"
| "acting_call (Call_Takes r) = Some r"
| "acting_call (Call_Asked r) = Some r"
| "acting_call (Call_Closed r _) = Some r"
| "acting_call (Call_Cancelled r _) = Some r"
| "acting_call (Confirmation_Takes r) = Some r"
| "acting_call (Confirmation_Times_Out r _) = Some r"

lemma other_calls_kept:
  assumes "socket_call_step terminal a w = Some w'" and "acting_call a \<noteq> Some r"
  shows "dict_get (cw_calls w') r = dict_get (cw_calls w) r"
  using assms
  by (cases a)
    (auto simp: action_defs world_simps Let_def elim!: of_call_cases
      split: option.splits call_phase.splits sum.splits prod.splits if_splits)

lemma stuck_step:
  assumes "dict_get (cw_calls w) r = Some c" and "stuck c" and "lc_task c = Some (t, g)"
    and "g < removed w t" and "dict_get (cw_detached w) (t, g) = Some q" and "aq_items q = []"
    and "socket_call_step terminal a w = Some w'"
  shows "\<exists>c'. dict_get (cw_calls w') r = Some c' \<and> stuck c' \<and> lc_task c' = Some (t, g) \<and>
    lc_yielded c' = lc_yielded c"
proof (cases "acting_call a = Some r")
  case True
  have "Option.bind (held_queue (t, g) w) aq_get = None"
    using assms(4-6) by (simp add: held_queue_def aq_get_def)
  with True assms(1-3,7) show ?thesis
    by (cases a; cases "lc_phase c")
      (auto simp: stuck_def of_call_def action_defs world_simps Let_def
        split: if_splits)
next
  case False
  then show ?thesis using assms other_calls_kept [OF assms(7)] by simp
qed

lemma starves_run:
  "starves w r ys \<Longrightarrow> run_calls terminal as w = Some w' \<Longrightarrow> starves w' r ys"
proof (induction as arbitrary: w)
  case (Cons a as)
  then obtain w1 where w1: "socket_call_step terminal a w = Some w1" "run_calls terminal as w1 = Some w'"
    by (cases "socket_call_step terminal a w") simp_all
  have "starves w1 r ys"
    using Cons.prems(1) detached_step [OF _ _ _ w1(1)] stuck_step [OF _ _ _ _ _ _ w1(1)]
    unfolding starves_def by metis
  then show ?case by (rule Cons.IH [OF _ w1(2)])
qed simp

definition names_bounded :: "call_world \<Rightarrow> bool" where
  "names_bounded w \<longleftrightarrow>
     (\<forall>r c t g. dict_get (cw_calls w) r = Some c \<longrightarrow> lc_task c = Some (t, g) \<longrightarrow> g \<le> removed w t)"

lemma removed_step: "socket_call_step terminal a w = Some w' \<Longrightarrow> removed w t \<le> removed w' t"
  by (cases a)
    (auto simp: action_defs end_call_def world_simps removed_detach Let_def
      elim!: of_call_cases split: option.splits call_phase.splits sum.splits prod.splits if_splits)

lemma task_step:
  assumes "socket_call_step terminal a w = Some w'" and "dict_get (cw_calls w') r = Some c'" and "lc_task c' = Some (t, g)"
  shows "(\<exists>c. dict_get (cw_calls w) r = Some c \<and> lc_task c = Some (t, g)) \<or> g = removed w t"
proof (cases "acting_call a = Some r")
  case True
  then show ?thesis
    using assms
    by (cases a)
      (auto simp: of_call_def action_defs world_simps Let_def
        split: option.splits call_phase.splits sum.splits prod.splits if_splits)
next
  case False
  then show ?thesis using assms other_calls_kept [OF assms(1) False] by simp
qed

lemma names_bounded_step:
  assumes "names_bounded w" and "socket_call_step terminal a w = Some w'"
  shows "names_bounded w'"
  using assms(1) task_step [OF assms(2)] removed_step [OF assms(2)]
  unfolding names_bounded_def by (metis order_trans)

lemma names_bounded_run: "names_bounded w \<Longrightarrow> run_calls terminal as w = Some w' \<Longrightarrow> names_bounded w'"
proof (induction as arbitrary: w)
  case (Cons a as)
  then show ?case using names_bounded_step [of w terminal a] by (cases "socket_call_step terminal a w") auto
qed simp

lemma ending_on_empty:
  assumes "socket_call_step terminal a w = Some w'" and "dict_get (cw_calls w) r = Some c" and "is_live c"
    and "dict_get (cw_calls w') r = Some c'" and "\<not> is_live c'" and "lc_task c = Some (t, g)"
    and "lc_phase c \<noteq> At_Response" and "Option.bind (held_queue (t, g) w) aq_get = None"
  shows "\<exists>c0 how v. w' = end_call r c0 (Some t) how v \<and> cw_calls v = cw_calls w \<and>
    cw_postman v = cw_postman w \<and> cw_removed v = cw_removed w \<and> cw_detached v = cw_detached w"
proof -
  have "\<exists>c0 how v. end_call r c1 (Some t) how1 v1 = end_call r c0 (Some t) how v \<and> cw_calls v = cw_calls w \<and>
      cw_postman v = cw_postman w \<and> cw_removed v = cw_removed w \<and> cw_detached v = cw_detached w"
    if "cw_calls v1 = cw_calls w" "cw_postman v1 = cw_postman w" "cw_removed v1 = cw_removed w"
      "cw_detached v1 = cw_detached w" for c1 how1 v1
    using that by blast
  then show ?thesis
    using assms
    by (cases a)
      (auto simp: action_defs world_simps Let_def
        elim!: of_call_cases split: option.splits prod.splits if_splits call_phase.splits sum.splits)
qed



text \<open>A child found again: its second answer comes while its first call still reads.\<close>

definition shared_run :: "call_action list" where
  "shared_run =
    [Call_Starts ''r'' ''ref'' False None, Call_Starts ''s'' ''ref'' False None,
     Socket_Brings (Inr (demo_response ''1'')), Socket_Brings (Inr ((demo_response ''1'')\<lparr>rs_request := ''s''\<rparr>)),
     Call_Resumes ''r'', Call_Resumes ''s'',
     Socket_Brings (Inl (demo_event ''1'' 1 Completed_Event)), Call_Takes ''r'']"

lemma shared_run_ends:
  "map (\<lambda>(r, c). (r, lc_task c, lc_phase c, lc_yielded c)) (cw_calls (the (run_calls demo_terminal shared_run (new_world 5)))) =
     [(''r'', Some (''1'', 0), At_Yield [1] True, [kind_event COMPLETED]), (''s'', Some (''1'', 0), At_Queue [], [])]"
  "map_option aq_items (held_queue (''1'', 0) (the (run_calls demo_terminal shared_run (new_world 5)))) = Some []"
  "run_calls demo_terminal shared_run (new_world 5) \<noteq> None"
  by code_simp+


end
