(* ===== verification/GraphQL_Postman.thy ===== *)
theory GraphQL_Postman
  imports Async_Queue
begin

text \<open>
  Calls over GraphQL: \<open>rekuest/client/postman.py\<close>, class \<open>GraphQLPostman\<close>.

  The record has one field per attribute; a set of event ids is a list. A call is modelled by
  what it does between its suspension points, as for the agent's postman. The GraphQL client
  is not: what a read of a task's events returns (\<open>None\<close>: it failed), the change feed, and
  when confirmations arrive are the environment's.
\<close>

section \<open>State\<close>

datatype graphql_kind = CANCELLED_KIND | INTERRUPTED_KIND | TASK_KIND string

record task_event_change =
  te_id :: string
  te_task :: task_id
  te_kind :: graphql_kind
  te_returns :: "json option"
  te_message :: "string option"
  te_progress :: "int option"
  te_value :: "json option"
  te_created_at :: string

datatype feed_item = Change_Event task_event_change | Feed_Lost string

record graphql_postman =
  gp_cancel_timeout :: rat
  gp_catch_up_interval :: rat
  gp_queues :: "(reference, feed_item async_queue) dict"
  gp_task_to_reference :: "(task_id, reference) dict"
  gp_reference_to_task :: "(reference, task_id) dict"
  gp_orphans :: "(task_id, task_event_change list) dict"
  gp_watching :: bool
  gp_feed_live :: bool
  gp_routed :: "(task_id, string list) dict"
  gp_catching_up :: "reference list" \<comment> \<open>the calls a catch-up loop runs for\<close>

definition new_graphql_postman :: "rat \<Rightarrow> rat \<Rightarrow> graphql_postman" where
  "new_graphql_postman timeout interval =
     \<lparr>gp_cancel_timeout = timeout, gp_catch_up_interval = interval, gp_queues = [],
      gp_task_to_reference = [], gp_reference_to_task = [], gp_orphans = [], gp_watching = False,
      gp_feed_live = False, gp_routed = [], gp_catching_up = []\<rparr>"

section \<open>Routing\<close>

definition bind_task :: "task_id \<Rightarrow> reference \<Rightarrow> graphql_postman \<Rightarrow> graphql_postman" where
  "bind_task task reference gp =
     (let gp1 = gp\<lparr>gp_task_to_reference := dict_put (gp_task_to_reference gp) task reference,
                   gp_reference_to_task := dict_put (gp_reference_to_task gp) reference task\<rparr>;
          orphans = dict_getdefault (gp_orphans gp1) task [];
          gp2 = gp1\<lparr>gp_orphans := dict_pop (gp_orphans gp1) task\<rparr>
      in case dict_get (gp_queues gp2) reference of
           None \<Rightarrow> gp2
         | Some q \<Rightarrow> gp2\<lparr>gp_queues := dict_put (gp_queues gp2) reference
                            (fold aq_put (map Change_Event orphans) q)\<rparr>)"

text \<open>\<open>self._ass_update_queues.get(reference) if reference is not None else None\<close>.\<close>

definition call_queue :: "graphql_postman \<Rightarrow> task_id \<Rightarrow> (reference \<times> feed_item async_queue) option" where
  "call_queue gp task =
     (case dict_get (gp_task_to_reference gp) task of
        None \<Rightarrow> None
      | Some r \<Rightarrow> map_option (Pair r) (dict_get (gp_queues gp) r))"

definition route :: "task_event_change \<Rightarrow> graphql_postman \<Rightarrow> graphql_postman" where
  "route event gp =
     (let routed = dict_getdefault (gp_routed gp) (te_task event) [];
          gp1 = gp\<lparr>gp_routed := dict_setdefault (gp_routed gp) (te_task event) []\<rparr>
      in if te_id event \<in> set routed then gp1
         else
           let gp2 = gp1\<lparr>gp_routed := dict_put (gp_routed gp1) (te_task event) (te_id event # routed)\<rparr>
           in case call_queue gp2 (te_task event) of
                Some (r, q) \<Rightarrow>
                  gp2\<lparr>gp_queues := dict_put (gp_queues gp2) r (aq_put (Change_Event event) q)\<rparr>
              | None \<Rightarrow>
                  gp2\<lparr>gp_orphans := dict_put (gp_orphans gp2) (te_task event)
                    (dict_getdefault (gp_orphans gp2) (te_task event) [] @ [event])\<rparr>)"

text \<open>\<open>_aread_events\<close>: the task's events as the feed would carry them.\<close>

record history_event =
  he_id :: string
  he_kind :: graphql_kind
  he_returns :: "json option"
  he_message :: "string option"
  he_progress :: "int option"
  he_value :: "json option"
  he_created_at :: string

definition read_events :: "task_id \<Rightarrow> history_event list \<Rightarrow> task_event_change list" where
  "read_events task events =
     map (\<lambda>e. \<lparr>te_id = he_id e, te_task = task, te_kind = he_kind e, te_returns = he_returns e,
               te_message = he_message e, te_progress = he_progress e, te_value = he_value e,
               te_created_at = he_created_at e\<rparr>) events"

definition event_ids :: "feed_item list \<Rightarrow> string list" where
  "event_ids items = List.map_filter (\<lambda>i. case i of Change_Event e \<Rightarrow> Some (te_id e) | Feed_Lost _ \<Rightarrow> None) items"

text \<open>\<open>_acatch_up\<close>, once the history is read.\<close>

definition catch_up :: "task_id \<Rightarrow> task_event_change list \<Rightarrow> graphql_postman \<Rightarrow> graphql_postman" where
  "catch_up task history gp =
     (case call_queue gp task of
        None \<Rightarrow> gp
      | Some (r, queue) \<Rightarrow>
          let (waiting, emptied) = aq_take_all queue;
              waiting_ids = event_ids waiting;
              routed = dict_getdefault (gp_routed gp) task [];
              taken = filter (\<lambda>i. i \<notin> set waiting_ids) routed;
              missed = filter (\<lambda>e. te_id e \<notin> set taken) history;
              later = filter (\<lambda>i. case i of Feed_Lost _ \<Rightarrow> True
                                 | Change_Event e \<Rightarrow> te_id e \<notin> set (map te_id history)) waiting
          in gp\<lparr>gp_routed := dict_put (gp_routed gp) task (List.union (map te_id missed) routed),
                gp_queues := dict_put (gp_queues gp) r
                  (fold aq_put (map Change_Event missed @ later) emptied)\<rparr>)"

definition catch_up_safely ::
    "task_id \<Rightarrow> task_event_change list option \<Rightarrow> graphql_postman \<Rightarrow> graphql_postman" where
  "catch_up_safely task read gp = (case read of None \<Rightarrow> gp | Some history \<Rightarrow> catch_up task history gp)"

text \<open>
  \<open>_acatch_up_until_live\<close>: the delays it sleeps, each followed by a read, while \<open>live\<close> (what
  \<open>_feed_live\<close> is when the loop looks, before and after each sleep) stays false.
\<close>

fun catch_up_until_live :: "rat \<Rightarrow> rat \<Rightarrow> (bool \<times> bool) list \<Rightarrow> rat list" where
  "catch_up_until_live interval delay [] = []"
| "catch_up_until_live interval delay ((before, after) # live) =
     (if before then []
      else if after then [delay]
      else delay # catch_up_until_live interval (min (delay * 2) (interval * 10)) live)"

section \<open>A call\<close>

datatype postman_error = Root_Only_Assign_Error | Never_Connected | Postman_Exception string

definition reject_non_root :: "string option \<Rightarrow> string option \<Rightarrow> string option \<Rightarrow> postman_error option" where
  "reject_non_root parent dependency method =
     (if parent \<noteq> None \<or> dependency \<noteq> None \<or> method \<noteq> None then Some Root_Only_Assign_Error else None)"

record 'c graphql_assign =
  ga_call :: 'c \<comment> \<open>what is sent as it was given\<close>
  ga_reference :: reference
  ga_state_requires :: "json list option"

definition assign_input :: "'c \<Rightarrow> reference option \<Rightarrow> string \<Rightarrow> json list option \<Rightarrow> 'c graphql_assign" where
  "assign_input call ref fresh state_requires =
     \<lparr>ga_call = call, ga_reference = str_or ref fresh,
      ga_state_requires = (case state_requires of Some (r # rs) \<Rightarrow> Some (r # rs) | _ \<Rightarrow> None)\<rparr>"

definition start_watching :: "graphql_postman \<Rightarrow> graphql_postman" where
  "start_watching gp = gp\<lparr>gp_watching := True\<rparr>"

definition stop_watching :: "graphql_postman \<Rightarrow> graphql_postman" where
  "stop_watching gp = gp\<lparr>gp_watching := False, gp_feed_live := False\<rparr>"

text \<open>\<open>__aexit__\<close>.\<close>

definition exit_postman :: "graphql_postman \<Rightarrow> graphql_postman" where
  "exit_postman gp = (if gp_watching gp then stop_watching gp else gp)"

text \<open>\<open>aassign\<close> up to where the mutation is sent; the second component is \<open>feed_was_live\<close>.\<close>

definition begin_assign :: "reference \<Rightarrow> graphql_postman \<Rightarrow> graphql_postman \<times> bool" where
  "begin_assign reference gp =
     (let gp1 = (if \<not> gp_watching gp then start_watching gp else gp)
      in (gp1\<lparr>gp_queues := dict_put (gp_queues gp1) reference aq_new\<rparr>, gp_feed_live gp1))"

definition cleanup_reference :: "reference \<Rightarrow> graphql_postman \<Rightarrow> graphql_postman" where
  "cleanup_reference reference gp =
     (let gp1 = (case dict_get (gp_reference_to_task gp) reference of
                   None \<Rightarrow> gp
                 | Some tid \<Rightarrow>
                     gp\<lparr>gp_reference_to_task := dict_pop (gp_reference_to_task gp) reference,
                        gp_task_to_reference := dict_pop (gp_task_to_reference gp) tid,
                        gp_orphans := dict_pop (gp_orphans gp) tid,
                        gp_routed := dict_pop (gp_routed gp) tid\<rparr>)
      in gp1\<lparr>gp_queues := dict_pop (gp_queues gp1) reference,
             gp_catching_up := removeAll reference (gp_catching_up gp1)\<rparr>)"

text \<open>
  The mutation answered: the task is bound, and (unless the feed was live all along) its
  events read and a loop started that reads them until the feed is live.
\<close>

definition assign_answered ::
    "task_id \<Rightarrow> reference \<Rightarrow> bool \<Rightarrow> task_event_change list option \<Rightarrow> graphql_postman \<Rightarrow> graphql_postman" where
  "assign_answered task reference feed_was_live read gp =
     (let gp1 = bind_task task reference gp
      in if feed_was_live then gp1
         else let gp2 = catch_up_safely task read gp1
              in if gp_feed_live gp2 then gp2
                 else gp2\<lparr>gp_catching_up := List.insert reference (gp_catching_up gp2)\<rparr>)"

text \<open>The mutation failed.\<close>

definition assign_failed :: "reference \<Rightarrow> string \<Rightarrow> graphql_postman \<Rightarrow> graphql_postman \<times> postman_error" where
  "assign_failed reference what gp =
     (cleanup_reference reference gp, Postman_Exception (''Cannot Assign: '' @ what))"

text \<open>The loop over the queue: the events yielded, and the loss of the feed, if that ended it.\<close>

fun call_events :: "task_id \<Rightarrow> feed_item list \<Rightarrow> task_event_change list \<times> postman_error option" where
  "call_events task [] = ([], None)"
| "call_events task (Feed_Lost reason # items) =
     ([], Some (Postman_Exception (''Lost the task event feed while waiting for task '' @ task @ '': '' @ reason)))"
| "call_events task (Change_Event e # items) = (let (es, r) = call_events task items in (e # es, r))"

subsection \<open>Cancelling\<close>

datatype graphql_control = Cancel_Mutation task_id | Interrupt_Mutation task_id

definition kind_is :: "graphql_kind list \<Rightarrow> feed_item \<Rightarrow> bool" where
  "kind_is kinds item = (case item of Change_Event e \<Rightarrow> te_kind e \<in> set kinds | Feed_Lost _ \<Rightarrow> False)"

definition is_lost :: "feed_item \<Rightarrow> bool" where
  "is_lost item = (case item of Feed_Lost _ \<Rightarrow> True | Change_Event _ \<Rightarrow> False)"

definition await_kind ::
    "graphql_kind list \<Rightarrow> rat \<Rightarrow> rat \<Rightarrow> (rat \<times> feed_item) list \<Rightarrow> bool \<times> (rat \<times> feed_item) list \<times> rat" where
  "await_kind kinds timeout now arrivals = await_item (kind_is kinds) is_lost (now + timeout) now arrivals"

text \<open>
  \<open>_confirm_cancellation\<close>: the mutations it sends, and when it returns. A mutation takes
  \<open>sending\<close>, and is given up after the timeout, whether it failed or not.
\<close>

definition confirm_task_cancellation ::
    "task_id \<Rightarrow> (rat \<times> feed_item) list \<Rightarrow> bool \<Rightarrow> rat \<Rightarrow> rat \<Rightarrow> rat \<Rightarrow> graphql_control list \<times> rat" where
  "confirm_task_cancellation task arrivals escalate timeout sending now =
     (let sent = now + min sending timeout
      in case await_kind [CANCELLED_KIND] timeout sent arrivals of
           (True, _, now1) \<Rightarrow> ([Cancel_Mutation task], now1)
         | (False, rest, now1) \<Rightarrow>
             if \<not> escalate then ([Cancel_Mutation task], now1)
             else (case await_kind [INTERRUPTED_KIND, CANCELLED_KIND] timeout (now1 + min sending timeout) rest of
                     (_, _, now2) \<Rightarrow> ([Cancel_Mutation task, Interrupt_Mutation task], now2)))"

text \<open>
  \<open>_assigned_despite_cancel\<close>: the task of a mutation whose answer takes \<open>due\<close> more seconds
  (\<open>None\<close>: it fails or never comes).
\<close>

definition assigned_despite_cancel :: "(rat \<times> task_id) option \<Rightarrow> rat \<Rightarrow> task_id option" where
  "assigned_despite_cancel answer timeout =
     (case answer of
        Some (due, task) \<Rightarrow> if due < timeout then Some task else None
      | None \<Rightarrow> None)"

text \<open>A call cancelled before its mutation answered, and one cancelled while it streams.\<close>

definition cancel_assigning ::
    "reference \<Rightarrow> (rat \<times> task_id) option \<Rightarrow> (rat \<times> feed_item) list \<Rightarrow> bool \<Rightarrow> rat \<Rightarrow> rat \<Rightarrow> rat
      \<Rightarrow> graphql_postman \<Rightarrow> graphql_control list \<times> graphql_postman" where
  "cancel_assigning reference answer arrivals escalate timeout sending now gp =
     (case assigned_despite_cancel answer timeout of
        None \<Rightarrow> ([], cleanup_reference reference gp)
      | Some task \<Rightarrow>
          (fst (confirm_task_cancellation task arrivals escalate timeout sending now),
           cleanup_reference reference (bind_task task reference gp)))"

definition cancel_streaming ::
    "task_id \<Rightarrow> reference \<Rightarrow> (rat \<times> feed_item) list \<Rightarrow> bool \<Rightarrow> rat \<Rightarrow> rat \<Rightarrow> rat
      \<Rightarrow> graphql_postman \<Rightarrow> graphql_control list \<times> graphql_postman" where
  "cancel_streaming task reference arrivals escalate timeout sending now gp =
     (fst (confirm_task_cancellation task arrivals escalate timeout sending now),
      cleanup_reference reference gp)"

section \<open>The change feed\<close>

record task_change =
  tc_id :: task_id
  tc_reference :: "reference option"

record feed_change =
  fc_create :: "task_change option"
  fc_event :: "task_event_change option"

text \<open>
  One change of \<open>watch_tasks\<close>: the first one proves the feed is subscribed, so every bound
  call is caught up (\<open>read\<close> is what its read returns) before the change is handed on.
\<close>

definition watch_change ::
    "(task_id \<Rightarrow> task_event_change list option) \<Rightarrow> feed_change \<Rightarrow> graphql_postman \<Rightarrow> graphql_postman" where
  "watch_change read change gp =
     (let gp1 = (if gp_feed_live gp then gp
                 else fold (\<lambda>task. catch_up_safely task (read task)) (dict_keys (gp_task_to_reference gp))
                        (gp\<lparr>gp_feed_live := True\<rparr>));
          gp2 = (case fc_create change of
                   Some c \<Rightarrow> if truthy (tc_reference c) then bind_task (tc_id c) (the (tc_reference c)) gp1 else gp1
                 | None \<Rightarrow> gp1)
      in case fc_event change of Some e \<Rightarrow> route e gp2 | None \<Rightarrow> gp2)"

definition fail_pending :: "string \<Rightarrow> graphql_postman \<Rightarrow> graphql_postman" where
  "fail_pending reason gp =
     gp\<lparr>gp_watching := False, gp_feed_live := False,
        gp_queues := map (\<lambda>(r, q). (r, aq_put (Feed_Lost reason) q)) (gp_queues gp)\<rparr>"

end
