(* ===== verification/GraphQL_Calls.thy ===== *)
theory GraphQL_Calls
  imports GraphQL_Postman
begin

text \<open>
  What a call over GraphQL sees of its task (\<open>rekuest/client/postman.py\<close>): the task's events
  in their true order, though the change feed starts late, repeats and races with reads of
  the task's history.

  \<open>T\<close> is the list of all events the server will ever record for the task, in its order. A
  read of the history returns a prefix of \<open>T\<close>; the feed delivers \<open>T\<close> from some position on,
  one by one.
\<close>

section \<open>Lists with distinct ids\<close>

lemma filter_drop_ids:
  assumes "distinct (map f T)"
  shows "filter (\<lambda>x. f x \<notin> f ` set (take m T)) (drop w (take k T)) = drop (max m w) (take k T)"
  using assms
proof (induction T arbitrary: m w k)
  case (Cons x T)
  show ?case
  proof (cases m)
    case (Suc m')
    have other: "filter (\<lambda>y. f y \<notin> f ` set (take m (x # T))) (drop v (take j T)) =
        filter (\<lambda>y. f y \<notin> f ` set (take m' T)) (drop v (take j T))" for v j
    proof (rule filter_cong [OF refl])
      fix y
      assume "y \<in> set (drop v (take j T))"
      then have "y \<in> set T" by (meson in_set_dropD in_set_takeD)
      then have "f y \<in> f ` set T" by (rule imageI)
      then have "f y \<noteq> f x" using Cons.prems by auto
      then show "(f y \<notin> f ` set (take m (x # T))) = (f y \<notin> f ` set (take m' T))"
        by (simp add: Suc)
    qed
    have IH: "filter (\<lambda>y. f y \<notin> f ` set (take m' T)) (drop v (take j T)) = drop (max m' v) (take j T)" for v j
      using Cons by simp
    show ?thesis
    proof (cases k)
      case (Suc k')
      show ?thesis
      proof (cases w)
        case 0
        have "f x \<in> f ` set (take m (x # T))" using \<open>m = Suc m'\<close> by simp
        then show ?thesis using other [of 0 k'] IH [of 0 k'] \<open>m = Suc m'\<close> Suc 0 by simp
      next
        case (Suc w')
        then show ?thesis using other [of w' k'] IH [of w' k'] \<open>m = Suc m'\<close> \<open>k = Suc k'\<close> by simp
      qed
    qed simp
  qed simp
qed simp

lemma take_join:
  assumes "c \<le> w" and "w = c \<or> w \<le> m" and "w \<le> k"
  shows "drop c (take m T) @ drop (max m w) (take k T) = drop c (take (max m k) T)"
proof (cases "m \<le> k")
  case True
  then have "take k T = take m T @ drop m (take k T)"
    by (metis append_take_drop_id min.absorb1 take_take)
  show ?thesis
  proof (cases "c \<le> m")
    case True
    then have "max m w = m \<or> w = c \<and> c = m" using assms(2) by auto
    then have "drop (max m w) (take k T) = drop m (take k T)" by auto
    moreover have "drop c (take k T) = drop c (take m T) @ drop m (take k T)"
    proof -
      have "drop c (take m T @ drop m (take k T)) = drop c (take m T) @ drop (c - length (take m T)) (drop m (take k T))"
        by simp
      moreover have "drop (c - length (take m T)) (drop m (take k T)) = drop m (take k T)"
        using True by (cases "m \<le> length T") auto
      ultimately show ?thesis using \<open>take k T = take m T @ drop m (take k T)\<close> by metis
    qed
    ultimately show ?thesis using \<open>m \<le> k\<close> by simp
  next
    case False
    then have "w = c" "max m w = c" using assms by auto
    then show ?thesis using \<open>m \<le> k\<close> False by simp
  qed
next
  case False
  then show ?thesis by simp
qed

lemma set_waiting_parts:
  assumes "c \<le> w" and "w = c \<or> w \<le> m"
  shows "set (drop w (take k T)) \<subseteq> set (take c T) \<union> set (drop c (take m T)) \<union> set (drop (max m w) (take k T))"
proof (cases "w \<le> m")
  case True
  have "set (drop w (take k T)) \<subseteq> set (take k T)" by (rule set_drop_subset)
  also have "\<dots> = set (take m (take k T)) \<union> set (drop m (take k T))"
    by (metis append_take_drop_id set_append)
  also have "\<dots> \<subseteq> set (take m T) \<union> set (drop m (take k T))"
    using set_take_subset_set_take [of "min m k" m T] by auto
  also have "set (take m T) = set (take c T) \<union> set (drop c (take m T))"
    using append_take_drop_id [of c "take m T"] True assms(1) by (metis min.absorb1 order_trans set_append take_take)
  finally show ?thesis using True by (simp add: max_absorb1)
next
  case False
  then show ?thesis using assms by auto
qed

section \<open>What a call has of its task\<close>

lemma event_ids_map [simp]: "event_ids (map Change_Event es) = map te_id es"
  by (induction es) (simp_all add: event_ids_def List.map_filter_def)

lemma aq_items_fold_put [simp]: "aq_items (fold aq_put xs q) = aq_items q @ xs"
  by (rule aq.items_fold_enq)

lemma catch_up_queue:
  assumes "distinct (map te_id T)"
    and "dict_get (gp_task_to_reference gp) t = Some r" and "dict_get (gp_queues gp) r = Some q"
    and "aq_items q = map Change_Event (drop w (take k T))"
    and "set (dict_getdefault (gp_routed gp) t []) = te_id ` (set (take c T) \<union> set (drop w (take k T)))"
    and "c \<le> w" and "w = c \<or> w \<le> m" and "w \<le> k"
  defines "gp' \<equiv> catch_up t (take m T) gp"
  shows "\<exists>q'. dict_get (gp_queues gp') r = Some q' \<and>
      aq_items q' = map Change_Event (drop c (take (max m k) T))"
    and "set (dict_getdefault (gp_routed gp') t []) = te_id ` set (take (max c (max m k)) T)"
proof -
  let ?routed = "dict_getdefault (gp_routed gp) t []"
  let ?waiting = "drop w (take k T)"
  define taken where "taken = filter (\<lambda>i. i \<notin> set (event_ids (aq_items q))) ?routed"
  have inj: "te_id x = te_id y \<Longrightarrow> x \<in> set T \<Longrightarrow> y \<in> set T \<Longrightarrow> x = y" for x y
    using assms(1) by (simp add: distinct_map inj_on_def)
  have apart: "set (take c T) \<inter> set ?waiting = {}"
  proof -
    have "distinct T" using assms(1) by (simp add: distinct_map)
    then have "set (take w T) \<inter> set (drop w T) = {}" by (rule set_take_disj_set_drop_if_distinct) simp
    moreover have "set (take c T) \<subseteq> set (take w T)" using assms(6) by (rule set_take_subset_set_take)
    moreover have "set ?waiting \<subseteq> set (drop w T)"
      by (simp add: drop_take set_take_subset)
    ultimately show ?thesis by blast
  qed
  have "te_id ` set (take c T) \<inter> te_id ` set ?waiting = {}"
    using apart inj by (blast dest: in_set_takeD in_set_dropD)
  then have set_taken: "set taken = te_id ` set (take c T)"
    using assms(4,5) by (auto simp: taken_def)
  have missed: "filter (\<lambda>e. te_id e \<notin> set taken) (take m T) = drop c (take m T)"
    unfolding set_taken using filter_drop_ids [OF assms(1), of c 0 m] by simp
  have later: "filter (\<lambda>i. case i of Feed_Lost _ \<Rightarrow> True | Change_Event e \<Rightarrow> te_id e \<notin> set (map te_id (take m T)))
      (aq_items q) = map Change_Event (drop (max m w) (take k T))"
    unfolding assms(4) filter_map comp_def using filter_drop_ids [OF assms(1), of m w k] by simp
  have gp': "gp' = gp\<lparr>gp_routed := dict_put (gp_routed gp) t (List.union (map te_id (drop c (take m T))) ?routed),
      gp_queues := dict_put (gp_queues gp) r
        (fold aq_put (map Change_Event (drop c (take m T)) @ map Change_Event (drop (max m w) (take k T)))
          (q\<lparr>aq_items := []\<rparr>))\<rparr>"
    unfolding gp'_def catch_up_def call_queue_def assms(2,3) option.case option.map aq_take_all_def prod.case Let_def
      taken_def [symmetric] missed later ..
  show "\<exists>q'. dict_get (gp_queues gp') r = Some q' \<and>
      aq_items q' = map Change_Event (drop c (take (max m k) T))"
    using take_join [OF assms(6-8), of T] by (simp add: gp' map_append [symmetric] del: map_append)
  have "set (take c T) \<union> set (drop c (take m T)) \<union> set ?waiting = set (take (max c (max m k)) T)"
  proof -
    have "set (take c T) \<union> (set (drop c (take m T)) \<union> set (drop (max m w) (take k T))) =
        set (take (max c (max m k)) T)"
      using arg_cong [OF take_join [OF assms(6-8), of T], of set] assms(6,8)
      by simp (metis append_take_drop_id le_max_iff_disj max.absorb2 min.absorb1 order_trans set_append take_take)
    moreover have "set ?waiting \<subseteq> set (take c T) \<union> set (drop c (take m T)) \<union> set (drop (max m w) (take k T))"
      by (rule set_waiting_parts [OF assms(6,7)])
    moreover have "set (drop (max m w) (take k T)) \<subseteq> set ?waiting"
      by (rule set_drop_subset_set_drop) simp
    ultimately show ?thesis by blast
  qed
  then show "set (dict_getdefault (gp_routed gp') t []) = te_id ` set (take (max c (max m k)) T)"
    using assms(5) by (auto simp: gp' dict_getdefault_def)
qed

section \<open>One call among others\<close>

text \<open>
  \<open>own_entries\<close>: nothing in the postman confuses the call of task \<open>t\<close> under reference \<open>r\<close> with
  another one's. \<open>seen_by\<close>: all the operations look at for this call.
\<close>

definition own_maps :: "task_id \<Rightarrow> reference \<Rightarrow> (task_id \<rightharpoonup> reference) \<Rightarrow> (reference \<rightharpoonup> task_id) \<Rightarrow> bool" where
  "own_maps t r m n \<longleftrightarrow>
     (\<forall>t'. m t' = Some r \<longrightarrow> t' = t) \<and> (\<forall>r'. n r' = Some t \<longrightarrow> r' = r) \<and> (m t = None \<or> m t = Some r)"

definition own_entries :: "task_id \<Rightarrow> reference \<Rightarrow> graphql_postman \<Rightarrow> bool" where
  "own_entries t r gp \<longleftrightarrow>
     own_maps t r (dict_get (gp_task_to_reference gp)) (dict_get (gp_reference_to_task gp))"

definition waiting_items :: "reference \<Rightarrow> graphql_postman \<Rightarrow> feed_item list option" where
  "waiting_items r gp = map_option aq_items (dict_get (gp_queues gp) r)"

definition seen_by :: "task_id \<Rightarrow> reference \<Rightarrow> graphql_postman \<Rightarrow>
    reference option \<times> feed_item list option \<times> task_event_change list \<times> string set \<times> bool" where
  "seen_by t r gp =
     (dict_get (gp_task_to_reference gp) t, waiting_items r gp, dict_getdefault (gp_orphans gp) t [],
      set (dict_getdefault (gp_routed gp) t []), gp_feed_live gp)"

lemmas call_view = seen_by_def waiting_items_def dict_getdefault_def

lemma own_maps_bind:
  assumes "own_maps t r m n" and "t' = t \<longleftrightarrow> r' = r"
  shows "own_maps t r (m(t' \<mapsto> r')) (n(r' \<mapsto> t'))"
  unfolding own_maps_def
proof (intro conjI allI impI)
  fix x
  assume "(m(t' \<mapsto> r')) x = Some r"
  then have "x = t' \<and> r' = r \<or> m x = Some r" by (simp split: if_splits)
  then show "x = t" using assms unfolding own_maps_def by blast
next
  fix x
  assume "(n(r' \<mapsto> t')) x = Some t"
  then have "x = r' \<and> t' = t \<or> n x = Some t" by (simp split: if_splits)
  then show "x = r" using assms unfolding own_maps_def by blast
next
  show "(m(t' \<mapsto> r')) t = None \<or> (m(t' \<mapsto> r')) t = Some r"
    using assms unfolding own_maps_def by (cases "t' = t") simp_all
qed

lemma own_maps_unbind:
  "own_maps t r m n \<Longrightarrow> own_maps t r (m(t' := None)) (n(r' := None))"
  unfolding own_maps_def fun_upd_def by (metis option.distinct(1))

lemma own_mapsD:
  assumes "own_maps t r m n"
  shows "m t' = Some r \<Longrightarrow> t' = t" and "n r' = Some t \<Longrightarrow> r' = r"
  using assms unfolding own_maps_def by blast+

lemma call_queue_Some_iff:
  "call_queue gp t = Some (r, q) \<longleftrightarrow>
     dict_get (gp_task_to_reference gp) t = Some r \<and> dict_get (gp_queues gp) r = Some q"
  by (auto simp: call_queue_def split: option.splits)

lemma call_queue_other:
  assumes "own_entries t r gp" and "call_queue gp t' = Some (r', q)" and "t' \<noteq> t"
  shows "r' \<noteq> r"
  using assms(2,3) own_mapsD(1) [OF assms(1) [unfolded own_entries_def]]
  unfolding call_queue_Some_iff by blast

lemma bind_task_maps:
  "dict_get (gp_task_to_reference (bind_task t' r' gp)) = (dict_get (gp_task_to_reference gp))(t' \<mapsto> r')"
  "dict_get (gp_reference_to_task (bind_task t' r' gp)) = (dict_get (gp_reference_to_task gp))(r' \<mapsto> t')"
  "dict_get (gp_orphans (bind_task t' r' gp)) = (dict_get (gp_orphans gp))(t' := None)"
  "gp_routed (bind_task t' r' gp) = gp_routed gp"
  "gp_feed_live (bind_task t' r' gp) = gp_feed_live gp"
  "waiting_items r'' (bind_task t' r' gp) =
     (if r'' = r' then map_option (\<lambda>is. is @ map Change_Event (dict_getdefault (gp_orphans gp) t' [])) (waiting_items r' gp)
      else waiting_items r'' gp)"
  by (cases "dict_get (gp_queues gp) r'"; simp add: bind_task_def Let_def waiting_items_def fun_upd_def)+

lemma bind_task_own:
  assumes "own_entries t r gp" and "t' = t \<longleftrightarrow> r' = r"
  shows "own_entries t r (bind_task t' r' gp)"
  using assms unfolding own_entries_def bind_task_maps by (rule own_maps_bind)

lemma bind_task_other:
  assumes "own_entries t r gp" and "t' \<noteq> t" and "r' \<noteq> r"
  shows "own_entries t r (bind_task t' r' gp)" and "seen_by t r (bind_task t' r' gp) = seen_by t r gp"
proof -
  show "own_entries t r (bind_task t' r' gp)" using bind_task_own [OF assms(1)] assms(2,3) by blast
  have "waiting_items r (bind_task t' r' gp) = waiting_items r gp" using assms(3) by (simp add: bind_task_maps)
  then show "seen_by t r (bind_task t' r' gp) = seen_by t r gp"
    using assms(2) by (simp add: seen_by_def dict_getdefault_def bind_task_maps)
qed

lemma route_maps:
  "gp_task_to_reference (route e gp) = gp_task_to_reference gp"
  "gp_reference_to_task (route e gp) = gp_reference_to_task gp"
  "gp_feed_live (route e gp) = gp_feed_live gp"
  by (auto simp: route_def Let_def split: option.split)

lemma route_other:
  assumes "own_entries t r gp" and "te_task e \<noteq> t"
  shows "own_entries t r (route e gp)" and "seen_by t r (route e gp) = seen_by t r gp"
proof -
  show "own_entries t r (route e gp)" using assms(1) by (simp only: own_entries_def route_maps)
  have same: "call_queue (gp\<lparr>gp_routed := x\<rparr>) t' = call_queue gp t'" for x t'
    by (simp add: call_queue_def split: option.split)
  show "seen_by t r (route e gp) = seen_by t r gp"
  proof (cases "te_id e \<in> set (dict_getdefault (gp_routed gp) (te_task e) [])")
    case True
    then show ?thesis using assms(2) by (simp add: route_def Let_def call_view dict_get_setdefault)
  next
    case False
    show ?thesis
    proof (cases "call_queue gp (te_task e)")
      case None
      then show ?thesis using False assms(2)
        by (simp add: route_def Let_def call_view dict_get_setdefault same)
    next
      case (Some rq)
      obtain r' q where rq: "rq = (r', q)" by fastforce
      have "r' \<noteq> r" using call_queue_other [OF assms(1)] Some assms(2) unfolding rq by blast
      then show ?thesis using False assms(2) Some
        by (simp add: route_def Let_def call_view dict_get_setdefault same rq)
    qed
  qed
qed

lemma catch_up_maps:
  "gp_task_to_reference (catch_up t' history gp) = gp_task_to_reference gp"
  "gp_reference_to_task (catch_up t' history gp) = gp_reference_to_task gp"
  "gp_feed_live (catch_up t' history gp) = gp_feed_live gp"
  "gp_orphans (catch_up t' history gp) = gp_orphans gp"
  by (auto simp: catch_up_def Let_def aq_take_all_def split: option.split)

lemma catch_up_other:
  assumes "own_entries t r gp" and "t' \<noteq> t"
  shows "own_entries t r (catch_up t' history gp)" and "seen_by t r (catch_up t' history gp) = seen_by t r gp"
proof -
  show "own_entries t r (catch_up t' history gp)"
    using assms(1) by (simp only: own_entries_def catch_up_maps)
  show "seen_by t r (catch_up t' history gp) = seen_by t r gp"
  proof (cases "call_queue gp t'")
    case (Some rq)
    obtain r' q where rq: "rq = (r', q)" by fastforce
    have "r' \<noteq> r" using call_queue_other [OF assms(1)] Some assms(2) unfolding rq by blast
    then show ?thesis using assms(2) Some
      by (simp add: catch_up_def Let_def aq_take_all_def rq call_view)
  qed (simp add: catch_up_def)
qed

lemma catch_up_safely_other:
  assumes "own_entries t r gp" and "t' \<noteq> t"
  shows "own_entries t r (catch_up_safely t' read gp)" and "seen_by t r (catch_up_safely t' read gp) = seen_by t r gp"
  using catch_up_other [OF assms] assms(1) by (simp_all add: catch_up_safely_def split: option.split)

lemma begin_assign_other:
  assumes "own_entries t r gp" and "r' \<noteq> r"
  shows "own_entries t r (fst (begin_assign r' gp))" and "seen_by t r (fst (begin_assign r' gp)) = seen_by t r gp"
proof -
  have "dict_get (gp_task_to_reference (fst (begin_assign r' gp))) = dict_get (gp_task_to_reference gp)"
    "dict_get (gp_reference_to_task (fst (begin_assign r' gp))) = dict_get (gp_reference_to_task gp)"
    by (simp_all add: begin_assign_def start_watching_def Let_def)
  then show "own_entries t r (fst (begin_assign r' gp))" using assms(1) by (simp only: own_entries_def)
  show "seen_by t r (fst (begin_assign r' gp)) = seen_by t r gp"
    using assms(2) by (simp add: begin_assign_def start_watching_def call_view Let_def)
qed

lemma cleanup_reference_other:
  assumes "own_entries t r gp" and "r' \<noteq> r"
  shows "own_entries t r (cleanup_reference r' gp)" and "seen_by t r (cleanup_reference r' gp) = seen_by t r gp"
proof -
  have "own_entries t r (cleanup_reference r' gp) \<and> seen_by t r (cleanup_reference r' gp) = seen_by t r gp"
  proof (cases "dict_get (gp_reference_to_task gp) r'")
    case None
    then have "cleanup_reference r' gp = gp\<lparr>gp_queues := dict_pop (gp_queues gp) r',
        gp_catching_up := removeAll r' (gp_catching_up gp)\<rparr>"
      by (simp add: cleanup_reference_def)
    then show ?thesis using assms by (simp add: call_view own_entries_def)
  next
    case (Some t')
    then have "t' \<noteq> t" using own_mapsD(2) [OF assms(1) [unfolded own_entries_def]] assms(2) by blast
    moreover have "own_entries t r (cleanup_reference r' gp)"
      using own_maps_unbind [OF assms(1) [unfolded own_entries_def]] Some
      by (simp add: cleanup_reference_def own_entries_def fun_upd_def)
    ultimately show ?thesis using assms(2) Some by (simp add: cleanup_reference_def call_view)
  qed
  then show "own_entries t r (cleanup_reference r' gp)" "seen_by t r (cleanup_reference r' gp) = seen_by t r gp"
    by blast+
qed

lemma catching_up_other:
  "own_entries t r (gp\<lparr>gp_catching_up := c\<rparr>) = own_entries t r gp"
  "seen_by t r (gp\<lparr>gp_catching_up := c\<rparr>) = seen_by t r gp"
  by (simp_all add: call_view own_entries_def)

lemma assign_answered_other:
  assumes "own_entries t r gp" and "t' \<noteq> t" and "r' \<noteq> r"
  shows "own_entries t r (assign_answered t' r' fl read gp)"
    and "seen_by t r (assign_answered t' r' fl read gp) = seen_by t r gp"
  using catch_up_safely_other [OF bind_task_other(1) [OF assms] assms(2), of read] bind_task_other [OF assms]
  by (simp_all add: assign_answered_def Let_def catching_up_other)

section \<open>The operations on the call itself\<close>

lemma bind_task_self:
  assumes "own_entries t r gp" and "seen_by t r gp = (m, Some items, orphans, routed, live)"
  shows "own_entries t r (bind_task t r gp)"
    and "seen_by t r (bind_task t r gp) = (Some r, Some (items @ map Change_Event orphans), [], routed, live)"
  using bind_task_own [OF assms(1), of t r] assms(2)
  by (simp_all add: seen_by_def bind_task_maps dict_getdefault_def)

lemma route_self:
  assumes "seen_by (te_task e) r gp = (m, Some items, orphans, routed, live)" and "m = None \<or> m = Some r"
  shows "seen_by (te_task e) r (route e gp) =
    (if te_id e \<in> routed then (m, Some items, orphans, routed, live)
     else (m, Some (if m = None then items else items @ [Change_Event e]),
       if m = None then orphans @ [e] else orphans, insert (te_id e) routed, live))"
proof (cases "te_id e \<in> routed")
  case True
  then show ?thesis using assms(1) by (auto simp: route_def Let_def call_view dict_get_setdefault split: option.splits)
next
  case False
  then have new: "te_id e \<notin> set (dict_getdefault (gp_routed gp) (te_task e) [])"
    using assms(1) by (simp add: seen_by_def)
  show ?thesis
  proof (cases m)
    case None
    then have "call_queue (gp\<lparr>gp_routed := x\<rparr>) (te_task e) = None" for x
      using assms(1) by (simp add: call_queue_def seen_by_def)
    then show ?thesis using False new None assms(1)
      by (simp add: route_def Let_def) (auto simp: call_view split: option.splits)
  next
    case (Some r')
    then obtain q where "r' = r" and q: "dict_get (gp_queues gp) r = Some q" "aq_items q = items"
      using assms by (auto simp: seen_by_def waiting_items_def)
    then have "call_queue (gp\<lparr>gp_routed := x\<rparr>) (te_task e) = Some (r, q)" for x
      using assms(1) Some by (simp add: call_queue_def seen_by_def)
    then show ?thesis using False new Some \<open>r' = r\<close> q assms(1)
      by (simp add: route_def Let_def) (auto simp: call_view aq_put_def split: option.splits)
  qed
qed

lemma catch_up_self:
  assumes "distinct (map te_id T)" and "c \<le> w" and "w = c \<or> w \<le> m" and "w \<le> k"
    and "seen_by t r gp = (Some r, Some (map Change_Event (drop w (take k T))), orphans,
      te_id ` (set (take c T) \<union> set (drop w (take k T))), live)"
  shows "seen_by t r (catch_up t (take m T) gp) = (Some r, Some (map Change_Event (drop c (take (max m k) T))), orphans,
      te_id ` set (take (max c (max m k)) T), live)"
proof -
  obtain q where q: "dict_get (gp_queues gp) r = Some q" "aq_items q = map Change_Event (drop w (take k T))"
    and m: "dict_get (gp_task_to_reference gp) t = Some r"
    and routed: "set (dict_getdefault (gp_routed gp) t []) = te_id ` (set (take c T) \<union> set (drop w (take k T)))"
    using assms(5) by (auto simp: seen_by_def waiting_items_def)
  show ?thesis
    using catch_up_queue [OF assms(1) m q routed assms(2-4)] assms(5)
    by (auto simp: seen_by_def waiting_items_def catch_up_maps)
qed

lemma cleanup_own_entries:
  assumes "own_entries t r gp"
  shows "own_entries t r (gp\<lparr>gp_feed_live := b\<rparr>)"
    and "seen_by t r (gp\<lparr>gp_feed_live := b\<rparr>) = (let (m, is, os, ids, live) = seen_by t r gp in (m, is, os, ids, b))"
  using assms by (simp_all add: own_entries_def call_view)

section \<open>The life of a call\<close>

text \<open>
  A call is assigning (with whether the feed was live when it began, and the position in \<open>T\<close>
  the feed starts at) or streaming (with the events it took). \<open>n\<close> is the next event of the
  task the feed delivers. What the server and the feed are relied on for: a read of a task's
  history is a prefix of \<open>T\<close>, one made once the feed has delivered something holds all that
  was recorded before the feed was subscribed, and the feed delivers the rest in order.
\<close>

datatype phase = Assigning bool nat | Streaming "task_event_change list"

definition create_of :: "task_id \<Rightarrow> reference \<Rightarrow> task_change option \<Rightarrow> bool" where
  "create_of t r c = (case c of None \<Rightarrow> True | Some tc \<Rightarrow> tc_id tc = t \<longleftrightarrow> tc_reference tc = Some r)"

definition feed_moves :: "task_event_change list \<Rightarrow> task_id \<Rightarrow> nat \<Rightarrow> task_event_change option \<Rightarrow> nat \<Rightarrow> bool" where
  "feed_moves T t n e n' =
     (case e of
        Some ev \<Rightarrow> if te_task ev = t then n < length T \<and> ev = T ! n \<and> n' = n + 1 else n' = n
      | None \<Rightarrow> n' = n)"

text \<open>What the other calls of the process do.\<close>

inductive other_call :: "task_id \<Rightarrow> reference \<Rightarrow> graphql_postman \<Rightarrow> graphql_postman \<Rightarrow> bool" for t r where
  Other_Begins: "r' \<noteq> r \<Longrightarrow> other_call t r gp (fst (begin_assign r' gp))"
| Other_Answered: "t' \<noteq> t \<Longrightarrow> r' \<noteq> r \<Longrightarrow> other_call t r gp (assign_answered t' r' fl read gp)"
| Other_Reads: "t' \<noteq> t \<Longrightarrow> other_call t r gp (catch_up_safely t' read gp)"
| Other_Takes: "r' \<noteq> r \<Longrightarrow> other_call t r gp (gp\<lparr>gp_queues := dict_put (gp_queues gp) r' q\<rparr>)"
| Other_Ends: "r' \<noteq> r \<Longrightarrow> other_call t r gp (cleanup_reference r' gp)"

inductive call_step ::
    "task_event_change list \<Rightarrow> task_id \<Rightarrow> reference \<Rightarrow> phase \<times> nat \<times> graphql_postman
      \<Rightarrow> phase \<times> nat \<times> graphql_postman \<Rightarrow> bool" for T t r where
  Feed_Change:
    "gp_feed_live gp \<or> read t = Some (take m T) \<and> n \<le> m \<and> m \<le> length T \<Longrightarrow> create_of t r (fc_create c) \<Longrightarrow>
     feed_moves T t n (fc_event c) n' \<Longrightarrow> call_step T t r (ph, n, gp) (ph, n', watch_change read c gp)"
| Answered:
    "m \<le> length T \<Longrightarrow> gp_feed_live gp \<longrightarrow> w \<le> m \<Longrightarrow>
     call_step T t r (Assigning fl w, n, gp) (Streaming [], n, assign_answered t r fl (Some (take m T)) gp)"
| Reads_Again:
    "m \<le> length T \<Longrightarrow>
     call_step T t r (Streaming taken, n, gp) (Streaming taken, n, catch_up_safely t (Some (take m T)) gp)"
| Takes:
    "dict_get (gp_queues gp) r = Some q \<Longrightarrow> aq_get q = Some (Change_Event e, q') \<Longrightarrow>
     call_step T t r (Streaming taken, n, gp)
       (Streaming (taken @ [e]), n, gp\<lparr>gp_queues := dict_put (gp_queues gp) r q'\<rparr>)"
| Others: "other_call t r gp gp' \<Longrightarrow> call_step T t r (ph, n, gp) (ph, n, gp')"

inductive_cases call_stepE: "call_step T t r s s'"

lemma other_call_seen:
  assumes "other_call t r gp gp'" and "own_entries t r gp"
  shows "own_entries t r gp'" and "seen_by t r gp' = seen_by t r gp"
proof -
  have "own_entries t r gp' \<and> seen_by t r gp' = seen_by t r gp"
    using assms
  proof (induction rule: other_call.induct)
    case (Other_Takes r' gp q)
    then show ?case by (simp add: own_entries_def call_view)
  qed (blast intro: begin_assign_other assign_answered_other catch_up_safely_other cleanup_reference_other)+
  then show "own_entries t r gp'" "seen_by t r gp' = seen_by t r gp" by blast+
qed

fun life_ok :: "task_event_change list \<Rightarrow> task_id \<Rightarrow> reference \<Rightarrow> phase \<times> nat \<times> graphql_postman \<Rightarrow> bool" where
  "life_ok T t r (Assigning fl w, n, gp) \<longleftrightarrow>
     own_entries t r gp \<and> w \<le> n \<and> n \<le> length T \<and> (fl \<longrightarrow> w = 0) \<and>
     (\<exists>m. seen_by t r gp =
        (m, Some (if m = None then [] else map Change_Event (drop w (take n T))),
         if m = None then drop w (take n T) else [], te_id ` set (drop w (take n T)), gp_feed_live gp) \<and>
        (m = None \<or> m = Some r) \<and> (\<not> gp_feed_live gp \<longrightarrow> n = w \<and> m = None))"
| "life_ok T t r (Streaming taken, n, gp) \<longleftrightarrow>
     own_entries t r gp \<and> n \<le> length T \<and> taken = take (length taken) T \<and>
     (\<exists>k. length taken \<le> k \<and> k \<le> length T \<and> (gp_feed_live gp \<longrightarrow> n \<le> k) \<and>
        seen_by t r gp = (Some r, Some (map Change_Event (drop (length taken) (take k T))), [],
          te_id ` set (take k T), gp_feed_live gp))"

text \<open>A call that has the first \<open>k\<close> events and took \<open>c\<close> of them.\<close>

definition has_events :: "task_event_change list \<Rightarrow> task_id \<Rightarrow> reference \<Rightarrow> nat \<Rightarrow> nat \<Rightarrow> bool \<Rightarrow> graphql_postman \<Rightarrow> bool" where
  "has_events T t r c k live gp \<longleftrightarrow>
     own_entries t r gp \<and> c \<le> k \<and> k \<le> length T \<and>
     seen_by t r gp = (Some r, Some (map Change_Event (drop c (take k T))), [], te_id ` set (take k T), live)"

lemma take_split: "c \<le> k \<Longrightarrow> set (take c T) \<union> set (drop c (take k T)) = set (take k T)"
  by (metis append_take_drop_id min.absorb1 set_append take_take)

lemma has_events_read:
  assumes "distinct (map te_id T)" and "has_events T t r c k live gp" and "m \<le> length T"
  shows "has_events T t r c (max m k) live (catch_up t (take m T) gp)"
proof -
  have "c \<le> k" using assms(2) by (simp add: has_events_def)
  have "own_entries t r (catch_up t (take m T) gp)"
    using assms(2) by (simp only: has_events_def own_entries_def catch_up_maps)
  moreover have "seen_by t r (catch_up t (take m T) gp) =
      (Some r, Some (map Change_Event (drop c (take (max m k) T))), [], te_id ` set (take (max c (max m k)) T), live)"
    by (rule catch_up_self [where w = c, OF assms(1)])
      (use assms(2) \<open>c \<le> k\<close> in \<open>simp_all add: has_events_def take_split\<close>)
  moreover have "max c (max m k) = max m k" using \<open>c \<le> k\<close> by simp
  ultimately show ?thesis using assms(2,3) by (simp add: has_events_def)
qed

lemma has_events_other:
  assumes "has_events T t r c k live gp" and "own_entries t r gp'" and "seen_by t r gp' = seen_by t r gp"
  shows "has_events T t r c k live gp'"
  using assms by (simp add: has_events_def)

lemma has_events_caught_up:
  assumes "distinct (map te_id T)" and "read t = Some (take m T)" and "m \<le> length T"
    and "has_events T t r c k live gp"
  shows "\<exists>k'. has_events T t r c k' live (fold (\<lambda>task. catch_up_safely task (read task)) ts gp) \<and> k \<le> k' \<and>
    (t \<in> set ts \<longrightarrow> m \<le> k')"
  using assms(4)
proof (induction ts arbitrary: gp k)
  case (Cons t' ts)
  show ?case
  proof (cases "t' = t")
    case True
    have "has_events T t r c (max m k) live (catch_up_safely t' (read t') gp)"
      using has_events_read [OF assms(1) Cons.prems assms(3)] assms(2) True by (simp add: catch_up_safely_def)
    from Cons.IH [OF this] show ?thesis by (auto simp: max_def split: if_splits)
  next
    case False
    have "own_entries t r gp" using Cons.prems by (simp add: has_events_def)
    then have "has_events T t r c k live (catch_up_safely t' (read t') gp)"
      using has_events_other [OF Cons.prems] catch_up_safely_other [OF _ False] by blast
    from Cons.IH [OF this] show ?thesis using False by simp
  qed
qed auto

lemma has_events_created:
  assumes "has_events T t r c k live gp" and "t' = t \<longleftrightarrow> r' = r"
  shows "has_events T t r c k live (bind_task t' r' gp)"
proof (cases "t' = t")
  case True
  then show ?thesis
    using assms bind_task_self [of t r gp] by (auto simp: has_events_def)
next
  case False
  then show ?thesis
    using has_events_other [OF assms(1)] bind_task_other [of t r gp t' r'] assms by (auto simp: has_events_def)
qed

lemma event_new:
  assumes "distinct (map te_id T)" and "n < length T"
  shows "te_id (T ! n) \<in> te_id ` set (take k T) \<longleftrightarrow> n < k"
proof
  assume "te_id (T ! n) \<in> te_id ` set (take k T)"
  then obtain j where "j < k" "j < length T" "te_id (T ! j) = te_id (T ! n)"
    by (auto simp: in_set_conv_nth)
  then show "n < k" using nth_eq_iff_index_eq [OF assms(1), of j n] assms(2) by simp
next
  assume "n < k"
  then have "T ! n \<in> set (take k T)" using assms(2) by (auto simp: in_set_conv_nth)
  then show "te_id (T ! n) \<in> te_id ` set (take k T)" by (rule imageI)
qed

lemma has_events_routed:
  assumes "distinct (map te_id T)" and "\<forall>e \<in> set T. te_task e = t" and "has_events T t r c k live gp"
    and "n < length T" and "n \<le> k"
  shows "\<exists>k'. has_events T t r c k' live (route (T ! n) gp) \<and> n + 1 \<le> k'"
proof -
  have own: "te_task (T ! n) = t" using assms(2,4) by simp
  have "own_entries t r (route (T ! n) gp)"
    using assms(3) by (simp only: has_events_def own_entries_def route_maps)
  moreover have "seen_by t r (route (T ! n) gp) =
      (if n < k then seen_by t r gp
       else (Some r, Some (map Change_Event (drop c (take k T)) @ [Change_Event (T ! n)]), [],
         insert (te_id (T ! n)) (te_id ` set (take k T)), live))"
    using route_self [of "T ! n" r gp "Some r"] assms(3) event_new [OF assms(1,4), of k]
    by (simp add: has_events_def own)
  ultimately show ?thesis
  proof (cases "n < k")
    case True
    then show ?thesis using assms(3) \<open>own_entries t r (route (T ! n) gp)\<close>
        \<open>seen_by t r (route (T ! n) gp) = _\<close> by (intro exI [of _ k]) (simp add: has_events_def)
  next
    case False
    then have "n = k" using assms(5) by simp
    then have "take (k + 1) T = take k T @ [T ! n]" using assms(4) by (simp add: take_Suc_conv_app_nth)
    then show ?thesis using assms(3,4) \<open>n = k\<close> \<open>own_entries t r (route (T ! n) gp)\<close>
        \<open>seen_by t r (route (T ! n) gp) = _\<close>
      by (intro exI [of _ "k + 1"]) (simp add: has_events_def)
  qed
qed

lemma seen_live: "seen_by t r gp = (m, items, orphans, ids, live) \<Longrightarrow> gp_feed_live gp = live"
  by (simp add: seen_by_def)

lemma streaming_ok:
  "life_ok T t r (Streaming taken, n, gp) \<longleftrightarrow>
     n \<le> length T \<and> taken = take (length taken) T \<and>
     (\<exists>k. has_events T t r (length taken) k (gp_feed_live gp) gp \<and> (gp_feed_live gp \<longrightarrow> n \<le> k))"
  by (auto simp: has_events_def)

lemma watch_change_split:
  "watch_change read c gp =
     (let gp1 = (if gp_feed_live gp then gp
                 else fold (\<lambda>task. catch_up_safely task (read task)) (dict_keys (gp_task_to_reference gp))
                        (gp\<lparr>gp_feed_live := True\<rparr>));
          gp2 = (case fc_create c of
                   Some tc \<Rightarrow> if truthy (tc_reference tc) then bind_task (tc_id tc) (the (tc_reference tc)) gp1 else gp1
                 | None \<Rightarrow> gp1)
      in case fc_event c of Some e \<Rightarrow> route e gp2 | None \<Rightarrow> gp2)"
  by (simp add: watch_change_def)

lemma streaming_change:
  assumes "distinct (map te_id T)" and "\<forall>e \<in> set T. te_task e = t"
    and "has_events T t r c k (gp_feed_live gp) gp" and "gp_feed_live gp \<longrightarrow> n \<le> k"
    and "gp_feed_live gp \<or> read t = Some (take m T) \<and> n \<le> m \<and> m \<le> length T"
    and "create_of t r (fc_create ch)" and "feed_moves T t n (fc_event ch) n'"
  shows "\<exists>k'. has_events T t r c k' True (watch_change read ch gp) \<and> n' \<le> k'"
proof -
  define gp1 where "gp1 = (if gp_feed_live gp then gp
      else fold (\<lambda>task. catch_up_safely task (read task)) (dict_keys (gp_task_to_reference gp)) (gp\<lparr>gp_feed_live := True\<rparr>))"
  define gp2 where "gp2 = (case fc_create ch of
      Some tc \<Rightarrow> if truthy (tc_reference tc) then bind_task (tc_id tc) (the (tc_reference tc)) gp1 else gp1
    | None \<Rightarrow> gp1)"
  have "\<exists>k1. has_events T t r c k1 True gp1 \<and> n \<le> k1"
  proof (cases "gp_feed_live gp")
    case True
    then show ?thesis using assms(3,4) by (auto simp: gp1_def)
  next
    case False
    then have read: "read t = Some (take m T)" "n \<le> m" "m \<le> length T" using assms(5) by blast+
    have "has_events T t r c k True (gp\<lparr>gp_feed_live := True\<rparr>)"
      using assms(3) cleanup_own_entries [of t r gp True] by (simp add: has_events_def)
    moreover have "t \<in> set (dict_keys (gp_task_to_reference gp))"
    proof (rule dict_get_in_keys)
      show "dict_get (gp_task_to_reference gp) t = Some r" using assms(3) by (simp add: has_events_def seen_by_def)
    qed
    ultimately obtain k1 where "has_events T t r c k1 True gp1" "m \<le> k1"
      using has_events_caught_up [where read = read and t = t and m = m, OF assms(1) read(1,3)] False unfolding gp1_def by fastforce
    then show ?thesis using read(2) by (intro exI [of _ k1]) simp
  qed
  then obtain k1 where k1: "has_events T t r c k1 True gp1" "n \<le> k1" by blast
  have "has_events T t r c k1 True gp2"
  proof (cases "fc_create ch")
    case (Some tc)
    show ?thesis
    proof (cases "truthy (tc_reference tc)")
      case True
      then obtain x where x: "tc_reference tc = Some x" by (cases "tc_reference tc") auto
      then have "tc_id tc = t \<longleftrightarrow> the (tc_reference tc) = r"
        using assms(6) Some by (simp add: create_of_def)
      from has_events_created [OF k1(1) this] show ?thesis using Some True by (simp add: gp2_def)
    qed (use k1 Some in \<open>simp add: gp2_def\<close>)
  qed (use k1 in \<open>simp add: gp2_def\<close>)
  moreover have "watch_change read ch gp = (case fc_event ch of Some e \<Rightarrow> route e gp2 | None \<Rightarrow> gp2)"
    unfolding watch_change_split gp2_def gp1_def by (simp only: Let_def)
  moreover have "own_entries t r gp2" using \<open>has_events T t r c k1 True gp2\<close> by (simp add: has_events_def)
  ultimately show ?thesis
  proof (cases "fc_event ch")
    case (Some e)
    show ?thesis
    proof (cases "te_task e = t")
      case True
      then have "n < length T" "e = T ! n" "n' = n + 1" using assms(7) Some by (simp_all add: feed_moves_def)
      then show ?thesis
        using has_events_routed [OF assms(1,2) \<open>has_events T t r c k1 True gp2\<close> _ k1(2)] Some
          \<open>watch_change read ch gp = _\<close> by simp
    next
      case False
      then have "n' = n" using assms(7) Some by (simp add: feed_moves_def)
      moreover have "has_events T t r c k1 True (route e gp2)"
        by (rule has_events_other [OF \<open>has_events T t r c k1 True gp2\<close>])
          (rule route_other [OF \<open>own_entries t r gp2\<close> False])+
      ultimately show ?thesis using k1(2) Some \<open>watch_change read ch gp = _\<close> by auto
    qed
  next
    case None
    then show ?thesis
      using assms(7) k1(2) \<open>has_events T t r c k1 True gp2\<close> \<open>watch_change read ch gp = _\<close>
      by (auto simp: feed_moves_def)
  qed
qed

text \<open>A call whose mutation is under way: the feed may have told of its task, and of \<open>T\<close> from \<open>w\<close> on.\<close>

definition unanswered :: "task_event_change list \<Rightarrow> task_id \<Rightarrow> reference \<Rightarrow> nat \<Rightarrow> nat \<Rightarrow> reference option \<Rightarrow> bool
    \<Rightarrow> graphql_postman \<Rightarrow> bool" where
  "unanswered T t r w n m live gp \<longleftrightarrow>
     own_entries t r gp \<and> w \<le> n \<and> n \<le> length T \<and> (m = None \<or> m = Some r) \<and>
     seen_by t r gp =
        (m, Some (if m = None then [] else map Change_Event (drop w (take n T))),
         if m = None then drop w (take n T) else [], te_id ` set (drop w (take n T)), live)"

lemma assigning_ok:
  "life_ok T t r (Assigning fl w, n, gp) \<longleftrightarrow>
     (fl \<longrightarrow> w = 0) \<and> (\<exists>m. unanswered T t r w n m (gp_feed_live gp) gp \<and> (\<not> gp_feed_live gp \<longrightarrow> n = w \<and> m = None))"
  by (auto simp: unanswered_def)

lemma unanswered_caught_up:
  assumes "unanswered T t r w n m live gp" and "t \<notin> set ts"
  shows "unanswered T t r w n m live (fold (\<lambda>task. catch_up_safely task (read task)) ts gp)"
  using assms
proof (induction ts arbitrary: gp)
  case (Cons t' ts)
  then have "own_entries t r gp" "t' \<noteq> t" by (auto simp: unanswered_def)
  then have "unanswered T t r w n m live (catch_up_safely t' (read t') gp)"
    using Cons.prems(1) catch_up_safely_other [of t r gp t' "read t'"] by (simp add: unanswered_def)
  then show ?case using Cons by simp
qed simp

lemma unanswered_created:
  assumes "unanswered T t r w n m live gp" and "t' = t \<longleftrightarrow> r' = r"
  shows "\<exists>m'. unanswered T t r w n m' live (bind_task t' r' gp) \<and> (t' = t \<longrightarrow> m' = Some r)"
proof (cases "t' = t")
  case True
  then have "unanswered T t r w n (Some r) live (bind_task t' r' gp)"
    using assms bind_task_self [of t r gp m] by (cases "m = None") (auto simp: unanswered_def)
  then show ?thesis using True by blast
next
  case False
  then have "unanswered T t r w n m live (bind_task t' r' gp)"
    using bind_task_other [of t r gp t' r'] assms by (simp add: unanswered_def)
  then show ?thesis using False by blast
qed

lemma unanswered_routed:
  assumes "distinct (map te_id T)" and "\<forall>e \<in> set T. te_task e = t" and "unanswered T t r w n m live gp"
    and "n < length T"
  shows "unanswered T t r w (n + 1) m live (route (T ! n) gp)"
proof -
  have own: "te_task (T ! n) = t" using assms(2,4) by simp
  have "te_id (T ! n) \<notin> te_id ` set (take n T)" using event_new [OF assms(1,4), of n] by simp
  then have new: "te_id (T ! n) \<notin> te_id ` set (drop w (take n T))"
    using set_drop_subset [of w "take n T"] by blast
  have more: "drop w (take (n + 1) T) = drop w (take n T) @ [T ! n]"
    using assms(3,4) by (simp add: take_Suc_conv_app_nth unanswered_def)
  have "own_entries t r (route (T ! n) gp)"
    using assms(3) by (simp only: unanswered_def own_entries_def route_maps)
  moreover have "m = None \<or> m = Some r" using assms(3) by (simp add: unanswered_def)
  moreover have seen: "seen_by (te_task (T ! n)) r gp =
      (m, Some (if m = None then [] else map Change_Event (drop w (take n T))),
       if m = None then drop w (take n T) else [], te_id ` set (drop w (take n T)), live)"
    using assms(3) by (simp add: unanswered_def own)
  ultimately show ?thesis
    using route_self [OF seen] new assms(3,4) unfolding unanswered_def more own by auto
qed

lemma unanswered_change:
  assumes "distinct (map te_id T)" and "\<forall>e \<in> set T. te_task e = t"
    and "unanswered T t r w n m (gp_feed_live gp) gp" and "\<not> gp_feed_live gp \<longrightarrow> m = None"
    and "create_of t r (fc_create ch)" and "feed_moves T t n (fc_event ch) n'"
  shows "\<exists>m'. unanswered T t r w n' m' True (watch_change read ch gp)"
proof -
  define gp1 where "gp1 = (if gp_feed_live gp then gp
      else fold (\<lambda>task. catch_up_safely task (read task)) (dict_keys (gp_task_to_reference gp)) (gp\<lparr>gp_feed_live := True\<rparr>))"
  define gp2 where "gp2 = (case fc_create ch of
      Some tc \<Rightarrow> if truthy (tc_reference tc) then bind_task (tc_id tc) (the (tc_reference tc)) gp1 else gp1
    | None \<Rightarrow> gp1)"
  have gp1: "unanswered T t r w n m True gp1"
  proof (cases "gp_feed_live gp")
    case True
    then show ?thesis using assms(3) by (simp add: gp1_def)
  next
    case False
    then have "m = None" using assms(4) by blast
    then have "t \<notin> set (dict_keys (gp_task_to_reference gp))"
      using assms(3) by (simp add: unanswered_def seen_by_def dict_get_None_iff)
    moreover have "unanswered T t r w n m True (gp\<lparr>gp_feed_live := True\<rparr>)"
      using assms(3) cleanup_own_entries [of t r gp True] by (simp add: unanswered_def)
    ultimately show ?thesis using unanswered_caught_up False by (simp add: gp1_def)
  qed
  have "\<exists>m'. unanswered T t r w n m' True gp2"
  proof (cases "fc_create ch")
    case (Some tc)
    show ?thesis
    proof (cases "truthy (tc_reference tc)")
      case True
      then obtain x where x: "tc_reference tc = Some x" by (cases "tc_reference tc") auto
      then have "tc_id tc = t \<longleftrightarrow> the (tc_reference tc) = r"
        using assms(5) Some by (simp add: create_of_def)
      from unanswered_created [OF gp1 this] have "\<exists>m'. unanswered T t r w n m' True
          (bind_task (tc_id tc) (the (tc_reference tc)) gp1)" by blast
      then show ?thesis using Some True by (simp add: gp2_def)
    qed (use gp1 Some in \<open>auto simp: gp2_def\<close>)
  qed (use gp1 in \<open>auto simp: gp2_def\<close>)
  then obtain m' where gp2: "unanswered T t r w n m' True gp2" by blast
  have result: "watch_change read ch gp = (case fc_event ch of Some e \<Rightarrow> route e gp2 | None \<Rightarrow> gp2)"
    unfolding watch_change_split gp2_def gp1_def by (simp only: Let_def)
  show ?thesis
  proof (cases "fc_event ch")
    case (Some e)
    show ?thesis
    proof (cases "te_task e = t")
      case True
      then have "n < length T" "e = T ! n" "n' = n + 1" using assms(6) Some by (simp_all add: feed_moves_def)
      then show ?thesis using unanswered_routed [OF assms(1,2) gp2] Some result by auto
    next
      case False
      then have "n' = n" using assms(6) Some by (simp add: feed_moves_def)
      moreover have "own_entries t r gp2" using gp2 by (simp add: unanswered_def)
      then have "unanswered T t r w n m' True (route e gp2)"
        using gp2 route_other(2) [OF _ False, of r gp2] route_other(1) [OF _ False, of r gp2]
        unfolding unanswered_def by (simp only: simp_thms)
      ultimately show ?thesis using Some result by auto
    qed
  next
    case None
    then show ?thesis using assms(6) gp2 result by (auto simp: feed_moves_def)
  qed
qed

lemma answered_ok:
  assumes "distinct (map te_id T)" and "unanswered T t r w n m (gp_feed_live gp) gp" and "fl \<longrightarrow> w = 0"
    and "\<not> gp_feed_live gp \<longrightarrow> n = w \<and> m = None"
    and "h \<le> length T" and "gp_feed_live gp \<longrightarrow> w \<le> h"
  shows "\<exists>k. has_events T t r 0 k (gp_feed_live gp) (assign_answered t r fl (Some (take h T)) gp) \<and>
    (gp_feed_live gp \<longrightarrow> n \<le> k)"
proof -
  let ?live = "gp_feed_live gp" and ?b = "bind_task t r gp"
  have w: "w \<le> n" "n \<le> length T" using assms(2) by (simp_all add: unanswered_def)
  have b: "own_entries t r ?b"
    "seen_by t r ?b = (Some r, Some (map Change_Event (drop w (take n T))), [], te_id ` set (drop w (take n T)), ?live)"
    using bind_task_self [of t r gp m] assms(2) by (cases "m = None"; auto simp: unanswered_def)+
  show ?thesis
  proof (cases fl)
    case True
    then have "has_events T t r 0 n ?live ?b" using b w assms(3) by (simp add: has_events_def)
    then show ?thesis using True by (auto simp: assign_answered_def Let_def)
  next
    case False
    define w0 where "w0 = (if ?live then w else 0)"
    define n0 where "n0 = (if ?live then n else 0)"
    have same: "drop w (take n T) = drop w0 (take n0 T)" using assms(4) by (simp add: w0_def n0_def)
    have "seen_by t r (catch_up t (take h T) ?b) =
        (Some r, Some (map Change_Event (drop 0 (take (max h n0) T))), [], te_id ` set (take (max 0 (max h n0)) T), ?live)"
      by (rule catch_up_self [where w = w0, OF assms(1)])
        (use assms(6) w b same in \<open>auto simp: w0_def n0_def\<close>)
    moreover have "own_entries t r (catch_up t (take h T) ?b)"
      using b(1) by (simp only: own_entries_def catch_up_maps)
    moreover have "max h n0 \<le> length T" using assms(5) w by (simp add: n0_def)
    ultimately have "has_events T t r 0 (max h n0) ?live (catch_up t (take h T) ?b)"
      by (simp add: has_events_def)
    then have "has_events T t r 0 (max h n0) ?live (assign_answered t r fl (Some (take h T)) gp)"
      using False by (simp add: assign_answered_def catch_up_safely_def Let_def has_events_def catching_up_other)
    then show ?thesis by (intro exI [of _ "max h n0"]) (simp add: n0_def)
  qed
qed

lemma taken_ok:
  assumes "has_events T t r c k live gp" and "dict_get (gp_queues gp) r = Some q"
    and "aq_get q = Some (Change_Event e, q')"
  shows "has_events T t r (c + 1) k live (gp\<lparr>gp_queues := dict_put (gp_queues gp) r q'\<rparr>)"
    and "take (c + 1) T = take c T @ [e]"
proof -
  have items: "aq_items q = map Change_Event (drop c (take k T))"
    using assms(1,2) by (simp add: has_events_def seen_by_def waiting_items_def)
  have q: "aq_items q = Change_Event e # aq_items q'" by (rule aq.deq_Some [OF assms(3)])
  then have rest: "drop c (take k T) \<noteq> []" using items by auto
  then have "c < k" "c < length T" by simp_all
  then have "drop c (take k T) = T ! c # drop (c + 1) (take k T)"
    by (metis Cons_nth_drop_Suc Suc_eq_plus1 length_take min_less_iff_conj nth_take)
  then have e: "e = T ! c" and rest': "aq_items q' = map Change_Event (drop (c + 1) (take k T))"
    using items q by simp_all
  show "take (c + 1) T = take c T @ [e]" using \<open>c < length T\<close> by (simp add: e take_Suc_conv_app_nth)
  show "has_events T t r (c + 1) k live (gp\<lparr>gp_queues := dict_put (gp_queues gp) r q'\<rparr>)"
    using assms(1) \<open>c < k\<close> rest' by (simp add: has_events_def own_entries_def call_view)
qed

lemma call_step_ok:
  assumes "call_step T t r s s'" and "distinct (map te_id T)" and "\<forall>e \<in> set T. te_task e = t" and "life_ok T t r s"
  shows "life_ok T t r s'"
  using assms(1)
proof (cases rule: call_step.cases)
  case (Feed_Change gp read m n ch n' ph)
  have n': "n \<le> length T \<Longrightarrow> n' \<le> length T"
    using Feed_Change(5) by (auto simp: feed_moves_def split: option.splits if_splits)
  show ?thesis
  proof (cases ph)
    case (Assigning fl w)
    then obtain m' where "unanswered T t r w n m' (gp_feed_live gp) gp" "\<not> gp_feed_live gp \<longrightarrow> m' = None" "fl \<longrightarrow> w = 0"
      using assms(4) unfolding Feed_Change(1) Assigning assigning_ok by blast
    then obtain m'' where "unanswered T t r w n' m'' True (watch_change read ch gp)"
      using unanswered_change [OF assms(2,3) _ _ Feed_Change(4,5)] by blast
    moreover then have "gp_feed_live (watch_change read ch gp)" by (simp add: unanswered_def seen_by_def)
    ultimately show ?thesis
      using \<open>fl \<longrightarrow> w = 0\<close> unfolding Feed_Change(2) Assigning assigning_ok by auto
  next
    case (Streaming taken)
    then obtain k where "n \<le> length T" "taken = take (length taken) T"
        "has_events T t r (length taken) k (gp_feed_live gp) gp" "gp_feed_live gp \<longrightarrow> n \<le> k"
      using assms(4) unfolding Feed_Change(1) Streaming streaming_ok by blast
    moreover from this(3,4) obtain k' where "has_events T t r (length taken) k' True (watch_change read ch gp)" "n' \<le> k'"
      using streaming_change [where read = read and t = t and n = n and m = m and gp = gp, OF assms(2,3) _ _ Feed_Change(3-5)] by blast
    moreover then have "gp_feed_live (watch_change read ch gp)" by (simp add: has_events_def seen_by_def)
    ultimately show ?thesis
      using n' unfolding Feed_Change(2) Streaming streaming_ok by auto
  qed
next
  case (Answered h gp w fl n)
  then obtain m where "unanswered T t r w n m (gp_feed_live gp) gp" "\<not> gp_feed_live gp \<longrightarrow> n = w \<and> m = None" "fl \<longrightarrow> w = 0"
    using assms(4) unfolding Answered(1) assigning_ok by blast
  moreover from this obtain k where
      k: "has_events T t r 0 k (gp_feed_live gp) (assign_answered t r fl (Some (take h T)) gp)"
        "gp_feed_live gp \<longrightarrow> n \<le> k"
    using answered_ok [OF assms(2) _ _ _ Answered(3,4)] by blast
  moreover from k(1) have "gp_feed_live (assign_answered t r fl (Some (take h T)) gp) = gp_feed_live gp"
    by (simp add: has_events_def seen_by_def)
  ultimately show ?thesis
    unfolding Answered(2) streaming_ok by (auto simp: unanswered_def)
next
  case (Reads_Again h taken n gp)
  then obtain k where "n \<le> length T" "taken = take (length taken) T"
      "has_events T t r (length taken) k (gp_feed_live gp) gp" "gp_feed_live gp \<longrightarrow> n \<le> k"
    using assms(4) unfolding Reads_Again(1) streaming_ok by blast
  moreover from has_events_read [OF assms(2) this(3) Reads_Again(3)]
  have "has_events T t r (length taken) (max h k) (gp_feed_live gp) (catch_up_safely t (Some (take h T)) gp)"
    by (simp add: catch_up_safely_def)
  moreover then have "gp_feed_live (catch_up_safely t (Some (take h T)) gp) = gp_feed_live gp"
    by (simp add: has_events_def seen_by_def)
  ultimately show ?thesis
    unfolding Reads_Again(2) streaming_ok by (intro conjI exI [of _ "max h k"]) auto
next
  case (Takes gp q e q' taken n)
  then obtain k where k: "n \<le> length T" "taken = take (length taken) T"
      "has_events T t r (length taken) k (gp_feed_live gp) gp" "gp_feed_live gp \<longrightarrow> n \<le> k"
    using assms(4) unfolding Takes(1) streaming_ok by blast
  then show ?thesis
    using taken_ok [OF k(3) Takes(3,4)] unfolding Takes(2) streaming_ok by auto
next
  case (Others gp gp' ph n)
  have own: "own_entries t r gp" using assms(4) unfolding Others(1) by (cases ph) simp_all
  note seen = other_call_seen [OF Others(3) own]
  then have "gp_feed_live gp' = gp_feed_live gp" by (simp add: seen_by_def)
  then show ?thesis
    using assms(4) seen unfolding Others(1,2) by (cases ph) simp_all
qed

lemma begin_assign_ok:
  assumes "own_entries t r gp" and "dict_get (gp_task_to_reference gp) t = None"
    and "dict_get (gp_orphans gp) t = None" and "dict_get (gp_routed gp) t = None"
    and "gp_feed_live gp \<longrightarrow> w = 0" and "w \<le> length T"
  shows "life_ok T t r (Assigning (snd (begin_assign r gp)) w, w, fst (begin_assign r gp))"
proof -
  have maps: "dict_get (gp_task_to_reference (fst (begin_assign r gp))) = dict_get (gp_task_to_reference gp)"
    "dict_get (gp_reference_to_task (fst (begin_assign r gp))) = dict_get (gp_reference_to_task gp)"
    by (simp_all add: begin_assign_def start_watching_def Let_def)
  have "unanswered T t r w w None (gp_feed_live gp) (fst (begin_assign r gp))"
    using assms(1-4,6) maps
    by (simp add: unanswered_def own_entries_def)
      (simp add: call_view begin_assign_def start_watching_def Let_def aq_new_def)
  moreover have "gp_feed_live (fst (begin_assign r gp)) = gp_feed_live gp"
    "snd (begin_assign r gp) = gp_feed_live gp"
    by (simp_all add: begin_assign_def start_watching_def Let_def)
  ultimately show ?thesis using assms(5) unfolding assigning_ok by auto
qed

lemma reachable_ok:
  assumes "(call_step T t r)\<^sup>*\<^sup>* s s'" and "distinct (map te_id T)" and "\<forall>e \<in> set T. te_task e = t" and "life_ok T t r s"
  shows "life_ok T t r s'"
  using assms(1,4)
proof (induction rule: rtranclp_induct)
  case (step s1 s2)
  then show ?case using call_step_ok [OF step(2) assms(2,3)] by blast
qed

text \<open>
  C3. A call over GraphQL sees its task's events in order, each once and none left out. Let a
  call begin while nothing is known of its task, let the change feed start at any position of
  the task's history, before or after the mutation answers, race it with the reads of the
  history and with everything the process's other calls do. At every moment what the call
  took, followed by what waits on its queue, is a prefix of the task's history; and once the
  feed is live that prefix holds everything the feed has delivered.
\<close>

theorem graphql_call_in_order:
  assumes "distinct (map te_id T)" and "\<forall>e \<in> set T. te_task e = t"
    and "own_entries t r gp" and "dict_get (gp_task_to_reference gp) t = None"
    and "dict_get (gp_orphans gp) t = None" and "dict_get (gp_routed gp) t = None"
    and "gp_feed_live gp \<longrightarrow> w = 0" and "w \<le> length T"
    and "(call_step T t r)\<^sup>*\<^sup>* (Assigning (snd (begin_assign r gp)) w, w, fst (begin_assign r gp)) (Streaming taken, n, gp')"
  shows "\<exists>k waiting. waiting_items r gp' = Some (map Change_Event waiting) \<and> taken @ waiting = take k T \<and>
    (gp_feed_live gp' \<longrightarrow> n \<le> k)"
proof -
  have "life_ok T t r (Streaming taken, n, gp')"
    by (rule reachable_ok [OF assms(9,1,2) begin_assign_ok [OF assms(3-8)]])
  then obtain k where k: "taken = take (length taken) T" "length taken \<le> k" "gp_feed_live gp' \<longrightarrow> n \<le> k"
      "waiting_items r gp' = Some (map Change_Event (drop (length taken) (take k T)))"
    by (auto simp: seen_by_def)
  moreover have "taken @ drop (length taken) (take k T) = take k T"
    using k(1,2) by (metis append_take_drop_id min.absorb1 take_take)
  ultimately show ?thesis by blast
qed

text \<open>The feed is subscribed after the first event of the task; the read at the answer came too early.\<close>

definition demo_change :: "string \<Rightarrow> task_event_change" where
  "demo_change i = \<lparr>te_id = i, te_task = ''t'', te_kind = TASK_KIND i, te_returns = None, te_message = None,
     te_progress = None, te_value = None, te_created_at = ''''\<rparr>"

definition demo_history :: "task_event_change list" where
  "demo_history = [demo_change ''1'', demo_change ''2'']"

definition demo_feed_change :: feed_change where
  "demo_feed_change = \<lparr>fc_create = None, fc_event = Some (demo_change ''2'')\<rparr>"

definition demo_fresh :: graphql_postman where
  "demo_fresh = new_graphql_postman 5 (1 / 2)"

definition demo_answered :: graphql_postman where
  "demo_answered = assign_answered ''t'' ''r'' False (Some []) (fst (begin_assign ''r'' demo_fresh))"

definition demo_live :: graphql_postman where
  "demo_live = watch_change (\<lambda>_. Some demo_history) demo_feed_change demo_answered"

theorem graphql_call_in_order_witness:
  "\<exists>k waiting. waiting_items ''r'' demo_live = Some (map Change_Event waiting) \<and> [] @ waiting = take k demo_history \<and>
    (gp_feed_live demo_live \<longrightarrow> 2 \<le> k)"
proof (rule graphql_call_in_order [where w = 1 and t = "''t''" and gp = demo_fresh])
  let ?step = "call_step demo_history ''t'' ''r''"
  let ?s0 = "(Assigning (snd (begin_assign ''r'' demo_fresh)) 1, 1, fst (begin_assign ''r'' demo_fresh))"
  have flag: "snd (begin_assign ''r'' demo_fresh) = False" by code_simp
  have off: "gp_feed_live (fst (begin_assign ''r'' demo_fresh)) = False" "gp_feed_live demo_answered = False"
    by code_simp+
  have "?step (Assigning False 1, 1, fst (begin_assign ''r'' demo_fresh)) (Streaming [], 1, demo_answered)"
    unfolding demo_answered_def
    using call_step.Answered [of 0 demo_history "fst (begin_assign ''r'' demo_fresh)" 1 "''t''" "''r''" False 1] off
    by simp
  moreover have "?step (Streaming [], 1, demo_answered) (Streaming [], 2, demo_live)"
    unfolding demo_live_def
    by (rule call_step.Feed_Change [where m = 2])
      (simp_all add: off create_of_def feed_moves_def demo_feed_change_def demo_history_def demo_change_def)
  ultimately show "?step\<^sup>*\<^sup>* ?s0 (Streaming [], 2, demo_live)"
    unfolding flag by (meson converse_rtranclp_into_rtranclp r_into_rtranclp)
  show "own_entries ''t'' ''r'' demo_fresh"
    by (simp add: demo_fresh_def new_graphql_postman_def own_entries_def own_maps_def)
qed (simp_all add: demo_history_def demo_change_def demo_fresh_def new_graphql_postman_def)

end
