(* ===== verification/GraphQL_Endings.thy ===== *)
theory GraphQL_Endings
  imports GraphQL_Calls
begin

text \<open>
  How a call over GraphQL ends (\<open>rekuest/client/postman.py\<close>): cancelled, with the feed lost,
  or done; and how often it reads its task's history until the feed is live.
\<close>

section \<open>Cancelling\<close>

lemma confirm_task_cancellation_phases:
  "confirm_task_cancellation task arrivals escalate timeout sending now =
     (case confirm_phases (kind_is [CANCELLED_KIND]) (kind_is [INTERRUPTED_KIND, CANCELLED_KIND]) is_lost
         arrivals escalate timeout (min sending timeout) now of
        (interrupted, finished) \<Rightarrow>
          (Cancel_Mutation task # (if interrupted then [Interrupt_Mutation task] else []), finished))"
  by (auto simp: confirm_task_cancellation_def confirm_phases_def await_kind_def Let_def
      split: prod.splits bool.splits)



section \<open>Backing off\<close>

text \<open>The delays of the catch-up loop, from the \<open>i\<close>-th on.\<close>

lemma catch_up_delays:
  assumes "0 \<le> interval" and "delay \<le> interval * 10"
  shows "i < length (catch_up_until_live interval delay live) \<Longrightarrow>
    catch_up_until_live interval delay live ! i = min (delay * 2 ^ i) (interval * 10)"
  using assms
proof (induction interval delay live arbitrary: i rule: catch_up_until_live.induct)
  case (2 interval delay bf af live)
  show ?case
  proof (cases i)
    case 0
    then show ?thesis using 2(2-4) by (auto simp: min_def split: if_splits)
  next
    case (Suc j)
    then have go: "\<not> bf" "\<not> af" "j < length (catch_up_until_live interval (min (delay * 2) (interval * 10)) live)"
      using 2(2) by (auto split: if_splits)
    have "catch_up_until_live interval (min (delay * 2) (interval * 10)) live ! j =
        min (min (delay * 2) (interval * 10) * 2 ^ j) (interval * 10)"
      by (rule 2(1)) (use go 2(3) in simp_all)
    also have "\<dots> = min (delay * 2 * 2 ^ j) (interval * 10)"
    proof (cases "delay * 2 \<le> interval * 10")
      case False
      have big: "interval * 10 \<le> x * 2 ^ j" if "interval * 10 \<le> x" for x :: rat
      proof -
        have "0 \<le> x" using that 2(3) by (meson mult_nonneg_nonneg order_trans zero_le_numeral)
        then have "x * 1 \<le> x * 2 ^ j" by (intro mult_left_mono) simp_all
        then show ?thesis using that by simp
      qed
      show ?thesis using False big [of "interval * 10"] big [of "delay * 2"] by (simp add: min_def)
    qed (simp add: min_def)
    finally show ?thesis using Suc go by (simp add: mult.assoc)
  qed
qed simp

text \<open>
  The reads back off: while the feed is not live a call waits
  \<open>interval\<close>, then twice as long each time, but never longer than ten intervals between two
  reads of its task's history.
\<close>

theorem catch_up_backs_off:
  assumes "0 \<le> interval" and "i < length (catch_up_until_live interval interval live)"
  shows "catch_up_until_live interval interval live ! i = min (interval * 2 ^ i) (interval * 10) \<and>
    interval \<le> catch_up_until_live interval interval live ! i"
proof -
  have "interval * 1 \<le> interval * 2 ^ i" using assms(1) by (intro mult_left_mono) simp_all
  then show ?thesis
    using catch_up_delays [OF assms(1) _ assms(2)] assms(1) by simp
qed

theorem catch_up_backs_off_witness:
  "catch_up_until_live (1 / 2) (1 / 2) (replicate 6 (False, False)) ! 5 = min (1 / 2 * 2 ^ 5) (1 / 2 * 10) \<and>
   1 / 2 \<le> catch_up_until_live (1 / 2) (1 / 2) (replicate 6 (False, False)) ! 5"
  by (rule catch_up_backs_off) (simp_all add: eval_nat_numeral)

section \<open>The feed is lost\<close>

lemma call_events_append:
  "call_events task (map Change_Event es @ Feed_Lost reason # items) =
    (es, Some (Postman_Exception (''Lost the task event feed while waiting for task '' @ task @ '': '' @ reason)))"
  by (induction es) simp_all

text \<open>
  C27. No call outlives the feed. When the change feed is lost, every call that waits on its
  queue yields the events it already had, in order, and then fails with the reason; and the
  next call starts a new feed.
\<close>

theorem feed_loss_wakes_every_call:
  assumes "waiting_items r gp = Some (map Change_Event es)"
  shows "waiting_items r (fail_pending reason gp) = Some (map Change_Event es @ [Feed_Lost reason]) \<and>
    call_events task (the (waiting_items r (fail_pending reason gp))) =
      (es, Some (Postman_Exception (''Lost the task event feed while waiting for task '' @ task @ '': '' @ reason))) \<and>
    \<not> gp_watching (fail_pending reason gp) \<and>
    gp_watching (fst (begin_assign r' (fail_pending reason gp))) \<and>
    \<not> snd (begin_assign r' (fail_pending reason gp))"
proof -
  have mapped: "dict_get (map (\<lambda>(r, q). (r, f q)) d) r = map_option f (dict_get d r)"
    for f :: "feed_item async_queue \<Rightarrow> feed_item async_queue" and d
    by (induction d) auto
  have items: "waiting_items r (fail_pending reason gp) = Some (map Change_Event es @ [Feed_Lost reason])"
    using assms(1) by (auto simp: waiting_items_def fail_pending_def mapped aq_put_def)
  then show ?thesis
    using call_events_append [of task es reason "[]"]
    by (simp add: fail_pending_def begin_assign_def start_watching_def Let_def)
qed

theorem feed_loss_wakes_every_call_witness:
  "waiting_items ''r'' (fail_pending ''gone'' demo_live) = Some (map Change_Event demo_history @ [Feed_Lost ''gone''])"
proof -
  have "waiting_items ''r'' demo_live = Some (map Change_Event demo_history)" by code_simp
  then show ?thesis using feed_loss_wakes_every_call by blast
qed

section \<open>A call is over\<close>

text \<open>
  A finished call leaves nothing behind: no queue, no binding in either direction, no
  parked event, no id of a routed event and no catch-up loop, however it ended.
\<close>

theorem graphql_cleanup_complete:
  assumes "own_entries t r gp" and "dict_get (gp_reference_to_task gp) r = Some t"
  shows "let gp' = cleanup_reference r gp
     in dict_get (gp_queues gp') r = None \<and> dict_get (gp_reference_to_task gp') r = None \<and>
        dict_get (gp_task_to_reference gp') t = None \<and> dict_get (gp_orphans gp') t = None \<and>
        dict_get (gp_routed gp') t = None \<and> r \<notin> set (gp_catching_up gp') \<and> own_entries t r gp'"
proof -
  have "own_entries t r (cleanup_reference r gp)"
    using own_maps_unbind [OF assms(1) [unfolded own_entries_def]] assms(2)
    by (simp add: cleanup_reference_def own_entries_def fun_upd_def)
  then show ?thesis using assms(2) by (simp add: cleanup_reference_def Let_def)
qed

theorem graphql_cleanup_complete_witness:
  "dict_get (gp_queues (cleanup_reference ''r'' demo_live)) ''r'' = None \<and>
   dict_get (gp_routed (cleanup_reference ''r'' demo_live)) ''t'' = None"
proof -
  have "gp_task_to_reference demo_live = [(''t'', ''r'')]" "gp_reference_to_task demo_live = [(''r'', ''t'')]"
    by code_simp+
  then have "own_entries ''t'' ''r'' demo_live" "dict_get (gp_reference_to_task demo_live) ''r'' = Some ''t''"
    by (simp_all add: own_entries_def own_maps_def)
  then show ?thesis using graphql_cleanup_complete [of "''t''" "''r''" demo_live] by (simp add: Let_def)
qed

text \<open>
  C31. But an event that arrives after the call is over is kept for ever. The feed routes it
  though no call waits for its task: its id is remembered and it is parked, and nothing any
  other call of the process does, to its end, ever removes it again.
\<close>

theorem late_event_is_kept:
  assumes "own_entries t r gp" and "dict_get (gp_reference_to_task gp) r = Some t" and "te_task e = t"
    and "(other_call t r)\<^sup>*\<^sup>* (route e (cleanup_reference r gp)) gp'"
  shows "dict_getdefault (gp_orphans gp') t [] = [e] \<and> te_id e \<in> set (dict_getdefault (gp_routed gp') t [])"
proof -
  let ?c = "cleanup_reference r gp"
  have own: "own_entries t r ?c"
    using own_maps_unbind [OF assms(1) [unfolded own_entries_def]] assms(2)
    by (simp add: cleanup_reference_def own_entries_def fun_upd_def)
  have gone: "dict_get (gp_task_to_reference ?c) t = None" "dict_get (gp_orphans ?c) t = None"
    "dict_get (gp_routed ?c) t = None"
    using assms(2) by (simp_all add: cleanup_reference_def)
  have "own_entries t r (route e ?c)" using own by (simp only: own_entries_def route_maps)
  moreover have "seen_by t r (route e ?c) = (None, waiting_items r ?c, [e], {te_id e}, gp_feed_live ?c)"
    using gone assms(3) by (simp add: route_def Let_def call_view call_queue_def)
  moreover have "own_entries t r gp' \<and> seen_by t r gp' = seen_by t r (route e ?c)"
    using assms(4) \<open>own_entries t r (route e ?c)\<close>
  proof (induction rule: rtranclp_induct)
    case (step y z)
    then show ?case using other_call_seen [OF step(2)] by simp
  qed simp
  ultimately show ?thesis by (simp add: seen_by_def)
qed

theorem late_event_is_kept_witness:
  "dict_getdefault (gp_orphans (cleanup_reference ''other'' (route (demo_change ''3'') (cleanup_reference ''r'' demo_live))))
     ''t'' [] = [demo_change ''3'']"
proof -
  have "gp_task_to_reference demo_live = [(''t'', ''r'')]" "gp_reference_to_task demo_live = [(''r'', ''t'')]"
    by code_simp+
  then have "own_entries ''t'' ''r'' demo_live" "dict_get (gp_reference_to_task demo_live) ''r'' = Some ''t''"
    by (simp_all add: own_entries_def own_maps_def)
  moreover have "te_task (demo_change ''3'') = ''t''" by (simp add: demo_change_def)
  moreover have "(other_call ''t'' ''r'')\<^sup>*\<^sup>* (route (demo_change ''3'') (cleanup_reference ''r'' demo_live))
      (cleanup_reference ''other'' (route (demo_change ''3'') (cleanup_reference ''r'' demo_live)))"
    by (rule r_into_rtranclp [of "other_call ''t'' ''r''"], rule other_call.Other_Ends) simp
  ultimately show ?thesis using late_event_is_kept by blast
qed

end
