(* ===== verification/Scalars.thy ===== *)
theory Scalars
  imports Prelude
begin

text \<open>
  The scalars of the API: \<open>rekuest/scalars.py\<close>.

  Of a GraphQL document the model has the parts of graphql-core's syntax tree this code reads;
  its parser and printer are parameters, as is opening a file. Every \<open>raise\<close> is a
  \<open>Value_Error\<close> with its message.
\<close>

section \<open>Errors\<close>

datatype scalar_error = Value_Error string | Index_Error | Os_Error string

definition newline :: string where "newline = [CHR 0x0A]"

section \<open>Identifier and UISchema\<close>

definition identifier_validate :: "string \<Rightarrow> scalar_error + string" where
  "identifier_validate v =
     (if CHR ''@'' \<in> set v \<and> CHR ''/'' \<notin> set v
      then Inl (Value_Error ''Identifier must contain follow '@package/module' when trying to mimic a global module '')
      else Inr v)"

definition ui_schema_validate :: "json \<Rightarrow> scalar_error + (string, json) dict" where
  "ui_schema_validate v =
     (case v of J_Object d \<Rightarrow> Inr d | _ \<Rightarrow> Inl (Value_Error ''UI schema must be a dictionary''))"

section \<open>GraphQL documents\<close>

datatype operation_type = QUERY | MUTATION | SUBSCRIPTION

record variable_definition =
  vd_name :: string
  vd_type_kind :: string

datatype selection =
    Field_Node "string option" string "selection list option" \<comment> \<open>alias, name, selection set\<close>
  | Other_Selection

datatype definition_node =
    Operation_Definition operation_type "variable_definition list" "selection list"
  | Other_Definition

type_synonym document = "definition_node list"

text \<open>What the parser reports of a syntax error: its \<open>repr\<close> and the places it can show.\<close>

record syntax_error =
  se_repr :: string
  se_locations :: "string list"
  se_has_source :: bool

definition parse_or_raise :: "(string \<Rightarrow> syntax_error + document) \<Rightarrow> string \<Rightarrow> scalar_error + document" where
  "parse_or_raise parse v =
     (case parse v of
        Inr d \<Rightarrow> Inr d
      | Inl e \<Rightarrow>
          Inl (Value_Error (''Could not parse to graphql: '' @ newline @ se_repr e @ newline @ v @ newline @
            concat (map (\<lambda>loc. if se_has_source e then newline @ loc else []) (se_locations e)))))"

section \<open>SearchQuery\<close>

datatype query_coercible = Query_Str string | Query_Document document | Query_Other

text \<open>The name a field has in the answer.\<close>

definition answer_name :: "string option \<Rightarrow> string \<Rightarrow> string" where
  "answer_name alias nm = (case alias of Some a \<Rightarrow> a | None \<Rightarrow> nm)"

definition field_names :: "selection list \<Rightarrow> string list" where
  "field_names nodes =
     List.map_filter (\<lambda>f. case f of Field_Node alias nm _ \<Rightarrow> Some (answer_name alias nm) | Other_Selection \<Rightarrow> None) nodes"

definition validate_selection :: "(document \<Rightarrow> string) \<Rightarrow> document \<Rightarrow> selection list \<Rightarrow> scalar_error + string" where
  "validate_selection print v selections =
     (case selections of
        [] \<Rightarrow> Inl Index_Error
      | Other_Selection # _ \<Rightarrow>
          Inl (Value_Error (''Wrapped query should be a field node: Was given: '' @ print v))
      | Field_Node alias nm sub # _ \<Rightarrow>
          if answer_name alias nm \<noteq> ''options''
          then Inl (Value_Error (''First element of query should be 'options':  Was given: '' @ print v))
          else (case sub of
             None \<Rightarrow> Inl (Value_Error (''Wrapped query should contain a selection set: Was given: '' @ print v))
           | Some wrapped \<Rightarrow>
               if ''value'' \<notin> set (field_names wrapped)
               then Inl (Value_Error ''Searched query needs to contain a 'value' not that corresponds to the selected value'')
               else if ''label'' \<notin> set (field_names wrapped)
               then Inl (Value_Error ''Searched query needs to contain a 'label' that corresponds to the displayed value to the user'')
               else Inr (print v)))"

definition validate_document :: "(document \<Rightarrow> string) \<Rightarrow> document \<Rightarrow> scalar_error + string" where
  "validate_document print v =
     (if v = [] \<or> 1 < length v then Inl (Value_Error ''Only one definintion allowed'')
      else if length v = 0 then Inl (Value_Error ''No definition found'')
      else case v ! 0 of
        Other_Definition \<Rightarrow> Inl (Value_Error ''Needs an operation'')
      | Operation_Definition operation variables selections \<Rightarrow>
          if operation \<noteq> QUERY then Inl (Value_Error ''Needs to be operation'')
          else if length variables < 2
          then Inl (Value_Error (''At least two arguments should be provided ($search: String, $values: [ID])): Was given: '' @ print v))
          else if vd_name (variables ! 0) \<noteq> ''search'' \<or> vd_type_kind (variables ! 0) \<noteq> ''named_type''
          then Inl (Value_Error (''First parameter of search function should be '$search: String' if you provide arguments for your options. This parameter will be filled with userinput: Was given: '' @ print v))
          else if vd_name (variables ! 1) \<noteq> ''values'' \<or> vd_type_kind (variables ! 0) \<noteq> ''named_type''
          then Inl (Value_Error (''Seconrd parameter of search function should be '$values: [ID]' if you provide arguments for your options. This parameter will be filled with the default values: Was given: '' @ print v))
          else validate_selection print v selections)"

definition search_query_validate ::
    "(string \<Rightarrow> syntax_error + document) \<Rightarrow> (document \<Rightarrow> string) \<Rightarrow> query_coercible \<Rightarrow> scalar_error + string" where
  "search_query_validate parse print v =
     (case v of
        Query_Other \<Rightarrow> Inl (Value_Error ''Search query must be either a str or a graphql DocumentAction'')
      | Query_Document d \<Rightarrow> validate_document print d
      | Query_Str s \<Rightarrow>
          (case parse_or_raise parse s of Inl e \<Rightarrow> Inl e | Inr d \<Rightarrow> validate_document print d))"

definition RESERVED_SEARCH_VARIABLES :: "string set" where
  "RESERVED_SEARCH_VARIABLES = {''search'', ''values'', ''limit'', ''offset''}"

definition get_search_query_variables :: "(string \<Rightarrow> syntax_error + document) \<Rightarrow> string \<Rightarrow> scalar_error + string list" where
  "get_search_query_variables parse query =
     (case parse_or_raise parse query of
        Inl e \<Rightarrow> Inl e
      | Inr [] \<Rightarrow> Inl Index_Error
      | Inr (Other_Definition # _) \<Rightarrow> Inr []
      | Inr (Operation_Definition _ variables _ # _) \<Rightarrow> Inr (map vd_name variables))"

section \<open>MediaLike\<close>

text \<open>An open file, by its name.\<close>

record io_file = io_name :: string

record media_like =
  ml_value :: io_file
  ml_key :: string
  ml_file_name :: string

datatype media_coercible = Media_Path string | Media_File io_file | Media_Other

definition media_like_of :: "io_file \<Rightarrow> media_like" where
  "media_like_of f = \<lparr>ml_value = f, ml_key = io_name f, ml_file_name = io_name f\<rparr>"

definition media_like_validate :: "(string \<Rightarrow> string + io_file) \<Rightarrow> media_coercible \<Rightarrow> scalar_error + media_like" where
  "media_like_validate open_rb v =
     (case v of
        Media_Path p \<Rightarrow> (case open_rb p of Inl e \<Rightarrow> Inl (Os_Error e) | Inr f \<Rightarrow> Inr (media_like_of f))
      | Media_File f \<Rightarrow> Inr (media_like_of f)
      | Media_Other \<Rightarrow> Inl (Value_Error ''This needs to be a instance of a file''))"

section \<open>What a search query is\<close>

text \<open>The contract the class states: one query that takes a named \<open>$search\<close> and \<open>$values\<close>, and
  whose first field answers as \<open>options\<close> with a \<open>value\<close> and a \<open>label\<close>.\<close>

definition search_contract :: "document \<Rightarrow> bool" where
  "search_contract d \<longleftrightarrow>
     (\<exists>search values vars alias nm wrapped others.
        d = [Operation_Definition QUERY (search # values # vars) (Field_Node alias nm (Some wrapped) # others)] \<and>
        vd_name search = ''search'' \<and> vd_type_kind search = ''named_type'' \<and> vd_name values = ''values'' \<and>
        answer_name alias nm = ''options'' \<and> {''value'', ''label''} \<subseteq> set (field_names wrapped))"

lemma validate_selection_Inr:
  "validate_selection print v selections = Inr t \<longleftrightarrow>
     t = print v \<and> (\<exists>alias nm wrapped others. selections = Field_Node alias nm (Some wrapped) # others \<and>
        answer_name alias nm = ''options'' \<and> {''value'', ''label''} \<subseteq> set (field_names wrapped))"
  by (auto simp: validate_selection_def split: list.splits selection.splits option.splits if_splits)

lemma two_or_more: "\<not> length xs < 2 \<longleftrightarrow> (\<exists>x y zs. xs = x # y # zs)"
  by (cases xs; cases "tl xs") auto

lemma validate_document_Inr:
  "validate_document print d = Inr t \<longleftrightarrow> search_contract d \<and> t = print d"
proof (cases "\<exists>operation variables selections. d = [Operation_Definition operation variables selections]")
  case True
  then obtain operation variables selections where
    d: "d = [Operation_Definition operation variables selections]" by blast
  show ?thesis
  proof (cases "length variables < 2")
    case True
    then show ?thesis by (auto simp: d validate_document_def search_contract_def)
  next
    case False
    then obtain x y zs where "variables = x # y # zs" unfolding two_or_more by blast
    then show ?thesis
      by (auto simp: d validate_document_def search_contract_def validate_selection_Inr)
  qed
next
  case False
  have "\<not> search_contract d" using False by (auto simp: search_contract_def)
  moreover have "d = [] \<or> 1 < length d \<or> d ! 0 = Other_Definition"
  proof (cases d)
    case (Cons x xs)
    then show ?thesis using False by (cases x; cases xs) auto
  qed simp
  ultimately show ?thesis by (auto simp: validate_document_def)
qed


text \<open>A document with another type for its second variable.\<close>

fun with_values_type :: "string \<Rightarrow> document \<Rightarrow> document" where
  "with_values_type k [Operation_Definition op (search # values # vars) selections] =
     [Operation_Definition op (search # values\<lparr>vd_type_kind := k\<rparr> # vars) selections]"
| "with_values_type k d = d"

lemma search_contract_with_values_type: "search_contract (with_values_type k d) \<longleftrightarrow> search_contract d"
  by (cases "(k, d)" rule: with_values_type.cases) (auto simp: search_contract_def)

text \<open>
  The second variable's type is never looked at, though the error message asks for
  \<open>$values: [ID]\<close>: whatever type a document gives it, the document is accepted or not alike.
\<close>

theorem values_type_unchecked:
  "(\<exists>t. search_query_validate parse print (Query_Document (with_values_type k d)) = Inr t) \<longleftrightarrow>
   (\<exists>t. search_query_validate parse print (Query_Document d) = Inr t)"
  by (simp add: search_query_validate_def validate_document_Inr search_contract_with_values_type)

text \<open>
  The kept text of an accepted query declares \<open>search\<close> and \<open>values\<close>, in this order, ahead of
  the variables a widget's filters and dependencies have to back, provided the parser reads
  back what the printer wrote.
\<close>

theorem accepted_query_variables:
  assumes "search_query_validate parse print (Query_Str s) = Inr t" and "parse s = Inr d"
    and "parse (print d) = Inr d"
  shows "\<exists>rest. get_search_query_variables parse t = Inr (''search'' # ''values'' # rest) \<and>
    {''search'', ''values''} \<subseteq> RESERVED_SEARCH_VARIABLES"
proof -
  have "search_contract d" "t = print d"
    using assms(1,2) by (simp_all add: search_query_validate_def parse_or_raise_def validate_document_Inr)
  then show ?thesis using assms(3)
    by (auto simp: get_search_query_variables_def parse_or_raise_def search_contract_def
        RESERVED_SEARCH_VARIABLES_def)
qed

definition demo_document :: document where
  "demo_document = [Operation_Definition QUERY
     [\<lparr>vd_name = ''search'', vd_type_kind = ''named_type''\<rparr>, \<lparr>vd_name = ''values'', vd_type_kind = ''list_type''\<rparr>]
     [Field_Node (Some ''options'') ''actions''
        (Some [Field_Node (Some ''value'') ''id'' None, Field_Node (Some ''label'') ''name'' None])]]"

theorem accepted_query_variables_witness:
  "get_search_query_variables (\<lambda>_. Inr demo_document) ''p'' = Inr [''search'', ''values''] \<and>
   (\<exists>rest. get_search_query_variables (\<lambda>_. Inr demo_document) ''p'' = Inr (''search'' # ''values'' # rest))"
proof -
  have "search_query_validate (\<lambda>_. Inr demo_document) (\<lambda>_. ''p'') (Query_Str ''q'') = Inr ''p''"
    by code_simp
  then have "\<exists>rest. get_search_query_variables (\<lambda>_. Inr demo_document) ''p'' = Inr (''search'' # ''values'' # rest)"
    using accepted_query_variables [of "\<lambda>_. Inr demo_document" "\<lambda>_. ''p''" "''q''" "''p''" demo_document] by blast
  moreover have "get_search_query_variables (\<lambda>_. Inr demo_document) ''p'' = Inr [''search'', ''values'']"
    by code_simp
  ultimately show ?thesis by blast
qed

end
