(* ===== verification/Uploads.thy ===== *)
theory Uploads
  imports Scalars
begin

text \<open>
  Uploading files: the data layer (\<open>rekuest/datalayer.py\<close>) and \<open>rekuest/client/upload/\<close>: the
  link that replaces the files among an operation's variables by the stores they were put
  into (\<open>link.py\<close>, \<open>media.py\<close>, \<open>errors.py\<close>).

  The bucket, the next link of the GraphQL client, TLS contexts and addresses (\<open>fakts\<close>'
  \<open>Alias\<close>) are the environment's: what a put or a request answers is a parameter.
\<close>

section \<open>The data layer\<close>

text \<open>Of an \<open>Alias\<close>, what this code reads.\<close>

record store_alias =
  al_http_path :: string
  al_host :: string
  al_port :: "int option"
  al_ssl :: bool
  al_proxy :: "string option"
  al_pinned :: bool
  al_certificates :: "string list"

record data_layer =
  dl_endpoint_url :: string
  dl_host :: string
  dl_port :: "int option"
  dl_protocol :: string
  dl_proxy :: "string option"
  dl_certificates :: "string list"

definition default_data_layer :: data_layer where
  "default_data_layer = \<lparr>dl_endpoint_url = '''', dl_host = '''', dl_port = None, dl_protocol = ''https'',
     dl_proxy = None, dl_certificates = []\<rparr>"

text \<open>Which certificates TLS to the store is verified by; \<open>None\<close> is the public roots.\<close>

definition ssl_context :: "data_layer \<Rightarrow> string list option" where
  "ssl_context dl = (if dl_certificates dl \<noteq> [] then Some (dl_certificates dl) else None)"

text \<open>\<open>from_alias\<close>; the second component is what is added to the natively trusted certificates.\<close>

definition from_alias :: "store_alias \<Rightarrow> data_layer \<times> string list" where
  "from_alias a =
     (\<lparr>dl_endpoint_url = al_http_path a, dl_host = al_host a, dl_port = al_port a,
       dl_protocol = (if al_ssl a then ''https'' else ''http''), dl_proxy = al_proxy a,
       dl_certificates = (if al_pinned a then al_certificates a else [])\<rparr>,
      if al_pinned a then al_certificates a else [])"

definition get_endpoint_url :: "data_layer \<Rightarrow> string" where
  "get_endpoint_url dl = dl_endpoint_url dl"

section \<open>Putting a file\<close>

datatype upload_error = Upload_Error string | Upload_Value_Error string | Upload_Other string

text \<open>A \<open>MediaUploadGrant\<close> or \<open>AssetUploadGrant\<close>.\<close>

record upload_grant =
  gr_access_key :: string
  gr_secret_key :: string
  gr_session_token :: "string option"
  gr_bucket :: string
  gr_key :: string
  gr_store :: string

record s3_store =
  s3_bucket :: string
  s3_access_key_id :: string
  s3_secret_access_key :: string
  s3_endpoint :: string
  s3_virtual_hosted :: bool
  s3_client_options :: "(string, json) dict option"
  s3_session_token :: "string option"

definition is_http :: "string \<Rightarrow> bool" where
  "is_http url \<longleftrightarrow> take 7 url = ''http://''"

definition create_s3_store :: "string \<Rightarrow> upload_grant \<Rightarrow> string option \<Rightarrow> s3_store" where
  "create_s3_store endpoint_url credentials proxy =
     (let options1 = (if is_http endpoint_url then dict_put [] ''allow_http'' (J_Bool True) else []);
          options2 = (if truthy proxy then dict_put options1 ''proxy_url'' (J_String (the proxy)) else options1)
      in \<lparr>s3_bucket = gr_bucket credentials, s3_access_key_id = gr_access_key credentials,
          s3_secret_access_key = gr_secret_key credentials, s3_endpoint = endpoint_url,
          s3_virtual_hosted = False,
          s3_client_options = (if options2 = [] then None else Some options2),
          s3_session_token = (if truthy (gr_session_token credentials) then gr_session_token credentials else None)\<rparr>)"

text \<open>\<open>put\<close> answers whether the bucket took the file under the key.\<close>

definition store_media_file ::
    "(s3_store \<Rightarrow> string \<Rightarrow> io_file \<Rightarrow> bool) \<Rightarrow> media_like \<Rightarrow> upload_grant \<Rightarrow> data_layer \<Rightarrow> upload_error + string" where
  "store_media_file put m credentials dl =
     (let endpoint_url = get_endpoint_url dl;
          store = create_s3_store endpoint_url credentials (dl_proxy dl)
      in if put store (gr_key credentials) (ml_value m) then Inr (gr_store credentials)
         else Inl (Upload_Error (''Error while uploading to s3://'' @ gr_bucket credentials @ ''/'' @
           gr_key credentials @ '' on '' @ endpoint_url)))"

section \<open>The upload link\<close>

text \<open>A value among an operation's variables.\<close>

datatype variable =
    V_Dict "(string \<times> variable) list"
  | V_List "variable list"
  | V_Tuple "variable list"
  | V_Media media_like
  | V_Str string
  | V_Other json

text \<open>
  \<open>apply_recursive\<close>: \<open>f\<close> is what the function answers for a file. A failure is the list of the
  exceptions the first of which, in time, is raised: a dictionary's entries are awaited one
  after the other, the elements of a list or tuple together (\<open>asyncio.gather\<close>).
\<close>

fun apply_recursive :: "(media_like \<Rightarrow> 'e + variable) \<Rightarrow> variable \<Rightarrow> 'e list + variable"
  and apply_entries :: "(media_like \<Rightarrow> 'e + variable) \<Rightarrow> (string \<times> variable) list \<Rightarrow> 'e list + (string \<times> variable) list"
  and apply_gather :: "(media_like \<Rightarrow> 'e + variable) \<Rightarrow> variable list \<Rightarrow> 'e list + variable list" where
  "apply_recursive f (V_Dict d) = map_sum id V_Dict (apply_entries f d)"
| "apply_recursive f (V_List vs) = map_sum id V_List (apply_gather f vs)"
| "apply_recursive f (V_Tuple vs) = map_sum id V_Tuple (apply_gather f vs)"
| "apply_recursive f (V_Media m) = map_sum (\<lambda>e. [e]) id (f m)"
| "apply_recursive f (V_Str s) = Inr (V_Str s)"
| "apply_recursive f (V_Other j) = Inr (V_Other j)"
| "apply_entries f [] = Inr []"
| "apply_entries f ((k, v) # d) =
     (case apply_recursive f v of
        Inl es \<Rightarrow> Inl es
      | Inr x \<Rightarrow> map_sum id (\<lambda>xs. (k, x) # xs) (apply_entries f d))"
| "apply_gather f [] = Inr []"
| "apply_gather f (v # vs) =
     (case (apply_recursive f v, apply_gather f vs) of
        (Inr x, Inr xs) \<Rightarrow> Inr (x # xs)
      | (Inr x, Inl es) \<Rightarrow> Inl es
      | (Inl es, Inr xs) \<Rightarrow> Inl es
      | (Inl es, Inl es') \<Rightarrow> Inl (es @ es'))"

text \<open>\<open>request\<close> is what the rest of the links answer for the file's name: the grants, if it answers.\<close>

definition get_media_upload_credentials ::
    "(string \<Rightarrow> upload_error + upload_grant list) option \<Rightarrow> media_like \<Rightarrow> upload_error + upload_grant" where
  "get_media_upload_credentials next_link m =
     (case next_link of
        None \<Rightarrow> Inl (Upload_Value_Error ''No next link found. Please set the next link.'')
      | Some request \<Rightarrow>
          (case request (ml_file_name m) of
             Inl e \<Rightarrow> Inl e
           | Inr [] \<Rightarrow> Inl (Upload_Value_Error ''No result found for mesh upload credentials'')
           | Inr (grant # _) \<Rightarrow> Inr grant))"

definition upload_mediafile ::
    "(string \<Rightarrow> upload_error + upload_grant list) option \<Rightarrow> (s3_store \<Rightarrow> string \<Rightarrow> io_file \<Rightarrow> bool)
      \<Rightarrow> data_layer \<Rightarrow> media_like \<Rightarrow> upload_error + string" where
  "upload_mediafile next_link put dl m =
     (case get_media_upload_credentials next_link m of
        Inl e \<Rightarrow> Inl e
      | Inr credentials \<Rightarrow> store_media_file put m credentials dl)"

definition upload_parse ::
    "(string \<Rightarrow> upload_error + upload_grant list) option \<Rightarrow> (s3_store \<Rightarrow> string \<Rightarrow> io_file \<Rightarrow> bool)
      \<Rightarrow> data_layer \<Rightarrow> variable \<Rightarrow> upload_error list + variable" where
  "upload_parse next_link put dl variables =
     apply_recursive (\<lambda>m. map_sum id V_Str (upload_mediafile next_link put dl m)) variables"

section \<open>What the link does to the variables\<close>

text \<open>The files of a value, in order; and the value with each file replaced.\<close>

fun files :: "variable \<Rightarrow> media_like list" where
  "files (V_Dict d) = concat (map (\<lambda>(k, v). files v) d)"
| "files (V_List vs) = concat (map files vs)"
| "files (V_Tuple vs) = concat (map files vs)"
| "files (V_Media m) = [m]"
| "files (V_Str s) = []"
| "files (V_Other j) = []"

fun substitute :: "(media_like \<Rightarrow> variable) \<Rightarrow> variable \<Rightarrow> variable" where
  "substitute g (V_Dict d) = V_Dict (map (\<lambda>(k, v). (k, substitute g v)) d)"
| "substitute g (V_List vs) = V_List (map (substitute g) vs)"
| "substitute g (V_Tuple vs) = V_Tuple (map (substitute g) vs)"
| "substitute g (V_Media m) = g m"
| "substitute g (V_Str s) = V_Str s"
| "substitute g (V_Other j) = V_Other j"

definition failures :: "(media_like \<Rightarrow> 'e + 'a) \<Rightarrow> media_like list \<Rightarrow> 'e set" where
  "failures f ms = {e. \<exists>m \<in> set ms. f m = Inl e}"

lemma failures_append [simp]: "failures f (ms @ ns) = failures f ms \<union> failures f ns"
  by (auto simp: failures_def)

lemma failures_Nil [simp]: "failures f [] = {}"
  by (simp add: failures_def)

definition replaced :: "'e set \<Rightarrow> 'a \<Rightarrow> 'e list + 'a \<Rightarrow> bool" where
  "replaced fs v r \<longleftrightarrow>
     (case r of Inr v' \<Rightarrow> fs = {} \<and> v' = v | Inl es \<Rightarrow> es \<noteq> [] \<and> set es \<subseteq> fs)"

lemma replaced_wrapped: "replaced fs v r \<Longrightarrow> replaced fs (C v) (map_sum id C r)"
  by (cases r) (simp_all add: replaced_def)

lemma replaced_done: "replaced {} v (Inr v)"
  by (simp add: replaced_def)

lemma apply_replaces:
  "replaced (failures f (files v)) (substitute (projr \<circ> f) v) (apply_recursive f v)"
  "replaced (failures f (concat (map (\<lambda>(k, v). files v) d))) (map (\<lambda>(k, v). (k, substitute (projr \<circ> f) v)) d)
     (apply_entries f d)"
  "replaced (failures f (concat (map files vs))) (map (substitute (projr \<circ> f)) vs) (apply_gather f vs)"
proof (induction f v and f d and f vs rule: apply_recursive_apply_entries_apply_gather.induct)
  case (4 f m)
  then show ?case by (cases "f m") (auto simp: replaced_def failures_def)
next
  case (8 f k v d)
  then show ?case
    by (cases "apply_recursive f v"; cases "apply_entries f d") (auto simp: replaced_def)
next
  case (10 f v vs)
  then show ?case
    by (cases "apply_recursive f v"; cases "apply_gather f vs") (auto simp: replaced_def)
qed (simp_all add: replaced_wrapped replaced_done)

lemma files_substitute:
  assumes "\<And>m. m \<in> set (files v) \<Longrightarrow> files (g m) = []"
  shows "files (substitute g v) = []"
  using assms
proof (induction g v rule: substitute.induct)
  case (1 g d)
  have "files (substitute g v) = []" if "(k, v) \<in> set d" for k v
    by (rule 1(1) [OF that refl]) (use 1(2) that in fastforce)
  then show ?case by (auto simp: concat_eq_Nil_conv)
next
  case (2 g vs)
  have "files (substitute g v) = []" if "v \<in> set vs" for v
    by (rule 2(1) [OF that]) (use 2(2) that in fastforce)
  then show ?case by (auto simp: concat_eq_Nil_conv)
next
  case (3 g vs)
  have "files (substitute g v) = []" if "v \<in> set vs" for v
    by (rule 3(1) [OF that]) (use 3(2) that in fastforce)
  then show ?case by (auto simp: concat_eq_Nil_conv)
qed simp_all

lemma substitute_same:
  assumes "\<And>m. m \<in> set (files v) \<Longrightarrow> g m = h m"
  shows "substitute g v = substitute h v"
  using assms
proof (induction g v rule: substitute.induct)
  case (1 g d)
  have "substitute g v = substitute h v" if "(k, v) \<in> set d" for k v
    by (rule 1(1) [OF that refl]) (use 1(2) that in fastforce)
  then show ?case by auto
next
  case (2 g vs)
  have "substitute g v = substitute h v" if "v \<in> set vs" for v
    by (rule 2(1) [OF that]) (use 2(2) that in fastforce)
  then show ?case by simp
next
  case (3 g vs)
  have "substitute g v = substitute h v" if "v \<in> set vs" for v
    by (rule 3(1) [OF that]) (use 3(2) that in fastforce)
  then show ?case by simp
qed simp_all

text \<open>
  C32. The link replaces the files and nothing else. If every file among the variables can be
  uploaded, the operation goes on with the same variables, in the same shape, in which each
  file, however deep, is the store its upload returned, and no file is left; if some cannot,
  what is raised is the failure of one of them.
\<close>

theorem upload_replaces_files:
  "case upload_parse next_link put dl variables of
     Inr variables' \<Rightarrow>
       failures (upload_mediafile next_link put dl) (files variables) = {} \<and>
       variables' = substitute (V_Str \<circ> projr \<circ> upload_mediafile next_link put dl) variables \<and> files variables' = []
   | Inl es \<Rightarrow> es \<noteq> [] \<and> set es \<subseteq> failures (upload_mediafile next_link put dl) (files variables)"
proof -
  let ?up = "upload_mediafile next_link put dl"
  let ?f = "\<lambda>m. map_sum id V_Str (?up m) :: upload_error + variable"
  have same: "failures ?f ms = failures ?up ms" for ms
  proof -
    have "(map_sum id V_Str x :: upload_error + variable) = Inl e \<longleftrightarrow> x = Inl e" for x and e :: upload_error
      by (cases x) simp_all
    then show ?thesis by (simp add: failures_def)
  qed
  show ?thesis
  proof (cases "upload_parse next_link put dl variables")
    case (Inl es)
    then show ?thesis using apply_replaces(1) [of ?f variables] by (simp add: upload_parse_def replaced_def same)
  next
    case (Inr variables')
    then have none: "failures ?up (files variables) = {}" and v': "variables' = substitute (projr \<circ> ?f) variables"
      using apply_replaces(1) [of ?f variables] by (simp_all add: upload_parse_def replaced_def same)
    have stores: "(projr \<circ> ?f) m = (V_Str \<circ> projr \<circ> ?up) m" if "m \<in> set (files variables)" for m
    proof (cases "?up m")
      case (Inl e)
      then have "e \<in> failures ?up (files variables)" using that by (auto simp: failures_def)
      then show ?thesis using none by simp
    qed simp
    have "variables' = substitute (V_Str \<circ> projr \<circ> ?up) variables"
      unfolding v' by (rule substitute_same [OF stores])
    moreover have "files (substitute (V_Str \<circ> projr \<circ> ?up) variables) = []" by (rule files_substitute) simp
    ultimately show ?thesis using none Inr by simp
  qed
qed

text \<open>
  The store a grant is used through goes to the data layer's endpoint, by path and not by
  host name; plain HTTP is allowed only to an \<open>http://\<close> endpoint and a proxy named only when
  there is one; a file goes under the key of its grant, and what is returned is its store.
\<close>

theorem s3_store_matches_grant:
  "let s = create_s3_store url credentials proxy
   in s3_bucket s = gr_bucket credentials \<and> s3_endpoint s = url \<and> \<not> s3_virtual_hosted s \<and>
      (case s3_client_options s of
         None \<Rightarrow> \<not> is_http url \<and> \<not> truthy proxy
       | Some d \<Rightarrow> (dict_get d ''allow_http'' = (if is_http url then Some (J_Bool True) else None)) \<and>
           dict_get d ''proxy_url'' = (if truthy proxy then map_option J_String proxy else None))"
  by (cases proxy) (auto simp: create_s3_store_def Let_def)

end
