(* ===== verification/Assets.thy ===== *)
theory Assets
  imports Uploads
begin

text \<open>
  Uploading the files an app registered as assets: \<open>rekuest/client/upload/assets.py\<close>.

  The server and the bucket are a state \<open>'s\<close> that the four requests read and change; the app's
  files are fixed. A request may be refused (a \<open>GraphQLException\<close>) or fail in a way the loop
  does not expect, which ends it.
\<close>

section \<open>Failures\<close>

record graphql_exception =
  ge_message :: string
  ge_errors :: "(string, json) dict list option"

datatype asset_failure =
    Refused graphql_exception
  | Upload_Failed string
  | Os_Failed string
  | Unexpected string

section \<open>The refusal's code\<close>

definition json_truthy :: "json \<Rightarrow> bool" where
  "json_truthy j =
     (case j of
        J_Null \<Rightarrow> False | J_Bool b \<Rightarrow> b | J_Number n \<Rightarrow> n \<noteq> 0 | J_String s \<Rightarrow> s \<noteq> []
      | J_List l \<Rightarrow> l \<noteq> [] | J_Object d \<Rightarrow> d \<noteq> [])"

text \<open>\<open>_refusal_code\<close>: \<open>str_of\<close> is \<open>str\<close>; \<open>None\<close> is the \<open>AttributeError\<close> of extensions that are no object.\<close>

fun refusal_code :: "(json \<Rightarrow> string) \<Rightarrow> (string, json) dict list \<Rightarrow> string option option" where
  "refusal_code str_of [] = Some None"
| "refusal_code str_of (item # items) =
     (case dict_get item ''extensions'' of
        None \<Rightarrow> refusal_code str_of items
      | Some ext \<Rightarrow>
          if \<not> json_truthy ext then refusal_code str_of items
          else (case ext of
                  J_Object d \<Rightarrow>
                    (case dict_get d ''code'' of
                       Some c \<Rightarrow> if json_truthy c then Some (Some (str_of c)) else refusal_code str_of items
                     | None \<Rightarrow> refusal_code str_of items)
                | _ \<Rightarrow> None))"

definition error_code :: "(json \<Rightarrow> string) \<Rightarrow> graphql_exception \<Rightarrow> string option option" where
  "error_code str_of e = refusal_code str_of (case ge_errors e of Some es \<Rightarrow> es | None \<Rightarrow> [])"

section \<open>One asset\<close>

text \<open>An \<open>AssetDeclaration\<close> (\<open>arkitekt_spec\<close>): what this code reads; a path by its text and its name.\<close>

record asset =
  as_name :: string
  as_kind_label :: string
  as_ref :: string
  as_path :: "(string \<times> string) option"
  as_source :: string

record 's world =
  w_stored :: "string \<Rightarrow> 's \<Rightarrow> (asset_failure + bool) \<times> 's" \<comment> \<open>\<open>StoredAssetQuery\<close>: whether it answered an asset\<close>
  w_grant :: "string \<Rightarrow> 's \<Rightarrow> (asset_failure + upload_grant) \<times> 's"
  w_put :: "s3_store \<Rightarrow> string \<Rightarrow> string \<Rightarrow> 's \<Rightarrow> bool \<times> 's"
  w_create :: "string \<Rightarrow> string \<Rightarrow> 's \<Rightarrow> (asset_failure + unit) \<times> 's"
  w_read :: "string \<Rightarrow> asset_failure + string" \<comment> \<open>a file's bytes\<close>
  w_digest :: "string \<Rightarrow> string" \<comment> \<open>SHA-256, in hex\<close>

definition quoted :: "string \<Rightarrow> string" where
  "quoted s = [CHR 0x27] @ s @ [CHR 0x27]"

definition upload_asset :: "'s world \<Rightarrow> data_layer \<Rightarrow> asset \<Rightarrow> string \<Rightarrow> 's \<Rightarrow> (asset_failure + bool) \<times> 's" where
  "upload_asset w dl a path s =
     (case w_stored w (as_ref a) s of
        (Inl e, s1) \<Rightarrow> (Inl e, s1)
      | (Inr True, s1) \<Rightarrow> (Inr False, s1)
      | (Inr False, s1) \<Rightarrow>
          (case w_read w path of
             Inl e \<Rightarrow> (Inl e, s1)
           | Inr data \<Rightarrow>
               if ''sha256:'' @ w_digest w data \<noteq> as_ref a
               then (Inl (Upload_Failed (path @ '' changed since it was registered as '' @ quoted (as_name a))), s1)
               else (case w_grant w (as_ref a) s1 of
                  (Inl e, s2) \<Rightarrow> (Inl e, s2)
                | (Inr grant, s2) \<Rightarrow>
                    (case w_put w (create_s3_store (get_endpoint_url dl) grant (dl_proxy dl)) (gr_key grant) path s2 of
                       (False, s3) \<Rightarrow>
                         (Inl (Upload_Failed (''Error while uploading to s3://'' @ gr_bucket grant @ ''/'' @
                            gr_key grant @ '' on '' @ get_endpoint_url dl)), s3)
                     | (True, s3) \<Rightarrow>
                         (case w_create w (as_ref a) (gr_store grant) s3 of
                            (Inl e, s4) \<Rightarrow> (Inl e, s4)
                          | (Inr (), s4) \<Rightarrow> (Inr True, s4))))))"

section \<open>All of them\<close>

datatype log_entry = Not_Ours string | Refused_Log string string string | Failed_Log string string | Uploaded_Log string

definition what_text :: "asset \<Rightarrow> string \<Rightarrow> string" where
  "what_text a path_name = as_kind_label a @ '' '' @ quoted (as_name a) @ '' ('' @ path_name @ '')''"

text \<open>How the loop handles one asset's outcome: a line of the log, or what it raises.\<close>

definition handle_outcome :: "(json \<Rightarrow> string) \<Rightarrow> string \<Rightarrow> asset_failure + bool \<Rightarrow> string + log_entry list" where
  "handle_outcome str_of what r =
     (case r of
        Inl (Refused e) \<Rightarrow>
          (case error_code str_of e of
             None \<Rightarrow> Inl ''AttributeError''
           | Some code \<Rightarrow> Inr [Refused_Log what (str_or code ''no code'') (ge_message e)])
      | Inl (Upload_Failed m) \<Rightarrow> Inr [Failed_Log what m]
      | Inl (Os_Failed m) \<Rightarrow> Inr [Failed_Log what m]
      | Inl (Unexpected m) \<Rightarrow> Inl m
      | Inr True \<Rightarrow> Inr [Uploaded_Log what]
      | Inr False \<Rightarrow> Inr [])"

fun upload_assets ::
    "(json \<Rightarrow> string) \<Rightarrow> 's world \<Rightarrow> data_layer \<Rightarrow> asset list \<Rightarrow> 's \<Rightarrow> log_entry list \<times> string option \<times> 's" where
  "upload_assets str_of w dl [] s = ([], None, s)"
| "upload_assets str_of w dl (a # as) s =
     (case as_path a of
        None \<Rightarrow>
          (let (more, raised, s') = upload_assets str_of w dl as s in (Not_Ours (as_name a) # more, raised, s'))
      | Some (path, path_name) \<Rightarrow>
          (let (r, s1) = upload_asset w dl a path s
           in case handle_outcome str_of (what_text a path_name) r of
                Inl e \<Rightarrow> ([], Some e, s1)
              | Inr entries \<Rightarrow>
                  (let (more, raised, s') = upload_assets str_of w dl as s1 in (entries @ more, raised, s'))))"

section \<open>What the loop guarantees\<close>

text \<open>An asset whose handling ends in what the loop expects.\<close>

definition expected :: "(json \<Rightarrow> string) \<Rightarrow> asset_failure \<Rightarrow> bool" where
  "expected str_of e =
     (case e of Refused x \<Rightarrow> error_code str_of x \<noteq> None | Unexpected _ \<Rightarrow> False | _ \<Rightarrow> True)"

definition try_asset :: "'s world \<Rightarrow> data_layer \<Rightarrow> asset \<Rightarrow> 's \<Rightarrow> 's" where
  "try_asset w dl a s = (case as_path a of None \<Rightarrow> s | Some (path, _) \<Rightarrow> snd (upload_asset w dl a path s))"

definition requests_expected :: "(json \<Rightarrow> string) \<Rightarrow> 's world \<Rightarrow> bool" where
  "requests_expected str_of w \<longleftrightarrow>
     (\<forall>ref s e. fst (w_stored w ref s) = Inl e \<longrightarrow> expected str_of e) \<and>
     (\<forall>ref s e. fst (w_grant w ref s) = Inl e \<longrightarrow> expected str_of e) \<and>
     (\<forall>ref st s e. fst (w_create w ref st s) = Inl e \<longrightarrow> expected str_of e) \<and>
     (\<forall>path e. w_read w path = Inl e \<longrightarrow> expected str_of e)"

lemma expected_upload_failed [simp]: "expected str_of (Upload_Failed m)"
  by (simp add: expected_def)

lemma upload_asset_expected:
  assumes "requests_expected str_of w"
  shows "case fst (upload_asset w dl a path s) of Inl e \<Rightarrow> expected str_of e | Inr _ \<Rightarrow> True"
proof -
  have request: "w_stored w ref t = (Inl e, t') \<Longrightarrow> expected str_of e" "w_grant w ref t = (Inl e, t') \<Longrightarrow> expected str_of e"
    "w_create w ref st t = (Inl e, t') \<Longrightarrow> expected str_of e" "w_read w p = Inl e \<Longrightarrow> expected str_of e" for ref t e t' st p
    using assms unfolding requests_expected_def by (metis fst_conv)+
  obtain r1 s1 where stored: "w_stored w (as_ref a) s = (r1, s1)" by fastforce
  obtain r2 s2 where grant: "w_grant w (as_ref a) s1 = (r2, s2)" by fastforce
  show ?thesis
  proof (cases "r1 = Inr False \<and> (\<exists>data. w_read w path = Inr data \<and> ''sha256:'' @ w_digest w data = as_ref a)")
    case True
    show ?thesis
    proof (cases r2)
      case (Inl e)
      then show ?thesis using True stored grant request by (auto simp: upload_asset_def)
    next
      case (Inr g)
      obtain b s3 where put: "w_put w (create_s3_store (get_endpoint_url dl) g (dl_proxy dl)) (gr_key g) path s2 = (b, s3)"
        by fastforce
      obtain r4 s4 where create: "w_create w (as_ref a) (gr_store g) s3 = (r4, s4)" by fastforce
      show ?thesis using True Inr stored grant put create request
        by (cases b; cases r4) (auto simp: upload_asset_def split: unit.splits)
    qed
  next
    case False
    then show ?thesis using stored request
      by (cases r1; cases "w_read w path") (auto simp: upload_asset_def split: bool.splits)
  qed
qed

lemma handle_outcome_expected:
  "(case r of Inl e \<Rightarrow> expected str_of e | Inr _ \<Rightarrow> True) \<Longrightarrow>
   \<exists>entries. handle_outcome str_of what r = Inr entries"
  by (auto simp: handle_outcome_def expected_def split: sum.splits asset_failure.splits bool.splits)

text \<open>
  C37. A refusal never stops the others. As long as nothing fails in a way the loop does not
  expect, every asset the app holds is tried, in order and whatever became of those before
  it, and the loop returns normally.
\<close>

theorem every_asset_is_tried:
  assumes "requests_expected str_of w"
  shows "snd (upload_assets str_of w dl as s) = (None, fold (try_asset w dl) as s)"
proof (induction as arbitrary: s)
  case (Cons a as)
  show ?case
  proof (cases "as_path a")
    case None
    then have "try_asset w dl a s = s" by (simp add: try_asset_def)
    then show ?thesis using Cons.IH [of s] None by (simp add: split_beta prod_eq_iff)
  next
    case (Some pp)
    obtain path path_name where pp: "pp = (path, path_name)" by fastforce
    obtain r s1 where up: "upload_asset w dl a path s = (r, s1)" by fastforce
    have "case r of Inl e \<Rightarrow> expected str_of e | Inr _ \<Rightarrow> True"
      using upload_asset_expected [OF assms, of dl a path s] by (simp add: up)
    then obtain entries where "handle_outcome str_of (what_text a path_name) r = Inr entries"
      using handle_outcome_expected by blast
    moreover have "try_asset w dl a s = s1" by (simp add: try_asset_def Some pp up)
    ultimately show ?thesis using Cons.IH [of s1] Some
      by (simp add: pp up split_beta prod_eq_iff)
  qed
qed simp

text \<open>A server that holds what was created; it refuses the reference \<open>sha256:no\<close>.\<close>

definition demo_grant :: upload_grant where
  "demo_grant = \<lparr>gr_access_key = ''a'', gr_secret_key = ''s'', gr_session_token = None, gr_bucket = ''b'',
     gr_key = ''k'', gr_store = ''store''\<rparr>"

definition demo_world :: "string list world" where
  "demo_world = \<lparr>w_stored = (\<lambda>ref s. (Inr (ref \<in> set s), s)),
     w_grant = (\<lambda>ref s. (if ref = ''sha256:no'' then Inl (Refused \<lparr>ge_message = ''no'', ge_errors = None\<rparr>)
       else Inr demo_grant, s)),
     w_put = (\<lambda>_ _ _ s. (True, s)), w_create = (\<lambda>ref _ s. (Inr (), ref # s)),
     w_read = (\<lambda>path. Inr path), w_digest = id\<rparr>"

definition demo_asset :: "string \<Rightarrow> asset" where
  "demo_asset d = \<lparr>as_name = d, as_kind_label = ''model'', as_ref = ''sha256:'' @ d, as_path = Some (d, d), as_source = ''''\<rparr>"

theorem every_asset_is_tried_witness:
  "snd (upload_assets (\<lambda>_. ''?'') demo_world default_data_layer [demo_asset ''no'', demo_asset ''yes''] []) =
     (None, [''sha256:yes''])"
proof -
  have "requests_expected (\<lambda>_. ''?'') demo_world"
    by (simp add: requests_expected_def demo_world_def expected_def error_code_def)
  moreover have "fold (try_asset demo_world default_data_layer) [demo_asset ''no'', demo_asset ''yes''] [] = [''sha256:yes'']"
    by code_simp
  ultimately show ?thesis
    using every_asset_is_tried [of "\<lambda>_. ''?''" demo_world default_data_layer
        "[demo_asset ''no'', demo_asset ''yes'']" "[]"] by simp
qed

text \<open>
  Only the registered bytes are uploaded, and only once. If the server holds the asset
  already, or the file is no longer what was registered, the server is asked whether it holds
  it and nothing else happens: no grant, no upload, no record.
\<close>

theorem changed_file_is_not_uploaded:
  assumes "w_stored w (as_ref a) s = (Inr held_there, s1)"
    and "held_there \<or> (case w_read w path of Inl _ \<Rightarrow> True | Inr data \<Rightarrow> ''sha256:'' @ w_digest w data \<noteq> as_ref a)"
  shows "snd (upload_asset w dl a path s) = s1 \<and> fst (upload_asset w dl a path s) \<noteq> Inr True"
  using assms by (cases held_there) (auto simp: upload_asset_def split: sum.splits)

theorem changed_file_is_not_uploaded_witness:
  "snd (upload_asset demo_world default_data_layer (demo_asset ''a'') ''b'' []) = [] \<and>
   fst (upload_asset demo_world default_data_layer (demo_asset ''a'') ''b'' []) \<noteq> Inr True"
  by (rule changed_file_is_not_uploaded [where held_there = False])
    (simp_all add: demo_world_def demo_asset_def)

end
