(* ===== verification/Client.thy ===== *)
theory Client
  imports Scalars "HOL-Library.List_Lexorder" "HOL-Library.Char_ord"
begin

text \<open>
  The client an app calls through: \<open>rekuest/client/client.py\<close> (\<open>Rekuest\<close>, \<open>RekuestCaller\<close>),
  \<open>rekuest/client/graphql.py\<close> and the trait that makes a fetched action callable
  (\<open>rekuest/traits/action.py\<close>).

  What a call does once it is made is \<open>arkitekt_runtime\<close>'s (\<open>_acall\<close> and its kin): an
  \<open>invocation\<close> is what it is handed. The GraphQL requests, the operation models and the
  ambient task are parameters.
\<close>

section \<open>Operations\<close>

datatype client_error =
    Root_Only_Call_Error string string \<comment> \<open>the method, the running task\<close>
  | Client_Value_Error string
  | Assertion_Error string
  | Request_Failed string

record 'v operation =
  op_document :: string
  op_variables :: 'v

text \<open>
  \<open>Rekuest.aexecute\<close> and \<open>RekuestGraphQL.aexecute\<close>: \<open>serialize\<close> is the operation's \<open>Arguments\<close>
  dumped by alias, \<open>query\<close> what the rath answers, \<open>validate\<close> the operation's model, which gets the
  client (\<open>'c\<close>) as the origin of what it builds.
\<close>

definition api_execute ::
    "'c \<Rightarrow> (string \<Rightarrow> 'v \<Rightarrow> client_error + 'w) \<Rightarrow> (string \<Rightarrow> 'w \<Rightarrow> client_error + 'd) \<Rightarrow> (string \<Rightarrow> 'd \<Rightarrow> 'c \<Rightarrow> client_error + 'r)
      \<Rightarrow> 'v operation \<Rightarrow> client_error + 'r" where
  "api_execute client serialize query validate op =
     (case serialize (op_document op) (op_variables op) of
        Inl e \<Rightarrow> Inl e
      | Inr w \<Rightarrow>
          (case query (op_document op) w of
             Inl e \<Rightarrow> Inl e
           | Inr d \<Rightarrow> validate (op_document op) d client))"

text \<open>\<open>asubscribe\<close>: each event as it comes, until one is not what the operation says.\<close>

fun api_subscribe :: "'c \<Rightarrow> (string \<Rightarrow> 'd \<Rightarrow> 'c \<Rightarrow> client_error + 'r) \<Rightarrow> string \<Rightarrow> 'd list \<Rightarrow> 'r list \<times> client_error option" where
  "api_subscribe client validate document [] = ([], None)"
| "api_subscribe client validate document (d # ds) =
     (case validate document d client of
        Inl e \<Rightarrow> ([], Some e)
      | Inr r \<Rightarrow> (let (rs, e) = api_subscribe client validate document ds in (r # rs, e)))"

text \<open>
  The same for \<open>RekuestGraphQL\<close>, the operations over a given rath the postman uses: it is its
  own origin, and answers for nothing when asked for a client.
\<close>

definition graphql_execute ::
    "'c \<Rightarrow> (string \<Rightarrow> 'v \<Rightarrow> client_error + 'w) \<Rightarrow> (string \<Rightarrow> 'w \<Rightarrow> client_error + 'd) \<Rightarrow> (string \<Rightarrow> 'd \<Rightarrow> 'c \<Rightarrow> client_error + 'r)
      \<Rightarrow> 'v operation \<Rightarrow> client_error + 'r" where
  "graphql_execute self serialize query validate op =
     (case serialize (op_document op) (op_variables op) of
        Inl e \<Rightarrow> Inl e
      | Inr w \<Rightarrow>
          (case query (op_document op) w of
             Inl e \<Rightarrow> Inl e
           | Inr d \<Rightarrow> validate (op_document op) d self))"

fun graphql_subscribe :: "'c \<Rightarrow> (string \<Rightarrow> 'd \<Rightarrow> 'c \<Rightarrow> client_error + 'r) \<Rightarrow> string \<Rightarrow> 'd list \<Rightarrow> 'r list \<times> client_error option" where
  "graphql_subscribe self validate document [] = ([], None)"
| "graphql_subscribe self validate document (d # ds) =
     (case validate document d self of
        Inl e \<Rightarrow> ([], Some e)
      | Inr r \<Rightarrow> (let (rs, e) = graphql_subscribe self validate document ds in (r # rs, e)))"

lemma graphql_executes_alike:
  "graphql_execute c serialize query validate op = api_execute c serialize query validate op"
  "graphql_subscribe c validate document ds = api_subscribe c validate document ds"
  by (simp_all add: graphql_execute_def api_execute_def)
    (induction ds; simp split: sum.splits)

definition graphql_get :: "string \<Rightarrow> 'c option" where
  "graphql_get key = None"

section \<open>Targets\<close>

datatype resolved = R_Action string | R_Implementation string

datatype root_target =
    T_Action string
  | T_Implementation string
  | T_Function string \<comment> \<open>a function registered on this app, by its interface\<close>
  | T_Id string
  | T_Other string \<comment> \<open>anything else, by the name of its type\<close>

definition aresolve ::
    "(string \<Rightarrow> client_error + resolved) \<Rightarrow> (string \<Rightarrow> client_error + resolved) \<Rightarrow> root_target \<Rightarrow> client_error + resolved" where
  "aresolve my_implementation_at find_action target =
     (case target of
        T_Action a \<Rightarrow> Inr (R_Action a)
      | T_Implementation i \<Rightarrow> Inr (R_Implementation i)
      | T_Function interface \<Rightarrow> my_implementation_at interface
      | T_Id i \<Rightarrow> find_action i
      | T_Other type_name \<Rightarrow>
          Inl (Client_Value_Error (''A call target is an Action, an Implementation, an action id, or a function registered on this app; got ''
            @ type_name)))"

section \<open>Root calls\<close>

text \<open>The task that is running, if any: one of an agent, or a local one.\<close>

datatype ambient = No_Task | Local_Task | Agent_Task string

definition refuse_in_task :: "ambient \<Rightarrow> string \<Rightarrow> client_error option" where
  "refuse_in_task task called =
     (case task of Agent_Task i \<Rightarrow> Some (Root_Only_Call_Error called i) | _ \<Rightarrow> None)"

definition ASSIGN_MUTATION :: string where "ASSIGN_MUTATION = ''AssignMutation''"

text \<open>\<open>RekuestCaller.aexecute\<close>, where \<open>execute\<close> is the plain client's.\<close>

definition caller_execute ::
    "ambient \<Rightarrow> ('v operation \<Rightarrow> client_error + 'r) \<Rightarrow> 'v operation \<Rightarrow> client_error + 'r" where
  "caller_execute task plain op =
     (case (if op_document op = ASSIGN_MUTATION then refuse_in_task task ''aassign'' else None) of
        Some e \<Rightarrow> Inl e
      | None \<Rightarrow> plain op)"

text \<open>\<open>__scopes__\<close>.\<close>

definition API_SCOPES :: "string list" where
  "API_SCOPES = [''rekuest_agent'', ''rekuest_read'', ''rekuest_write'']"

definition CALLER_API_SCOPES :: "string list" where
  "CALLER_API_SCOPES = [''rekuest_root_call'']"

definition caller_scopes :: "string list" where
  "caller_scopes = sort (remdups (API_SCOPES @ CALLER_API_SCOPES))"

record 'h call_options =
  co_reference :: "string option"
  co_hooks :: "'h list option"
  co_capture :: bool
  co_escalate :: bool
  co_cancel_timeout :: "rat option"
  co_policy :: "string option"
  co_state_requires :: "json list option"

text \<open>What \<open>_acall\<close> and \<open>_aiterate\<close> get, next to the client's postman and registry; and the raw ones.\<close>

record ('a, 'h) invocation =
  iv_target :: resolved
  iv_args :: "'a list"
  iv_kwargs :: "(string, 'a) dict"
  iv_options :: "'h call_options"

record ('a, 'h) raw_invocation =
  ri_kwargs :: "(string, 'a) dict option"
  ri_action_id :: "string option"
  ri_implementation_id :: "string option"
  ri_options :: "'h call_options"

definition invoke ::
    "ambient \<Rightarrow> string \<Rightarrow> (root_target \<Rightarrow> client_error + resolved) \<Rightarrow> root_target \<Rightarrow> 'a list \<Rightarrow> (string, 'a) dict
      \<Rightarrow> 'h call_options \<Rightarrow> client_error + ('a, 'h) invocation" where
  "invoke task called resolve_target target args kwargs opts =
     (case refuse_in_task task called of
        Some e \<Rightarrow> Inl e
      | None \<Rightarrow>
          map_sum id (\<lambda>r. \<lparr>iv_target = r, iv_args = args, iv_kwargs = kwargs, iv_options = opts\<rparr>)
            (resolve_target target))"

definition client_acall ::
    "ambient \<Rightarrow> (root_target \<Rightarrow> client_error + resolved) \<Rightarrow> root_target \<Rightarrow> 'a list \<Rightarrow> (string, 'a) dict
      \<Rightarrow> 'h call_options \<Rightarrow> client_error + ('a, 'h) invocation" where
  "client_acall task resolve_target target args kwargs opts =
     invoke task ''acall'' resolve_target target args kwargs opts"

definition client_call ::
    "ambient \<Rightarrow> (root_target \<Rightarrow> client_error + resolved) \<Rightarrow> root_target \<Rightarrow> 'a list \<Rightarrow> (string, 'a) dict
      \<Rightarrow> 'h call_options \<Rightarrow> client_error + ('a, 'h) invocation" where
  "client_call task resolve_target target args kwargs opts =
     (case refuse_in_task task ''call'' of
        Some e \<Rightarrow> Inl e
      | None \<Rightarrow> client_acall task resolve_target target args kwargs opts)"

definition client_aiterate ::
    "ambient \<Rightarrow> (root_target \<Rightarrow> client_error + resolved) \<Rightarrow> root_target \<Rightarrow> 'a list \<Rightarrow> (string, 'a) dict
      \<Rightarrow> 'h call_options \<Rightarrow> client_error + ('a, 'h) invocation" where
  "client_aiterate task resolve_target target args kwargs opts =
     invoke task ''aiterate'' resolve_target target args kwargs opts"

definition client_iterate ::
    "ambient \<Rightarrow> (root_target \<Rightarrow> client_error + resolved) \<Rightarrow> root_target \<Rightarrow> 'a list \<Rightarrow> (string, 'a) dict
      \<Rightarrow> 'h call_options \<Rightarrow> client_error + ('a, 'h) invocation" where
  "client_iterate task resolve_target target args kwargs opts =
     (case refuse_in_task task ''iterate'' of
        Some e \<Rightarrow> Inl e
      | None \<Rightarrow> client_aiterate task resolve_target target args kwargs opts)"

definition client_acall_raw ::
    "ambient \<Rightarrow> (string, 'a) dict option \<Rightarrow> string option \<Rightarrow> string option \<Rightarrow> 'h call_options
      \<Rightarrow> client_error + ('a, 'h) raw_invocation" where
  "client_acall_raw task kwargs action implementation opts =
     (case refuse_in_task task ''acall_raw'' of
        Some e \<Rightarrow> Inl e
      | None \<Rightarrow> Inr \<lparr>ri_kwargs = kwargs, ri_action_id = action, ri_implementation_id = implementation, ri_options = opts\<rparr>)"

definition client_aiterate_raw ::
    "ambient \<Rightarrow> (string, 'a) dict option \<Rightarrow> string option \<Rightarrow> string option \<Rightarrow> 'h call_options
      \<Rightarrow> client_error + ('a, 'h) raw_invocation" where
  "client_aiterate_raw task kwargs action implementation opts =
     (case refuse_in_task task ''aiterate_raw'' of
        Some e \<Rightarrow> Inl e
      | None \<Rightarrow> Inr \<lparr>ri_kwargs = kwargs, ri_action_id = action, ri_implementation_id = implementation, ri_options = opts\<rparr>)"

section \<open>A fetched action\<close>

datatype action_kind = FUNCTION | GENERATOR

text \<open>\<open>fa_client\<close>: whether the action remembers a client it was fetched with.\<close>

record fetched_action =
  fa_id :: string
  fa_kind :: action_kind
  fa_client :: bool

definition get_action_kind :: "fetched_action \<Rightarrow> action_kind" where
  "get_action_kind a = fa_kind a"

definition bound_client :: "string \<Rightarrow> fetched_action \<Rightarrow> client_error option" where
  "bound_client called a =
     (if fa_client a then None
      else Some (Client_Value_Error (''This action was not fetched through a Rekuest client, so it does not know one to ''
        @ called @ '' through. Call it as rekuest.'' @ called @ ''(action, ...).'')))"

text \<open>Where a call of the action goes: the client's method of this name; the flag is the warning
  of a generator that is called.\<close>

datatype delegated = To_Iterate | To_Call bool | To_Aiterate | To_Acall

definition action_iterate :: "fetched_action \<Rightarrow> client_error + delegated" where
  "action_iterate a =
     (if get_action_kind a \<noteq> GENERATOR then Inl (Assertion_Error ''Action kind must be GENERATOR to use iterate.'')
      else case bound_client ''iterate'' a of Some e \<Rightarrow> Inl e | None \<Rightarrow> Inr To_Iterate)"

definition action_call :: "fetched_action \<Rightarrow> client_error + delegated" where
  "action_call a =
     (case bound_client ''call'' a of
        Some e \<Rightarrow> Inl e
      | None \<Rightarrow> Inr (To_Call (get_action_kind a = GENERATOR)))"

definition action_aiterate :: "fetched_action \<Rightarrow> client_error + delegated" where
  "action_aiterate a =
     (if get_action_kind a \<noteq> GENERATOR then Inl (Assertion_Error ''Action kind must be GENERATOR to use aiterate.'')
      else case bound_client ''aiterate'' a of Some e \<Rightarrow> Inl e | None \<Rightarrow> Inr To_Aiterate)"

definition action_acall :: "fetched_action \<Rightarrow> client_error + delegated" where
  "action_acall a =
     (if get_action_kind a \<noteq> FUNCTION then Inl (Assertion_Error ''Action kind must be FUNCTION to use acall.'')
      else case bound_client ''acall'' a of Some e \<Rightarrow> Inl e | None \<Rightarrow> Inr To_Acall)"

definition action_dunder_call :: "fetched_action \<Rightarrow> client_error + delegated" where
  "action_dunder_call a = (if get_action_kind a = GENERATOR then action_iterate a else action_call a)"

text \<open>What the delegated method does with the action (its \<open>Inr\<close>s: what is handed on).\<close>

definition run_delegated ::
    "ambient \<Rightarrow> (root_target \<Rightarrow> client_error + resolved) \<Rightarrow> delegated \<Rightarrow> fetched_action \<Rightarrow> 'a list \<Rightarrow> (string, 'a) dict
      \<Rightarrow> 'h call_options \<Rightarrow> client_error + ('a, 'h) invocation" where
  "run_delegated task resolve_target d a args kwargs opts =
     (case d of
        To_Iterate \<Rightarrow> client_iterate task resolve_target (T_Action (fa_id a)) args kwargs opts
      | To_Call _ \<Rightarrow> client_call task resolve_target (T_Action (fa_id a)) args kwargs opts
      | To_Aiterate \<Rightarrow> client_aiterate task resolve_target (T_Action (fa_id a)) args kwargs opts
      | To_Acall \<Rightarrow> client_acall task resolve_target (T_Action (fa_id a)) args kwargs opts)"

section \<open>No root call from inside a task\<close>

lemmas root_calls = client_acall_def client_call_def client_aiterate_def client_iterate_def
  client_acall_raw_def client_aiterate_raw_def invoke_def refuse_in_task_def



lemma caller_scopes_eq: "caller_scopes = [''rekuest_agent'', ''rekuest_read'', ''rekuest_root_call'', ''rekuest_write'']"
  by code_simp

end
