(* ===== verification/Wiring.thy ===== *)
theory Wiring
  imports Assets Client Connection_Loop
begin

text \<open>
  How an app's rekuest service, caller service and agent are put together:
  \<open>rekuest/arkitekt.py\<close>.

  Links and transports are values: \<open>sends\<close> is the way an operation takes through a link. The
  run's alias, token loader, manifest and registry are \<open>fakts\<close>' and \<open>arkitekt_spec\<close>'s: the
  records have what this code reads.
\<close>

section \<open>Links\<close>

record service_alias =
  sv_http_path :: "string \<Rightarrow> string"
  sv_ws_path :: "string \<Rightarrow> string"
  sv_proxy :: "string option"

datatype link =
    Upload_Link data_layer
  | Auth_Link
  | Http_Link string "string option"
  | Ws_Link string "string option"
  | Split_Link link link "operation_type \<Rightarrow> bool"
  | Compose "link list"

definition split_left :: "operation_type \<Rightarrow> bool" where
  "split_left op \<longleftrightarrow> op \<noteq> SUBSCRIPTION"

definition build_rath :: "service_alias \<Rightarrow> store_alias \<Rightarrow> link" where
  "build_rath rekuest s3 =
     Compose [Upload_Link (fst (from_alias s3)), Auth_Link,
       Split_Link (Http_Link (sv_http_path rekuest ''graphql'') (sv_proxy rekuest))
         (Ws_Link (sv_ws_path rekuest ''graphql'') (sv_proxy rekuest)) split_left]"

text \<open>The links an operation passes, in order.\<close>

fun sends :: "operation_type \<Rightarrow> link \<Rightarrow> link list" where
  "sends op (Split_Link l r f) = (if f op then sends op l else sends op r)"
| "sends op (Compose ls) = concat (map (sends op) ls)"
| "sends op l = [l]"

section \<open>Services\<close>

record service =
  sc_rath :: link
  sc_postman_rath :: "link option" \<comment> \<open>the rath of its postman, if it has one\<close>
  sc_image :: string

definition rekuest_service :: "service_alias \<Rightarrow> store_alias \<Rightarrow> service" where
  "rekuest_service rekuest s3 =
     \<lparr>sc_rath = build_rath rekuest s3, sc_postman_rath = None, sc_image = ''jhnnsrs/rekuest:13''\<rparr>"

definition rekuest_caller_service :: "service_alias \<Rightarrow> store_alias \<Rightarrow> service" where
  "rekuest_caller_service rekuest s3 =
     (let rath = build_rath rekuest s3
      in \<lparr>sc_rath = rath, sc_postman_rath = Some rath, sc_image = ''jhnnsrs/rekuest:13''\<rparr>)"

section \<open>The agent\<close>

record manifest =
  mf_identifier :: string
  mf_version :: string
  mf_description :: "string option"

definition asset_upload_link :: "service_alias \<Rightarrow> link" where
  "asset_upload_link rekuest =
     Compose [Auth_Link, Http_Link (sv_http_path rekuest ''graphql'') (sv_proxy rekuest)]"

record agent_setup =
  ag_endpoint_url :: string
  ag_proxy :: "string option"
  ag_agent_name :: string
  ag_description :: "string option"
  ag_upload :: "(link \<times> data_layer \<times> asset list) option" \<comment> \<open>what follows the registration\<close>

definition asset_upload :: "service_alias \<Rightarrow> store_alias \<Rightarrow> asset list \<Rightarrow> link \<times> data_layer \<times> asset list" where
  "asset_upload rekuest s3 assets = (asset_upload_link rekuest, fst (from_alias s3), assets)"

definition rekuest_agent :: "service_alias \<Rightarrow> store_alias \<Rightarrow> manifest \<Rightarrow> asset list \<Rightarrow> agent_setup" where
  "rekuest_agent rekuest s3 m assets =
     \<lparr>ag_endpoint_url = sv_ws_path rekuest ''agi'', ag_proxy = sv_proxy rekuest,
      ag_agent_name = mf_identifier m @ '':'' @ mf_version m, ag_description = mf_description m,
      ag_upload = (if list_ex (\<lambda>a. as_path a \<noteq> None) assets then Some (asset_upload rekuest s3 assets) else None)\<rparr>"

section \<open>Structures\<close>

text \<open>What the client is asked for to expand a structure.\<close>

datatype lookup =
    Get_Implementation string
  | Find_Action string
  | Get_Shortcut string
  | Get_Test_Case string
  | Get_Test_Result string
  | Get_Materialized_Blok string
  | Get_Agent string
  | Get_Event string

definition expand_implementation :: "string \<Rightarrow> lookup" where "expand_implementation i = Get_Implementation i"
definition expand_action :: "string \<Rightarrow> lookup" where "expand_action i = Find_Action i"
definition expand_shortcut :: "string \<Rightarrow> lookup" where "expand_shortcut i = Get_Shortcut i"
definition expand_test_case :: "string \<Rightarrow> lookup" where "expand_test_case i = Get_Test_Case i"
definition expand_test_result :: "string \<Rightarrow> lookup" where "expand_test_result i = Get_Test_Result i"
definition expand_materialized_blok :: "string \<Rightarrow> lookup" where
  "expand_materialized_blok i = Get_Materialized_Blok i"
definition expand_agent :: "string \<Rightarrow> lookup" where "expand_agent i = Get_Agent i"
definition expand_task_event :: "string \<Rightarrow> lookup" where "expand_task_event i = Get_Event i"

lemmas expanders = expand_implementation_def expand_action_def expand_shortcut_def expand_test_case_def
  expand_test_result_def expand_materialized_blok_def expand_agent_def expand_task_event_def

text \<open>The registered structures: their identifier, the query of their widget, their expander.\<close>

definition structures :: "(string \<times> string option \<times> (string \<Rightarrow> lookup)) list" where
  "structures =
     [(''@rekuest/implementation'', Some ''SearchImplementationsQuery'', expand_implementation),
      (''@rekuest/action'', Some ''SearchActionsQuery'', expand_action),
      (''@rekuest/shortcut'', Some ''SearchShortcutsQuery'', expand_shortcut),
      (''@rekuest/testcase'', Some ''SearchTestCasesQuery'', expand_test_case),
      (''@rekuest/testresult'', Some ''SearchTestResultsQuery'', expand_test_result),
      (''@rekuest/materialized_blok'', Some ''SearchMaterializedBloksQuery'', expand_materialized_blok),
      (''@rekuest/agent'', Some ''SearchAgentsQuery'', expand_agent),
      (''@rekuest/taskevent'', None, expand_task_event)]"

definition SUPERVISOR :: string where "SUPERVISOR = ''@rekuest/supervisor''"

definition describe_agent :: "string option \<Rightarrow> (string, string) dict" where
  "describe_agent supervisor = (if truthy supervisor then [(SUPERVISOR, the supervisor)] else [])"

section \<open>What goes where\<close>

text \<open>
  Every operation of a client has its files uploaded before it is authenticated and sent,
  whatever it is; only subscriptions go over the websocket, everything else over HTTP; and the
  caller's postman sends over the same connection as its client.
\<close>

theorem operations_pass_the_links:
  "sends op (sc_rath (rekuest_service rekuest s3)) =
     [Upload_Link (fst (from_alias s3)), Auth_Link,
      if op = SUBSCRIPTION then Ws_Link (sv_ws_path rekuest ''graphql'') (sv_proxy rekuest)
      else Http_Link (sv_http_path rekuest ''graphql'') (sv_proxy rekuest)] \<and>
   sc_rath (rekuest_caller_service rekuest s3) = sc_rath (rekuest_service rekuest s3) \<and>
   sc_postman_rath (rekuest_caller_service rekuest s3) = Some (sc_rath (rekuest_caller_service rekuest s3))"
  by (simp add: rekuest_service_def rekuest_caller_service_def build_rath_def split_left_def Let_def)

text \<open>
  The types rekuest sends by id are well formed: no two structures share an identifier,
  each identifier is one the scalar accepts, and no two expand by the same lookup.
\<close>

theorem structures_well_formed:
  "distinct (map fst structures) \<and>
   list_all (\<lambda>(ident, _, _). identifier_validate ident = Inr ident) structures \<and>
   distinct (map (\<lambda>(_, _, expand). expand i) structures)"
proof (intro conjI)
  show "distinct (map fst structures)" by (simp add: structures_def)
  show "list_all (\<lambda>(ident, _, _). identifier_validate ident = Inr ident) structures"
    by (simp add: structures_def identifier_validate_def)
  show "distinct (map (\<lambda>(_, _, expand). expand i) structures)"
    by (simp add: structures_def expanders)
qed

lemma upload_assets_nothing:
  "\<not> list_ex (\<lambda>a. as_path a \<noteq> None) assets \<Longrightarrow> snd (snd (upload_assets str_of w dl assets s)) = s"
proof (induction assets)
  case (Cons a as)
  then have "as_path a = None" by (cases "as_path a") auto
  then show ?case using Cons by (simp add: split_beta)
qed simp

text \<open>
  An agent has a follow-up to its registration exactly when there is something to upload;
  the follow-up that is left out would have changed nothing. An agent describes itself with a
  supervisor only if it declared one.
\<close>

theorem follow_up_iff_assets:
  "(ag_upload (rekuest_agent rekuest s3 m assets) \<noteq> None) = list_ex (\<lambda>a. as_path a \<noteq> None) assets \<and>
   (case ag_upload (rekuest_agent rekuest s3 m assets) of
      None \<Rightarrow> snd (snd (upload_assets str_of w dl assets s)) = s
    | Some (l, store, as) \<Rightarrow> as = assets \<and> store = fst (from_alias s3) \<and>
        sends op l = [Auth_Link, Http_Link (sv_http_path rekuest ''graphql'') (sv_proxy rekuest)]) \<and>
   dict_keys (describe_agent supervisor) = (if truthy supervisor then [SUPERVISOR] else [])"
  using upload_assets_nothing [of assets str_of w dl s]
  by (simp add: rekuest_agent_def asset_upload_def asset_upload_link_def describe_agent_def)

end
