(* ===== verification/Api_Operations.thy ===== *)
theory Api_Operations
  imports Prelude
begin

text \<open>
  The operations of the API as methods: \<open>rekuest/api/schema.py\<close>, classes \<open>RekuestApi\<close> and
  \<open>RekuestCallerApi\<close>.

  Every method, in its asynchronous and its blocking form, does the same: it puts the
  arguments it was given under their names on the wire, leaves out those it was not given
  (\<open>UNSET\<close>), hands the variables to \<open>execute\<close> or \<open>subscribe\<close> with its operation and takes one
  field of the answer. One \<open>operation_spec\<close> per pair of methods has what differs;
  \<open>call_operation\<close> is what they all do with it.
\<close>

section \<open>What a method does\<close>

text \<open>The arguments, in the order the method puts them: name, name on the wire, whether required.\<close>

record operation_spec =
  os_operation :: string
  os_input :: bool \<comment> \<open>they are fields of one variable, \<open>input\<close>\<close>
  os_stream :: bool
  os_answer :: string
  os_fields :: "(string \<times> string \<times> bool) list"

datatype api_error = Unexpected_Argument string | Missing_Argument string

datatype 'v api_variables = Plain "(string, 'v) dict" | Input "(string, 'v) dict"

definition put_fields :: "(string \<times> string \<times> bool) list \<Rightarrow> (string, 'v) dict \<Rightarrow> (string, 'v) dict" where
  "put_fields fs kwargs =
     fold (\<lambda>(a, k, _) d. case dict_get kwargs a of None \<Rightarrow> d | Some v \<Rightarrow> dict_put d k v) fs []"

definition argument_names :: "operation_spec \<Rightarrow> string list" where
  "argument_names spec = map fst (os_fields spec)"

definition wire_names :: "operation_spec \<Rightarrow> string list" where
  "wire_names spec = map (fst \<circ> snd) (os_fields spec)"

definition required_names :: "operation_spec \<Rightarrow> string list" where
  "required_names spec = map fst (filter (snd \<circ> snd) (os_fields spec))"

text \<open>A call with keyword arguments; Python itself rejects an unknown one, and a required one left out.\<close>

definition call_operation :: "operation_spec \<Rightarrow> (string, 'v) dict \<Rightarrow> api_error + 'v api_variables" where
  "call_operation spec kwargs =
     (case filter (\<lambda>a. a \<notin> set (argument_names spec)) (dict_keys kwargs) of
        a # _ \<Rightarrow> Inl (Unexpected_Argument a)
      | [] \<Rightarrow>
          (case filter (\<lambda>a. dict_get kwargs a = None) (required_names spec) of
             a # _ \<Rightarrow> Inl (Missing_Argument a)
           | [] \<Rightarrow> Inr ((if os_input spec then Input else Plain) (put_fields (os_fields spec) kwargs))))"

section \<open>The methods\<close>

definition op_ensure_agent :: operation_spec where
  "op_ensure_agent = \<lparr>os_operation = ''EnsureAgentMutation'', os_input = True, os_stream = False, os_answer = ''ensure_agent'', os_fields =
      [(''name'', ''name'', False), (''description'', ''description'', False),
       (''kind'', ''kind'', False), (''hook_url'', ''hookUrl'', False),
       (''hook_url_secret'', ''hookUrlSecret'', False)]\<rparr>"

definition op_implement_agent :: operation_spec where
  "op_implement_agent = \<lparr>os_operation = ''ImplementAgentMutation'', os_input = True, os_stream = False, os_answer = ''implement_agent'', os_fields =
      [(''name'', ''name'', False), (''description'', ''description'', False),
       (''states'', ''states'', False), (''implementations'', ''implementations'', False),
       (''locks'', ''locks'', False), (''bloks'', ''bloks'', False),
       (''assets'', ''assets'', False), (''hash'', ''hash'', False)]\<rparr>"

definition op_request_asset_upload :: operation_spec where
  "op_request_asset_upload = \<lparr>os_operation = ''RequestAssetUploadMutation'', os_input = True, os_stream = False, os_answer = ''request_asset_upload'', os_fields =
      [(''ref'', ''ref'', True), (''size'', ''size'', False)]\<rparr>"

definition op_create_asset :: operation_spec where
  "op_create_asset = \<lparr>os_operation = ''CreateAssetMutation'', os_input = True, os_stream = False, os_answer = ''create_asset'', os_fields =
      [(''ref'', ''ref'', True), (''store'', ''store'', True)]\<rparr>"

definition op_create_blok :: operation_spec where
  "op_create_blok = \<lparr>os_operation = ''CreateBlokMutation'', os_input = True, os_stream = False, os_answer = ''create_blok'', os_fields =
      [(''name'', ''name'', True), (''dependencies'', ''dependencies'', False),
       (''description'', ''description'', False), (''module'', ''module'', False),
       (''components'', ''components'', False), (''source'', ''source'', False),
       (''vocab'', ''vocab'', True), (''catalogs'', ''catalogs'', False),
       (''locals'', ''locals'', False), (''demo'', ''demo'', False),
       (''queries'', ''queries'', False), (''subscriptions'', ''subscriptions'', False),
       (''context'', ''context'', False), (''for_model'', ''forModel'', False),
       (''for_node'', ''forNode'', False), (''origin'', ''origin'', False),
       (''origin_hash'', ''originHash'', False)]\<rparr>"

definition op_materialize_blok :: operation_spec where
  "op_materialize_blok = \<lparr>os_operation = ''MaterializeBlokMutation'', os_input = True, os_stream = False, os_answer = ''materialize_blok'', os_fields =
      [(''blok'', ''blok'', True), (''dashboard'', ''dashboard'', False),
       (''agent_mappings'', ''agentMappings'', False), (''name'', ''name'', False),
       (''description'', ''description'', False), (''scope'', ''scope'', False)]\<rparr>"

definition op_fork_blok :: operation_spec where
  "op_fork_blok = \<lparr>os_operation = ''ForkBlokMutation'', os_input = True, os_stream = False, os_answer = ''fork_blok'', os_fields =
      [(''id'', ''id'', True), (''name'', ''name'', False)]\<rparr>"

definition op_update_blok :: operation_spec where
  "op_update_blok = \<lparr>os_operation = ''UpdateBlokMutation'', os_input = True, os_stream = False, os_answer = ''update_blok'', os_fields =
      [(''id'', ''id'', True), (''name'', ''name'', False),
       (''description'', ''description'', False), (''components'', ''components'', False),
       (''source'', ''source'', False), (''module'', ''module'', False),
       (''dependencies'', ''dependencies'', False)]\<rparr>"

definition op_update_materialized_blok :: operation_spec where
  "op_update_materialized_blok = \<lparr>os_operation = ''UpdateMaterializedBlokMutation'', os_input = True, os_stream = False, os_answer = ''update_materialized_blok'', os_fields =
      [(''id'', ''id'', True), (''agent_mappings'', ''agentMappings'', False)]\<rparr>"

definition op_edit_blok :: operation_spec where
  "op_edit_blok = \<lparr>os_operation = ''EditBlokMutation'', os_input = True, os_stream = False, os_answer = ''edit_blok'', os_fields =
      [(''blok'', ''blok'', False), (''materialized_blok'', ''materializedBlok'', False),
       (''base'', ''base'', False), (''components'', ''components'', False),
       (''source'', ''source'', False), (''module'', ''module'', False),
       (''dependencies'', ''dependencies'', False), (''args'', ''args'', False),
       (''vocab'', ''vocab'', False), (''catalogs'', ''catalogs'', False),
       (''locals'', ''locals'', False), (''demo'', ''demo'', False),
       (''queries'', ''queries'', False), (''subscriptions'', ''subscriptions'', False),
       (''agent_mappings'', ''agentMappings'', False), (''message'', ''message'', False),
       (''task'', ''task'', False), (''dry_run'', ''dryRun'', False)]\<rparr>"

definition op_revert_blok :: operation_spec where
  "op_revert_blok = \<lparr>os_operation = ''RevertBlokMutation'', os_input = True, os_stream = False, os_answer = ''revert_blok'', os_fields =
      [(''blok'', ''blok'', True), (''to'', ''to'', True), (''base'', ''base'', True),
       (''message'', ''message'', False), (''task'', ''task'', False)]\<rparr>"

definition op_pin_materialized_blok :: operation_spec where
  "op_pin_materialized_blok = \<lparr>os_operation = ''PinMaterializedBlokMutation'', os_input = True, os_stream = False, os_answer = ''pin_materialized_blok'', os_fields =
      [(''id'', ''id'', True), (''revision'', ''revision'', False)]\<rparr>"

definition op_register_module :: operation_spec where
  "op_register_module = \<lparr>os_operation = ''RegisterModuleMutation'', os_input = True, os_stream = False, os_answer = ''register_module'', os_fields =
      [(''name'', ''name'', True), (''description'', ''description'', False),
       (''components'', ''components'', False), (''operations'', ''operations'', False),
       (''catalogs'', ''catalogs'', False), (''widget_defaults'', ''widgetDefaults'', False)]\<rparr>"

definition op_create_dashboard :: operation_spec where
  "op_create_dashboard = \<lparr>os_operation = ''CreateDashboardMutation'', os_input = True, os_stream = False, os_answer = ''create_dashboard'', os_fields =
      [(''name'', ''name'', True), (''bloks'', ''bloks'', False)]\<rparr>"

definition op_request_media_upload :: operation_spec where
  "op_request_media_upload = \<lparr>os_operation = ''RequestMediaUploadMutation'', os_input = True, os_stream = False, os_answer = ''request_media_upload'', os_fields =
      [(''original_file_name'', ''originalFileName'', True), (''file_size'', ''fileSize'', True),
       (''content_type'', ''contentType'', False)]\<rparr>"

definition op_finish_media_upload :: operation_spec where
  "op_finish_media_upload = \<lparr>os_operation = ''FinishMediaUploadMutation'', os_input = True, os_stream = False, os_answer = ''finish_media_upload'', os_fields =
      [(''store_id'', ''storeId'', True), (''valid'', ''valid'', False)]\<rparr>"

definition op_request_media_access :: operation_spec where
  "op_request_media_access = \<lparr>os_operation = ''RequestMediaAccessMutation'', os_input = True, os_stream = False, os_answer = ''request_media_access'', os_fields =
      [(''store_id'', ''storeId'', True)]\<rparr>"

definition op_shelve :: operation_spec where
  "op_shelve = \<lparr>os_operation = ''ShelveMutation'', os_input = True, os_stream = False, os_answer = ''shelve_in_memory_drawer'', os_fields =
      [(''identifier'', ''identifier'', True), (''resource_id'', ''resourceId'', True),
       (''label'', ''label'', False), (''description'', ''description'', False)]\<rparr>"

definition op_unshelve :: operation_spec where
  "op_unshelve = \<lparr>os_operation = ''UnshelveMutation'', os_input = True, os_stream = False, os_answer = ''unshelve_memory_drawer'', os_fields =
      [(''id'', ''id'', True)]\<rparr>"

definition op_create_shortcut :: operation_spec where
  "op_create_shortcut = \<lparr>os_operation = ''CreateShortcutMutation'', os_input = True, os_stream = False, os_answer = ''create_shortcut'', os_fields =
      [(''name'', ''name'', True), (''description'', ''description'', False),
       (''action'', ''action'', True), (''args'', ''args'', True),
       (''allow_quick'', ''allowQuick'', False), (''use_returns'', ''useReturns'', False),
       (''bind_number'', ''bindNumber'', False), (''toolbox'', ''toolbox'', False),
       (''bindings'', ''bindings'', False)]\<rparr>"

definition op_create_space :: operation_spec where
  "op_create_space = \<lparr>os_operation = ''CreateSpaceMutation'', os_input = True, os_stream = False, os_answer = ''create_space'', os_fields =
      [(''name'', ''name'', True), (''placements'', ''placements'', False)]\<rparr>"

definition op_collect :: operation_spec where
  "op_collect = \<lparr>os_operation = ''CollectMutation'', os_input = True, os_stream = False, os_answer = ''collect'', os_fields =
      [(''drawers'', ''drawers'', True)]\<rparr>"

definition op_create_higher_order_implementation :: operation_spec where
  "op_create_higher_order_implementation = \<lparr>os_operation = ''CreateHigherOrderImplementationMutation'', os_input = True, os_stream = False, os_answer = ''create_higher_order_implementation'', os_fields =
      [(''lower'', ''lower'', True), (''interface'', ''interface'', True),
       (''definition'', ''definition'', True), (''config'', ''config'', False),
       (''dependencies'', ''dependencies'', False)]\<rparr>"

definition op_create_testcase :: operation_spec where
  "op_create_testcase = \<lparr>os_operation = ''Create_testcaseMutation'', os_input = True, os_stream = False, os_answer = ''create_test_case'', os_fields =
      [(''action'', ''action'', True), (''tester'', ''tester'', True),
       (''description'', ''description'', False), (''name'', ''name'', False),
       (''is_benchmark'', ''isBenchmark'', False)]\<rparr>"

definition op_create_testresult :: operation_spec where
  "op_create_testresult = \<lparr>os_operation = ''Create_testresultMutation'', os_input = True, os_stream = False, os_answer = ''create_test_result'', os_fields =
      [(''case'', ''case'', True), (''tester'', ''tester'', True),
       (''implementation'', ''implementation'', True), (''passed'', ''passed'', True),
       (''result'', ''result'', False)]\<rparr>"

definition op_get_agent :: operation_spec where
  "op_get_agent = \<lparr>os_operation = ''GetAgentQuery'', os_input = False, os_stream = False, os_answer = ''agent'', os_fields =
      [(''id'', ''id'', True)]\<rparr>"

definition op_list_agents :: operation_spec where
  "op_list_agents = \<lparr>os_operation = ''ListAgentsQuery'', os_input = False, os_stream = False, os_answer = ''agents'', os_fields =
      [(''filters'', ''filters'', False), (''pagination'', ''pagination'', False)]\<rparr>"

definition op_get_agent_by_identifiers :: operation_spec where
  "op_get_agent_by_identifiers = \<lparr>os_operation = ''GetAgentByIdentifiersQuery'', os_input = False, os_stream = False, os_answer = ''agent'', os_fields =
      [(''app'', ''app'', True), (''version'', ''version'', False),
       (''device_id'', ''deviceId'', False)]\<rparr>"

definition op_search_agents :: operation_spec where
  "op_search_agents = \<lparr>os_operation = ''SearchAgentsQuery'', os_input = False, os_stream = False, os_answer = ''options'', os_fields =
      [(''search'', ''search'', False), (''values'', ''values'', False),
       (''requires'', ''requires'', False), (''limit'', ''limit'', False),
       (''offset'', ''offset'', False)]\<rparr>"

definition op_design_agents :: operation_spec where
  "op_design_agents = \<lparr>os_operation = ''DesignAgentsQuery'', os_input = False, os_stream = False, os_answer = ''agents'', os_fields =
      [(''filters'', ''filters'', False), (''pagination'', ''pagination'', False)]\<rparr>"

definition op_stored_asset :: operation_spec where
  "op_stored_asset = \<lparr>os_operation = ''StoredAssetQuery'', os_input = False, os_stream = False, os_answer = ''asset'', os_fields =
      [(''ref'', ''ref'', True)]\<rparr>"

definition op_get_materialized_blok :: operation_spec where
  "op_get_materialized_blok = \<lparr>os_operation = ''GetMaterializedBlokQuery'', os_input = False, os_stream = False, os_answer = ''materialized_blok'', os_fields =
      [(''id'', ''id'', True)]\<rparr>"

definition op_search_materialized_bloks :: operation_spec where
  "op_search_materialized_bloks = \<lparr>os_operation = ''SearchMaterializedBloksQuery'', os_input = False, os_stream = False, os_answer = ''options'', os_fields =
      [(''search'', ''search'', False), (''values'', ''values'', False),
       (''limit'', ''limit'', False), (''offset'', ''offset'', False)]\<rparr>"

definition op_list_bloks :: operation_spec where
  "op_list_bloks = \<lparr>os_operation = ''ListBloksQuery'', os_input = False, os_stream = False, os_answer = ''bloks'', os_fields =
      [(''search'', ''search'', False), (''provided'', ''provided'', False),
       (''limit'', ''limit'', False), (''offset'', ''offset'', False)]\<rparr>"

definition op_blok_revisions :: operation_spec where
  "op_blok_revisions = \<lparr>os_operation = ''BlokRevisionsQuery'', os_input = False, os_stream = False, os_answer = ''blok'', os_fields =
      [(''id'', ''id'', True), (''limit'', ''limit'', False), (''offset'', ''offset'', False)]\<rparr>"

definition op_action_bloks :: operation_spec where
  "op_action_bloks = \<lparr>os_operation = ''ActionBloksQuery'', os_input = False, os_stream = False, os_answer = ''action'', os_fields =
      [(''action'', ''action'', True)]\<rparr>"

definition op_modules :: operation_spec where
  "op_modules = \<lparr>os_operation = ''ModulesQuery'', os_input = False, os_stream = False, os_answer = ''modules'', os_fields =
      []\<rparr>"

definition op_module :: operation_spec where
  "op_module = \<lparr>os_operation = ''ModuleQuery'', os_input = False, os_stream = False, os_answer = ''module'', os_fields =
      [(''id'', ''id'', True)]\<rparr>"

definition op_base_catalog :: operation_spec where
  "op_base_catalog = \<lparr>os_operation = ''BaseCatalogQuery'', os_input = False, os_stream = False, os_answer = ''base_catalog'', os_fields =
      []\<rparr>"

definition op_get_dashboard :: operation_spec where
  "op_get_dashboard = \<lparr>os_operation = ''GetDashboardQuery'', os_input = False, os_stream = False, os_answer = ''dashboard'', os_fields =
      [(''id'', ''id'', True)]\<rparr>"

definition op_get_me_actions :: operation_spec where
  "op_get_me_actions = \<lparr>os_operation = ''GetMeActionsQuery'', os_input = False, os_stream = False, os_answer = ''actions'', os_fields =
      []\<rparr>"

definition op_get_implementation :: operation_spec where
  "op_get_implementation = \<lparr>os_operation = ''GetImplementationQuery'', os_input = False, os_stream = False, os_answer = ''implementation'', os_fields =
      [(''id'', ''id'', True)]\<rparr>"

definition op_list_implementations :: operation_spec where
  "op_list_implementations = \<lparr>os_operation = ''ListImplementationsQuery'', os_input = False, os_stream = False, os_answer = ''implementations'', os_fields =
      [(''filters'', ''filters'', False), (''pagination'', ''pagination'', False)]\<rparr>"

definition op_resolved_implementations :: operation_spec where
  "op_resolved_implementations = \<lparr>os_operation = ''ResolvedImplementationsQuery'', os_input = False, os_stream = False, os_answer = ''resolved_implementations'', os_fields =
      [(''resolution'', ''resolution'', True), (''dependency_key'', ''dependencyKey'', True),
       (''method_key'', ''methodKey'', True)]\<rparr>"

definition op_find :: operation_spec where
  "op_find = \<lparr>os_operation = ''FindQuery'', os_input = False, os_stream = False, os_answer = ''action'', os_fields =
      [(''id'', ''id'', False), (''implementation'', ''implementation'', False),
       (''hash'', ''hash'', False), (''matching'', ''matching'', False)]\<rparr>"

definition op_retrieveall :: operation_spec where
  "op_retrieveall = \<lparr>os_operation = ''RetrieveallQuery'', os_input = False, os_stream = False, os_answer = ''actions'', os_fields =
      []\<rparr>"

definition op_search_actions :: operation_spec where
  "op_search_actions = \<lparr>os_operation = ''SearchActionsQuery'', os_input = False, os_stream = False, os_answer = ''options'', os_fields =
      [(''search'', ''search'', False), (''values'', ''values'', False)]\<rparr>"

definition op_list_actions :: operation_spec where
  "op_list_actions = \<lparr>os_operation = ''ListActionsQuery'', os_input = False, os_stream = False, os_answer = ''actions'', os_fields =
      [(''filters'', ''filters'', False), (''pagination'', ''pagination'', False)]\<rparr>"

definition op_primary_actions :: operation_spec where
  "op_primary_actions = \<lparr>os_operation = ''PrimaryActionsQuery'', os_input = False, os_stream = False, os_answer = ''actions'', os_fields =
      [(''pagination'', ''pagination'', False), (''identifier'', ''identifier'', False),
       (''ordering'', ''ordering'', False), (''search'', ''search'', False)]\<rparr>"

definition op_list_shortcuts :: operation_spec where
  "op_list_shortcuts = \<lparr>os_operation = ''ListShortcutsQuery'', os_input = False, os_stream = False, os_answer = ''shortcuts'', os_fields =
      [(''pagination'', ''pagination'', False), (''filters'', ''filters'', False),
       (''ordering'', ''ordering'', False)]\<rparr>"

definition op_get_shortcut :: operation_spec where
  "op_get_shortcut = \<lparr>os_operation = ''GetShortcutQuery'', os_input = False, os_stream = False, os_answer = ''shortcut'', os_fields =
      [(''id'', ''id'', True)]\<rparr>"

definition op_search_shortcuts :: operation_spec where
  "op_search_shortcuts = \<lparr>os_operation = ''SearchShortcutsQuery'', os_input = False, os_stream = False, os_answer = ''options'', os_fields =
      [(''search'', ''search'', False), (''values'', ''values'', False),
       (''limit'', ''limit'', False), (''offset'', ''offset'', False)]\<rparr>"

definition op_spaces_for_agents :: operation_spec where
  "op_spaces_for_agents = \<lparr>os_operation = ''SpacesForAgentsQuery'', os_input = False, os_stream = False, os_answer = ''spaces_for_agents'', os_fields =
      [(''agents'', ''agents'', True)]\<rparr>"

definition op_get_state :: operation_spec where
  "op_get_state = \<lparr>os_operation = ''GetStateQuery'', os_input = False, os_stream = False, os_answer = ''state'', os_fields =
      [(''id'', ''id'', True)]\<rparr>"

definition op_checkout_agent :: operation_spec where
  "op_checkout_agent = \<lparr>os_operation = ''CheckoutAgentQuery'', os_input = False, os_stream = False, os_answer = ''checkout_agent'', os_fields =
      [(''agent'', ''agent'', True), (''timestamp'', ''timestamp'', False),
       (''forward_patch_count'', ''forwardPatchCount'', False),
       (''backward_patch_count'', ''backwardPatchCount'', False)]\<rparr>"

definition op_requests :: operation_spec where
  "op_requests = \<lparr>os_operation = ''RequestsQuery'', os_input = False, os_stream = False, os_answer = ''tasks'', os_fields =
      []\<rparr>"

definition op_get_event :: operation_spec where
  "op_get_event = \<lparr>os_operation = ''GetEventQuery'', os_input = False, os_stream = False, os_answer = ''event'', os_fields =
      [(''id'', ''id'', True)]\<rparr>"

definition op_task_events :: operation_spec where
  "op_task_events = \<lparr>os_operation = ''TaskEventsQuery'', os_input = False, os_stream = False, os_answer = ''task'', os_fields =
      [(''id'', ''id'', True)]\<rparr>"

definition op_task_run_view :: operation_spec where
  "op_task_run_view = \<lparr>os_operation = ''TaskRunViewQuery'', os_input = False, os_stream = False, os_answer = ''task'', os_fields =
      [(''id'', ''id'', True)]\<rparr>"

definition op_search_implementations :: operation_spec where
  "op_search_implementations = \<lparr>os_operation = ''SearchImplementationsQuery'', os_input = False, os_stream = False, os_answer = ''options'', os_fields =
      [(''search'', ''search'', False), (''values'', ''values'', False)]\<rparr>"

definition op_implementations_for :: operation_spec where
  "op_implementations_for = \<lparr>os_operation = ''ImplementationsForQuery'', os_input = False, os_stream = False, os_answer = ''implementations'', os_fields =
      [(''hash'', ''hash'', True)]\<rparr>"

definition op_my_implementation_at :: operation_spec where
  "op_my_implementation_at = \<lparr>os_operation = ''MyImplementationAtQuery'', os_input = False, os_stream = False, os_answer = ''my_implementation_at'', os_fields =
      [(''interface'', ''interface'', False), (''action_id'', ''actionId'', False)]\<rparr>"

definition op_get_test_case :: operation_spec where
  "op_get_test_case = \<lparr>os_operation = ''GetTestCaseQuery'', os_input = False, os_stream = False, os_answer = ''test_case'', os_fields =
      [(''id'', ''id'', True)]\<rparr>"

definition op_get_test_result :: operation_spec where
  "op_get_test_result = \<lparr>os_operation = ''GetTestResultQuery'', os_input = False, os_stream = False, os_answer = ''test_result'', os_fields =
      [(''id'', ''id'', True)]\<rparr>"

definition op_search_test_cases :: operation_spec where
  "op_search_test_cases = \<lparr>os_operation = ''SearchTestCasesQuery'', os_input = False, os_stream = False, os_answer = ''options'', os_fields =
      [(''search'', ''search'', False), (''values'', ''values'', False)]\<rparr>"

definition op_search_test_results :: operation_spec where
  "op_search_test_results = \<lparr>os_operation = ''SearchTestResultsQuery'', os_input = False, os_stream = False, os_answer = ''options'', os_fields =
      [(''search'', ''search'', False), (''values'', ''values'', False)]\<rparr>"

definition op_list_toolboxes :: operation_spec where
  "op_list_toolboxes = \<lparr>os_operation = ''ListToolboxesQuery'', os_input = False, os_stream = False, os_answer = ''toolboxes'', os_fields =
      [(''pagination'', ''pagination'', False), (''filters'', ''filters'', False),
       (''ordering'', ''ordering'', False)]\<rparr>"

definition op_get_toolbox :: operation_spec where
  "op_get_toolbox = \<lparr>os_operation = ''GetToolboxQuery'', os_input = False, os_stream = False, os_answer = ''toolbox'', os_fields =
      [(''id'', ''id'', True)]\<rparr>"

definition op_watch_my_tasks :: operation_spec where
  "op_watch_my_tasks = \<lparr>os_operation = ''WatchMyTasksSubscription'', os_input = False, os_stream = True, os_answer = ''mytasks'', os_fields =
      []\<rparr>"

definition op_assign :: operation_spec where
  "op_assign = \<lparr>os_operation = ''AssignMutation'', os_input = True, os_stream = False, os_answer = ''assign'', os_fields =
      [(''action'', ''action'', False), (''resolution'', ''resolution'', False),
       (''implementation'', ''implementation'', False), (''agent'', ''agent'', False),
       (''action_hash'', ''actionHash'', False), (''interface'', ''interface'', False),
       (''hooks'', ''hooks'', False), (''args'', ''args'', True),
       (''reference'', ''reference'', False), (''capture'', ''capture'', True),
       (''dependencies'', ''dependencies'', False), (''step'', ''step'', False),
       (''not_before'', ''notBefore'', False), (''policy'', ''policy'', False),
       (''state_requires'', ''stateRequires'', False), (''space'', ''space'', False)]\<rparr>"

definition op_cancel :: operation_spec where
  "op_cancel = \<lparr>os_operation = ''CancelMutation'', os_input = True, os_stream = False, os_answer = ''cancel'', os_fields =
      [(''task'', ''task'', True)]\<rparr>"

definition op_interrupt :: operation_spec where
  "op_interrupt = \<lparr>os_operation = ''InterruptMutation'', os_input = True, os_stream = False, os_answer = ''interrupt'', os_fields =
      [(''task'', ''task'', True)]\<rparr>"

definition op_pause :: operation_spec where
  "op_pause = \<lparr>os_operation = ''PauseMutation'', os_input = True, os_stream = False, os_answer = ''pause'', os_fields =
      [(''task'', ''task'', True)]\<rparr>"

definition op_resume :: operation_spec where
  "op_resume = \<lparr>os_operation = ''ResumeMutation'', os_input = True, os_stream = False, os_answer = ''resume'', os_fields =
      [(''task'', ''task'', True), (''step'', ''step'', False)]\<rparr>"

definition op_decide :: operation_spec where
  "op_decide = \<lparr>os_operation = ''DecideMutation'', os_input = True, os_stream = False, os_answer = ''decide'', os_fields =
      [(''task'', ''task'', True), (''approved'', ''approved'', True),
       (''answer'', ''answer'', False), (''values'', ''values'', False)]\<rparr>"

section \<open>All of them\<close>

definition operations :: "operation_spec list" where
  "operations =
     [op_ensure_agent, op_implement_agent, op_request_asset_upload, op_create_asset, op_create_blok,
      op_materialize_blok, op_fork_blok, op_update_blok, op_update_materialized_blok, op_edit_blok,
      op_revert_blok, op_pin_materialized_blok, op_register_module, op_create_dashboard,
      op_request_media_upload, op_finish_media_upload, op_request_media_access, op_shelve,
      op_unshelve, op_create_shortcut, op_create_space, op_collect,
      op_create_higher_order_implementation, op_create_testcase, op_create_testresult, op_get_agent,
      op_list_agents, op_get_agent_by_identifiers, op_search_agents, op_design_agents,
      op_stored_asset, op_get_materialized_blok, op_search_materialized_bloks, op_list_bloks,
      op_blok_revisions, op_action_bloks, op_modules, op_module, op_base_catalog, op_get_dashboard,
      op_get_me_actions, op_get_implementation, op_list_implementations, op_resolved_implementations,
      op_find, op_retrieveall, op_search_actions, op_list_actions, op_primary_actions,
      op_list_shortcuts, op_get_shortcut, op_search_shortcuts, op_spaces_for_agents, op_get_state,
      op_checkout_agent, op_requests, op_get_event, op_task_events, op_task_run_view,
      op_search_implementations, op_implementations_for, op_my_implementation_at, op_get_test_case,
      op_get_test_result, op_search_test_cases, op_search_test_results, op_list_toolboxes,
      op_get_toolbox, op_watch_my_tasks, op_assign, op_cancel, op_interrupt, op_pause, op_resume,
      op_decide]"

lemmas operation_defs =
  op_ensure_agent_def op_implement_agent_def op_request_asset_upload_def op_create_asset_def
  op_create_blok_def op_materialize_blok_def op_fork_blok_def op_update_blok_def
  op_update_materialized_blok_def op_edit_blok_def op_revert_blok_def op_pin_materialized_blok_def
  op_register_module_def op_create_dashboard_def op_request_media_upload_def
  op_finish_media_upload_def op_request_media_access_def op_shelve_def op_unshelve_def
  op_create_shortcut_def op_create_space_def op_collect_def
  op_create_higher_order_implementation_def op_create_testcase_def op_create_testresult_def
  op_get_agent_def op_list_agents_def op_get_agent_by_identifiers_def op_search_agents_def
  op_design_agents_def op_stored_asset_def op_get_materialized_blok_def
  op_search_materialized_bloks_def op_list_bloks_def op_blok_revisions_def op_action_bloks_def
  op_modules_def op_module_def op_base_catalog_def op_get_dashboard_def op_get_me_actions_def
  op_get_implementation_def op_list_implementations_def op_resolved_implementations_def op_find_def
  op_retrieveall_def op_search_actions_def op_list_actions_def op_primary_actions_def
  op_list_shortcuts_def op_get_shortcut_def op_search_shortcuts_def op_spaces_for_agents_def
  op_get_state_def op_checkout_agent_def op_requests_def op_get_event_def op_task_events_def
  op_task_run_view_def op_search_implementations_def op_implementations_for_def
  op_my_implementation_at_def op_get_test_case_def op_get_test_result_def op_search_test_cases_def
  op_search_test_results_def op_list_toolboxes_def op_get_toolbox_def op_watch_my_tasks_def
  op_assign_def op_cancel_def op_interrupt_def op_pause_def op_resume_def op_decide_def


section \<open>Names on the wire\<close>

definition upper :: "char \<Rightarrow> char" where
  "upper c = (if 97 \<le> (of_char c :: nat) \<and> (of_char c :: nat) \<le> 122 then char_of ((of_char c :: nat) - 32) else c)"

fun camel :: "string \<Rightarrow> string" where
  "camel (c # d # cs) = (if c = CHR ''_'' then upper d # camel cs else c # camel (d # cs))"
| "camel cs = cs"

definition well_named :: "operation_spec \<Rightarrow> bool" where
  "well_named spec \<longleftrightarrow>
     distinct (argument_names spec) \<and> distinct (wire_names spec) \<and>
     wire_names spec = map camel (argument_names spec)"

lemma operations_well_named: "list_all well_named operations"
  by code_simp

text \<open>
  The names on the wire are those of the schema: in every operation each argument goes
  under its own name in camel case, no two arguments share a name on either side, and no two
  methods send the same operation.
\<close>

theorem wire_names_are_camel_case:
  "list_all (\<lambda>spec. wire_names spec = map camel (argument_names spec) \<and> distinct (argument_names spec) \<and>
     distinct (wire_names spec)) operations \<and> distinct (map os_operation operations)"
proof
  show "list_all (\<lambda>spec. wire_names spec = map camel (argument_names spec) \<and> distinct (argument_names spec) \<and>
      distinct (wire_names spec)) operations"
    using operations_well_named unfolding well_named_def list_all_iff by blast
  show "distinct (map os_operation operations)" by code_simp
qed

section \<open>The arguments arrive\<close>

definition fields_of :: "'v api_variables \<Rightarrow> (string, 'v) dict" where
  "fields_of vars = (case vars of Plain d \<Rightarrow> d | Input d \<Rightarrow> d)"

text \<open>The server's side: the arguments, read off the variables by their wire names.\<close>

definition read_arguments :: "operation_spec \<Rightarrow> 'v api_variables \<Rightarrow> (string, 'v) dict" where
  "read_arguments spec vars =
     List.map_filter (\<lambda>(a, k, _). map_option (Pair a) (dict_get (fields_of vars) k)) (os_fields spec)"

lemma put_fields_snoc:
  "put_fields (fs @ [(a, k, r)]) kwargs =
     (case dict_get kwargs a of None \<Rightarrow> put_fields fs kwargs | Some v \<Rightarrow> dict_put (put_fields fs kwargs) k v)"
  by (simp add: put_fields_def split: option.split)

lemma put_fields_other: "k \<notin> set (map (fst \<circ> snd) fs) \<Longrightarrow> dict_get (put_fields fs kwargs) k = None"
proof (induction fs rule: rev_induct)
  case Nil
  then show ?case by (simp add: put_fields_def)
next
  case (snoc f fs)
  obtain a k' r where "f = (a, k', r)" by (cases f)
  then show ?case using snoc by (auto simp: put_fields_snoc split: option.splits)
qed

lemma put_fields_get:
  assumes "distinct (map (fst \<circ> snd) fs)" and "(a, k, r) \<in> set fs"
  shows "dict_get (put_fields fs kwargs) k = dict_get kwargs a"
  using assms
proof (induction fs rule: rev_induct)
  case (snoc f fs)
  obtain b l q where f: "f = (b, l, q)" by (cases f)
  show ?case
  proof (cases "(a, k, r) \<in> set fs")
    case True
    then have "k \<in> set (map (fst \<circ> snd) fs)" by force
    then have "k \<noteq> l" using snoc.prems(1) f by auto
    then show ?thesis using snoc True f by (auto simp: put_fields_snoc split: option.splits)
  next
    case False
    then have "a = b" "k = l" using snoc.prems(2) f by auto
    moreover have "k \<notin> set (map (fst \<circ> snd) fs)" using snoc.prems(1) f \<open>k = l\<close> by simp
    ultimately show ?thesis using put_fields_other [of k fs kwargs] f
      by (auto simp: put_fields_snoc split: option.splits)
  qed
qed simp

lemma read_fields:
  assumes "distinct (map fst fs)"
  shows "dict_get (List.map_filter (\<lambda>(a, k, _). map_option (Pair a) (g k)) fs) a =
    (case filter (\<lambda>f. fst f = a) fs of [] \<Rightarrow> None | f # _ \<Rightarrow> g (fst (snd f)))"
  using assms
proof (induction fs)
  case (Cons f fs)
  obtain b l q where f: "f = (b, l, q)" by (cases f)
  show ?case
  proof (cases "b = a")
    case True
    then have none: "filter (\<lambda>f. fst f = a) fs = []"
      using Cons.prems f by (auto simp: filter_empty_conv image_iff)
    show ?thesis using Cons True f none by (cases "g l") (simp_all add: List.map_filter_simps)
  qed (use Cons f in \<open>simp add: List.map_filter_simps split: option.splits\<close>)
qed (simp add: List.map_filter_simps)

text \<open>
  A call is accepted exactly if it gives every argument the method requires and none it does
  not have.
\<close>

lemma call_operation_Inr:
  "(\<exists>vars. call_operation spec kwargs = Inr vars) \<longleftrightarrow>
     set (required_names spec) \<subseteq> set (dict_keys kwargs) \<and> set (dict_keys kwargs) \<subseteq> set (argument_names spec)"
proof -
  have "filter (\<lambda>a. a \<notin> set (argument_names spec)) (dict_keys kwargs) = [] \<longleftrightarrow>
      set (dict_keys kwargs) \<subseteq> set (argument_names spec)"
    by (auto simp only: filter_empty_conv)
  moreover have "filter (\<lambda>a. dict_get kwargs a = None) (required_names spec) = [] \<longleftrightarrow>
      set (required_names spec) \<subseteq> set (dict_keys kwargs)"
    unfolding filter_empty_conv dict_get_None_iff by blast
  moreover have "(\<exists>vars. call_operation spec kwargs = Inr vars) \<longleftrightarrow>
      filter (\<lambda>a. a \<notin> set (argument_names spec)) (dict_keys kwargs) = [] \<and>
      filter (\<lambda>a. dict_get kwargs a = None) (required_names spec) = []"
    unfolding call_operation_def
    by (cases "filter (\<lambda>a. a \<notin> set (argument_names spec)) (dict_keys kwargs)";
        cases "filter (\<lambda>a. dict_get kwargs a = None) (required_names spec)") simp_all
  ultimately show ?thesis by blast
qed



end
