(* ===== verification/Graphql_Types.thy ===== *)
theory Graphql_Types
  imports Prelude
begin

text \<open>
  The vocabulary of the generated schema modules: how a field of a pydantic class is declared
  (\<open>rekuest/protocol/schema.py\<close> and \<open>rekuest/api/schema.py\<close>), how a field of a GraphQL type is
  (\<open>rekuest/api/schema.graphql\<close>), and when the one implements the other.

  Descriptions, the \<open>Deprecated\<close> marks and the docstrings say nothing to the program and are
  left out. Every input class has the same configuration (frozen, \<open>extra = forbid\<close>,
  \<open>populate_by_name\<close>, \<open>use_enum_values\<close>); \<open>serializes\<close> has what it means for the names of a call.
\<close>

section \<open>Declarations\<close>

text \<open>\<open>X\<close>, \<open>tuple[X, ...]\<close>, \<open>list[X]\<close> and \<open>X | None\<close>.\<close>

datatype py_type = Py string | Tuple_Of py_type | List_Of py_type | Opt py_type

text \<open>
  A field: its name, its alias if it has one, its type, whether it has the default \<open>None\<close>, and
  the server's own default if the annotation records one (\<open>GraphQLDefault\<close>).
\<close>

datatype py_field = Field (pf_name: string) (pf_alias: "string option") (pf_type: py_type)
  (pf_optional: bool) (pf_graphql_default: "string option")

definition wire_name :: "py_field \<Rightarrow> string" where
  "wire_name f = (case pf_alias f of None \<Rightarrow> pf_name f | Some a \<Rightarrow> a)"

text \<open>A class body run to its end: a field declared again keeps its place and takes the last declaration.\<close>

definition class_fields :: "py_field list \<Rightarrow> py_field list" where
  "class_fields decls = map snd (fold (\<lambda>f d. dict_put d (pf_name f) f) decls [])"

datatype gql_type = Named string | Listed gql_type | Non_Null gql_type

text \<open>A field of a GraphQL input type, or a variable of a document: its name, type and default.\<close>

datatype gql_field = GField (gf_name: string) (gf_type: gql_type) (gf_default: "string option")

section \<open>When a declaration implements another\<close>

text \<open>
  \<open>graphql.config.yaml\<close>, \<open>scalar_definitions\<close> (the others there map a scalar to the class of its own
  name), and GraphQL's own scalars.
\<close>

definition scalar_definitions :: "(string \<times> string) list" where
  "scalar_definitions =
     [(''ByteCount'', ''int''), (''uuid'', ''str''), (''Callback'', ''str''), (''Any'', ''Any''),
      (''AnyInput'', ''Any''), (''AnyDefault'', ''Any''), (''Arg'', ''Any''), (''JSON'', ''Any'')]"

definition builtin_scalars :: "(string \<times> string) list" where
  "builtin_scalars =
     [(''String'', ''str''), (''Int'', ''int''), (''Float'', ''float''), (''Boolean'', ''bool''),
      (''DateTime'', ''datetime'')]"

text \<open>Every other scalar, enum and input type is the Python class of its own name.\<close>

definition python_leaf :: "string \<Rightarrow> string" where
  "python_leaf n = (case map_of (scalar_definitions @ builtin_scalars) n of None \<Rightarrow> n | Some p \<Rightarrow> p)"

fun python_type :: "gql_type \<Rightarrow> py_type" and python_nullable :: "gql_type \<Rightarrow> py_type" where
  "python_type (Non_Null g) = python_nullable g"
| "python_type (Named n) = Opt (Py (python_leaf n))"
| "python_type (Listed g) = Opt (Tuple_Of (python_type g))"
| "python_nullable (Named n) = Py (python_leaf n)"
| "python_nullable (Listed g) = Tuple_Of (python_type g)"
| "python_nullable (Non_Null g) = python_nullable g"

text \<open>Input lists of variables are \<open>list[X]\<close> in some operations: the same on the wire.\<close>

primrec as_tuples :: "py_type \<Rightarrow> py_type" where
  "as_tuples (Py n) = Py n"
| "as_tuples (Tuple_Of t) = Tuple_Of (as_tuples t)"
| "as_tuples (List_Of t) = Tuple_Of (as_tuples t)"
| "as_tuples (Opt t) = Opt (as_tuples t)"

primrec nullable :: "gql_type \<Rightarrow> gql_type" where
  "nullable (Named n) = Named n"
| "nullable (Listed g) = Listed g"
| "nullable (Non_Null g) = g"

definition has_default :: "gql_field \<Rightarrow> bool" where
  "has_default g \<longleftrightarrow> gf_default g \<noteq> None \<and> gf_default g \<noteq> Some ''null''"

text \<open>A caller has to give a field that is not nullable and has no default.\<close>

definition must_be_given :: "gql_field \<Rightarrow> bool" where
  "must_be_given g \<longleftrightarrow> gf_type g \<noteq> nullable (gf_type g) \<and> gf_default g = None"

definition python_literal :: "string \<Rightarrow> string" where
  "python_literal s = (if s = ''true'' then ''True'' else if s = ''false'' then ''False'' else s)"

definition python_default :: "gql_field \<Rightarrow> string option" where
  "python_default g = (if has_default g then map_option python_literal (gf_default g) else None)"

text \<open>
  The field is under its name, has its type (nullable if the server has a default, since it may be
  left out then), is optional exactly if it may be left out, and records the server's default.
\<close>

definition implements_field :: "py_field \<Rightarrow> gql_field \<Rightarrow> bool" where
  "implements_field f g \<longleftrightarrow>
     wire_name f = gf_name g \<and>
     as_tuples (pf_type f) = python_type (if has_default g then nullable (gf_type g) else gf_type g) \<and>
     (pf_optional f \<longleftrightarrow> \<not> must_be_given g) \<and>
     pf_graphql_default f = python_default g"

definition implements :: "py_field list \<Rightarrow> gql_field list \<Rightarrow> bool" where
  "implements fs gs \<longleftrightarrow> list_all2 implements_field fs gs"

text \<open>
  An input type with \<open>@oneOf\<close> is a union of one class per field; the class is the choice, so its
  one field is required and never null.
\<close>

definition one_of_field :: "gql_field \<Rightarrow> gql_field" where
  "one_of_field g = GField (gf_name g) (Non_Null (gf_type g)) None"

definition implements_one_of :: "py_field list list \<Rightarrow> gql_field list \<Rightarrow> bool" where
  "implements_one_of variants gs \<longleftrightarrow>
     list_all2 (\<lambda>fs g. implements (class_fields fs) [one_of_field g]) variants gs"

section \<open>What GraphQL accepts\<close>

text \<open>An input object may be given any of its fields and nothing else, and lacks none that must be given.\<close>

definition coercible :: "gql_field list \<Rightarrow> string list \<Rightarrow> bool" where
  "coercible gs ks \<longleftrightarrow>
     list_all (\<lambda>k. k \<in> set (map gf_name gs)) ks \<and>
     list_all (\<lambda>g. must_be_given g \<longrightarrow> gf_name g \<in> set ks) gs"

section \<open>What a class makes of a call\<close>

text \<open>
  The names under which a field can be given: its own and its alias (\<open>populate_by_name\<close>,
  \<open>AliasChoices\<close>). They are unambiguous if no two fields share one.
\<close>

definition accepted_names :: "py_field \<Rightarrow> string list" where
  "accepted_names f = remdups [pf_name f, wire_name f]"

definition unambiguous :: "py_field list \<Rightarrow> bool" where
  "unambiguous fs \<longleftrightarrow> distinct (concat (map accepted_names fs))"

definition dump_by_alias ::
  "(py_type \<Rightarrow> 'v \<Rightarrow> 'v option) \<Rightarrow> py_field list \<Rightarrow> (string, 'v) dict \<Rightarrow> (string, 'v) dict" where
  "dump_by_alias leaf fs d =
     List.map_filter (\<lambda>f. map_option (Pair (wire_name f)) (Option.bind (dict_get d (wire_name f)) (leaf (pf_type f)))) fs"

text \<open>
  What the code relies on in pydantic: \<open>Cls(**d).model_dump(by_alias=True, exclude_unset=True)\<close>, for
  fields given by their aliases and none missing that is required, is the fields given, by their
  aliases and in the class's order, each as its type makes it (\<open>leaf\<close>); it fails exactly if a type
  refuses its value. Of names that are ambiguous nothing is assumed.
\<close>

definition serializes ::
  "(py_type \<Rightarrow> 'v \<Rightarrow> 'v option) \<Rightarrow> (py_field list \<Rightarrow> (string, 'v) dict \<Rightarrow> (string, 'v) dict option) \<Rightarrow> bool" where
  "serializes leaf dump \<longleftrightarrow>
     (\<forall>fs d. unambiguous fs \<and> dict_ok d \<and> set (dict_keys d) \<subseteq> set (map wire_name fs) \<and>
        set (map wire_name (filter (Not \<circ> pf_optional) fs)) \<subseteq> set (dict_keys d) \<longrightarrow>
        dump fs d =
          (if \<exists>f\<in>set fs. \<exists>v. dict_get d (wire_name f) = Some v \<and> leaf (pf_type f) v = None then None
           else Some (dump_by_alias leaf fs d)))"

lemma unambiguous_wires: "unambiguous fs \<Longrightarrow> distinct (map wire_name fs)"
proof (induction fs)
  case (Cons f fs)
  have "wire_name f \<in> set (accepted_names f)" "wire_name ` set fs \<subseteq> \<Union> (set ` accepted_names ` set fs)"
    by (auto simp: accepted_names_def)
  with Cons show ?case by (auto simp: unambiguous_def)
qed simp

lemma dump_by_alias_get:
  "distinct (map wire_name fs) \<Longrightarrow> f \<in> set fs \<Longrightarrow>
     dict_get (dump_by_alias leaf fs d) (wire_name f) =
       Option.bind (dict_get d (wire_name f)) (leaf (pf_type f))"
proof (induction fs)
  case (Cons g fs)
  have other: "dict_get (dump_by_alias leaf fs d) k = None" if "k \<notin> wire_name ` set fs" for k
    using that by (auto simp: dump_by_alias_def dict_get_None_iff List.map_filter_def)
  show ?case
    using Cons other [of "wire_name g"]
    by (auto simp: dump_by_alias_def List.map_filter_simps image_iff split: option.splits)
qed simp

lemma dump_by_alias_keys: "set (dict_keys (dump_by_alias leaf fs d)) \<subseteq> set (map wire_name fs)"
  by (auto simp: dump_by_alias_def List.map_filter_def)

lemma dumped:
  assumes "serializes leaf dump" and "unambiguous fs" and "dict_ok d"
    and "set (dict_keys d) \<subseteq> set (map wire_name fs)"
    and "set (map wire_name (filter (Not \<circ> pf_optional) fs)) \<subseteq> set (dict_keys d)"
  shows "case dump fs d of
      None \<Rightarrow> \<exists>f\<in>set fs. \<exists>v. dict_get d (wire_name f) = Some v \<and> leaf (pf_type f) v = None
    | Some sent \<Rightarrow>
        set (dict_keys sent) = set (dict_keys d) \<and>
        (\<forall>f\<in>set fs. dict_get sent (wire_name f) = Option.bind (dict_get d (wire_name f)) (leaf (pf_type f)) \<and>
           (\<forall>v. dict_get d (wire_name f) = Some v \<longrightarrow> leaf (pf_type f) v \<noteq> None))"
proof (cases "\<exists>f\<in>set fs. \<exists>v. dict_get d (wire_name f) = Some v \<and> leaf (pf_type f) v = None")
  case True
  then have "dump fs d = None" using assms unfolding serializes_def by simp
  then show ?thesis using True by simp
next
  case False
  let ?sent = "dump_by_alias leaf fs d"
  have get: "dict_get ?sent (wire_name f) = Option.bind (dict_get d (wire_name f)) (leaf (pf_type f))"
    if "f \<in> set fs" for f
    using dump_by_alias_get [OF unambiguous_wires [OF assms(2)] that] .
  have same: "dict_get ?sent (wire_name f) = None \<longleftrightarrow> dict_get d (wire_name f) = None" if "f \<in> set fs" for f
    using get [OF that] False that by (cases "dict_get d (wire_name f)") auto
  have "k \<in> set (dict_keys ?sent) \<longleftrightarrow> k \<in> set (dict_keys d)" for k
  proof (cases "k \<in> set (map wire_name fs)")
    case True
    then obtain f where f: "f \<in> set fs" "k = wire_name f" by auto
    show ?thesis using same [OF f(1)] unfolding f(2) dict_get_None_iff by blast
  qed (use assms(4) dump_by_alias_keys [of leaf fs d] in blast)
  then have "set (dict_keys ?sent) = set (dict_keys d)" by blast
  moreover have "dump fs d = Some ?sent" using assms False unfolding serializes_def by simp
  ultimately show ?thesis using get False by auto
qed

section \<open>Lemmas on declarations\<close>

lemma class_fields_distinct [simp]:
  "distinct (map pf_name decls) \<Longrightarrow> class_fields decls = decls"
proof -
  have "fold (\<lambda>f d. dict_put d (pf_name f) f) fs d = d @ map (\<lambda>f. (pf_name f, f)) fs"
    if "distinct (dict_keys d @ map pf_name fs)" for d :: "(string, py_field) dict" and fs
    using that by (induction fs arbitrary: d) (simp_all add: dict_put_new image_iff)
  from this [of "[]" decls] show "distinct (map pf_name decls) \<Longrightarrow> class_fields decls = decls"
    by (simp add: class_fields_def comp_def)
qed

lemma implements_names:
  "implements fs gs \<Longrightarrow> map wire_name fs = map gf_name gs"
  unfolding implements_def by (induction rule: list_all2_induct) (simp_all add: implements_field_def)

lemma implements_required:
  "implements fs gs \<Longrightarrow>
     map wire_name (filter (Not \<circ> pf_optional) fs) = map gf_name (filter must_be_given gs)"
  unfolding implements_def by (induction rule: list_all2_induct) (simp_all add: implements_field_def)

text \<open>
  Whatever is given of a class that implements an input type, nothing else and all that has no
  default, the server can read.
\<close>

lemma implements_coercible:
  assumes "implements fs gs" and "set ks \<subseteq> set (map wire_name fs)"
    and "set (map wire_name (filter (Not \<circ> pf_optional) fs)) \<subseteq> set ks"
  shows "coercible gs ks"
  using assms(2,3) unfolding implements_names [OF assms(1)] implements_required [OF assms(1)]
  by (auto simp: coercible_def list_all_iff)

end
