(* ===== verification/Api_Models.thy ===== *)
theory Api_Models
  imports Prelude
begin

text \<open>
  The classes of the answers: \<open>rekuest/api/schema.py\<close>, every model but the operations. Each
  definition has the fields of the class, those of its bases first; \<open>Callable\<close>, which is the trait of
  theory \<open>Client\<close>, and \<open>BaseModel\<close> add none. A field's alias is the one name it is read under.
\<close>

text \<open>
  A Python class other than a model (a scalar or an enum), \<open>Literal[...]\<close>, \<open>X | None\<close>,
  \<open>tuple[X, ...]\<close>, a model by its fields, and a union of models told apart by their \<open>typename\<close>, with
  the model for any other.
\<close>

datatype answer_type =
    Value string
  | Literal string
  | Nullable answer_type
  | Many answer_type
  | Model "answer_field list"
  | Variants "answer_field list list" "answer_field list"
and answer_field = Answer_Field (af_name: string) (af_alias: "string option") (af_type: answer_type)
    (af_optional: bool)

definition answer_key :: "answer_field \<Rightarrow> string" where
  "answer_key f = (case af_alias f of None \<Rightarrow> af_name f | Some a \<Rightarrow> a)"

text \<open>The fields of a class with bases: a field declared again keeps its place and takes the last declaration.\<close>

definition model_fields :: "answer_field list \<Rightarrow> answer_field list" where
  "model_fields decls = map snd (fold (\<lambda>f d. dict_put d (af_name f) f) decls [])"

definition PrimaryAction_fields :: "answer_field list" where
  "PrimaryAction_fields =
      [Answer_Field ''typename'' (Some ''__typename'') (Literal ''Action'') True,
       Answer_Field ''name'' None (Value ''str'') False,
       Answer_Field ''id'' None (Value ''ID'') False,
       Answer_Field ''hash'' None (Value ''ActionHash'') False,
       Answer_Field ''description'' None (Nullable (Value ''str'')) True]"

definition AgentClient_fields :: "answer_field list" where
  "AgentClient_fields =
      [Answer_Field ''typename'' (Some ''__typename'') (Literal ''Client'') True,
       Answer_Field ''id'' None (Value ''ID'') False,
       Answer_Field ''client_id'' (Some ''clientId'') (Value ''str'') False]"

definition AgentUser_fields :: "answer_field list" where
  "AgentUser_fields =
      [Answer_Field ''typename'' (Some ''__typename'') (Literal ''User'') True,
       Answer_Field ''sub'' None (Value ''ID'') False]"

definition AgentOrganization_fields :: "answer_field list" where
  "AgentOrganization_fields =
      [Answer_Field ''typename'' (Some ''__typename'') (Literal ''Organization'') True,
       Answer_Field ''identifier'' None (Value ''str'') False]"

definition AgentMemoryShelve_fields :: "answer_field list" where
  "AgentMemoryShelve_fields =
      [Answer_Field ''typename'' (Some ''__typename'') (Literal ''MemoryShelve'') True,
       Answer_Field ''id'' None (Value ''ID'') False]"

definition Agent_fields :: "answer_field list" where
  "Agent_fields =
      [Answer_Field ''typename'' (Some ''__typename'') (Literal ''Agent'') True,
       Answer_Field ''id'' None (Value ''ID'') False,
       Answer_Field ''name'' None (Value ''str'') False,
       Answer_Field ''hash'' None (Value ''str'') False,
       Answer_Field ''supervisor'' None (Nullable (Value ''str'')) True,
       Answer_Field ''connected'' None (Value ''bool'') False,
       Answer_Field ''active'' None (Value ''bool'') False,
       Answer_Field ''client'' None (Model AgentClient_fields) False,
       Answer_Field ''user'' None (Model AgentUser_fields) False,
       Answer_Field ''organization'' None (Model AgentOrganization_fields) False,
       Answer_Field ''memory_shelve'' (Some ''memoryShelve'') (Nullable (Model
          AgentMemoryShelve_fields)) True]"

definition Blok_fields :: "answer_field list" where
  "Blok_fields =
      [Answer_Field ''typename'' (Some ''__typename'') (Literal ''Blok'') True,
       Answer_Field ''id'' None (Value ''ID'') False,
       Answer_Field ''name'' None (Value ''str'') False]"

definition MaterializedBlok_fields :: "answer_field list" where
  "MaterializedBlok_fields =
      [Answer_Field ''typename'' (Some ''__typename'') (Literal ''MaterializedBlok'') True,
       Answer_Field ''id'' None (Value ''ID'') False]"

definition BlokPortMatchChildrenChildrenChildren_fields :: "answer_field list" where
  "BlokPortMatchChildrenChildrenChildren_fields =
      [Answer_Field ''typename'' (Some ''__typename'') (Literal ''PortMatch'') True,
       Answer_Field ''at'' None (Nullable (Value ''int'')) True,
       Answer_Field ''key'' None (Nullable (Value ''str'')) True,
       Answer_Field ''kind'' None (Nullable (Value ''PortKind'')) True,
       Answer_Field ''identifier'' None (Nullable (Value ''str'')) True,
       Answer_Field ''nullable'' None (Nullable (Value ''bool'')) True,
       Answer_Field ''dimension'' None (Nullable (Value ''str'')) True]"

definition BlokPortMatchChildrenChildren_fields :: "answer_field list" where
  "BlokPortMatchChildrenChildren_fields =
      [Answer_Field ''typename'' (Some ''__typename'') (Literal ''PortMatch'') True,
       Answer_Field ''at'' None (Nullable (Value ''int'')) True,
       Answer_Field ''key'' None (Nullable (Value ''str'')) True,
       Answer_Field ''kind'' None (Nullable (Value ''PortKind'')) True,
       Answer_Field ''identifier'' None (Nullable (Value ''str'')) True,
       Answer_Field ''nullable'' None (Nullable (Value ''bool'')) True,
       Answer_Field ''dimension'' None (Nullable (Value ''str'')) True,
       Answer_Field ''children'' None (Nullable (Many (Model
          BlokPortMatchChildrenChildrenChildren_fields))) True]"

definition BlokPortMatchChildren_fields :: "answer_field list" where
  "BlokPortMatchChildren_fields =
      [Answer_Field ''typename'' (Some ''__typename'') (Literal ''PortMatch'') True,
       Answer_Field ''at'' None (Nullable (Value ''int'')) True,
       Answer_Field ''key'' None (Nullable (Value ''str'')) True,
       Answer_Field ''kind'' None (Nullable (Value ''PortKind'')) True,
       Answer_Field ''identifier'' None (Nullable (Value ''str'')) True,
       Answer_Field ''nullable'' None (Nullable (Value ''bool'')) True,
       Answer_Field ''dimension'' None (Nullable (Value ''str'')) True,
       Answer_Field ''children'' None (Nullable (Many (Model
          BlokPortMatchChildrenChildren_fields))) True]"

definition BlokPortMatch_fields :: "answer_field list" where
  "BlokPortMatch_fields =
      [Answer_Field ''typename'' (Some ''__typename'') (Literal ''PortMatch'') True,
       Answer_Field ''at'' None (Nullable (Value ''int'')) True,
       Answer_Field ''key'' None (Nullable (Value ''str'')) True,
       Answer_Field ''kind'' None (Nullable (Value ''PortKind'')) True,
       Answer_Field ''identifier'' None (Nullable (Value ''str'')) True,
       Answer_Field ''nullable'' None (Nullable (Value ''bool'')) True,
       Answer_Field ''dimension'' None (Nullable (Value ''str'')) True,
       Answer_Field ''children'' None (Nullable (Many (Model BlokPortMatchChildren_fields))) True]"

definition BlokDiagnostic_fields :: "answer_field list" where
  "BlokDiagnostic_fields =
      [Answer_Field ''typename'' (Some ''__typename'') (Literal ''Diagnostic'') True,
       Answer_Field ''level'' None (Value ''DiagnosticLevel'') False,
       Answer_Field ''code'' None (Value ''str'') False,
       Answer_Field ''message'' None (Value ''str'') False,
       Answer_Field ''path'' None (Nullable (Value ''str'')) True]"

definition BlokDemo_fields :: "answer_field list" where
  "BlokDemo_fields =
      [Answer_Field ''typename'' (Some ''__typename'') (Literal ''BlokDemo'') True,
       Answer_Field ''deps'' None (Nullable (Value ''JSONSerializable'')) True,
       Answer_Field ''args'' None (Nullable (Value ''JSONSerializable'')) True,
       Answer_Field ''task'' None (Nullable (Value ''JSONSerializable'')) True,
       Answer_Field ''queries'' None (Nullable (Value ''JSONSerializable'')) True,
       Answer_Field ''subscriptions'' None (Nullable (Value ''JSONSerializable'')) True]"

definition CatalogArgument_fields :: "answer_field list" where
  "CatalogArgument_fields =
      [Answer_Field ''typename'' (Some ''__typename'') (Literal ''CatalogArgument'') True,
       Answer_Field ''key'' None (Value ''str'') False,
       Answer_Field ''kind'' None (Value ''CatalogValueKind'') False,
       Answer_Field ''required'' None (Value ''bool'') False,
       Answer_Field ''description'' None (Nullable (Value ''str'')) True]"

definition CatalogEventField_fields :: "answer_field list" where
  "CatalogEventField_fields =
      [Answer_Field ''typename'' (Some ''__typename'') (Literal ''CatalogEventField'') True,
       Answer_Field ''key'' None (Value ''str'') False,
       Answer_Field ''kind'' None (Value ''CatalogValueKind'') False,
       Answer_Field ''description'' None (Nullable (Value ''str'')) True]"

definition Dashboard_fields :: "answer_field list" where
  "Dashboard_fields =
      [Answer_Field ''typename'' (Some ''__typename'') (Literal ''Dashboard'') True,
       Answer_Field ''id'' None (Value ''ID'') False,
       Answer_Field ''name'' None (Nullable (Value ''str'')) True]"

definition MediaUploadGrant_fields :: "answer_field list" where
  "MediaUploadGrant_fields =
      [Answer_Field ''typename'' (Some ''__typename'') (Literal ''MediaUploadGrant'') True,
       Answer_Field ''access_key'' (Some ''accessKey'') (Value ''str'') False,
       Answer_Field ''secret_key'' (Some ''secretKey'') (Value ''str'') False,
       Answer_Field ''session_token'' (Some ''sessionToken'') (Value ''str'') False,
       Answer_Field ''path'' None (Value ''str'') False,
       Answer_Field ''key'' None (Value ''str'') False,
       Answer_Field ''bucket'' None (Value ''str'') False,
       Answer_Field ''expires_in'' (Some ''expiresIn'') (Value ''int'') False,
       Answer_Field ''max_bytes'' (Some ''maxBytes'') (Value ''int'') False,
       Answer_Field ''store'' None (Value ''str'') False]"

definition MediaAccessGrant_fields :: "answer_field list" where
  "MediaAccessGrant_fields =
      [Answer_Field ''typename'' (Some ''__typename'') (Literal ''MediaAccessGrant'') True,
       Answer_Field ''access_key'' (Some ''accessKey'') (Value ''str'') False,
       Answer_Field ''secret_key'' (Some ''secretKey'') (Value ''str'') False,
       Answer_Field ''session_token'' (Some ''sessionToken'') (Value ''str'') False,
       Answer_Field ''expires_in'' (Some ''expiresIn'') (Value ''int'') False,
       Answer_Field ''path'' None (Value ''str'') False,
       Answer_Field ''key'' None (Value ''str'') False,
       Answer_Field ''bucket'' None (Value ''str'') False]"

definition MediaStore_fields :: "answer_field list" where
  "MediaStore_fields =
      [Answer_Field ''typename'' (Some ''__typename'') (Literal ''MediaStore'') True,
       Answer_Field ''path'' None (Value ''str'') False,
       Answer_Field ''key'' None (Value ''str'') False,
       Answer_Field ''bucket'' None (Value ''str'') False]"

definition AssetUploadGrant_fields :: "answer_field list" where
  "AssetUploadGrant_fields =
      [Answer_Field ''typename'' (Some ''__typename'') (Literal ''AssetUploadGrant'') True,
       Answer_Field ''access_key'' (Some ''accessKey'') (Value ''str'') False,
       Answer_Field ''secret_key'' (Some ''secretKey'') (Value ''str'') False,
       Answer_Field ''session_token'' (Some ''sessionToken'') (Value ''str'') False,
       Answer_Field ''path'' None (Value ''str'') False,
       Answer_Field ''key'' None (Value ''str'') False,
       Answer_Field ''bucket'' None (Value ''str'') False,
       Answer_Field ''expires_in'' (Some ''expiresIn'') (Value ''int'') False,
       Answer_Field ''max_bytes'' (Some ''maxBytes'') (Value ''int'') False,
       Answer_Field ''store'' None (Value ''str'') False]"

definition ActionArgumentLeafUtilCall_fields :: "answer_field list" where
  "ActionArgumentLeafUtilCall_fields =
      [Answer_Field ''typename'' (Some ''__typename'') (Literal ''UtilCall'') True,
       Answer_Field ''operation'' None (Value ''str'') False]"

definition ActionArgumentLeaf_fields :: "answer_field list" where
  "ActionArgumentLeaf_fields =
      [Answer_Field ''typename'' (Some ''__typename'') (Literal ''ActionArgument'') True,
       Answer_Field ''key'' None (Nullable (Value ''str'')) True,
       Answer_Field ''value_literal'' (Some ''valueLiteral'') (Nullable (Value
          ''JSONSerializable'')) True,
       Answer_Field ''value_path'' (Some ''valuePath'') (Nullable (Value ''str'')) True,
       Answer_Field ''util_call'' (Some ''utilCall'') (Nullable (Model
          ActionArgumentLeafUtilCall_fields)) True]"

definition ArgChildPortNestedChildren_fields :: "answer_field list" where
  "ArgChildPortNestedChildren_fields =
      [Answer_Field ''typename'' (Some ''__typename'') (Literal ''ArgPort'') True,
       Answer_Field ''key'' None (Value ''str'') False,
       Answer_Field ''identifier'' None (Nullable (Value ''Identifier'')) True,
       Answer_Field ''nullable'' None (Value ''bool'') False,
       Answer_Field ''kind'' None (Value ''PortKind'') False,
       Answer_Field ''reference_unit'' (Some ''referenceUnit'') (Nullable (Value ''str'')) True,
       Answer_Field ''proposed_units'' (Some ''proposedUnits'') (Nullable (Many (Value ''str'')))
          True,
       Answer_Field ''dimension'' None (Nullable (Value ''str'')) True]"

definition ArgChildPortNestedChoices_fields :: "answer_field list" where
  "ArgChildPortNestedChoices_fields =
      [Answer_Field ''typename'' (Some ''__typename'') (Literal ''Choice'') True,
       Answer_Field ''value'' None (Value ''Any'') False,
       Answer_Field ''label'' None (Value ''str'') False,
       Answer_Field ''description'' None (Nullable (Value ''str'')) True]"

definition ArgChildPortNested_fields :: "answer_field list" where
  "ArgChildPortNested_fields =
      [Answer_Field ''typename'' (Some ''__typename'') (Literal ''ArgPort'') True,
       Answer_Field ''key'' None (Value ''str'') False,
       Answer_Field ''kind'' None (Value ''PortKind'') False,
       Answer_Field ''children'' None (Nullable (Many (Model ArgChildPortNestedChildren_fields)))
          True,
       Answer_Field ''choices'' None (Nullable (Many (Model ArgChildPortNestedChoices_fields)))
          True,
       Answer_Field ''identifier'' None (Nullable (Value ''Identifier'')) True,
       Answer_Field ''nullable'' None (Value ''bool'') False,
       Answer_Field ''default'' None (Nullable (Value ''Any'')) True,
       Answer_Field ''reference_unit'' (Some ''referenceUnit'') (Nullable (Value ''str'')) True,
       Answer_Field ''proposed_units'' (Some ''proposedUnits'') (Nullable (Many (Value ''str'')))
          True,
       Answer_Field ''dimension'' None (Nullable (Value ''str'')) True]"

definition ReturnChildPortNestedChildren_fields :: "answer_field list" where
  "ReturnChildPortNestedChildren_fields =
      [Answer_Field ''typename'' (Some ''__typename'') (Literal ''ReturnPort'') True,
       Answer_Field ''key'' None (Value ''str'') False,
       Answer_Field ''identifier'' None (Nullable (Value ''Identifier'')) True,
       Answer_Field ''nullable'' None (Value ''bool'') False,
       Answer_Field ''kind'' None (Value ''PortKind'') False,
       Answer_Field ''reference_unit'' (Some ''referenceUnit'') (Nullable (Value ''str'')) True,
       Answer_Field ''proposed_units'' (Some ''proposedUnits'') (Nullable (Many (Value ''str'')))
          True,
       Answer_Field ''dimension'' None (Nullable (Value ''str'')) True]"

definition ReturnChildPortNestedChoices_fields :: "answer_field list" where
  "ReturnChildPortNestedChoices_fields =
      [Answer_Field ''typename'' (Some ''__typename'') (Literal ''Choice'') True,
       Answer_Field ''value'' None (Value ''Any'') False,
       Answer_Field ''label'' None (Value ''str'') False,
       Answer_Field ''description'' None (Nullable (Value ''str'')) True]"

definition ReturnChildPortNested_fields :: "answer_field list" where
  "ReturnChildPortNested_fields =
      [Answer_Field ''typename'' (Some ''__typename'') (Literal ''ReturnPort'') True,
       Answer_Field ''key'' None (Value ''str'') False,
       Answer_Field ''kind'' None (Value ''PortKind'') False,
       Answer_Field ''children'' None (Nullable (Many (Model
          ReturnChildPortNestedChildren_fields))) True,
       Answer_Field ''choices'' None (Nullable (Many (Model ReturnChildPortNestedChoices_fields)))
          True,
       Answer_Field ''identifier'' None (Nullable (Value ''Identifier'')) True,
       Answer_Field ''nullable'' None (Value ''bool'') False,
       Answer_Field ''reference_unit'' (Some ''referenceUnit'') (Nullable (Value ''str'')) True,
       Answer_Field ''proposed_units'' (Some ''proposedUnits'') (Nullable (Many (Value ''str'')))
          True,
       Answer_Field ''dimension'' None (Nullable (Value ''str'')) True]"

definition CustomEffect_fields :: "answer_field list" where
  "CustomEffect_fields =
      [Answer_Field ''typename'' (Some ''__typename'') (Literal ''CustomEffect'') True,
       Answer_Field ''kind'' None (Value ''EffectKind'') False]"

definition MessageEffect_fields :: "answer_field list" where
  "MessageEffect_fields =
      [Answer_Field ''typename'' (Some ''__typename'') (Literal ''MessageEffect'') True,
       Answer_Field ''kind'' None (Value ''EffectKind'') False,
       Answer_Field ''message'' None (Value ''str'') False]"

definition StringAssignWidget_fields :: "answer_field list" where
  "StringAssignWidget_fields =
      [Answer_Field ''typename'' (Some ''__typename'') (Literal ''StringAssignWidget'') True,
       Answer_Field ''kind'' None (Value ''AssignWidgetKind'') False,
       Answer_Field ''placeholder'' None (Nullable (Value ''str'')) True,
       Answer_Field ''as_paragraph'' (Some ''asParagraph'') (Nullable (Value ''bool'')) True]"

definition SliderAssignWidget_fields :: "answer_field list" where
  "SliderAssignWidget_fields =
      [Answer_Field ''typename'' (Some ''__typename'') (Literal ''SliderAssignWidget'') True,
       Answer_Field ''kind'' None (Value ''AssignWidgetKind'') False,
       Answer_Field ''min'' None (Nullable (Value ''float'')) True,
       Answer_Field ''max'' None (Nullable (Value ''float'')) True,
       Answer_Field ''step'' None (Nullable (Value ''float'')) True]"

definition SearchAssignWidget_fields :: "answer_field list" where
  "SearchAssignWidget_fields =
      [Answer_Field ''typename'' (Some ''__typename'') (Literal ''SearchAssignWidget'') True,
       Answer_Field ''kind'' None (Value ''AssignWidgetKind'') False,
       Answer_Field ''query'' None (Value ''str'') False,
       Answer_Field ''ward'' None (Value ''str'') False,
       Answer_Field ''dependencies'' None (Nullable (Many (Value ''str''))) True]"

definition ChoiceAssignWidget_fields :: "answer_field list" where
  "ChoiceAssignWidget_fields =
      [Answer_Field ''typename'' (Some ''__typename'') (Literal ''ChoiceAssignWidget'') True,
       Answer_Field ''kind'' None (Value ''AssignWidgetKind'') False,
       Answer_Field ''placeholder'' None (Nullable (Value ''str'')) True]"

definition ChoiceReturnWidget_fields :: "answer_field list" where
  "ChoiceReturnWidget_fields =
      [Answer_Field ''typename'' (Some ''__typename'') (Literal ''ChoiceReturnWidget'') True,
       Answer_Field ''kind'' None (Value ''ReturnWidgetKind'') False]"

definition StatePatchTaskAction_fields :: "answer_field list" where
  "StatePatchTaskAction_fields =
      [Answer_Field ''typename'' (Some ''__typename'') (Literal ''Action'') True,
       Answer_Field ''name'' None (Value ''str'') False]"

definition StatePatchTask_fields :: "answer_field list" where
  "StatePatchTask_fields =
      [Answer_Field ''typename'' (Some ''__typename'') (Literal ''Task'') True,
       Answer_Field ''id'' None (Value ''ID'') False,
       Answer_Field ''action'' None (Model StatePatchTaskAction_fields) False]"

definition StatePatch_fields :: "answer_field list" where
  "StatePatch_fields =
      [Answer_Field ''typename'' (Some ''__typename'') (Literal ''Patch'') True,
       Answer_Field ''id'' None (Value ''ID'') False,
       Answer_Field ''op'' None (Value ''str'') False,
       Answer_Field ''path'' None (Value ''str'') False,
       Answer_Field ''interface'' None (Value ''str'') False,
       Answer_Field ''timestamp'' None (Value ''datetime'') False,
       Answer_Field ''global_future_revision'' (Some ''globalFutureRevision'') (Value ''int'')
          False,
       Answer_Field ''task'' None (Nullable (Model StatePatchTask_fields)) True]"

definition TaskParent_fields :: "answer_field list" where
  "TaskParent_fields =
      [Answer_Field ''typename'' (Some ''__typename'') (Literal ''Task'') True,
       Answer_Field ''id'' None (Value ''ID'') False]"

definition TaskEvents_fields :: "answer_field list" where
  "TaskEvents_fields =
      [Answer_Field ''typename'' (Some ''__typename'') (Literal ''TaskEvent'') True,
       Answer_Field ''id'' None (Value ''ID'') False,
       Answer_Field ''returns'' None (Nullable (Value ''Any'')) True,
       Answer_Field ''level'' None (Value ''LogLevel'') False]"

definition TaskInstructs_fields :: "answer_field list" where
  "TaskInstructs_fields =
      [Answer_Field ''typename'' (Some ''__typename'') (Literal ''TaskInstruct'') True,
       Answer_Field ''id'' None (Value ''ID'') False]"

definition Task_fields :: "answer_field list" where
  "Task_fields =
      [Answer_Field ''typename'' (Some ''__typename'') (Literal ''Task'') True,
       Answer_Field ''args'' None (Value ''Any'') False,
       Answer_Field ''id'' None (Value ''ID'') False,
       Answer_Field ''parent'' None (Nullable (Model TaskParent_fields)) True,
       Answer_Field ''id'' None (Value ''ID'') False,
       Answer_Field ''latest_event_kind'' (Some ''latestEventKind'') (Value ''TaskEventKind'')
          False,
       Answer_Field ''policy'' None (Value ''TaskPolicy'') False,
       Answer_Field ''events'' None (Many (Model TaskEvents_fields)) False,
       Answer_Field ''instructs'' None (Many (Model TaskInstructs_fields)) False,
       Answer_Field ''reference'' None (Nullable (Value ''str'')) True,
       Answer_Field ''updated_at'' (Some ''updatedAt'') (Value ''datetime'') False]"

definition TaskEvent_fields :: "answer_field list" where
  "TaskEvent_fields =
      [Answer_Field ''typename'' (Some ''__typename'') (Literal ''TaskEvent'') True,
       Answer_Field ''id'' None (Value ''ID'') False,
       Answer_Field ''kind'' None (Value ''TaskEventKind'') False,
       Answer_Field ''returns'' None (Nullable (Value ''Any'')) True,
       Answer_Field ''reference'' None (Nullable (Value ''str'')) True,
       Answer_Field ''message'' None (Nullable (Value ''str'')) True,
       Answer_Field ''progress'' None (Nullable (Value ''int'')) True,
       Answer_Field ''value'' None (Nullable (Value ''Any'')) True,
       Answer_Field ''created_at'' (Some ''createdAt'') (Value ''datetime'') False]"

definition TaskChange_fields :: "answer_field list" where
  "TaskChange_fields =
      [Answer_Field ''typename'' (Some ''__typename'') (Literal ''TaskChange'') True,
       Answer_Field ''id'' None (Value ''ID'') False,
       Answer_Field ''reference'' None (Nullable (Value ''str'')) True,
       Answer_Field ''is_done'' (Some ''isDone'') (Value ''bool'') False,
       Answer_Field ''latest_event_kind'' (Some ''latestEventKind'') (Value ''TaskEventKind'')
          False,
       Answer_Field ''latest_instruct_kind'' (Some ''latestInstructKind'') (Value
          ''TaskInstructKind'') False,
       Answer_Field ''updated_at'' (Some ''updatedAt'') (Value ''datetime'') False,
       Answer_Field ''created_at'' (Some ''createdAt'') (Value ''datetime'') False]"

definition TaskEventChange_fields :: "answer_field list" where
  "TaskEventChange_fields =
      [Answer_Field ''typename'' (Some ''__typename'') (Literal ''TaskEventChange'') True,
       Answer_Field ''id'' None (Value ''ID'') False,
       Answer_Field ''task'' None (Value ''ID'') False,
       Answer_Field ''kind'' None (Value ''TaskEventKind'') False,
       Answer_Field ''returns'' None (Nullable (Value ''Any'')) True,
       Answer_Field ''message'' None (Nullable (Value ''str'')) True,
       Answer_Field ''progress'' None (Nullable (Value ''int'')) True,
       Answer_Field ''value'' None (Nullable (Value ''Any'')) True,
       Answer_Field ''created_at'' (Some ''createdAt'') (Value ''datetime'') False]"

definition TaskDependencyAgentAgent_fields :: "answer_field list" where
  "TaskDependencyAgentAgent_fields =
      [Answer_Field ''typename'' (Some ''__typename'') (Literal ''Agent'') True,
       Answer_Field ''id'' None (Value ''ID'') False,
       Answer_Field ''name'' None (Value ''str'') False]"

definition TaskDependencyAgent_fields :: "answer_field list" where
  "TaskDependencyAgent_fields =
      [Answer_Field ''typename'' (Some ''__typename'') (Literal ''TaskDependencyAgent'') True,
       Answer_Field ''key'' None (Value ''str'') False,
       Answer_Field ''agent'' None (Model TaskDependencyAgentAgent_fields) False]"

definition TestCaseAction_fields :: "answer_field list" where
  "TestCaseAction_fields =
      [Answer_Field ''typename'' (Some ''__typename'') (Literal ''Action'') True,
       Answer_Field ''id'' None (Value ''ID'') False]"

definition TestCase_fields :: "answer_field list" where
  "TestCase_fields =
      [Answer_Field ''typename'' (Some ''__typename'') (Literal ''TestCase'') True,
       Answer_Field ''id'' None (Value ''ID'') False,
       Answer_Field ''action'' None (Model TestCaseAction_fields) False,
       Answer_Field ''is_benchmark'' (Some ''isBenchmark'') (Value ''bool'') False,
       Answer_Field ''description'' None (Value ''str'') False,
       Answer_Field ''name'' None (Value ''str'') False]"

definition TestResultCase_fields :: "answer_field list" where
  "TestResultCase_fields =
      [Answer_Field ''typename'' (Some ''__typename'') (Literal ''TestCase'') True,
       Answer_Field ''id'' None (Value ''ID'') False]"

definition TestResult_fields :: "answer_field list" where
  "TestResult_fields =
      [Answer_Field ''typename'' (Some ''__typename'') (Literal ''TestResult'') True,
       Answer_Field ''id'' None (Value ''ID'') False,
       Answer_Field ''case'' None (Model TestResultCase_fields) False,
       Answer_Field ''passed'' None (Value ''bool'') False]"

definition Toolbox_fields :: "answer_field list" where
  "Toolbox_fields =
      [Answer_Field ''typename'' (Some ''__typename'') (Literal ''Toolbox'') True,
       Answer_Field ''id'' None (Value ''ID'') False,
       Answer_Field ''name'' None (Value ''str'') False,
       Answer_Field ''description'' None (Value ''str'') False]"

definition ListToolbox_fields :: "answer_field list" where
  "ListToolbox_fields =
      [Answer_Field ''typename'' (Some ''__typename'') (Literal ''Toolbox'') True,
       Answer_Field ''id'' None (Value ''ID'') False,
       Answer_Field ''name'' None (Value ''str'') False,
       Answer_Field ''description'' None (Value ''str'') False]"

definition BlokDependencyActionDependenciesDemand_fields :: "answer_field list" where
  "BlokDependencyActionDependenciesDemand_fields =
      [Answer_Field ''typename'' (Some ''__typename'') (Literal ''ActionDemand'') True,
       Answer_Field ''hash'' None (Nullable (Value ''ActionHash'')) True,
       Answer_Field ''key'' None (Nullable (Value ''str'')) True,
       Answer_Field ''app'' None (Nullable (Value ''str'')) True,
       Answer_Field ''version'' None (Nullable (Value ''str'')) True,
       Answer_Field ''name'' None (Nullable (Value ''str'')) True,
       Answer_Field ''arg_matches'' (Some ''argMatches'') (Nullable (Many (Model
          BlokPortMatch_fields))) True,
       Answer_Field ''return_matches'' (Some ''returnMatches'') (Nullable (Many (Model
          BlokPortMatch_fields))) True,
       Answer_Field ''protocols'' None (Nullable (Many (Value ''str''))) True,
       Answer_Field ''force_arg_length'' (Some ''forceArgLength'') (Nullable (Value ''int'')) True,
       Answer_Field ''force_return_length'' (Some ''forceReturnLength'') (Nullable (Value ''int''))
          True,
       Answer_Field ''pure'' None (Nullable (Value ''bool'')) True,
       Answer_Field ''idempotent'' None (Nullable (Value ''bool'')) True,
       Answer_Field ''stateful'' None (Nullable (Value ''bool'')) True]"

definition BlokDependencyActionDependencies_fields :: "answer_field list" where
  "BlokDependencyActionDependencies_fields =
      [Answer_Field ''typename'' (Some ''__typename'') (Literal ''ActionDependency'') True,
       Answer_Field ''key'' None (Value ''str'') False,
       Answer_Field ''description'' None (Nullable (Value ''str'')) True,
       Answer_Field ''optional'' None (Value ''bool'') False,
       Answer_Field ''demand'' None (Nullable (Model
          BlokDependencyActionDependenciesDemand_fields)) True]"

definition BlokDependencyStateDependenciesDemand_fields :: "answer_field list" where
  "BlokDependencyStateDependenciesDemand_fields =
      [Answer_Field ''typename'' (Some ''__typename'') (Literal ''StateDemand'') True,
       Answer_Field ''hash'' None (Nullable (Value ''ActionHash'')) True,
       Answer_Field ''key'' None (Nullable (Value ''str'')) True,
       Answer_Field ''app'' None (Nullable (Value ''str'')) True,
       Answer_Field ''matches'' None (Nullable (Many (Model BlokPortMatch_fields))) True,
       Answer_Field ''protocols'' None (Nullable (Many (Value ''str''))) True]"

definition BlokDependencyStateDependencies_fields :: "answer_field list" where
  "BlokDependencyStateDependencies_fields =
      [Answer_Field ''typename'' (Some ''__typename'') (Literal ''StateDependency'') True,
       Answer_Field ''key'' None (Value ''str'') False,
       Answer_Field ''description'' None (Nullable (Value ''str'')) True,
       Answer_Field ''optional'' None (Value ''bool'') False,
       Answer_Field ''demand'' None (Nullable (Model BlokDependencyStateDependenciesDemand_fields))
          True]"

definition BlokDependency_fields :: "answer_field list" where
  "BlokDependency_fields =
      [Answer_Field ''typename'' (Some ''__typename'') (Literal ''BlokDependency'') True,
       Answer_Field ''key'' None (Value ''str'') False,
       Answer_Field ''description'' None (Nullable (Value ''str'')) True,
       Answer_Field ''optional'' None (Value ''bool'') False,
       Answer_Field ''auto_resolvable'' (Some ''autoResolvable'') (Value ''bool'') False,
       Answer_Field ''app_filter'' (Some ''appFilter'') (Nullable (Value ''str'')) True,
       Answer_Field ''version_filter'' (Some ''versionFilter'') (Nullable (Value ''str'')) True,
       Answer_Field ''min_viable_instances'' (Some ''minViableInstances'') (Nullable (Value
          ''int'')) True,
       Answer_Field ''max_viable_instances'' (Some ''maxViableInstances'') (Nullable (Value
          ''int'')) True,
       Answer_Field ''action_dependencies'' (Some ''actionDependencies'') (Many (Model
          BlokDependencyActionDependencies_fields)) False,
       Answer_Field ''state_dependencies'' (Some ''stateDependencies'') (Many (Model
          BlokDependencyStateDependencies_fields)) False]"

definition CatalogOperation_fields :: "answer_field list" where
  "CatalogOperation_fields =
      [Answer_Field ''typename'' (Some ''__typename'') (Literal ''CatalogOperation'') True,
       Answer_Field ''name'' None (Value ''str'') False,
       Answer_Field ''description'' None (Nullable (Value ''str'')) True,
       Answer_Field ''returns'' None (Value ''CatalogValueKind'') False,
       Answer_Field ''arguments'' None (Many (Model CatalogArgument_fields)) False]"

definition CatalogProp_fields :: "answer_field list" where
  "CatalogProp_fields =
      [Answer_Field ''typename'' (Some ''__typename'') (Literal ''CatalogProp'') True,
       Answer_Field ''key'' None (Value ''str'') False,
       Answer_Field ''kind'' None (Value ''CatalogValueKind'') False,
       Answer_Field ''required'' None (Value ''bool'') False,
       Answer_Field ''description'' None (Nullable (Value ''str'')) True,
       Answer_Field ''event'' None (Nullable (Many (Model CatalogEventField_fields))) True]"

definition ActionArgumentNestedUtilCall_fields :: "answer_field list" where
  "ActionArgumentNestedUtilCall_fields =
      [Answer_Field ''typename'' (Some ''__typename'') (Literal ''UtilCall'') True,
       Answer_Field ''operation'' None (Value ''str'') False,
       Answer_Field ''arguments'' None (Nullable (Many (Model ActionArgumentLeaf_fields))) True]"

definition ActionArgumentNested_fields :: "answer_field list" where
  "ActionArgumentNested_fields =
      [Answer_Field ''typename'' (Some ''__typename'') (Literal ''ActionArgument'') True,
       Answer_Field ''key'' None (Nullable (Value ''str'')) True,
       Answer_Field ''value_literal'' (Some ''valueLiteral'') (Nullable (Value
          ''JSONSerializable'')) True,
       Answer_Field ''value_path'' (Some ''valuePath'') (Nullable (Value ''str'')) True,
       Answer_Field ''util_call'' (Some ''utilCall'') (Nullable (Model
          ActionArgumentNestedUtilCall_fields)) True,
       Answer_Field ''value_list'' (Some ''valueList'') (Nullable (Many (Model
          ActionArgumentLeaf_fields))) True,
       Answer_Field ''value_dict'' (Some ''valueDict'') (Nullable (Many (Model
          ActionArgumentLeaf_fields))) True]"

definition ArgChildPortChoices_fields :: "answer_field list" where
  "ArgChildPortChoices_fields =
      [Answer_Field ''typename'' (Some ''__typename'') (Literal ''Choice'') True,
       Answer_Field ''value'' None (Value ''Any'') False,
       Answer_Field ''label'' None (Value ''str'') False,
       Answer_Field ''description'' None (Nullable (Value ''str'')) True]"

definition ArgChildPort_fields :: "answer_field list" where
  "ArgChildPort_fields =
      [Answer_Field ''typename'' (Some ''__typename'') (Literal ''ArgPort'') True,
       Answer_Field ''key'' None (Value ''str'') False,
       Answer_Field ''kind'' None (Value ''PortKind'') False,
       Answer_Field ''identifier'' None (Nullable (Value ''Identifier'')) True,
       Answer_Field ''children'' None (Nullable (Many (Model ArgChildPortNested_fields))) True,
       Answer_Field ''choices'' None (Nullable (Many (Model ArgChildPortChoices_fields))) True,
       Answer_Field ''nullable'' None (Value ''bool'') False,
       Answer_Field ''default'' None (Nullable (Value ''Any'')) True,
       Answer_Field ''reference_unit'' (Some ''referenceUnit'') (Nullable (Value ''str'')) True,
       Answer_Field ''proposed_units'' (Some ''proposedUnits'') (Nullable (Many (Value ''str'')))
          True,
       Answer_Field ''dimension'' None (Nullable (Value ''str'')) True]"

definition ReturnChildPortChoices_fields :: "answer_field list" where
  "ReturnChildPortChoices_fields =
      [Answer_Field ''typename'' (Some ''__typename'') (Literal ''Choice'') True,
       Answer_Field ''value'' None (Value ''Any'') False,
       Answer_Field ''label'' None (Value ''str'') False,
       Answer_Field ''description'' None (Nullable (Value ''str'')) True]"

definition ReturnChildPort_fields :: "answer_field list" where
  "ReturnChildPort_fields =
      [Answer_Field ''typename'' (Some ''__typename'') (Literal ''ReturnPort'') True,
       Answer_Field ''key'' None (Value ''str'') False,
       Answer_Field ''kind'' None (Value ''PortKind'') False,
       Answer_Field ''identifier'' None (Nullable (Value ''Identifier'')) True,
       Answer_Field ''children'' None (Nullable (Many (Model ReturnChildPortNested_fields))) True,
       Answer_Field ''choices'' None (Nullable (Many (Model ReturnChildPortChoices_fields))) True,
       Answer_Field ''nullable'' None (Value ''bool'') False,
       Answer_Field ''reference_unit'' (Some ''referenceUnit'') (Nullable (Value ''str'')) True,
       Answer_Field ''proposed_units'' (Some ''proposedUnits'') (Nullable (Many (Value ''str'')))
          True,
       Answer_Field ''dimension'' None (Nullable (Value ''str'')) True]"

definition TaskChangeEvent_fields :: "answer_field list" where
  "TaskChangeEvent_fields =
      [Answer_Field ''typename'' (Some ''__typename'') (Literal ''TaskChangeEvent'') True,
       Answer_Field ''create'' None (Nullable (Model TaskChange_fields)) True,
       Answer_Field ''event'' None (Nullable (Model TaskEventChange_fields)) True]"

definition CatalogComponent_fields :: "answer_field list" where
  "CatalogComponent_fields =
      [Answer_Field ''typename'' (Some ''__typename'') (Literal ''CatalogComponent'') True,
       Answer_Field ''name'' None (Value ''str'') False,
       Answer_Field ''description'' None (Nullable (Value ''str'')) True,
       Answer_Field ''accepts_children'' (Some ''acceptsChildren'') (Value ''bool'') False,
       Answer_Field ''context'' None (Value ''ComponentContext'') False,
       Answer_Field ''children_context'' (Some ''childrenContext'') (Nullable (Value
          ''ComponentContext'')) True,
       Answer_Field ''inherits_context'' (Some ''inheritsContext'') (Value ''bool'') False,
       Answer_Field ''downstream_of'' (Some ''downstreamOf'') (Many (Value ''str'')) False,
       Answer_Field ''not_downstream_of'' (Some ''notDownstreamOf'') (Many (Value ''str'')) False,
       Answer_Field ''text_prop'' (Some ''textProp'') (Nullable (Value ''str'')) True,
       Answer_Field ''catalog'' None (Nullable (Value ''str'')) True,
       Answer_Field ''props'' None (Many (Model CatalogProp_fields)) False]"

definition ActionArgumentUtilCall_fields :: "answer_field list" where
  "ActionArgumentUtilCall_fields =
      [Answer_Field ''typename'' (Some ''__typename'') (Literal ''UtilCall'') True,
       Answer_Field ''operation'' None (Value ''str'') False,
       Answer_Field ''arguments'' None (Nullable (Many (Model ActionArgumentNested_fields))) True]"

definition ActionArgument_fields :: "answer_field list" where
  "ActionArgument_fields =
      [Answer_Field ''typename'' (Some ''__typename'') (Literal ''ActionArgument'') True,
       Answer_Field ''key'' None (Nullable (Value ''str'')) True,
       Answer_Field ''value_literal'' (Some ''valueLiteral'') (Nullable (Value
          ''JSONSerializable'')) True,
       Answer_Field ''value_path'' (Some ''valuePath'') (Nullable (Value ''str'')) True,
       Answer_Field ''util_call'' (Some ''utilCall'') (Nullable (Model
          ActionArgumentUtilCall_fields)) True,
       Answer_Field ''value_list'' (Some ''valueList'') (Nullable (Many (Model
          ActionArgumentNested_fields))) True,
       Answer_Field ''value_dict'' (Some ''valueDict'') (Nullable (Many (Model
          ActionArgumentNested_fields))) True]"

definition BlokLocalChoices_fields :: "answer_field list" where
  "BlokLocalChoices_fields =
      [Answer_Field ''typename'' (Some ''__typename'') (Literal ''Choice'') True,
       Answer_Field ''value'' None (Value ''Any'') False,
       Answer_Field ''label'' None (Value ''str'') False,
       Answer_Field ''description'' None (Nullable (Value ''str'')) True]"

definition BlokLocal_fields :: "answer_field list" where
  "BlokLocal_fields =
      [Answer_Field ''typename'' (Some ''__typename'') (Literal ''BlokLocal'') True,
       Answer_Field ''key'' None (Value ''str'') False,
       Answer_Field ''label'' None (Nullable (Value ''str'')) True,
       Answer_Field ''kind'' None (Nullable (Value ''LocalKind'')) True,
       Answer_Field ''description'' None (Nullable (Value ''str'')) True,
       Answer_Field ''identifier'' None (Nullable (Value ''Identifier'')) True,
       Answer_Field ''nullable'' None (Value ''bool'') False,
       Answer_Field ''default'' None (Nullable (Value ''Any'')) True,
       Answer_Field ''persist'' None (Value ''bool'') False,
       Answer_Field ''reference_unit'' (Some ''referenceUnit'') (Nullable (Value ''str'')) True,
       Answer_Field ''proposed_units'' (Some ''proposedUnits'') (Nullable (Many (Value ''str'')))
          True,
       Answer_Field ''dimension'' None (Nullable (Value ''str'')) True,
       Answer_Field ''children'' None (Nullable (Many (Model ArgChildPort_fields))) True,
       Answer_Field ''choices'' None (Nullable (Many (Model BlokLocalChoices_fields))) True]"

definition ResolvedBlokLocalChoices_fields :: "answer_field list" where
  "ResolvedBlokLocalChoices_fields =
      [Answer_Field ''typename'' (Some ''__typename'') (Literal ''Choice'') True,
       Answer_Field ''value'' None (Value ''Any'') False,
       Answer_Field ''label'' None (Value ''str'') False,
       Answer_Field ''description'' None (Nullable (Value ''str'')) True]"

definition ResolvedBlokLocal_fields :: "answer_field list" where
  "ResolvedBlokLocal_fields =
      [Answer_Field ''typename'' (Some ''__typename'') (Literal ''ResolvedBlokLocal'') True,
       Answer_Field ''key'' None (Value ''str'') False,
       Answer_Field ''label'' None (Nullable (Value ''str'')) True,
       Answer_Field ''kind'' None (Value ''LocalKind'') False,
       Answer_Field ''description'' None (Nullable (Value ''str'')) True,
       Answer_Field ''identifier'' None (Nullable (Value ''Identifier'')) True,
       Answer_Field ''nullable'' None (Value ''bool'') False,
       Answer_Field ''default'' None (Nullable (Value ''Any'')) True,
       Answer_Field ''persist'' None (Value ''bool'') False,
       Answer_Field ''reference_unit'' (Some ''referenceUnit'') (Nullable (Value ''str'')) True,
       Answer_Field ''proposed_units'' (Some ''proposedUnits'') (Nullable (Many (Value ''str'')))
          True,
       Answer_Field ''dimension'' None (Nullable (Value ''str'')) True,
       Answer_Field ''children'' None (Nullable (Many (Model ArgChildPort_fields))) True,
       Answer_Field ''choices'' None (Nullable (Many (Model ResolvedBlokLocalChoices_fields)))
          True]"

definition Module_fields :: "answer_field list" where
  "Module_fields =
      [Answer_Field ''typename'' (Some ''__typename'') (Literal ''Module'') True,
       Answer_Field ''id'' None (Value ''ID'') False,
       Answer_Field ''name'' None (Value ''str'') False,
       Answer_Field ''description'' None (Nullable (Value ''str'')) True,
       Answer_Field ''is_registered'' (Some ''isRegistered'') (Value ''bool'') False,
       Answer_Field ''catalogs'' None (Many (Value ''str'')) False,
       Answer_Field ''components'' None (Many (Model CatalogComponent_fields)) False,
       Answer_Field ''operations'' None (Many (Model CatalogOperation_fields)) False]"

definition BlokQuery_fields :: "answer_field list" where
  "BlokQuery_fields =
      [Answer_Field ''typename'' (Some ''__typename'') (Literal ''BlokQuery'') True,
       Answer_Field ''key'' None (Value ''str'') False,
       Answer_Field ''service'' None (Value ''str'') False,
       Answer_Field ''document'' None (Value ''str'') False,
       Answer_Field ''variables'' None (Many (Model ActionArgument_fields)) False,
       Answer_Field ''poll'' None (Nullable (Value ''float'')) True,
       Answer_Field ''more'' None (Nullable (Value ''str'')) True]"

definition BlokSubscription_fields :: "answer_field list" where
  "BlokSubscription_fields =
      [Answer_Field ''typename'' (Some ''__typename'') (Literal ''BlokSubscription'') True,
       Answer_Field ''key'' None (Value ''str'') False,
       Answer_Field ''service'' None (Value ''str'') False,
       Answer_Field ''document'' None (Value ''str'') False,
       Answer_Field ''variables'' None (Many (Model ActionArgument_fields)) False,
       Answer_Field ''keep'' None (Nullable (Value ''int'')) True,
       Answer_Field ''history'' None (Nullable (Value ''str'')) True]"

definition UtilCall_fields :: "answer_field list" where
  "UtilCall_fields =
      [Answer_Field ''typename'' (Some ''__typename'') (Literal ''UtilCall'') True,
       Answer_Field ''operation'' None (Value ''str'') False,
       Answer_Field ''arguments'' None (Nullable (Many (Model ActionArgument_fields))) True]"

definition BlokRevisionAuthor_fields :: "answer_field list" where
  "BlokRevisionAuthor_fields =
      [Answer_Field ''typename'' (Some ''__typename'') (Literal ''User'') True,
       Answer_Field ''sub'' None (Value ''ID'') False]"

definition BlokRevisionTask_fields :: "answer_field list" where
  "BlokRevisionTask_fields =
      [Answer_Field ''typename'' (Some ''__typename'') (Literal ''Task'') True,
       Answer_Field ''id'' None (Value ''ID'') False]"

definition BlokRevision_fields :: "answer_field list" where
  "BlokRevision_fields =
      [Answer_Field ''typename'' (Some ''__typename'') (Literal ''BlokRevision'') True,
       Answer_Field ''id'' None (Value ''ID'') False,
       Answer_Field ''number'' None (Value ''int'') False,
       Answer_Field ''message'' None (Nullable (Value ''str'')) True,
       Answer_Field ''created_at'' (Some ''createdAt'') (Value ''datetime'') False,
       Answer_Field ''author'' None (Nullable (Model BlokRevisionAuthor_fields)) True,
       Answer_Field ''task'' None (Nullable (Model BlokRevisionTask_fields)) True,
       Answer_Field ''vocab'' None (Value ''int'') False,
       Answer_Field ''catalogs'' None (Many (Value ''str'')) False,
       Answer_Field ''locals'' None (Many (Model BlokLocal_fields)) False,
       Answer_Field ''resolved_locals'' (Some ''resolvedLocals'') (Many (Model
          ResolvedBlokLocal_fields)) False]"

definition PortEffectBase_fields :: "answer_field list" where
  "PortEffectBase_fields =
      [Answer_Field ''kind'' None (Value ''EffectKind'') False,
       Answer_Field ''dependencies'' None (Many (Value ''str'')) False,
       Answer_Field ''call'' None (Model UtilCall_fields) False,
       Answer_Field ''call_json'' (Some ''callJson'') (Value ''JSONSerializable'') False,
       Answer_Field ''source'' None (Nullable (Value ''str'')) True]"

definition PortEffectCatch_fields :: "answer_field list" where
  "PortEffectCatch_fields =
     model_fields (PortEffectBase_fields @
      [Answer_Field ''typename'' (Some ''__typename'') (Value ''str'') False,
       Answer_Field ''kind'' None (Value ''EffectKind'') False,
       Answer_Field ''dependencies'' None (Many (Value ''str'')) False,
       Answer_Field ''call'' None (Model UtilCall_fields) False,
       Answer_Field ''call_json'' (Some ''callJson'') (Value ''JSONSerializable'') False,
       Answer_Field ''source'' None (Nullable (Value ''str'')) True])"

definition PortEffectCustomEffect_fields :: "answer_field list" where
  "PortEffectCustomEffect_fields =
     model_fields (PortEffectBase_fields @ CustomEffect_fields @
      [Answer_Field ''typename'' (Some ''__typename'') (Literal ''CustomEffect'') True])"

definition PortEffectHideEffect_fields :: "answer_field list" where
  "PortEffectHideEffect_fields =
     model_fields (PortEffectBase_fields @
      [Answer_Field ''typename'' (Some ''__typename'') (Literal ''HideEffect'') True])"

definition PortEffectMessageEffect_fields :: "answer_field list" where
  "PortEffectMessageEffect_fields =
     model_fields (PortEffectBase_fields @ MessageEffect_fields @
      [Answer_Field ''typename'' (Some ''__typename'') (Literal ''MessageEffect'') True])"

definition ComponentPropDynamicValue_fields :: "answer_field list" where
  "ComponentPropDynamicValue_fields =
      [Answer_Field ''typename'' (Some ''__typename'') (Literal ''DynamicValue'') True,
       Answer_Field ''literal'' None (Nullable (Value ''str'')) True,
       Answer_Field ''path'' None (Nullable (Value ''str'')) True]"

definition ComponentProp_fields :: "answer_field list" where
  "ComponentProp_fields =
      [Answer_Field ''typename'' (Some ''__typename'') (Literal ''ComponentProp'') True,
       Answer_Field ''key'' None (Value ''str'') False,
       Answer_Field ''static_value'' (Some ''staticValue'') (Nullable (Value ''JSONSerializable''))
          True,
       Answer_Field ''dynamic_value'' (Some ''dynamicValue'') (Nullable (Model
          ComponentPropDynamicValue_fields)) True,
       Answer_Field ''declares_value'' (Some ''declaresValue'') (Nullable (Value ''str'')) True,
       Answer_Field ''util_call'' (Some ''utilCall'') (Nullable (Model UtilCall_fields)) True]"

definition CustomAssignWidget_fields :: "answer_field list" where
  "CustomAssignWidget_fields =
      [Answer_Field ''typename'' (Some ''__typename'') (Literal ''CustomAssignWidget'') True,
       Answer_Field ''kind'' None (Value ''AssignWidgetKind'') False,
       Answer_Field ''component'' None (Value ''str'') False,
       Answer_Field ''props'' None (Nullable (Many (Model ComponentProp_fields))) True,
       Answer_Field ''dependencies'' None (Nullable (Many (Value ''str''))) True]"

definition CustomReturnWidget_fields :: "answer_field list" where
  "CustomReturnWidget_fields =
      [Answer_Field ''typename'' (Some ''__typename'') (Literal ''CustomReturnWidget'') True,
       Answer_Field ''kind'' None (Value ''ReturnWidgetKind'') False,
       Answer_Field ''component'' None (Value ''str'') False,
       Answer_Field ''props'' None (Nullable (Many (Model ComponentProp_fields))) True]"

definition PortAssignWidgetBase_fields :: "answer_field list" where
  "PortAssignWidgetBase_fields =
      [Answer_Field ''kind'' None (Value ''AssignWidgetKind'') False]"

definition PortAssignWidgetCatch_fields :: "answer_field list" where
  "PortAssignWidgetCatch_fields =
     model_fields (PortAssignWidgetBase_fields @
      [Answer_Field ''typename'' (Some ''__typename'') (Value ''str'') False,
       Answer_Field ''kind'' None (Value ''AssignWidgetKind'') False])"

definition PortAssignWidgetChoiceAssignWidget_fields :: "answer_field list" where
  "PortAssignWidgetChoiceAssignWidget_fields =
     model_fields (PortAssignWidgetBase_fields @ ChoiceAssignWidget_fields @
      [Answer_Field ''typename'' (Some ''__typename'') (Literal ''ChoiceAssignWidget'') True])"

definition PortAssignWidgetCustomAssignWidget_fields :: "answer_field list" where
  "PortAssignWidgetCustomAssignWidget_fields =
     model_fields (PortAssignWidgetBase_fields @ CustomAssignWidget_fields @
      [Answer_Field ''typename'' (Some ''__typename'') (Literal ''CustomAssignWidget'') True])"

definition PortAssignWidgetProxyWidget_fields :: "answer_field list" where
  "PortAssignWidgetProxyWidget_fields =
     model_fields (PortAssignWidgetBase_fields @
      [Answer_Field ''typename'' (Some ''__typename'') (Literal ''ProxyWidget'') True])"

definition PortAssignWidgetSearchAssignWidget_fields :: "answer_field list" where
  "PortAssignWidgetSearchAssignWidget_fields =
     model_fields (PortAssignWidgetBase_fields @ SearchAssignWidget_fields @
      [Answer_Field ''typename'' (Some ''__typename'') (Literal ''SearchAssignWidget'') True])"

definition PortAssignWidgetSliderAssignWidget_fields :: "answer_field list" where
  "PortAssignWidgetSliderAssignWidget_fields =
     model_fields (PortAssignWidgetBase_fields @ SliderAssignWidget_fields @
      [Answer_Field ''typename'' (Some ''__typename'') (Literal ''SliderAssignWidget'') True])"

definition PortAssignWidgetStateChoiceAssignWidget_fields :: "answer_field list" where
  "PortAssignWidgetStateChoiceAssignWidget_fields =
     model_fields (PortAssignWidgetBase_fields @
      [Answer_Field ''typename'' (Some ''__typename'') (Literal ''StateChoiceAssignWidget'') True])"

definition PortAssignWidgetStringAssignWidget_fields :: "answer_field list" where
  "PortAssignWidgetStringAssignWidget_fields =
     model_fields (PortAssignWidgetBase_fields @ StringAssignWidget_fields @
      [Answer_Field ''typename'' (Some ''__typename'') (Literal ''StringAssignWidget'') True])"

definition ReturnWidgetBase_fields :: "answer_field list" where
  "ReturnWidgetBase_fields =
      [Answer_Field ''kind'' None (Value ''ReturnWidgetKind'') False]"

definition ReturnWidgetCatch_fields :: "answer_field list" where
  "ReturnWidgetCatch_fields =
     model_fields (ReturnWidgetBase_fields @
      [Answer_Field ''typename'' (Some ''__typename'') (Value ''str'') False,
       Answer_Field ''kind'' None (Value ''ReturnWidgetKind'') False])"

definition ReturnWidgetChoiceReturnWidget_fields :: "answer_field list" where
  "ReturnWidgetChoiceReturnWidget_fields =
     model_fields (ReturnWidgetBase_fields @ ChoiceReturnWidget_fields @
      [Answer_Field ''typename'' (Some ''__typename'') (Literal ''ChoiceReturnWidget'') True])"

definition ReturnWidgetCustomReturnWidget_fields :: "answer_field list" where
  "ReturnWidgetCustomReturnWidget_fields =
     model_fields (ReturnWidgetBase_fields @ CustomReturnWidget_fields @
      [Answer_Field ''typename'' (Some ''__typename'') (Literal ''CustomReturnWidget'') True])"

definition ArgPortWidgetBase_fields :: "answer_field list" where
  "ArgPortWidgetBase_fields =[]"

definition ArgPortWidgetBaseChoiceAssignWidget_fields :: "answer_field list" where
  "ArgPortWidgetBaseChoiceAssignWidget_fields =
     model_fields (ArgPortWidgetBase_fields @ PortAssignWidgetChoiceAssignWidget_fields @
      [Answer_Field ''typename'' (Some ''__typename'') (Literal ''ChoiceAssignWidget'') True])"

definition ArgPortWidgetBaseCustomAssignWidget_fields :: "answer_field list" where
  "ArgPortWidgetBaseCustomAssignWidget_fields =
     model_fields (ArgPortWidgetBase_fields @ PortAssignWidgetCustomAssignWidget_fields @
      [Answer_Field ''typename'' (Some ''__typename'') (Literal ''CustomAssignWidget'') True])"

definition ArgPortWidgetBaseProxyWidget_fields :: "answer_field list" where
  "ArgPortWidgetBaseProxyWidget_fields =
     model_fields (ArgPortWidgetBase_fields @ PortAssignWidgetProxyWidget_fields @
      [Answer_Field ''typename'' (Some ''__typename'') (Literal ''ProxyWidget'') True])"

definition ArgPortWidgetBaseSearchAssignWidget_fields :: "answer_field list" where
  "ArgPortWidgetBaseSearchAssignWidget_fields =
     model_fields (ArgPortWidgetBase_fields @ PortAssignWidgetSearchAssignWidget_fields @
      [Answer_Field ''typename'' (Some ''__typename'') (Literal ''SearchAssignWidget'') True])"

definition ArgPortWidgetBaseSliderAssignWidget_fields :: "answer_field list" where
  "ArgPortWidgetBaseSliderAssignWidget_fields =
     model_fields (ArgPortWidgetBase_fields @ PortAssignWidgetSliderAssignWidget_fields @
      [Answer_Field ''typename'' (Some ''__typename'') (Literal ''SliderAssignWidget'') True])"

definition ArgPortWidgetBaseStateChoiceAssignWidget_fields :: "answer_field list" where
  "ArgPortWidgetBaseStateChoiceAssignWidget_fields =
     model_fields (ArgPortWidgetBase_fields @ PortAssignWidgetStateChoiceAssignWidget_fields @
      [Answer_Field ''typename'' (Some ''__typename'') (Literal ''StateChoiceAssignWidget'') True])"

definition ArgPortWidgetBaseStringAssignWidget_fields :: "answer_field list" where
  "ArgPortWidgetBaseStringAssignWidget_fields =
     model_fields (ArgPortWidgetBase_fields @ PortAssignWidgetStringAssignWidget_fields @
      [Answer_Field ''typename'' (Some ''__typename'') (Literal ''StringAssignWidget'') True])"

definition ArgPortWidgetBaseCatchAll_fields :: "answer_field list" where
  "ArgPortWidgetBaseCatchAll_fields =
     model_fields (ArgPortWidgetBase_fields @
      [Answer_Field ''typename'' (Some ''__typename'') (Value ''str'') False])"

definition ArgPortChoices_fields :: "answer_field list" where
  "ArgPortChoices_fields =
      [Answer_Field ''typename'' (Some ''__typename'') (Literal ''Choice'') True,
       Answer_Field ''value'' None (Value ''Any'') False,
       Answer_Field ''label'' None (Value ''str'') False,
       Answer_Field ''description'' None (Nullable (Value ''str'')) True]"

definition ArgPortValidators_fields :: "answer_field list" where
  "ArgPortValidators_fields =
      [Answer_Field ''typename'' (Some ''__typename'') (Literal ''Validator'') True,
       Answer_Field ''call'' None (Model UtilCall_fields) False,
       Answer_Field ''call_json'' (Some ''callJson'') (Value ''JSONSerializable'') False,
       Answer_Field ''source'' None (Nullable (Value ''str'')) True,
       Answer_Field ''error_message'' (Some ''errorMessage'') (Nullable (Value ''str'')) True,
       Answer_Field ''dependencies'' None (Nullable (Many (Value ''str''))) True,
       Answer_Field ''label'' None (Nullable (Value ''str'')) True]"

definition ArgPortEffectsBase_fields :: "answer_field list" where
  "ArgPortEffectsBase_fields =[]"

definition ArgPortEffectsBaseCustomEffect_fields :: "answer_field list" where
  "ArgPortEffectsBaseCustomEffect_fields =
     model_fields (ArgPortEffectsBase_fields @ PortEffectCustomEffect_fields @
      [Answer_Field ''typename'' (Some ''__typename'') (Literal ''CustomEffect'') True])"

definition ArgPortEffectsBaseHideEffect_fields :: "answer_field list" where
  "ArgPortEffectsBaseHideEffect_fields =
     model_fields (ArgPortEffectsBase_fields @ PortEffectHideEffect_fields @
      [Answer_Field ''typename'' (Some ''__typename'') (Literal ''HideEffect'') True])"

definition ArgPortEffectsBaseMessageEffect_fields :: "answer_field list" where
  "ArgPortEffectsBaseMessageEffect_fields =
     model_fields (ArgPortEffectsBase_fields @ PortEffectMessageEffect_fields @
      [Answer_Field ''typename'' (Some ''__typename'') (Literal ''MessageEffect'') True])"

definition ArgPortEffectsBaseCatchAll_fields :: "answer_field list" where
  "ArgPortEffectsBaseCatchAll_fields =
     model_fields (ArgPortEffectsBase_fields @
      [Answer_Field ''typename'' (Some ''__typename'') (Value ''str'') False])"

definition ArgPort_fields :: "answer_field list" where
  "ArgPort_fields =
      [Answer_Field ''typename'' (Some ''__typename'') (Literal ''ArgPort'') True,
       Answer_Field ''key'' None (Value ''str'') False,
       Answer_Field ''label'' None (Nullable (Value ''str'')) True,
       Answer_Field ''nullable'' None (Value ''bool'') False,
       Answer_Field ''description'' None (Nullable (Value ''str'')) True,
       Answer_Field ''default'' None (Nullable (Value ''Any'')) True,
       Answer_Field ''kind'' None (Value ''PortKind'') False,
       Answer_Field ''identifier'' None (Nullable (Value ''Identifier'')) True,
       Answer_Field ''reference_unit'' (Some ''referenceUnit'') (Nullable (Value ''str'')) True,
       Answer_Field ''proposed_units'' (Some ''proposedUnits'') (Nullable (Many (Value ''str'')))
          True,
       Answer_Field ''dimension'' None (Nullable (Value ''str'')) True,
       Answer_Field ''children'' None (Nullable (Many (Model ArgChildPort_fields))) True,
       Answer_Field ''widget'' None (Nullable (Variants
          [ArgPortWidgetBaseChoiceAssignWidget_fields, ArgPortWidgetBaseCustomAssignWidget_fields,
          ArgPortWidgetBaseProxyWidget_fields, ArgPortWidgetBaseSearchAssignWidget_fields,
          ArgPortWidgetBaseSliderAssignWidget_fields,
          ArgPortWidgetBaseStateChoiceAssignWidget_fields,
          ArgPortWidgetBaseStringAssignWidget_fields] ArgPortWidgetBaseCatchAll_fields)) True,
       Answer_Field ''choices'' None (Nullable (Many (Model ArgPortChoices_fields))) True,
       Answer_Field ''validators'' None (Nullable (Many (Model ArgPortValidators_fields))) True,
       Answer_Field ''effects'' None (Nullable (Many (Variants
          [ArgPortEffectsBaseCustomEffect_fields, ArgPortEffectsBaseHideEffect_fields,
          ArgPortEffectsBaseMessageEffect_fields] ArgPortEffectsBaseCatchAll_fields))) True]"

definition ReturnPortWidgetBase_fields :: "answer_field list" where
  "ReturnPortWidgetBase_fields =[]"

definition ReturnPortWidgetBaseChoiceReturnWidget_fields :: "answer_field list" where
  "ReturnPortWidgetBaseChoiceReturnWidget_fields =
     model_fields (ReturnPortWidgetBase_fields @ ReturnWidgetChoiceReturnWidget_fields @
      [Answer_Field ''typename'' (Some ''__typename'') (Literal ''ChoiceReturnWidget'') True])"

definition ReturnPortWidgetBaseCustomReturnWidget_fields :: "answer_field list" where
  "ReturnPortWidgetBaseCustomReturnWidget_fields =
     model_fields (ReturnPortWidgetBase_fields @ ReturnWidgetCustomReturnWidget_fields @
      [Answer_Field ''typename'' (Some ''__typename'') (Literal ''CustomReturnWidget'') True])"

definition ReturnPortWidgetBaseCatchAll_fields :: "answer_field list" where
  "ReturnPortWidgetBaseCatchAll_fields =
     model_fields (ReturnPortWidgetBase_fields @
      [Answer_Field ''typename'' (Some ''__typename'') (Value ''str'') False])"

definition ReturnPortChoices_fields :: "answer_field list" where
  "ReturnPortChoices_fields =
      [Answer_Field ''typename'' (Some ''__typename'') (Literal ''Choice'') True,
       Answer_Field ''value'' None (Value ''Any'') False,
       Answer_Field ''label'' None (Value ''str'') False,
       Answer_Field ''description'' None (Nullable (Value ''str'')) True]"

definition ReturnPortEffectsBase_fields :: "answer_field list" where
  "ReturnPortEffectsBase_fields =[]"

definition ReturnPortEffectsBaseCustomEffect_fields :: "answer_field list" where
  "ReturnPortEffectsBaseCustomEffect_fields =
     model_fields (ReturnPortEffectsBase_fields @ PortEffectCustomEffect_fields @
      [Answer_Field ''typename'' (Some ''__typename'') (Literal ''CustomEffect'') True])"

definition ReturnPortEffectsBaseHideEffect_fields :: "answer_field list" where
  "ReturnPortEffectsBaseHideEffect_fields =
     model_fields (ReturnPortEffectsBase_fields @ PortEffectHideEffect_fields @
      [Answer_Field ''typename'' (Some ''__typename'') (Literal ''HideEffect'') True])"

definition ReturnPortEffectsBaseMessageEffect_fields :: "answer_field list" where
  "ReturnPortEffectsBaseMessageEffect_fields =
     model_fields (ReturnPortEffectsBase_fields @ PortEffectMessageEffect_fields @
      [Answer_Field ''typename'' (Some ''__typename'') (Literal ''MessageEffect'') True])"

definition ReturnPortEffectsBaseCatchAll_fields :: "answer_field list" where
  "ReturnPortEffectsBaseCatchAll_fields =
     model_fields (ReturnPortEffectsBase_fields @
      [Answer_Field ''typename'' (Some ''__typename'') (Value ''str'') False])"

definition ReturnPort_fields :: "answer_field list" where
  "ReturnPort_fields =
      [Answer_Field ''typename'' (Some ''__typename'') (Literal ''ReturnPort'') True,
       Answer_Field ''key'' None (Value ''str'') False,
       Answer_Field ''label'' None (Nullable (Value ''str'')) True,
       Answer_Field ''nullable'' None (Value ''bool'') False,
       Answer_Field ''description'' None (Nullable (Value ''str'')) True,
       Answer_Field ''kind'' None (Value ''PortKind'') False,
       Answer_Field ''identifier'' None (Nullable (Value ''Identifier'')) True,
       Answer_Field ''reference_unit'' (Some ''referenceUnit'') (Nullable (Value ''str'')) True,
       Answer_Field ''proposed_units'' (Some ''proposedUnits'') (Nullable (Many (Value ''str'')))
          True,
       Answer_Field ''dimension'' None (Nullable (Value ''str'')) True,
       Answer_Field ''children'' None (Nullable (Many (Model ReturnChildPort_fields))) True,
       Answer_Field ''widget'' None (Nullable (Variants
          [ReturnPortWidgetBaseChoiceReturnWidget_fields,
          ReturnPortWidgetBaseCustomReturnWidget_fields] ReturnPortWidgetBaseCatchAll_fields))
          True,
       Answer_Field ''choices'' None (Nullable (Many (Model ReturnPortChoices_fields))) True,
       Answer_Field ''effects'' None (Nullable (Many (Variants
          [ReturnPortEffectsBaseCustomEffect_fields, ReturnPortEffectsBaseHideEffect_fields,
          ReturnPortEffectsBaseMessageEffect_fields] ReturnPortEffectsBaseCatchAll_fields))) True]"

definition DetailBlokApp_fields :: "answer_field list" where
  "DetailBlokApp_fields =
      [Answer_Field ''typename'' (Some ''__typename'') (Literal ''App'') True,
       Answer_Field ''id'' None (Value ''ID'') False,
       Answer_Field ''identifier'' None (Value ''str'') False]"

definition DetailBlokModule_fields :: "answer_field list" where
  "DetailBlokModule_fields =
      [Answer_Field ''typename'' (Some ''__typename'') (Literal ''Module'') True,
       Answer_Field ''id'' None (Value ''ID'') False,
       Answer_Field ''name'' None (Value ''str'') False]"

definition DetailBlok_fields :: "answer_field list" where
  "DetailBlok_fields =
      [Answer_Field ''typename'' (Some ''__typename'') (Literal ''Blok'') True,
       Answer_Field ''id'' None (Value ''ID'') False,
       Answer_Field ''name'' None (Value ''str'') False,
       Answer_Field ''description'' None (Nullable (Value ''str'')) True,
       Answer_Field ''provided'' None (Value ''bool'') False,
       Answer_Field ''held_by_action'' (Some ''heldByAction'') (Value ''bool'') False,
       Answer_Field ''app'' None (Nullable (Model DetailBlokApp_fields)) True,
       Answer_Field ''context'' None (Value ''ComponentContext'') False,
       Answer_Field ''module'' None (Model DetailBlokModule_fields) False,
       Answer_Field ''component_tree'' (Some ''componentTree'') (Value ''Any'') False,
       Answer_Field ''vocab'' None (Value ''int'') False,
       Answer_Field ''catalogs'' None (Many (Value ''str'')) False,
       Answer_Field ''locals'' None (Many (Model BlokLocal_fields)) False,
       Answer_Field ''resolved_locals'' (Some ''resolvedLocals'') (Many (Model
          ResolvedBlokLocal_fields)) False,
       Answer_Field ''demo'' None (Nullable (Model BlokDemo_fields)) True,
       Answer_Field ''queries'' None (Many (Model BlokQuery_fields)) False,
       Answer_Field ''subscriptions'' None (Many (Model BlokSubscription_fields)) False,
       Answer_Field ''diagnostics'' None (Many (Model BlokDiagnostic_fields)) False,
       Answer_Field ''dependencies'' None (Many (Model BlokDependency_fields)) False,
       Answer_Field ''args'' None (Many (Model ArgPort_fields)) False,
       Answer_Field ''head'' None (Nullable (Model BlokRevision_fields)) True]"

definition DefinitionCollections_fields :: "answer_field list" where
  "DefinitionCollections_fields =
      [Answer_Field ''typename'' (Some ''__typename'') (Literal ''Collection'') True,
       Answer_Field ''name'' None (Value ''str'') False]"

definition DefinitionIsTestFor_fields :: "answer_field list" where
  "DefinitionIsTestFor_fields =
      [Answer_Field ''typename'' (Some ''__typename'') (Literal ''Action'') True,
       Answer_Field ''id'' None (Value ''ID'') False]"

definition DefinitionPortGroups_fields :: "answer_field list" where
  "DefinitionPortGroups_fields =
      [Answer_Field ''typename'' (Some ''__typename'') (Literal ''PortGroup'') True,
       Answer_Field ''key'' None (Value ''str'') False]"

definition Definition_fields :: "answer_field list" where
  "Definition_fields =
      [Answer_Field ''typename'' (Some ''__typename'') (Literal ''Action'') True,
       Answer_Field ''args'' None (Many (Model ArgPort_fields)) False,
       Answer_Field ''returns'' None (Many (Model ReturnPort_fields)) False,
       Answer_Field ''kind'' None (Value ''ActionKind'') False,
       Answer_Field ''name'' None (Value ''str'') False,
       Answer_Field ''description'' None (Nullable (Value ''str'')) True,
       Answer_Field ''collections'' None (Many (Model DefinitionCollections_fields)) False,
       Answer_Field ''is_dev'' (Some ''isDev'') (Value ''bool'') False,
       Answer_Field ''is_test_for'' (Some ''isTestFor'') (Many (Model DefinitionIsTestFor_fields))
          False,
       Answer_Field ''port_groups'' (Some ''portGroups'') (Many (Model
          DefinitionPortGroups_fields)) False,
       Answer_Field ''stateful'' None (Value ''bool'') False]"

definition ListAction_fields :: "answer_field list" where
  "ListAction_fields =
      [Answer_Field ''typename'' (Some ''__typename'') (Literal ''Action'') True,
       Answer_Field ''id'' None (Value ''ID'') False,
       Answer_Field ''name'' None (Value ''str'') False,
       Answer_Field ''description'' None (Nullable (Value ''str'')) True,
       Answer_Field ''args'' None (Many (Model ArgPort_fields)) False,
       Answer_Field ''returns'' None (Many (Model ReturnPort_fields)) False,
       Answer_Field ''stateful'' None (Value ''bool'') False]"

definition DesignAgentApp_fields :: "answer_field list" where
  "DesignAgentApp_fields =
      [Answer_Field ''typename'' (Some ''__typename'') (Literal ''App'') True,
       Answer_Field ''identifier'' None (Value ''str'') False]"

definition DesignAgentStatesDefinition_fields :: "answer_field list" where
  "DesignAgentStatesDefinition_fields =
      [Answer_Field ''typename'' (Some ''__typename'') (Literal ''StateDefinition'') True,
       Answer_Field ''name'' None (Value ''str'') False,
       Answer_Field ''ports'' None (Many (Model ReturnPort_fields)) False]"

definition DesignAgentStates_fields :: "answer_field list" where
  "DesignAgentStates_fields =
      [Answer_Field ''typename'' (Some ''__typename'') (Literal ''State'') True,
       Answer_Field ''key'' None (Nullable (Value ''str'')) True,
       Answer_Field ''interface'' None (Value ''str'') False,
       Answer_Field ''definition'' None (Model DesignAgentStatesDefinition_fields) False]"

definition DesignAgentImplementationsAction_fields :: "answer_field list" where
  "DesignAgentImplementationsAction_fields =
      [Answer_Field ''typename'' (Some ''__typename'') (Literal ''Action'') True,
       Answer_Field ''id'' None (Value ''ID'') False,
       Answer_Field ''key'' None (Value ''str'') False,
       Answer_Field ''name'' None (Value ''str'') False,
       Answer_Field ''description'' None (Nullable (Value ''str'')) True,
       Answer_Field ''args'' None (Many (Model ArgPort_fields)) False,
       Answer_Field ''returns'' None (Many (Model ReturnPort_fields)) False]"

definition DesignAgentImplementations_fields :: "answer_field list" where
  "DesignAgentImplementations_fields =
      [Answer_Field ''typename'' (Some ''__typename'') (Literal ''Implementation'') True,
       Answer_Field ''interface'' None (Value ''str'') False,
       Answer_Field ''action'' None (Model DesignAgentImplementationsAction_fields) False]"

definition DesignAgent_fields :: "answer_field list" where
  "DesignAgent_fields =
      [Answer_Field ''typename'' (Some ''__typename'') (Literal ''Agent'') True,
       Answer_Field ''id'' None (Value ''ID'') False,
       Answer_Field ''declared_name'' (Some ''declaredName'') (Value ''str'') False,
       Answer_Field ''connected'' None (Value ''bool'') False,
       Answer_Field ''app'' None (Model DesignAgentApp_fields) False,
       Answer_Field ''states'' None (Many (Model DesignAgentStates_fields)) False,
       Answer_Field ''implementations'' None (Many (Model DesignAgentImplementations_fields))
          False]"

definition ListShortcutAction_fields :: "answer_field list" where
  "ListShortcutAction_fields =
      [Answer_Field ''typename'' (Some ''__typename'') (Literal ''Action'') True,
       Answer_Field ''id'' None (Value ''ID'') False,
       Answer_Field ''hash'' None (Value ''ActionHash'') False]"

definition ListShortcut_fields :: "answer_field list" where
  "ListShortcut_fields =
      [Answer_Field ''typename'' (Some ''__typename'') (Literal ''Shortcut'') True,
       Answer_Field ''id'' None (Value ''ID'') False,
       Answer_Field ''name'' None (Value ''str'') False,
       Answer_Field ''description'' None (Nullable (Value ''str'')) True,
       Answer_Field ''action'' None (Model ListShortcutAction_fields) False,
       Answer_Field ''saved_args'' (Some ''savedArgs'') (Value ''Any'') False,
       Answer_Field ''args'' None (Many (Model ArgPort_fields)) False,
       Answer_Field ''returns'' None (Many (Model ReturnPort_fields)) False,
       Answer_Field ''allow_quick'' (Some ''allowQuick'') (Value ''bool'') False,
       Answer_Field ''use_returns'' (Some ''useReturns'') (Value ''bool'') False]"

definition StateDefinition_fields :: "answer_field list" where
  "StateDefinition_fields =
      [Answer_Field ''typename'' (Some ''__typename'') (Literal ''StateDefinition'') True,
       Answer_Field ''id'' None (Value ''ID'') False,
       Answer_Field ''name'' None (Value ''str'') False,
       Answer_Field ''ports'' None (Many (Model ReturnPort_fields)) False]"

definition DetailMaterializedBlokDeclaredBy_fields :: "answer_field list" where
  "DetailMaterializedBlokDeclaredBy_fields =
      [Answer_Field ''typename'' (Some ''__typename'') (Literal ''Agent'') True,
       Answer_Field ''id'' None (Value ''ID'') False,
       Answer_Field ''declared_name'' (Some ''declaredName'') (Value ''str'') False]"

definition DetailMaterializedBlokAgentMappingsAgent_fields :: "answer_field list" where
  "DetailMaterializedBlokAgentMappingsAgent_fields =
      [Answer_Field ''typename'' (Some ''__typename'') (Literal ''Agent'') True,
       Answer_Field ''id'' None (Value ''ID'') False,
       Answer_Field ''declared_name'' (Some ''declaredName'') (Value ''str'') False,
       Answer_Field ''connected'' None (Value ''bool'') False]"

definition DetailMaterializedBlokAgentMappings_fields :: "answer_field list" where
  "DetailMaterializedBlokAgentMappings_fields =
      [Answer_Field ''typename'' (Some ''__typename'') (Literal ''BlokAgentMapping'') True,
       Answer_Field ''key'' None (Value ''str'') False,
       Answer_Field ''agent'' None (Model DetailMaterializedBlokAgentMappingsAgent_fields) False]"

definition DetailMaterializedBlok_fields :: "answer_field list" where
  "DetailMaterializedBlok_fields =
      [Answer_Field ''typename'' (Some ''__typename'') (Literal ''MaterializedBlok'') True,
       Answer_Field ''id'' None (Value ''ID'') False,
       Answer_Field ''name'' None (Nullable (Value ''str'')) True,
       Answer_Field ''description'' None (Nullable (Value ''str'')) True,
       Answer_Field ''declared_by'' (Some ''declaredBy'') (Nullable (Model
          DetailMaterializedBlokDeclaredBy_fields)) True,
       Answer_Field ''blok'' None (Model DetailBlok_fields) False,
       Answer_Field ''agent_mappings'' (Some ''agentMappings'') (Many (Model
          DetailMaterializedBlokAgentMappings_fields)) False,
       Answer_Field ''pinned_revision'' (Some ''pinnedRevision'') (Nullable (Model
          BlokRevision_fields)) True,
       Answer_Field ''unbound_dependencies'' (Some ''unboundDependencies'') (Many (Value ''str''))
          False]"

definition ActionBlok_fields :: "answer_field list" where
  "ActionBlok_fields =
      [Answer_Field ''typename'' (Some ''__typename'') (Literal ''ActionBlok'') True,
       Answer_Field ''id'' None (Value ''ID'') False,
       Answer_Field ''context'' None (Value ''ComponentContext'') False,
       Answer_Field ''blok'' None (Model DetailBlok_fields) False]"

definition Action_fields :: "answer_field list" where
  "Action_fields =
     model_fields (Definition_fields @
      [Answer_Field ''typename'' (Some ''__typename'') (Literal ''Action'') True,
       Answer_Field ''hash'' None (Value ''ActionHash'') False,
       Answer_Field ''id'' None (Value ''ID'') False])"

definition StateAgent_fields :: "answer_field list" where
  "StateAgent_fields =
      [Answer_Field ''typename'' (Some ''__typename'') (Literal ''Agent'') True,
       Answer_Field ''id'' None (Value ''ID'') False]"

definition State_fields :: "answer_field list" where
  "State_fields =
      [Answer_Field ''typename'' (Some ''__typename'') (Literal ''State'') True,
       Answer_Field ''id'' None (Value ''ID'') False,
       Answer_Field ''definition'' None (Model StateDefinition_fields) False,
       Answer_Field ''agent'' None (Model StateAgent_fields) False,
       Answer_Field ''interface'' None (Value ''str'') False]"

definition BlokEdit_fields :: "answer_field list" where
  "BlokEdit_fields =
      [Answer_Field ''typename'' (Some ''__typename'') (Literal ''BlokEdit'') True,
       Answer_Field ''applied'' None (Value ''bool'') False,
       Answer_Field ''forked'' None (Value ''bool'') False,
       Answer_Field ''blok'' None (Model DetailBlok_fields) False,
       Answer_Field ''revision'' None (Nullable (Model BlokRevision_fields)) True,
       Answer_Field ''materialized_blok'' (Some ''materializedBlok'') (Nullable (Model
          DetailMaterializedBlok_fields)) True,
       Answer_Field ''diagnostics'' None (Many (Model BlokDiagnostic_fields)) False,
       Answer_Field ''resolved_locals'' (Some ''resolvedLocals'') (Many (Model
          ResolvedBlokLocal_fields)) False]"

definition Shortcut_fields :: "answer_field list" where
  "Shortcut_fields =
      [Answer_Field ''typename'' (Some ''__typename'') (Literal ''Shortcut'') True,
       Answer_Field ''id'' None (Value ''ID'') False,
       Answer_Field ''name'' None (Value ''str'') False,
       Answer_Field ''description'' None (Nullable (Value ''str'')) True,
       Answer_Field ''action'' None (Model Action_fields) False,
       Answer_Field ''saved_args'' (Some ''savedArgs'') (Value ''Any'') False,
       Answer_Field ''args'' None (Many (Model ArgPort_fields)) False,
       Answer_Field ''returns'' None (Many (Model ReturnPort_fields)) False,
       Answer_Field ''use_returns'' (Some ''useReturns'') (Value ''bool'') False]"

definition ImplementationAgent_fields :: "answer_field list" where
  "ImplementationAgent_fields =
      [Answer_Field ''typename'' (Some ''__typename'') (Literal ''Agent'') True,
       Answer_Field ''id'' None (Value ''ID'') False]"

definition ImplementationDiagnostics_fields :: "answer_field list" where
  "ImplementationDiagnostics_fields =
      [Answer_Field ''typename'' (Some ''__typename'') (Literal ''Diagnostic'') True,
       Answer_Field ''level'' None (Value ''DiagnosticLevel'') False,
       Answer_Field ''code'' None (Value ''str'') False,
       Answer_Field ''message'' None (Value ''str'') False,
       Answer_Field ''path'' None (Nullable (Value ''str'')) True]"

definition Implementation_fields :: "answer_field list" where
  "Implementation_fields =
      [Answer_Field ''typename'' (Some ''__typename'') (Literal ''Implementation'') True,
       Answer_Field ''id'' None (Value ''ID'') False,
       Answer_Field ''agent'' None (Model ImplementationAgent_fields) False,
       Answer_Field ''action'' None (Model Action_fields) False,
       Answer_Field ''params'' None (Value ''Any'') False,
       Answer_Field ''interface'' None (Value ''str'') False,
       Answer_Field ''diagnostics'' None (Many (Model ImplementationDiagnostics_fields)) False]"

definition CreateAssetMutationCreateAsset_fields :: "answer_field list" where
  "CreateAssetMutationCreateAsset_fields =
      [Answer_Field ''typename'' (Some ''__typename'') (Literal ''Asset'') True,
       Answer_Field ''id'' None (Value ''ID'') False,
       Answer_Field ''ref'' None (Value ''str'') False,
       Answer_Field ''kind'' None (Value ''AssetKind'') False]"

definition ShelveMutationShelveInMemoryDrawer_fields :: "answer_field list" where
  "ShelveMutationShelveInMemoryDrawer_fields =
      [Answer_Field ''typename'' (Some ''__typename'') (Literal ''MemoryDrawer'') True,
       Answer_Field ''id'' None (Value ''ID'') False]"

definition CreateSpaceMutationCreateSpace_fields :: "answer_field list" where
  "CreateSpaceMutationCreateSpace_fields =
      [Answer_Field ''typename'' (Some ''__typename'') (Literal ''Space'') True,
       Answer_Field ''id'' None (Value ''ID'') False]"

definition SearchAgentsQueryOptions_fields :: "answer_field list" where
  "SearchAgentsQueryOptions_fields =
      [Answer_Field ''typename'' (Some ''__typename'') (Literal ''Agent'') True,
       Answer_Field ''label'' None (Value ''str'') False,
       Answer_Field ''value'' None (Value ''ID'') False]"

definition StoredAssetQueryAsset_fields :: "answer_field list" where
  "StoredAssetQueryAsset_fields =
      [Answer_Field ''typename'' (Some ''__typename'') (Literal ''Asset'') True,
       Answer_Field ''id'' None (Value ''ID'') False,
       Answer_Field ''ref'' None (Value ''str'') False,
       Answer_Field ''kind'' None (Value ''AssetKind'') False]"

definition SearchMaterializedBloksQueryOptions_fields :: "answer_field list" where
  "SearchMaterializedBloksQueryOptions_fields =
      [Answer_Field ''typename'' (Some ''__typename'') (Literal ''MaterializedBlok'') True,
       Answer_Field ''label'' None (Nullable (Value ''str'')) True,
       Answer_Field ''value'' None (Value ''ID'') False]"

definition BlokRevisionsQueryBlok_fields :: "answer_field list" where
  "BlokRevisionsQueryBlok_fields =
      [Answer_Field ''typename'' (Some ''__typename'') (Literal ''Blok'') True,
       Answer_Field ''revisions'' None (Many (Model BlokRevision_fields)) False]"

definition ActionBloksQueryAction_fields :: "answer_field list" where
  "ActionBloksQueryAction_fields =
      [Answer_Field ''typename'' (Some ''__typename'') (Literal ''Action'') True,
       Answer_Field ''id'' None (Value ''ID'') False,
       Answer_Field ''bloks'' None (Many (Model ActionBlok_fields)) False]"

definition BaseCatalogQueryBaseCatalog_fields :: "answer_field list" where
  "BaseCatalogQueryBaseCatalog_fields =
      [Answer_Field ''typename'' (Some ''__typename'') (Literal ''BaseCatalog'') True,
       Answer_Field ''name'' None (Value ''str'') False,
       Answer_Field ''version'' None (Value ''int'') False,
       Answer_Field ''description'' None (Nullable (Value ''str'')) True,
       Answer_Field ''operations'' None (Many (Model CatalogOperation_fields)) False]"

definition GetMeActionsQueryActions_fields :: "answer_field list" where
  "GetMeActionsQueryActions_fields =
      [Answer_Field ''typename'' (Some ''__typename'') (Literal ''Action'') True,
       Answer_Field ''id'' None (Value ''ID'') False,
       Answer_Field ''name'' None (Value ''str'') False]"

definition SearchActionsQueryOptions_fields :: "answer_field list" where
  "SearchActionsQueryOptions_fields =
      [Answer_Field ''typename'' (Some ''__typename'') (Literal ''Action'') True,
       Answer_Field ''label'' None (Value ''str'') False,
       Answer_Field ''value'' None (Value ''ID'') False]"

definition SearchShortcutsQueryOptions_fields :: "answer_field list" where
  "SearchShortcutsQueryOptions_fields =
      [Answer_Field ''typename'' (Some ''__typename'') (Literal ''Shortcut'') True,
       Answer_Field ''label'' None (Value ''str'') False,
       Answer_Field ''value'' None (Value ''ID'') False]"

definition SpacesForAgentsQuerySpacesForAgentsSpace_fields :: "answer_field list" where
  "SpacesForAgentsQuerySpacesForAgentsSpace_fields =
      [Answer_Field ''typename'' (Some ''__typename'') (Literal ''Space'') True,
       Answer_Field ''id'' None (Value ''ID'') False,
       Answer_Field ''name'' None (Value ''str'') False]"

definition SpacesForAgentsQuerySpacesForAgents_fields :: "answer_field list" where
  "SpacesForAgentsQuerySpacesForAgents_fields =
      [Answer_Field ''typename'' (Some ''__typename'') (Literal ''SpaceForAgents'') True,
       Answer_Field ''placed'' None (Value ''int'') False,
       Answer_Field ''space'' None (Model SpacesForAgentsQuerySpacesForAgentsSpace_fields) False]"

definition CheckoutAgentQueryCheckoutAgent_fields :: "answer_field list" where
  "CheckoutAgentQueryCheckoutAgent_fields =
      [Answer_Field ''typename'' (Some ''__typename'') (Literal ''AgentWithValues'') True,
       Answer_Field ''agent_id'' (Some ''agentId'') (Value ''ID'') False,
       Answer_Field ''values'' None (Value ''Any'') False,
       Answer_Field ''global_revision'' (Some ''globalRevision'') (Value ''int'') False,
       Answer_Field ''forward_patches'' (Some ''forwardPatches'') (Many (Model StatePatch_fields))
          False,
       Answer_Field ''backward_patches'' (Some ''backwardPatches'') (Many (Model
          StatePatch_fields)) False]"

definition TaskEventsQueryTask_fields :: "answer_field list" where
  "TaskEventsQueryTask_fields =
      [Answer_Field ''typename'' (Some ''__typename'') (Literal ''Task'') True,
       Answer_Field ''id'' None (Value ''ID'') False,
       Answer_Field ''events'' None (Many (Model TaskEvent_fields)) False]"

definition TaskRunViewQueryTaskSpace_fields :: "answer_field list" where
  "TaskRunViewQueryTaskSpace_fields =
      [Answer_Field ''typename'' (Some ''__typename'') (Literal ''Space'') True,
       Answer_Field ''id'' None (Value ''ID'') False,
       Answer_Field ''name'' None (Value ''str'') False]"

definition TaskRunViewQueryTask_fields :: "answer_field list" where
  "TaskRunViewQueryTask_fields =
      [Answer_Field ''typename'' (Some ''__typename'') (Literal ''Task'') True,
       Answer_Field ''id'' None (Value ''ID'') False,
       Answer_Field ''space'' None (Nullable (Model TaskRunViewQueryTaskSpace_fields)) True,
       Answer_Field ''action_bloks'' (Some ''actionBloks'') (Many (Model ActionBlok_fields)) False,
       Answer_Field ''dependency_agents'' (Some ''dependencyAgents'') (Many (Model
          TaskDependencyAgent_fields)) False]"

definition SearchImplementationsQueryOptions_fields :: "answer_field list" where
  "SearchImplementationsQueryOptions_fields =
      [Answer_Field ''typename'' (Some ''__typename'') (Literal ''Implementation'') True,
       Answer_Field ''label'' None (Value ''str'') False,
       Answer_Field ''value'' None (Value ''ID'') False]"

definition SearchTestCasesQueryOptions_fields :: "answer_field list" where
  "SearchTestCasesQueryOptions_fields =
      [Answer_Field ''typename'' (Some ''__typename'') (Literal ''TestCase'') True,
       Answer_Field ''label'' None (Value ''str'') False,
       Answer_Field ''value'' None (Value ''ID'') False]"

definition SearchTestResultsQueryOptions_fields :: "answer_field list" where
  "SearchTestResultsQueryOptions_fields =
      [Answer_Field ''typename'' (Some ''__typename'') (Literal ''TestResult'') True,
       Answer_Field ''label'' None (Value ''datetime'') False,
       Answer_Field ''value'' None (Value ''ID'') False]"

end
