(* ===== verification/Api_Documents.thy ===== *)
theory Api_Documents
  imports Prelude
begin

text \<open>
  What the documents of \<open>rekuest/api/schema.py\<close> select (the \<open>Meta.document\<close> of every fragment and
  operation; a fragment's text is the same in every document that holds it).

  \<open>X_body\<close> is the selection of the fragment or operation \<open>X\<close>, or the one the class \<open>X\<close> is read from inside
  another's. The arguments a field is given are left out.
\<close>

text \<open>A field, by its key in the answer, its name and what is selected of it; a fragment, by its type.\<close>

datatype item = Sel string string "item list" | On string "item list"

abbreviation Get :: "string \<Rightarrow> item" where
  "Get f \<equiv> Sel f f []"

definition PrimaryAction_body :: "item list" where
  "PrimaryAction_body =
      [Get ''name'', Get ''id'', Get ''hash'', Get ''description'', Get ''__typename'']"

definition AgentClient_body :: "item list" where
  "AgentClient_body =
      [Get ''id'', Get ''clientId'', Get ''__typename'']"

definition AgentUser_body :: "item list" where
  "AgentUser_body =
      [Get ''sub'', Get ''__typename'']"

definition AgentOrganization_body :: "item list" where
  "AgentOrganization_body =
      [Get ''identifier'', Get ''__typename'']"

definition AgentMemoryShelve_body :: "item list" where
  "AgentMemoryShelve_body =
      [Get ''id'', Get ''__typename'']"

definition Agent_body :: "item list" where
  "Agent_body =
      [Get ''id'', Get ''name'', Get ''hash'', Get ''supervisor'', Get ''connected'',
       Get ''active'', Sel ''client'' ''client'' AgentClient_body,
       Sel ''user'' ''user'' AgentUser_body,
       Sel ''organization'' ''organization'' AgentOrganization_body,
       Sel ''memoryShelve'' ''memoryShelve'' AgentMemoryShelve_body, Get ''__typename'']"

definition Blok_body :: "item list" where
  "Blok_body =
      [Get ''id'', Get ''name'', Get ''__typename'']"

definition MaterializedBlok_body :: "item list" where
  "MaterializedBlok_body =
      [Get ''id'', Get ''__typename'']"

definition BlokPortMatchChildrenChildrenChildren_body :: "item list" where
  "BlokPortMatchChildrenChildrenChildren_body =
      [Get ''at'', Get ''key'', Get ''kind'', Get ''identifier'', Get ''nullable'',
       Get ''dimension'', Get ''__typename'']"

definition BlokPortMatchChildrenChildren_body :: "item list" where
  "BlokPortMatchChildrenChildren_body =
      [Get ''at'', Get ''key'', Get ''kind'', Get ''identifier'', Get ''nullable'',
       Get ''dimension'',
       Sel ''children'' ''children'' BlokPortMatchChildrenChildrenChildren_body,
       Get ''__typename'']"

definition BlokPortMatchChildren_body :: "item list" where
  "BlokPortMatchChildren_body =
      [Get ''at'', Get ''key'', Get ''kind'', Get ''identifier'', Get ''nullable'',
       Get ''dimension'', Sel ''children'' ''children'' BlokPortMatchChildrenChildren_body,
       Get ''__typename'']"

definition BlokPortMatch_body :: "item list" where
  "BlokPortMatch_body =
      [Get ''at'', Get ''key'', Get ''kind'', Get ''identifier'', Get ''nullable'',
       Get ''dimension'', Sel ''children'' ''children'' BlokPortMatchChildren_body,
       Get ''__typename'']"

definition BlokDiagnostic_body :: "item list" where
  "BlokDiagnostic_body =
      [Get ''level'', Get ''code'', Get ''message'', Get ''path'', Get ''__typename'']"

definition BlokDemo_body :: "item list" where
  "BlokDemo_body =
      [Get ''deps'', Get ''args'', Get ''task'', Get ''queries'', Get ''subscriptions'',
       Get ''__typename'']"

definition CatalogArgument_body :: "item list" where
  "CatalogArgument_body =
      [Get ''key'', Get ''kind'', Get ''required'', Get ''description'', Get ''__typename'']"

definition CatalogEventField_body :: "item list" where
  "CatalogEventField_body =
      [Get ''key'', Get ''kind'', Get ''description'', Get ''__typename'']"

definition Dashboard_body :: "item list" where
  "Dashboard_body =
      [Get ''id'', Get ''name'', Get ''__typename'']"

definition MediaUploadGrant_body :: "item list" where
  "MediaUploadGrant_body =
      [Get ''accessKey'', Get ''secretKey'', Get ''sessionToken'', Get ''path'', Get ''key'',
       Get ''bucket'', Get ''expiresIn'', Get ''maxBytes'', Get ''store'',
       Get ''__typename'']"

definition MediaAccessGrant_body :: "item list" where
  "MediaAccessGrant_body =
      [Get ''accessKey'', Get ''secretKey'', Get ''sessionToken'', Get ''expiresIn'',
       Get ''path'', Get ''key'', Get ''bucket'', Get ''__typename'']"

definition MediaStore_body :: "item list" where
  "MediaStore_body =
      [Get ''path'', Get ''key'', Get ''bucket'', Get ''__typename'']"

definition AssetUploadGrant_body :: "item list" where
  "AssetUploadGrant_body =
      [Get ''accessKey'', Get ''secretKey'', Get ''sessionToken'', Get ''path'', Get ''key'',
       Get ''bucket'', Get ''expiresIn'', Get ''maxBytes'', Get ''store'',
       Get ''__typename'']"

definition ActionArgumentLeafUtilCall_body :: "item list" where
  "ActionArgumentLeafUtilCall_body =
      [Get ''operation'', Get ''__typename'']"

definition ActionArgumentLeaf_body :: "item list" where
  "ActionArgumentLeaf_body =
      [Get ''key'', Get ''valueLiteral'', Get ''valuePath'',
       Sel ''utilCall'' ''utilCall'' ActionArgumentLeafUtilCall_body, Get ''__typename'']"

definition ArgChildPortNestedChildren_body :: "item list" where
  "ArgChildPortNestedChildren_body =
      [Get ''key'', Get ''identifier'', Get ''nullable'', Get ''kind'',
       Get ''referenceUnit'', Get ''proposedUnits'', Get ''dimension'', Get ''__typename'']"

definition ArgChildPortNestedChoices_body :: "item list" where
  "ArgChildPortNestedChoices_body =
      [Get ''value'', Get ''label'', Get ''description'', Get ''__typename'']"

definition ArgChildPortNested_body :: "item list" where
  "ArgChildPortNested_body =
      [Get ''key'', Get ''kind'',
       Sel ''children'' ''children'' ArgChildPortNestedChildren_body,
       Sel ''choices'' ''choices'' ArgChildPortNestedChoices_body, Get ''identifier'',
       Get ''nullable'', Get ''default'', Get ''referenceUnit'', Get ''proposedUnits'',
       Get ''dimension'', Get ''__typename'']"

definition ReturnChildPortNestedChildren_body :: "item list" where
  "ReturnChildPortNestedChildren_body =
      [Get ''key'', Get ''identifier'', Get ''nullable'', Get ''kind'',
       Get ''referenceUnit'', Get ''proposedUnits'', Get ''dimension'', Get ''__typename'']"

definition ReturnChildPortNestedChoices_body :: "item list" where
  "ReturnChildPortNestedChoices_body =
      [Get ''value'', Get ''label'', Get ''description'', Get ''__typename'']"

definition ReturnChildPortNested_body :: "item list" where
  "ReturnChildPortNested_body =
      [Get ''key'', Get ''kind'',
       Sel ''children'' ''children'' ReturnChildPortNestedChildren_body,
       Sel ''choices'' ''choices'' ReturnChildPortNestedChoices_body, Get ''identifier'',
       Get ''nullable'', Get ''referenceUnit'', Get ''proposedUnits'', Get ''dimension'',
       Get ''__typename'']"

definition CustomEffect_body :: "item list" where
  "CustomEffect_body =
      [Get ''__typename'', Get ''kind'']"

definition MessageEffect_body :: "item list" where
  "MessageEffect_body =
      [Get ''__typename'', Get ''kind'', Get ''message'']"

definition StringAssignWidget_body :: "item list" where
  "StringAssignWidget_body =
      [Get ''__typename'', Get ''kind'', Get ''placeholder'', Get ''asParagraph'']"

definition SliderAssignWidget_body :: "item list" where
  "SliderAssignWidget_body =
      [Get ''__typename'', Get ''kind'', Get ''min'', Get ''max'', Get ''step'']"

definition SearchAssignWidget_body :: "item list" where
  "SearchAssignWidget_body =
      [Get ''__typename'', Get ''kind'', Get ''query'', Get ''ward'', Get ''dependencies'']"

definition ChoiceAssignWidget_body :: "item list" where
  "ChoiceAssignWidget_body =
      [Get ''__typename'', Get ''kind'', Get ''placeholder'']"

definition ChoiceReturnWidget_body :: "item list" where
  "ChoiceReturnWidget_body =
      [Get ''__typename'', Get ''kind'']"

definition StatePatchTaskAction_body :: "item list" where
  "StatePatchTaskAction_body =
      [Get ''name'', Get ''__typename'']"

definition StatePatchTask_body :: "item list" where
  "StatePatchTask_body =
      [Get ''id'', Sel ''action'' ''action'' StatePatchTaskAction_body, Get ''__typename'']"

definition StatePatch_body :: "item list" where
  "StatePatch_body =
      [Get ''id'', Get ''op'', Get ''path'', Get ''interface'', Get ''timestamp'',
       Get ''globalFutureRevision'', Sel ''task'' ''task'' StatePatchTask_body,
       Get ''__typename'']"

definition TaskParent_body :: "item list" where
  "TaskParent_body =
      [Get ''id'', Get ''__typename'']"

definition TaskEvents_body :: "item list" where
  "TaskEvents_body =
      [Get ''id'', Get ''returns'', Get ''level'', Get ''__typename'']"

definition TaskInstructs_body :: "item list" where
  "TaskInstructs_body =
      [Get ''id'', Get ''__typename'']"

definition Task_body :: "item list" where
  "Task_body =
      [Get ''args'', Get ''id'', Sel ''parent'' ''parent'' TaskParent_body, Get ''id'',
       Get ''latestEventKind'', Get ''policy'', Sel ''events'' ''events'' TaskEvents_body,
       Sel ''instructs'' ''instructs'' TaskInstructs_body, Get ''reference'',
       Get ''updatedAt'', Get ''__typename'']"

definition TaskEvent_body :: "item list" where
  "TaskEvent_body =
      [Get ''id'', Get ''kind'', Get ''returns'', Get ''reference'', Get ''message'',
       Get ''progress'', Get ''value'', Get ''createdAt'', Get ''__typename'']"

definition TaskChange_body :: "item list" where
  "TaskChange_body =
      [Get ''id'', Get ''reference'', Get ''isDone'', Get ''latestEventKind'',
       Get ''latestInstructKind'', Get ''updatedAt'', Get ''createdAt'', Get ''__typename'']"

definition TaskEventChange_body :: "item list" where
  "TaskEventChange_body =
      [Get ''id'', Get ''task'', Get ''kind'', Get ''returns'', Get ''message'',
       Get ''progress'', Get ''value'', Get ''createdAt'', Get ''__typename'']"

definition TaskDependencyAgentAgent_body :: "item list" where
  "TaskDependencyAgentAgent_body =
      [Get ''id'', Get ''name'', Get ''__typename'']"

definition TaskDependencyAgent_body :: "item list" where
  "TaskDependencyAgent_body =
      [Get ''key'', Sel ''agent'' ''agent'' TaskDependencyAgentAgent_body,
       Get ''__typename'']"

definition TestCaseAction_body :: "item list" where
  "TestCaseAction_body =
      [Get ''id'', Get ''__typename'']"

definition TestCase_body :: "item list" where
  "TestCase_body =
      [Get ''id'', Sel ''action'' ''action'' TestCaseAction_body, Get ''isBenchmark'',
       Get ''description'', Get ''name'', Get ''__typename'']"

definition TestResultCase_body :: "item list" where
  "TestResultCase_body =
      [Get ''id'', Get ''__typename'']"

definition TestResult_body :: "item list" where
  "TestResult_body =
      [Get ''id'', Sel ''case'' ''case'' TestResultCase_body, Get ''passed'',
       Get ''__typename'']"

definition Toolbox_body :: "item list" where
  "Toolbox_body =
      [Get ''id'', Get ''name'', Get ''description'', Get ''__typename'']"

definition ListToolbox_body :: "item list" where
  "ListToolbox_body =
      [Get ''id'', Get ''name'', Get ''description'', Get ''__typename'']"

definition BlokDependencyActionDependenciesDemand_body :: "item list" where
  "BlokDependencyActionDependenciesDemand_body =
      [Get ''hash'', Get ''key'', Get ''app'', Get ''version'', Get ''name'',
       Sel ''argMatches'' ''argMatches'' [On ''PortMatch'' BlokPortMatch_body, Get ''__typename''],
       Sel ''returnMatches'' ''returnMatches'' [On ''PortMatch'' BlokPortMatch_body, Get
          ''__typename''],
       Get ''protocols'', Get ''forceArgLength'', Get ''forceReturnLength'', Get ''pure'',
       Get ''idempotent'', Get ''stateful'', Get ''__typename'']"

definition BlokDependencyActionDependencies_body :: "item list" where
  "BlokDependencyActionDependencies_body =
      [Get ''key'', Get ''description'', Get ''optional'',
       Sel ''demand'' ''demand'' BlokDependencyActionDependenciesDemand_body,
       Get ''__typename'']"

definition BlokDependencyStateDependenciesDemand_body :: "item list" where
  "BlokDependencyStateDependenciesDemand_body =
      [Get ''hash'', Get ''key'', Get ''app'',
       Sel ''matches'' ''matches'' [On ''PortMatch'' BlokPortMatch_body, Get ''__typename''],
       Get ''protocols'', Get ''__typename'']"

definition BlokDependencyStateDependencies_body :: "item list" where
  "BlokDependencyStateDependencies_body =
      [Get ''key'', Get ''description'', Get ''optional'',
       Sel ''demand'' ''demand'' BlokDependencyStateDependenciesDemand_body,
       Get ''__typename'']"

definition BlokDependency_body :: "item list" where
  "BlokDependency_body =
      [Get ''key'', Get ''description'', Get ''optional'', Get ''autoResolvable'',
       Get ''appFilter'', Get ''versionFilter'', Get ''minViableInstances'',
       Get ''maxViableInstances'',
       Sel ''actionDependencies'' ''actionDependencies'' BlokDependencyActionDependencies_body,
       Sel ''stateDependencies'' ''stateDependencies'' BlokDependencyStateDependencies_body,
       Get ''__typename'']"

definition CatalogOperation_body :: "item list" where
  "CatalogOperation_body =
      [Get ''name'', Get ''description'', Get ''returns'',
       Sel ''arguments'' ''arguments'' [On ''CatalogArgument'' CatalogArgument_body, Get
          ''__typename''],
       Get ''__typename'']"

definition CatalogProp_body :: "item list" where
  "CatalogProp_body =
      [Get ''key'', Get ''kind'', Get ''required'', Get ''description'',
       Sel ''event'' ''event'' [On ''CatalogEventField'' CatalogEventField_body, Get
          ''__typename''],
       Get ''__typename'']"

definition ActionArgumentNestedUtilCall_body :: "item list" where
  "ActionArgumentNestedUtilCall_body =
      [Get ''operation'',
       Sel ''arguments'' ''arguments'' [On ''ActionArgument'' ActionArgumentLeaf_body, Get
          ''__typename''],
       Get ''__typename'']"

definition ActionArgumentNested_body :: "item list" where
  "ActionArgumentNested_body =
      [Get ''key'', Get ''valueLiteral'', Get ''valuePath'',
       Sel ''utilCall'' ''utilCall'' ActionArgumentNestedUtilCall_body,
       Sel ''valueList'' ''valueList'' [On ''ActionArgument'' ActionArgumentLeaf_body, Get
          ''__typename''],
       Sel ''valueDict'' ''valueDict'' [On ''ActionArgument'' ActionArgumentLeaf_body, Get
          ''__typename''],
       Get ''__typename'']"

definition ArgChildPortChoices_body :: "item list" where
  "ArgChildPortChoices_body =
      [Get ''value'', Get ''label'', Get ''description'', Get ''__typename'']"

definition ArgChildPort_body :: "item list" where
  "ArgChildPort_body =
      [Get ''key'', Get ''kind'', Get ''identifier'',
       Sel ''children'' ''children'' [On ''ArgPort'' ArgChildPortNested_body, Get ''__typename''],
       Sel ''choices'' ''choices'' ArgChildPortChoices_body, Get ''nullable'',
       Get ''default'', Get ''referenceUnit'', Get ''proposedUnits'', Get ''dimension'',
       Get ''__typename'']"

definition ReturnChildPortChoices_body :: "item list" where
  "ReturnChildPortChoices_body =
      [Get ''value'', Get ''label'', Get ''description'', Get ''__typename'']"

definition ReturnChildPort_body :: "item list" where
  "ReturnChildPort_body =
      [Get ''key'', Get ''kind'', Get ''identifier'',
       Sel ''children'' ''children'' [On ''ReturnPort'' ReturnChildPortNested_body, Get
          ''__typename''],
       Sel ''choices'' ''choices'' ReturnChildPortChoices_body, Get ''nullable'',
       Get ''referenceUnit'', Get ''proposedUnits'', Get ''dimension'', Get ''__typename'']"

definition TaskChangeEvent_body :: "item list" where
  "TaskChangeEvent_body =
      [Sel ''create'' ''create'' [On ''TaskChange'' TaskChange_body, Get ''__typename''],
       Sel ''event'' ''event'' [On ''TaskEventChange'' TaskEventChange_body, Get ''__typename''],
       Get ''__typename'']"

definition CatalogComponent_body :: "item list" where
  "CatalogComponent_body =
      [Get ''name'', Get ''description'', Get ''acceptsChildren'', Get ''context'',
       Get ''childrenContext'', Get ''inheritsContext'', Get ''downstreamOf'',
       Get ''notDownstreamOf'', Get ''textProp'', Get ''catalog'',
       Sel ''props'' ''props'' [On ''CatalogProp'' CatalogProp_body, Get ''__typename''],
       Get ''__typename'']"

definition ActionArgumentUtilCall_body :: "item list" where
  "ActionArgumentUtilCall_body =
      [Get ''operation'',
       Sel ''arguments'' ''arguments'' [On ''ActionArgument'' ActionArgumentNested_body, Get
          ''__typename''],
       Get ''__typename'']"

definition ActionArgument_body :: "item list" where
  "ActionArgument_body =
      [Get ''key'', Get ''valueLiteral'', Get ''valuePath'',
       Sel ''utilCall'' ''utilCall'' ActionArgumentUtilCall_body,
       Sel ''valueList'' ''valueList'' [On ''ActionArgument'' ActionArgumentNested_body, Get
          ''__typename''],
       Sel ''valueDict'' ''valueDict'' [On ''ActionArgument'' ActionArgumentNested_body, Get
          ''__typename''],
       Get ''__typename'']"

definition BlokLocalChoices_body :: "item list" where
  "BlokLocalChoices_body =
      [Get ''value'', Get ''label'', Get ''description'', Get ''__typename'']"

definition BlokLocal_body :: "item list" where
  "BlokLocal_body =
      [Get ''key'', Get ''label'', Get ''kind'', Get ''description'', Get ''identifier'',
       Get ''nullable'', Get ''default'', Get ''persist'', Get ''referenceUnit'',
       Get ''proposedUnits'', Get ''dimension'',
       Sel ''children'' ''children'' [On ''ArgPort'' ArgChildPort_body, Get ''__typename''],
       Sel ''choices'' ''choices'' BlokLocalChoices_body, Get ''__typename'']"

definition ResolvedBlokLocalChoices_body :: "item list" where
  "ResolvedBlokLocalChoices_body =
      [Get ''value'', Get ''label'', Get ''description'', Get ''__typename'']"

definition ResolvedBlokLocal_body :: "item list" where
  "ResolvedBlokLocal_body =
      [Get ''key'', Get ''label'', Get ''kind'', Get ''description'', Get ''identifier'',
       Get ''nullable'', Get ''default'', Get ''persist'', Get ''referenceUnit'',
       Get ''proposedUnits'', Get ''dimension'',
       Sel ''children'' ''children'' [On ''ArgPort'' ArgChildPort_body, Get ''__typename''],
       Sel ''choices'' ''choices'' ResolvedBlokLocalChoices_body, Get ''__typename'']"

definition Module_body :: "item list" where
  "Module_body =
      [Get ''id'', Get ''name'', Get ''description'', Get ''isRegistered'', Get ''catalogs'',
       Sel ''components'' ''components'' [On ''CatalogComponent'' CatalogComponent_body, Get
          ''__typename''],
       Sel ''operations'' ''operations'' [On ''CatalogOperation'' CatalogOperation_body, Get
          ''__typename''],
       Get ''__typename'']"

definition BlokQuery_body :: "item list" where
  "BlokQuery_body =
      [Get ''key'', Get ''service'', Get ''document'',
       Sel ''variables'' ''variables'' [On ''ActionArgument'' ActionArgument_body, Get
          ''__typename''],
       Get ''poll'', Get ''more'', Get ''__typename'']"

definition BlokSubscription_body :: "item list" where
  "BlokSubscription_body =
      [Get ''key'', Get ''service'', Get ''document'',
       Sel ''variables'' ''variables'' [On ''ActionArgument'' ActionArgument_body, Get
          ''__typename''],
       Get ''keep'', Get ''history'', Get ''__typename'']"

definition UtilCall_body :: "item list" where
  "UtilCall_body =
      [Get ''operation'',
       Sel ''arguments'' ''arguments'' [On ''ActionArgument'' ActionArgument_body, Get
          ''__typename''],
       Get ''__typename'']"

definition BlokRevisionAuthor_body :: "item list" where
  "BlokRevisionAuthor_body =
      [Get ''sub'', Get ''__typename'']"

definition BlokRevisionTask_body :: "item list" where
  "BlokRevisionTask_body =
      [Get ''id'', Get ''__typename'']"

definition BlokRevision_body :: "item list" where
  "BlokRevision_body =
      [Get ''id'', Get ''number'', Get ''message'', Get ''createdAt'',
       Sel ''author'' ''author'' BlokRevisionAuthor_body,
       Sel ''task'' ''task'' BlokRevisionTask_body, Get ''vocab'', Get ''catalogs'',
       Sel ''locals'' ''locals'' [On ''BlokLocal'' BlokLocal_body, Get ''__typename''],
       Sel ''resolvedLocals'' ''resolvedLocals'' [On ''ResolvedBlokLocal'' ResolvedBlokLocal_body,
          Get ''__typename''],
       Get ''__typename'']"

definition ComponentPropDynamicValue_body :: "item list" where
  "ComponentPropDynamicValue_body =
      [Get ''literal'', Get ''path'', Get ''__typename'']"

definition ComponentProp_body :: "item list" where
  "ComponentProp_body =
      [Get ''key'', Get ''staticValue'',
       Sel ''dynamicValue'' ''dynamicValue'' ComponentPropDynamicValue_body,
       Get ''declaresValue'',
       Sel ''utilCall'' ''utilCall'' [On ''UtilCall'' UtilCall_body, Get ''__typename''],
       Get ''__typename'']"

definition CustomAssignWidget_body :: "item list" where
  "CustomAssignWidget_body =
      [Get ''__typename'', Get ''kind'', Get ''component'',
       Sel ''props'' ''props'' [On ''ComponentProp'' ComponentProp_body, Get ''__typename''],
       Get ''dependencies'']"

definition CustomReturnWidget_body :: "item list" where
  "CustomReturnWidget_body =
      [Get ''__typename'', Get ''kind'', Get ''component'',
       Sel ''props'' ''props'' [On ''ComponentProp'' ComponentProp_body, Get ''__typename'']]"

definition PortAssignWidget_body :: "item list" where
  "PortAssignWidget_body =
      [Get ''__typename'', Get ''kind'', On ''StringAssignWidget'' StringAssignWidget_body,
       On ''SearchAssignWidget'' SearchAssignWidget_body,
       On ''SliderAssignWidget'' SliderAssignWidget_body,
       On ''ChoiceAssignWidget'' ChoiceAssignWidget_body,
       On ''CustomAssignWidget'' CustomAssignWidget_body]"

definition PortEffect_body :: "item list" where
  "PortEffect_body =
      [Get ''__typename'', Get ''kind'', Get ''dependencies'',
       Sel ''call'' ''call'' [On ''UtilCall'' UtilCall_body, Get ''__typename''],
       Get ''callJson'', Get ''source'', On ''CustomEffect'' CustomEffect_body,
       On ''MessageEffect'' MessageEffect_body]"

definition ArgPortChoices_body :: "item list" where
  "ArgPortChoices_body =
      [Get ''value'', Get ''label'', Get ''description'', Get ''__typename'']"

definition ArgPortValidators_body :: "item list" where
  "ArgPortValidators_body =
      [Sel ''call'' ''call'' [On ''UtilCall'' UtilCall_body, Get ''__typename''],
       Get ''callJson'', Get ''source'', Get ''errorMessage'', Get ''dependencies'',
       Get ''label'', Get ''__typename'']"

definition ArgPort_body :: "item list" where
  "ArgPort_body =
      [Get ''__typename'', Get ''key'', Get ''label'', Get ''nullable'', Get ''description'',
       Get ''default'', Get ''kind'', Get ''identifier'', Get ''referenceUnit'',
       Get ''proposedUnits'', Get ''dimension'',
       Sel ''children'' ''children'' [On ''ArgPort'' ArgChildPort_body, Get ''__typename''],
       Sel ''widget'' ''widget'' [On ''AssignWidget'' PortAssignWidget_body, Get ''__typename''],
       Sel ''choices'' ''choices'' ArgPortChoices_body,
       Sel ''validators'' ''validators'' ArgPortValidators_body,
       Sel ''effects'' ''effects'' [On ''Effect'' PortEffect_body, Get ''__typename'']]"

definition ReturnWidget_body :: "item list" where
  "ReturnWidget_body =
      [Get ''__typename'', Get ''kind'', On ''CustomReturnWidget'' CustomReturnWidget_body,
       On ''ChoiceReturnWidget'' ChoiceReturnWidget_body]"

definition ReturnPortChoices_body :: "item list" where
  "ReturnPortChoices_body =
      [Get ''value'', Get ''label'', Get ''description'', Get ''__typename'']"

definition ReturnPort_body :: "item list" where
  "ReturnPort_body =
      [Get ''__typename'', Get ''key'', Get ''label'', Get ''nullable'', Get ''description'',
       Get ''kind'', Get ''identifier'', Get ''referenceUnit'', Get ''proposedUnits'',
       Get ''dimension'',
       Sel ''children'' ''children'' [On ''ReturnPort'' ReturnChildPort_body, Get ''__typename''],
       Sel ''widget'' ''widget'' [On ''ReturnWidget'' ReturnWidget_body, Get ''__typename''],
       Sel ''choices'' ''choices'' ReturnPortChoices_body,
       Sel ''effects'' ''effects'' [On ''Effect'' PortEffect_body, Get ''__typename'']]"

definition DetailBlokApp_body :: "item list" where
  "DetailBlokApp_body =
      [Get ''id'', Get ''identifier'', Get ''__typename'']"

definition DetailBlokModule_body :: "item list" where
  "DetailBlokModule_body =
      [Get ''id'', Get ''name'', Get ''__typename'']"

definition DetailBlok_body :: "item list" where
  "DetailBlok_body =
      [Get ''id'', Get ''name'', Get ''description'', Get ''provided'', Get ''heldByAction'',
       Sel ''app'' ''app'' DetailBlokApp_body, Get ''context'',
       Sel ''module'' ''module'' DetailBlokModule_body, Get ''componentTree'', Get ''vocab'',
       Get ''catalogs'',
       Sel ''locals'' ''locals'' [On ''BlokLocal'' BlokLocal_body, Get ''__typename''],
       Sel ''resolvedLocals'' ''resolvedLocals'' [On ''ResolvedBlokLocal'' ResolvedBlokLocal_body,
          Get ''__typename''],
       Sel ''demo'' ''demo'' [On ''BlokDemo'' BlokDemo_body, Get ''__typename''],
       Sel ''queries'' ''queries'' [On ''BlokQuery'' BlokQuery_body, Get ''__typename''],
       Sel ''subscriptions'' ''subscriptions'' [On ''BlokSubscription'' BlokSubscription_body, Get
          ''__typename''],
       Sel ''diagnostics'' ''diagnostics'' [On ''Diagnostic'' BlokDiagnostic_body, Get
          ''__typename''],
       Sel ''dependencies'' ''dependencies'' [On ''BlokDependency'' BlokDependency_body, Get
          ''__typename''],
       Sel ''args'' ''args'' [On ''ArgPort'' ArgPort_body, Get ''__typename''],
       Sel ''head'' ''head'' [On ''BlokRevision'' BlokRevision_body, Get ''__typename''],
       Get ''__typename'']"

definition DefinitionCollections_body :: "item list" where
  "DefinitionCollections_body =
      [Get ''name'', Get ''__typename'']"

definition DefinitionIsTestFor_body :: "item list" where
  "DefinitionIsTestFor_body =
      [Get ''id'', Get ''__typename'']"

definition DefinitionPortGroups_body :: "item list" where
  "DefinitionPortGroups_body =
      [Get ''key'', Get ''__typename'']"

definition Definition_body :: "item list" where
  "Definition_body =
      [Sel ''args'' ''args'' [On ''ArgPort'' ArgPort_body, Get ''__typename''],
       Sel ''returns'' ''returns'' [On ''ReturnPort'' ReturnPort_body, Get ''__typename''],
       Get ''kind'', Get ''name'', Get ''description'',
       Sel ''collections'' ''collections'' DefinitionCollections_body, Get ''isDev'',
       Sel ''isTestFor'' ''isTestFor'' DefinitionIsTestFor_body,
       Sel ''portGroups'' ''portGroups'' DefinitionPortGroups_body, Get ''stateful'',
       Get ''__typename'']"

definition ListAction_body :: "item list" where
  "ListAction_body =
      [Get ''id'', Get ''name'', Get ''description'',
       Sel ''args'' ''args'' [On ''ArgPort'' ArgPort_body, Get ''__typename''],
       Sel ''returns'' ''returns'' [On ''ReturnPort'' ReturnPort_body, Get ''__typename''],
       Get ''stateful'', Get ''__typename'']"

definition DesignAgentApp_body :: "item list" where
  "DesignAgentApp_body =
      [Get ''identifier'', Get ''__typename'']"

definition DesignAgentStatesDefinition_body :: "item list" where
  "DesignAgentStatesDefinition_body =
      [Get ''name'',
       Sel ''ports'' ''ports'' [On ''ReturnPort'' ReturnPort_body, Get ''__typename''],
       Get ''__typename'']"

definition DesignAgentStates_body :: "item list" where
  "DesignAgentStates_body =
      [Get ''key'', Get ''interface'',
       Sel ''definition'' ''definition'' DesignAgentStatesDefinition_body,
       Get ''__typename'']"

definition DesignAgentImplementationsAction_body :: "item list" where
  "DesignAgentImplementationsAction_body =
      [Get ''id'', Get ''key'', Get ''name'', Get ''description'',
       Sel ''args'' ''args'' [On ''ArgPort'' ArgPort_body, Get ''__typename''],
       Sel ''returns'' ''returns'' [On ''ReturnPort'' ReturnPort_body, Get ''__typename''],
       Get ''__typename'']"

definition DesignAgentImplementations_body :: "item list" where
  "DesignAgentImplementations_body =
      [Get ''interface'', Sel ''action'' ''action'' DesignAgentImplementationsAction_body,
       Get ''__typename'']"

definition DesignAgent_body :: "item list" where
  "DesignAgent_body =
      [Get ''id'', Get ''declaredName'', Get ''connected'',
       Sel ''app'' ''app'' DesignAgentApp_body,
       Sel ''states'' ''states'' DesignAgentStates_body,
       Sel ''implementations'' ''implementations'' DesignAgentImplementations_body,
       Get ''__typename'']"

definition ListShortcutAction_body :: "item list" where
  "ListShortcutAction_body =
      [Get ''id'', Get ''hash'', Get ''__typename'']"

definition ListShortcut_body :: "item list" where
  "ListShortcut_body =
      [Get ''id'', Get ''name'', Get ''description'',
       Sel ''action'' ''action'' ListShortcutAction_body, Get ''savedArgs'',
       Sel ''args'' ''args'' [On ''ArgPort'' ArgPort_body, Get ''__typename''],
       Sel ''returns'' ''returns'' [On ''ReturnPort'' ReturnPort_body, Get ''__typename''],
       Get ''allowQuick'', Get ''useReturns'', Get ''__typename'']"

definition StateDefinition_body :: "item list" where
  "StateDefinition_body =
      [Get ''id'', Get ''name'',
       Sel ''ports'' ''ports'' [On ''ReturnPort'' ReturnPort_body, Get ''__typename''],
       Get ''__typename'']"

definition DetailMaterializedBlokDeclaredBy_body :: "item list" where
  "DetailMaterializedBlokDeclaredBy_body =
      [Get ''id'', Get ''declaredName'', Get ''__typename'']"

definition DetailMaterializedBlokAgentMappingsAgent_body :: "item list" where
  "DetailMaterializedBlokAgentMappingsAgent_body =
      [Get ''id'', Get ''declaredName'', Get ''connected'', Get ''__typename'']"

definition DetailMaterializedBlokAgentMappings_body :: "item list" where
  "DetailMaterializedBlokAgentMappings_body =
      [Get ''key'', Sel ''agent'' ''agent'' DetailMaterializedBlokAgentMappingsAgent_body,
       Get ''__typename'']"

definition DetailMaterializedBlok_body :: "item list" where
  "DetailMaterializedBlok_body =
      [Get ''id'', Get ''name'', Get ''description'',
       Sel ''declaredBy'' ''declaredBy'' DetailMaterializedBlokDeclaredBy_body,
       Sel ''blok'' ''blok'' [On ''Blok'' DetailBlok_body, Get ''__typename''],
       Sel ''agentMappings'' ''agentMappings'' DetailMaterializedBlokAgentMappings_body,
       Sel ''pinnedRevision'' ''pinnedRevision'' [On ''BlokRevision'' BlokRevision_body, Get
          ''__typename''],
       Get ''unboundDependencies'', Get ''__typename'']"

definition ActionBlok_body :: "item list" where
  "ActionBlok_body =
      [Get ''id'', Get ''context'',
       Sel ''blok'' ''blok'' [On ''Blok'' DetailBlok_body, Get ''__typename''],
       Get ''__typename'']"

definition Action_body :: "item list" where
  "Action_body =
      [Get ''hash'', Get ''id'', On ''Action'' Definition_body, Get ''__typename'']"

definition StateAgent_body :: "item list" where
  "StateAgent_body =
      [Get ''id'', Get ''__typename'']"

definition State_body :: "item list" where
  "State_body =
      [Get ''id'',
       Sel ''definition'' ''definition'' [On ''StateDefinition'' StateDefinition_body, Get
          ''__typename''],
       Sel ''agent'' ''agent'' StateAgent_body, Get ''interface'', Get ''__typename'']"

definition BlokEdit_body :: "item list" where
  "BlokEdit_body =
      [Get ''applied'', Get ''forked'',
       Sel ''blok'' ''blok'' [On ''Blok'' DetailBlok_body, Get ''__typename''],
       Sel ''revision'' ''revision'' [On ''BlokRevision'' BlokRevision_body, Get ''__typename''],
       Sel ''materializedBlok'' ''materializedBlok'' [On ''MaterializedBlok''
          DetailMaterializedBlok_body, Get ''__typename''],
       Sel ''diagnostics'' ''diagnostics'' [On ''Diagnostic'' BlokDiagnostic_body, Get
          ''__typename''],
       Sel ''resolvedLocals'' ''resolvedLocals'' [On ''ResolvedBlokLocal'' ResolvedBlokLocal_body,
          Get ''__typename''],
       Get ''__typename'']"

definition Shortcut_body :: "item list" where
  "Shortcut_body =
      [Get ''id'', Get ''name'', Get ''description'',
       Sel ''action'' ''action'' [On ''Action'' Action_body, Get ''__typename''],
       Get ''savedArgs'',
       Sel ''args'' ''args'' [On ''ArgPort'' ArgPort_body, Get ''__typename''],
       Sel ''returns'' ''returns'' [On ''ReturnPort'' ReturnPort_body, Get ''__typename''],
       Get ''useReturns'', Get ''__typename'']"

definition ImplementationAgent_body :: "item list" where
  "ImplementationAgent_body =
      [Get ''id'', Get ''__typename'']"

definition ImplementationDiagnostics_body :: "item list" where
  "ImplementationDiagnostics_body =
      [Get ''level'', Get ''code'', Get ''message'', Get ''path'', Get ''__typename'']"

definition Implementation_body :: "item list" where
  "Implementation_body =
      [Get ''id'', Sel ''agent'' ''agent'' ImplementationAgent_body,
       Sel ''action'' ''action'' [On ''Action'' Action_body, Get ''__typename''],
       Get ''params'', Get ''interface'',
       Sel ''diagnostics'' ''diagnostics'' ImplementationDiagnostics_body,
       Get ''__typename'']"

definition AssignMutation_body :: "item list" where
  "AssignMutation_body =
      [Sel ''assign'' ''assign'' [On ''Task'' Task_body, Get ''__typename'']]"

definition CancelMutation_body :: "item list" where
  "CancelMutation_body =
      [Sel ''cancel'' ''cancel'' [On ''Task'' Task_body, Get ''__typename'']]"

definition InterruptMutation_body :: "item list" where
  "InterruptMutation_body =
      [Sel ''interrupt'' ''interrupt'' [On ''Task'' Task_body, Get ''__typename'']]"

definition PauseMutation_body :: "item list" where
  "PauseMutation_body =
      [Sel ''pause'' ''pause'' [On ''Task'' Task_body, Get ''__typename'']]"

definition ResumeMutation_body :: "item list" where
  "ResumeMutation_body =
      [Sel ''resume'' ''resume'' [On ''Task'' Task_body, Get ''__typename'']]"

definition DecideMutation_body :: "item list" where
  "DecideMutation_body =
      [Sel ''decide'' ''decide'' [On ''Task'' Task_body, Get ''__typename'']]"

definition EnsureAgentMutation_body :: "item list" where
  "EnsureAgentMutation_body =
      [Sel ''ensureAgent'' ''ensureAgent'' [On ''Agent'' Agent_body, Get ''__typename'']]"

definition ImplementAgentMutation_body :: "item list" where
  "ImplementAgentMutation_body =
      [Sel ''implementAgent'' ''implementAgent'' [On ''Agent'' Agent_body, Get ''__typename'']]"

definition RequestAssetUploadMutation_body :: "item list" where
  "RequestAssetUploadMutation_body =
      [Sel ''requestAssetUpload'' ''requestAssetUpload'' [On ''AssetUploadGrant''
          AssetUploadGrant_body, Get ''__typename'']]"

definition CreateAssetMutationCreateAsset_body :: "item list" where
  "CreateAssetMutationCreateAsset_body =
      [Get ''id'', Get ''ref'', Get ''kind'', Get ''__typename'']"

definition CreateAssetMutation_body :: "item list" where
  "CreateAssetMutation_body =
      [Sel ''createAsset'' ''createAsset'' CreateAssetMutationCreateAsset_body]"

definition CreateBlokMutation_body :: "item list" where
  "CreateBlokMutation_body =
      [Sel ''createBlok'' ''createBlok'' [On ''Blok'' Blok_body, Get ''__typename'']]"

definition MaterializeBlokMutation_body :: "item list" where
  "MaterializeBlokMutation_body =
      [Sel ''materializeBlok'' ''materializeBlok'' [On ''MaterializedBlok'' MaterializedBlok_body,
          Get ''__typename'']]"

definition ForkBlokMutation_body :: "item list" where
  "ForkBlokMutation_body =
      [Sel ''forkBlok'' ''forkBlok'' [On ''Blok'' DetailBlok_body, Get ''__typename'']]"

definition UpdateBlokMutation_body :: "item list" where
  "UpdateBlokMutation_body =
      [Sel ''updateBlok'' ''updateBlok'' [On ''Blok'' DetailBlok_body, Get ''__typename'']]"

definition UpdateMaterializedBlokMutation_body :: "item list" where
  "UpdateMaterializedBlokMutation_body =
      [Sel ''updateMaterializedBlok'' ''updateMaterializedBlok'' [On ''MaterializedBlok''
          DetailMaterializedBlok_body, Get ''__typename'']]"

definition EditBlokMutation_body :: "item list" where
  "EditBlokMutation_body =
      [Sel ''editBlok'' ''editBlok'' [On ''BlokEdit'' BlokEdit_body, Get ''__typename'']]"

definition RevertBlokMutation_body :: "item list" where
  "RevertBlokMutation_body =
      [Sel ''revertBlok'' ''revertBlok'' [On ''BlokRevision'' BlokRevision_body, Get
          ''__typename'']]"

definition PinMaterializedBlokMutation_body :: "item list" where
  "PinMaterializedBlokMutation_body =
      [Sel ''pinMaterializedBlok'' ''pinMaterializedBlok'' [On ''MaterializedBlok''
          DetailMaterializedBlok_body, Get ''__typename'']]"

definition RegisterModuleMutation_body :: "item list" where
  "RegisterModuleMutation_body =
      [Sel ''registerModule'' ''registerModule'' [On ''Module'' Module_body, Get ''__typename'']]"

definition CreateDashboardMutation_body :: "item list" where
  "CreateDashboardMutation_body =
      [Sel ''createDashboard'' ''createDashboard'' [On ''Dashboard'' Dashboard_body, Get
          ''__typename'']]"

definition RequestMediaUploadMutation_body :: "item list" where
  "RequestMediaUploadMutation_body =
      [Sel ''requestMediaUpload'' ''requestMediaUpload'' [On ''MediaUploadGrant''
          MediaUploadGrant_body, Get ''__typename'']]"

definition FinishMediaUploadMutation_body :: "item list" where
  "FinishMediaUploadMutation_body =
      [Sel ''finishMediaUpload'' ''finishMediaUpload'' [On ''MediaStore'' MediaStore_body, Get
          ''__typename'']]"

definition RequestMediaAccessMutation_body :: "item list" where
  "RequestMediaAccessMutation_body =
      [Sel ''requestMediaAccess'' ''requestMediaAccess'' [On ''MediaAccessGrant''
          MediaAccessGrant_body, Get ''__typename'']]"

definition ShelveMutationShelveInMemoryDrawer_body :: "item list" where
  "ShelveMutationShelveInMemoryDrawer_body =
      [Get ''id'', Get ''__typename'']"

definition ShelveMutation_body :: "item list" where
  "ShelveMutation_body =
      [Sel ''shelveInMemoryDrawer'' ''shelveInMemoryDrawer''
          ShelveMutationShelveInMemoryDrawer_body]"

definition UnshelveMutation_body :: "item list" where
  "UnshelveMutation_body =
      [Get ''unshelveMemoryDrawer'']"

definition CreateShortcutMutation_body :: "item list" where
  "CreateShortcutMutation_body =
      [Sel ''createShortcut'' ''createShortcut'' [On ''Shortcut'' Shortcut_body, Get
          ''__typename'']]"

definition CreateSpaceMutationCreateSpace_body :: "item list" where
  "CreateSpaceMutationCreateSpace_body =
      [Get ''id'', Get ''__typename'']"

definition CreateSpaceMutation_body :: "item list" where
  "CreateSpaceMutation_body =
      [Sel ''createSpace'' ''createSpace'' CreateSpaceMutationCreateSpace_body]"

definition CollectMutation_body :: "item list" where
  "CollectMutation_body =
      [Get ''collect'']"

definition CreateHigherOrderImplementationMutation_body :: "item list" where
  "CreateHigherOrderImplementationMutation_body =
      [Sel ''createHigherOrderImplementation'' ''createHigherOrderImplementation'' [On
          ''Implementation'' Implementation_body, Get ''__typename'']]"

definition Create_testcaseMutation_body :: "item list" where
  "Create_testcaseMutation_body =
      [Sel ''createTestCase'' ''createTestCase'' [On ''TestCase'' TestCase_body, Get
          ''__typename'']]"

definition Create_testresultMutation_body :: "item list" where
  "Create_testresultMutation_body =
      [Sel ''createTestResult'' ''createTestResult'' [On ''TestResult'' TestResult_body, Get
          ''__typename'']]"

definition GetAgentQuery_body :: "item list" where
  "GetAgentQuery_body =
      [Sel ''agent'' ''agent'' [On ''Agent'' Agent_body, Get ''__typename'']]"

definition ListAgentsQuery_body :: "item list" where
  "ListAgentsQuery_body =
      [Sel ''agents'' ''agents'' [On ''Agent'' Agent_body, Get ''__typename'']]"

definition GetAgentByIdentifiersQuery_body :: "item list" where
  "GetAgentByIdentifiersQuery_body =
      [Sel ''agent'' ''agent'' [On ''Agent'' Agent_body, Get ''__typename'']]"

definition SearchAgentsQueryOptions_body :: "item list" where
  "SearchAgentsQueryOptions_body =
      [Sel ''label'' ''name'' [], Sel ''value'' ''id'' [], Get ''__typename'']"

definition SearchAgentsQuery_body :: "item list" where
  "SearchAgentsQuery_body =
      [Sel ''options'' ''agents'' SearchAgentsQueryOptions_body]"

definition DesignAgentsQuery_body :: "item list" where
  "DesignAgentsQuery_body =
      [Sel ''agents'' ''agents'' [On ''Agent'' DesignAgent_body, Get ''__typename'']]"

definition StoredAssetQueryAsset_body :: "item list" where
  "StoredAssetQueryAsset_body =
      [Get ''id'', Get ''ref'', Get ''kind'', Get ''__typename'']"

definition StoredAssetQuery_body :: "item list" where
  "StoredAssetQuery_body =
      [Sel ''asset'' ''asset'' StoredAssetQueryAsset_body]"

definition GetMaterializedBlokQuery_body :: "item list" where
  "GetMaterializedBlokQuery_body =
      [Sel ''materializedBlok'' ''materializedBlok'' [On ''MaterializedBlok''
          DetailMaterializedBlok_body, Get ''__typename'']]"

definition SearchMaterializedBloksQueryOptions_body :: "item list" where
  "SearchMaterializedBloksQueryOptions_body =
      [Sel ''label'' ''name'' [], Sel ''value'' ''id'' [], Get ''__typename'']"

definition SearchMaterializedBloksQuery_body :: "item list" where
  "SearchMaterializedBloksQuery_body =
      [Sel ''options'' ''materializedBloks'' SearchMaterializedBloksQueryOptions_body]"

definition ListBloksQuery_body :: "item list" where
  "ListBloksQuery_body =
      [Sel ''bloks'' ''bloks'' [On ''Blok'' DetailBlok_body, Get ''__typename'']]"

definition BlokRevisionsQueryBlok_body :: "item list" where
  "BlokRevisionsQueryBlok_body =
      [Sel ''revisions'' ''revisions'' [On ''BlokRevision'' BlokRevision_body, Get ''__typename''],
       Get ''__typename'']"

definition BlokRevisionsQuery_body :: "item list" where
  "BlokRevisionsQuery_body =
      [Sel ''blok'' ''blok'' BlokRevisionsQueryBlok_body]"

definition ActionBloksQueryAction_body :: "item list" where
  "ActionBloksQueryAction_body =
      [Get ''id'',
       Sel ''bloks'' ''bloks'' [On ''ActionBlok'' ActionBlok_body, Get ''__typename''],
       Get ''__typename'']"

definition ActionBloksQuery_body :: "item list" where
  "ActionBloksQuery_body =
      [Sel ''action'' ''action'' ActionBloksQueryAction_body]"

definition ModulesQuery_body :: "item list" where
  "ModulesQuery_body =
      [Sel ''modules'' ''modules'' [On ''Module'' Module_body, Get ''__typename'']]"

definition ModuleQuery_body :: "item list" where
  "ModuleQuery_body =
      [Sel ''module'' ''module'' [On ''Module'' Module_body, Get ''__typename'']]"

definition BaseCatalogQueryBaseCatalog_body :: "item list" where
  "BaseCatalogQueryBaseCatalog_body =
      [Get ''name'', Get ''version'', Get ''description'',
       Sel ''operations'' ''operations'' [On ''CatalogOperation'' CatalogOperation_body, Get
          ''__typename''],
       Get ''__typename'']"

definition BaseCatalogQuery_body :: "item list" where
  "BaseCatalogQuery_body =
      [Sel ''baseCatalog'' ''baseCatalog'' BaseCatalogQueryBaseCatalog_body]"

definition GetDashboardQuery_body :: "item list" where
  "GetDashboardQuery_body =
      [Sel ''dashboard'' ''dashboard'' [On ''Dashboard'' Dashboard_body, Get ''__typename'']]"

definition GetMeActionsQueryActions_body :: "item list" where
  "GetMeActionsQueryActions_body =
      [Get ''id'', Get ''name'', Get ''__typename'']"

definition GetMeActionsQuery_body :: "item list" where
  "GetMeActionsQuery_body =
      [Sel ''actions'' ''actions'' GetMeActionsQueryActions_body]"

definition GetImplementationQuery_body :: "item list" where
  "GetImplementationQuery_body =
      [Sel ''implementation'' ''implementation'' [On ''Implementation'' Implementation_body, Get
          ''__typename'']]"

definition ListImplementationsQuery_body :: "item list" where
  "ListImplementationsQuery_body =
      [Sel ''implementations'' ''implementations'' [On ''Implementation'' Implementation_body, Get
          ''__typename'']]"

definition ResolvedImplementationsQuery_body :: "item list" where
  "ResolvedImplementationsQuery_body =
      [Sel ''resolvedImplementations'' ''resolvedImplementations'' [On ''Implementation''
          Implementation_body, Get ''__typename'']]"

definition FindQuery_body :: "item list" where
  "FindQuery_body =
      [Sel ''action'' ''action'' [On ''Action'' Action_body, Get ''__typename'']]"

definition RetrieveallQuery_body :: "item list" where
  "RetrieveallQuery_body =
      [Sel ''actions'' ''actions'' [On ''Action'' Action_body, Get ''__typename'']]"

definition SearchActionsQueryOptions_body :: "item list" where
  "SearchActionsQueryOptions_body =
      [Sel ''label'' ''name'' [], Sel ''value'' ''id'' [], Get ''__typename'']"

definition SearchActionsQuery_body :: "item list" where
  "SearchActionsQuery_body =
      [Sel ''options'' ''actions'' SearchActionsQueryOptions_body]"

definition ListActionsQuery_body :: "item list" where
  "ListActionsQuery_body =
      [Sel ''actions'' ''actions'' [On ''Action'' ListAction_body, Get ''__typename'']]"

definition PrimaryActionsQuery_body :: "item list" where
  "PrimaryActionsQuery_body =
      [Sel ''actions'' ''actions'' [On ''Action'' PrimaryAction_body, Get ''__typename'']]"

definition ListShortcutsQuery_body :: "item list" where
  "ListShortcutsQuery_body =
      [Sel ''shortcuts'' ''shortcuts'' [On ''Shortcut'' ListShortcut_body, Get ''__typename'']]"

definition GetShortcutQuery_body :: "item list" where
  "GetShortcutQuery_body =
      [Sel ''shortcut'' ''shortcut'' [On ''Shortcut'' Shortcut_body, Get ''__typename'']]"

definition SearchShortcutsQueryOptions_body :: "item list" where
  "SearchShortcutsQueryOptions_body =
      [Sel ''label'' ''name'' [], Sel ''value'' ''id'' [], Get ''__typename'']"

definition SearchShortcutsQuery_body :: "item list" where
  "SearchShortcutsQuery_body =
      [Sel ''options'' ''shortcuts'' SearchShortcutsQueryOptions_body]"

definition SpacesForAgentsQuerySpacesForAgentsSpace_body :: "item list" where
  "SpacesForAgentsQuerySpacesForAgentsSpace_body =
      [Get ''id'', Get ''name'', Get ''__typename'']"

definition SpacesForAgentsQuerySpacesForAgents_body :: "item list" where
  "SpacesForAgentsQuerySpacesForAgents_body =
      [Get ''placed'', Sel ''space'' ''space'' SpacesForAgentsQuerySpacesForAgentsSpace_body,
       Get ''__typename'']"

definition SpacesForAgentsQuery_body :: "item list" where
  "SpacesForAgentsQuery_body =
      [Sel ''spacesForAgents'' ''spacesForAgents'' SpacesForAgentsQuerySpacesForAgents_body]"

definition GetStateQuery_body :: "item list" where
  "GetStateQuery_body =
      [Sel ''state'' ''state'' [On ''State'' State_body, Get ''__typename'']]"

definition CheckoutAgentQueryCheckoutAgent_body :: "item list" where
  "CheckoutAgentQueryCheckoutAgent_body =
      [Get ''agentId'', Get ''values'', Get ''globalRevision'',
       Sel ''forwardPatches'' ''forwardPatches'' [On ''Patch'' StatePatch_body, Get
          ''__typename''],
       Sel ''backwardPatches'' ''backwardPatches'' [On ''Patch'' StatePatch_body, Get
          ''__typename''],
       Get ''__typename'']"

definition CheckoutAgentQuery_body :: "item list" where
  "CheckoutAgentQuery_body =
      [Sel ''checkoutAgent'' ''checkoutAgent'' CheckoutAgentQueryCheckoutAgent_body]"

definition RequestsQuery_body :: "item list" where
  "RequestsQuery_body =
      [Sel ''tasks'' ''tasks'' [On ''Task'' Task_body, Get ''__typename'']]"

definition GetEventQuery_body :: "item list" where
  "GetEventQuery_body =
      [Sel ''event'' ''event'' [On ''TaskEvent'' TaskEvent_body, Get ''__typename'']]"

definition TaskEventsQueryTask_body :: "item list" where
  "TaskEventsQueryTask_body =
      [Get ''id'',
       Sel ''events'' ''events'' [On ''TaskEvent'' TaskEvent_body, Get ''__typename''],
       Get ''__typename'']"

definition TaskEventsQuery_body :: "item list" where
  "TaskEventsQuery_body =
      [Sel ''task'' ''task'' TaskEventsQueryTask_body]"

definition TaskRunViewQueryTaskSpace_body :: "item list" where
  "TaskRunViewQueryTaskSpace_body =
      [Get ''id'', Get ''name'', Get ''__typename'']"

definition TaskRunViewQueryTask_body :: "item list" where
  "TaskRunViewQueryTask_body =
      [Get ''id'', Sel ''space'' ''space'' TaskRunViewQueryTaskSpace_body,
       Sel ''actionBloks'' ''actionBloks'' [On ''ActionBlok'' ActionBlok_body, Get ''__typename''],
       Sel ''dependencyAgents'' ''dependencyAgents'' [On ''TaskDependencyAgent''
          TaskDependencyAgent_body, Get ''__typename''],
       Get ''__typename'']"

definition TaskRunViewQuery_body :: "item list" where
  "TaskRunViewQuery_body =
      [Sel ''task'' ''task'' TaskRunViewQueryTask_body]"

definition SearchImplementationsQueryOptions_body :: "item list" where
  "SearchImplementationsQueryOptions_body =
      [Sel ''label'' ''name'' [], Sel ''value'' ''id'' [], Get ''__typename'']"

definition SearchImplementationsQuery_body :: "item list" where
  "SearchImplementationsQuery_body =
      [Sel ''options'' ''implementations'' SearchImplementationsQueryOptions_body]"

definition ImplementationsForQuery_body :: "item list" where
  "ImplementationsForQuery_body =
      [Sel ''implementations'' ''implementations'' [On ''Implementation'' Implementation_body, Get
          ''__typename'']]"

definition MyImplementationAtQuery_body :: "item list" where
  "MyImplementationAtQuery_body =
      [Sel ''myImplementationAt'' ''myImplementationAt'' [On ''Implementation''
          Implementation_body, Get ''__typename'']]"

definition GetTestCaseQuery_body :: "item list" where
  "GetTestCaseQuery_body =
      [Sel ''testCase'' ''testCase'' [On ''TestCase'' TestCase_body, Get ''__typename'']]"

definition GetTestResultQuery_body :: "item list" where
  "GetTestResultQuery_body =
      [Sel ''testResult'' ''testResult'' [On ''TestResult'' TestResult_body, Get ''__typename'']]"

definition SearchTestCasesQueryOptions_body :: "item list" where
  "SearchTestCasesQueryOptions_body =
      [Sel ''label'' ''name'' [], Sel ''value'' ''id'' [], Get ''__typename'']"

definition SearchTestCasesQuery_body :: "item list" where
  "SearchTestCasesQuery_body =
      [Sel ''options'' ''testCases'' SearchTestCasesQueryOptions_body]"

definition SearchTestResultsQueryOptions_body :: "item list" where
  "SearchTestResultsQueryOptions_body =
      [Sel ''label'' ''createdAt'' [], Sel ''value'' ''id'' [], Get ''__typename'']"

definition SearchTestResultsQuery_body :: "item list" where
  "SearchTestResultsQuery_body =
      [Sel ''options'' ''testResults'' SearchTestResultsQueryOptions_body]"

definition ListToolboxesQuery_body :: "item list" where
  "ListToolboxesQuery_body =
      [Sel ''toolboxes'' ''toolboxes'' [On ''Toolbox'' ListToolbox_body, Get ''__typename'']]"

definition GetToolboxQuery_body :: "item list" where
  "GetToolboxQuery_body =
      [Sel ''toolbox'' ''toolbox'' [On ''Toolbox'' Toolbox_body, Get ''__typename'']]"

definition WatchMyTasksSubscription_body :: "item list" where
  "WatchMyTasksSubscription_body =
      [Sel ''mytasks'' ''mytasks'' [On ''TaskChangeEvent'' TaskChangeEvent_body, Get
          ''__typename'']]"

lemmas operation_bodies =
  AssignMutation_body_def CancelMutation_body_def InterruptMutation_body_def
  PauseMutation_body_def ResumeMutation_body_def DecideMutation_body_def
  EnsureAgentMutation_body_def ImplementAgentMutation_body_def
  RequestAssetUploadMutation_body_def CreateAssetMutation_body_def CreateBlokMutation_body_def
  MaterializeBlokMutation_body_def ForkBlokMutation_body_def UpdateBlokMutation_body_def
  UpdateMaterializedBlokMutation_body_def EditBlokMutation_body_def
  RevertBlokMutation_body_def PinMaterializedBlokMutation_body_def
  RegisterModuleMutation_body_def CreateDashboardMutation_body_def
  RequestMediaUploadMutation_body_def FinishMediaUploadMutation_body_def
  RequestMediaAccessMutation_body_def ShelveMutation_body_def UnshelveMutation_body_def
  CreateShortcutMutation_body_def CreateSpaceMutation_body_def CollectMutation_body_def
  CreateHigherOrderImplementationMutation_body_def Create_testcaseMutation_body_def
  Create_testresultMutation_body_def GetAgentQuery_body_def ListAgentsQuery_body_def
  GetAgentByIdentifiersQuery_body_def SearchAgentsQuery_body_def DesignAgentsQuery_body_def
  StoredAssetQuery_body_def GetMaterializedBlokQuery_body_def
  SearchMaterializedBloksQuery_body_def ListBloksQuery_body_def BlokRevisionsQuery_body_def
  ActionBloksQuery_body_def ModulesQuery_body_def ModuleQuery_body_def
  BaseCatalogQuery_body_def GetDashboardQuery_body_def GetMeActionsQuery_body_def
  GetImplementationQuery_body_def ListImplementationsQuery_body_def
  ResolvedImplementationsQuery_body_def FindQuery_body_def RetrieveallQuery_body_def
  SearchActionsQuery_body_def ListActionsQuery_body_def PrimaryActionsQuery_body_def
  ListShortcutsQuery_body_def GetShortcutQuery_body_def SearchShortcutsQuery_body_def
  SpacesForAgentsQuery_body_def GetStateQuery_body_def CheckoutAgentQuery_body_def
  RequestsQuery_body_def GetEventQuery_body_def TaskEventsQuery_body_def
  TaskRunViewQuery_body_def SearchImplementationsQuery_body_def
  ImplementationsForQuery_body_def MyImplementationAtQuery_body_def GetTestCaseQuery_body_def
  GetTestResultQuery_body_def SearchTestCasesQuery_body_def SearchTestResultsQuery_body_def
  ListToolboxesQuery_body_def GetToolboxQuery_body_def WatchMyTasksSubscription_body_def

end
