(* ===== verification/Api_Classes.thy ===== *)
theory Api_Classes
  imports Graphql_Types Api_Models Api_Documents
begin

text \<open>
  The operation classes: \<open>rekuest/api/schema.py\<close>. Of each, its one answer field (whose alias is the
  name in the answer), the fields of its \<open>Arguments\<close>, and of its document the kind, the name, the
  variables it declares and the selection.
\<close>

datatype operation_kind = Query | Mutation | Subscription

record operation_class =
  oc_kind :: operation_kind
  oc_document :: string
  oc_answer :: answer_field
  oc_arguments :: "py_field list"
  oc_variables :: "gql_field list"
  oc_body :: "item list"

definition AssignMutation :: operation_class where
  "AssignMutation = \<lparr>oc_kind = Mutation, oc_document = ''assign'',
    oc_answer = Answer_Field ''assign'' None (Model Task_fields) False,
    oc_arguments =
      [Field ''input'' None (Py ''AssignInput'') False None],
    oc_variables =
      [GField ''input'' (Non_Null (Named ''AssignInput'')) None],
    oc_body = AssignMutation_body\<rparr>"

definition CancelMutation :: operation_class where
  "CancelMutation = \<lparr>oc_kind = Mutation, oc_document = ''cancel'',
    oc_answer = Answer_Field ''cancel'' None (Model Task_fields) False,
    oc_arguments =
      [Field ''input'' None (Py ''CancelInput'') False None],
    oc_variables =
      [GField ''input'' (Non_Null (Named ''CancelInput'')) None],
    oc_body = CancelMutation_body\<rparr>"

definition InterruptMutation :: operation_class where
  "InterruptMutation = \<lparr>oc_kind = Mutation, oc_document = ''interrupt'',
    oc_answer = Answer_Field ''interrupt'' None (Model Task_fields) False,
    oc_arguments =
      [Field ''input'' None (Py ''InterruptInput'') False None],
    oc_variables =
      [GField ''input'' (Non_Null (Named ''InterruptInput'')) None],
    oc_body = InterruptMutation_body\<rparr>"

definition PauseMutation :: operation_class where
  "PauseMutation = \<lparr>oc_kind = Mutation, oc_document = ''pause'',
    oc_answer = Answer_Field ''pause'' None (Model Task_fields) False,
    oc_arguments =
      [Field ''input'' None (Py ''PauseInput'') False None],
    oc_variables =
      [GField ''input'' (Non_Null (Named ''PauseInput'')) None],
    oc_body = PauseMutation_body\<rparr>"

definition ResumeMutation :: operation_class where
  "ResumeMutation = \<lparr>oc_kind = Mutation, oc_document = ''resume'',
    oc_answer = Answer_Field ''resume'' None (Model Task_fields) False,
    oc_arguments =
      [Field ''input'' None (Py ''ResumeInput'') False None],
    oc_variables =
      [GField ''input'' (Non_Null (Named ''ResumeInput'')) None],
    oc_body = ResumeMutation_body\<rparr>"

definition DecideMutation :: operation_class where
  "DecideMutation = \<lparr>oc_kind = Mutation, oc_document = ''decide'',
    oc_answer = Answer_Field ''decide'' None (Model Task_fields) False,
    oc_arguments =
      [Field ''input'' None (Py ''DecideInput'') False None],
    oc_variables =
      [GField ''input'' (Non_Null (Named ''DecideInput'')) None],
    oc_body = DecideMutation_body\<rparr>"

definition EnsureAgentMutation :: operation_class where
  "EnsureAgentMutation = \<lparr>oc_kind = Mutation, oc_document = ''EnsureAgent'',
    oc_answer = Answer_Field ''ensure_agent'' (Some ''ensureAgent'') (Model Agent_fields) False,
    oc_arguments =
      [Field ''input'' None (Py ''AgentInput'') False None],
    oc_variables =
      [GField ''input'' (Non_Null (Named ''AgentInput'')) None],
    oc_body = EnsureAgentMutation_body\<rparr>"

definition ImplementAgentMutation :: operation_class where
  "ImplementAgentMutation = \<lparr>oc_kind = Mutation, oc_document = ''ImplementAgent'',
    oc_answer = Answer_Field ''implement_agent'' (Some ''implementAgent'') (Model Agent_fields) False,
    oc_arguments =
      [Field ''input'' None (Py ''ImplementAgentInput'') False None],
    oc_variables =
      [GField ''input'' (Non_Null (Named ''ImplementAgentInput'')) None],
    oc_body = ImplementAgentMutation_body\<rparr>"

definition RequestAssetUploadMutation :: operation_class where
  "RequestAssetUploadMutation = \<lparr>oc_kind = Mutation, oc_document = ''RequestAssetUpload'',
    oc_answer = Answer_Field ''request_asset_upload'' (Some ''requestAssetUpload'') (Model AssetUploadGrant_fields) False,
    oc_arguments =
      [Field ''input'' None (Py ''RequestAssetUploadInput'') False None],
    oc_variables =
      [GField ''input'' (Non_Null (Named ''RequestAssetUploadInput'')) None],
    oc_body = RequestAssetUploadMutation_body\<rparr>"

definition CreateAssetMutation :: operation_class where
  "CreateAssetMutation = \<lparr>oc_kind = Mutation, oc_document = ''CreateAsset'',
    oc_answer = Answer_Field ''create_asset'' (Some ''createAsset'') (Model CreateAssetMutationCreateAsset_fields) False,
    oc_arguments =
      [Field ''input'' None (Py ''CreateAssetInput'') False None],
    oc_variables =
      [GField ''input'' (Non_Null (Named ''CreateAssetInput'')) None],
    oc_body = CreateAssetMutation_body\<rparr>"

definition CreateBlokMutation :: operation_class where
  "CreateBlokMutation = \<lparr>oc_kind = Mutation, oc_document = ''CreateBlok'',
    oc_answer = Answer_Field ''create_blok'' (Some ''createBlok'') (Model Blok_fields) False,
    oc_arguments =
      [Field ''input'' None (Py ''CreateBlokInput'') False None],
    oc_variables =
      [GField ''input'' (Non_Null (Named ''CreateBlokInput'')) None],
    oc_body = CreateBlokMutation_body\<rparr>"

definition MaterializeBlokMutation :: operation_class where
  "MaterializeBlokMutation = \<lparr>oc_kind = Mutation, oc_document = ''MaterializeBlok'',
    oc_answer = Answer_Field ''materialize_blok'' (Some ''materializeBlok'') (Model MaterializedBlok_fields) False,
    oc_arguments =
      [Field ''input'' None (Py ''MaterializeBlokInput'') False None],
    oc_variables =
      [GField ''input'' (Non_Null (Named ''MaterializeBlokInput'')) None],
    oc_body = MaterializeBlokMutation_body\<rparr>"

definition ForkBlokMutation :: operation_class where
  "ForkBlokMutation = \<lparr>oc_kind = Mutation, oc_document = ''ForkBlok'',
    oc_answer = Answer_Field ''fork_blok'' (Some ''forkBlok'') (Model DetailBlok_fields) False,
    oc_arguments =
      [Field ''input'' None (Py ''ForkBlokInput'') False None],
    oc_variables =
      [GField ''input'' (Non_Null (Named ''ForkBlokInput'')) None],
    oc_body = ForkBlokMutation_body\<rparr>"

definition UpdateBlokMutation :: operation_class where
  "UpdateBlokMutation = \<lparr>oc_kind = Mutation, oc_document = ''UpdateBlok'',
    oc_answer = Answer_Field ''update_blok'' (Some ''updateBlok'') (Model DetailBlok_fields) False,
    oc_arguments =
      [Field ''input'' None (Py ''UpdateBlokInput'') False None],
    oc_variables =
      [GField ''input'' (Non_Null (Named ''UpdateBlokInput'')) None],
    oc_body = UpdateBlokMutation_body\<rparr>"

definition UpdateMaterializedBlokMutation :: operation_class where
  "UpdateMaterializedBlokMutation = \<lparr>oc_kind = Mutation, oc_document = ''UpdateMaterializedBlok'',
    oc_answer = Answer_Field ''update_materialized_blok'' (Some ''updateMaterializedBlok'') (Model DetailMaterializedBlok_fields) False,
    oc_arguments =
      [Field ''input'' None (Py ''UpdateMaterializedBlokInput'') False None],
    oc_variables =
      [GField ''input'' (Non_Null (Named ''UpdateMaterializedBlokInput'')) None],
    oc_body = UpdateMaterializedBlokMutation_body\<rparr>"

definition EditBlokMutation :: operation_class where
  "EditBlokMutation = \<lparr>oc_kind = Mutation, oc_document = ''EditBlok'',
    oc_answer = Answer_Field ''edit_blok'' (Some ''editBlok'') (Model BlokEdit_fields) False,
    oc_arguments =
      [Field ''input'' None (Py ''EditBlokInput'') False None],
    oc_variables =
      [GField ''input'' (Non_Null (Named ''EditBlokInput'')) None],
    oc_body = EditBlokMutation_body\<rparr>"

definition RevertBlokMutation :: operation_class where
  "RevertBlokMutation = \<lparr>oc_kind = Mutation, oc_document = ''RevertBlok'',
    oc_answer = Answer_Field ''revert_blok'' (Some ''revertBlok'') (Model BlokRevision_fields) False,
    oc_arguments =
      [Field ''input'' None (Py ''RevertBlokInput'') False None],
    oc_variables =
      [GField ''input'' (Non_Null (Named ''RevertBlokInput'')) None],
    oc_body = RevertBlokMutation_body\<rparr>"

definition PinMaterializedBlokMutation :: operation_class where
  "PinMaterializedBlokMutation = \<lparr>oc_kind = Mutation, oc_document = ''PinMaterializedBlok'',
    oc_answer = Answer_Field ''pin_materialized_blok'' (Some ''pinMaterializedBlok'') (Model DetailMaterializedBlok_fields) False,
    oc_arguments =
      [Field ''input'' None (Py ''PinMaterializedBlokInput'') False None],
    oc_variables =
      [GField ''input'' (Non_Null (Named ''PinMaterializedBlokInput'')) None],
    oc_body = PinMaterializedBlokMutation_body\<rparr>"

definition RegisterModuleMutation :: operation_class where
  "RegisterModuleMutation = \<lparr>oc_kind = Mutation, oc_document = ''RegisterModule'',
    oc_answer = Answer_Field ''register_module'' (Some ''registerModule'') (Model Module_fields) False,
    oc_arguments =
      [Field ''input'' None (Py ''RegisterModuleInput'') False None],
    oc_variables =
      [GField ''input'' (Non_Null (Named ''RegisterModuleInput'')) None],
    oc_body = RegisterModuleMutation_body\<rparr>"

definition CreateDashboardMutation :: operation_class where
  "CreateDashboardMutation = \<lparr>oc_kind = Mutation, oc_document = ''CreateDashboard'',
    oc_answer = Answer_Field ''create_dashboard'' (Some ''createDashboard'') (Model Dashboard_fields) False,
    oc_arguments =
      [Field ''input'' None (Py ''CreateDashboardInput'') False None],
    oc_variables =
      [GField ''input'' (Non_Null (Named ''CreateDashboardInput'')) None],
    oc_body = CreateDashboardMutation_body\<rparr>"

definition RequestMediaUploadMutation :: operation_class where
  "RequestMediaUploadMutation = \<lparr>oc_kind = Mutation, oc_document = ''RequestMediaUpload'',
    oc_answer = Answer_Field ''request_media_upload'' (Some ''requestMediaUpload'') (Model MediaUploadGrant_fields) False,
    oc_arguments =
      [Field ''input'' None (Py ''RequestMediaUploadInput'') False None],
    oc_variables =
      [GField ''input'' (Non_Null (Named ''RequestMediaUploadInput'')) None],
    oc_body = RequestMediaUploadMutation_body\<rparr>"

definition FinishMediaUploadMutation :: operation_class where
  "FinishMediaUploadMutation = \<lparr>oc_kind = Mutation, oc_document = ''FinishMediaUpload'',
    oc_answer = Answer_Field ''finish_media_upload'' (Some ''finishMediaUpload'') (Model MediaStore_fields) False,
    oc_arguments =
      [Field ''input'' None (Py ''FinishMediaUploadInput'') False None],
    oc_variables =
      [GField ''input'' (Non_Null (Named ''FinishMediaUploadInput'')) None],
    oc_body = FinishMediaUploadMutation_body\<rparr>"

definition RequestMediaAccessMutation :: operation_class where
  "RequestMediaAccessMutation = \<lparr>oc_kind = Mutation, oc_document = ''RequestMediaAccess'',
    oc_answer = Answer_Field ''request_media_access'' (Some ''requestMediaAccess'') (Model MediaAccessGrant_fields) False,
    oc_arguments =
      [Field ''input'' None (Py ''RequestMediaAccessInput'') False None],
    oc_variables =
      [GField ''input'' (Non_Null (Named ''RequestMediaAccessInput'')) None],
    oc_body = RequestMediaAccessMutation_body\<rparr>"

definition ShelveMutation :: operation_class where
  "ShelveMutation = \<lparr>oc_kind = Mutation, oc_document = ''shelve'',
    oc_answer = Answer_Field ''shelve_in_memory_drawer'' (Some ''shelveInMemoryDrawer'') (Model ShelveMutationShelveInMemoryDrawer_fields) False,
    oc_arguments =
      [Field ''input'' None (Py ''ShelveInMemoryDrawerInput'') False None],
    oc_variables =
      [GField ''input'' (Non_Null (Named ''ShelveInMemoryDrawerInput'')) None],
    oc_body = ShelveMutation_body\<rparr>"

definition UnshelveMutation :: operation_class where
  "UnshelveMutation = \<lparr>oc_kind = Mutation, oc_document = ''unshelve'',
    oc_answer = Answer_Field ''unshelve_memory_drawer'' (Some ''unshelveMemoryDrawer'') (Value ''ID'') False,
    oc_arguments =
      [Field ''input'' None (Py ''UnshelveMemoryDrawerInput'') False None],
    oc_variables =
      [GField ''input'' (Non_Null (Named ''UnshelveMemoryDrawerInput'')) None],
    oc_body = UnshelveMutation_body\<rparr>"

definition CreateShortcutMutation :: operation_class where
  "CreateShortcutMutation = \<lparr>oc_kind = Mutation, oc_document = ''CreateShortcut'',
    oc_answer = Answer_Field ''create_shortcut'' (Some ''createShortcut'') (Model Shortcut_fields) False,
    oc_arguments =
      [Field ''input'' None (Py ''CreateShortcutInput'') False None],
    oc_variables =
      [GField ''input'' (Non_Null (Named ''CreateShortcutInput'')) None],
    oc_body = CreateShortcutMutation_body\<rparr>"

definition CreateSpaceMutation :: operation_class where
  "CreateSpaceMutation = \<lparr>oc_kind = Mutation, oc_document = ''CreateSpace'',
    oc_answer = Answer_Field ''create_space'' (Some ''createSpace'') (Model CreateSpaceMutationCreateSpace_fields) False,
    oc_arguments =
      [Field ''input'' None (Py ''CreateSpaceInput'') False None],
    oc_variables =
      [GField ''input'' (Non_Null (Named ''CreateSpaceInput'')) None],
    oc_body = CreateSpaceMutation_body\<rparr>"

definition CollectMutation :: operation_class where
  "CollectMutation = \<lparr>oc_kind = Mutation, oc_document = ''collect'',
    oc_answer = Answer_Field ''collect'' None (Many (Value ''str'')) False,
    oc_arguments =
      [Field ''input'' None (Py ''CollectInput'') False None],
    oc_variables =
      [GField ''input'' (Non_Null (Named ''CollectInput'')) None],
    oc_body = CollectMutation_body\<rparr>"

definition CreateHigherOrderImplementationMutation :: operation_class where
  "CreateHigherOrderImplementationMutation = \<lparr>oc_kind = Mutation, oc_document = ''createHigherOrderImplementation'',
    oc_answer = Answer_Field ''create_higher_order_implementation'' (Some ''createHigherOrderImplementation'') (Model Implementation_fields) False,
    oc_arguments =
      [Field ''input'' None (Py ''CreateHigherOrderImplementationInput'') False None],
    oc_variables =
      [GField ''input'' (Non_Null (Named ''CreateHigherOrderImplementationInput'')) None],
    oc_body = CreateHigherOrderImplementationMutation_body\<rparr>"

definition Create_testcaseMutation :: operation_class where
  "Create_testcaseMutation = \<lparr>oc_kind = Mutation, oc_document = ''create_testcase'',
    oc_answer = Answer_Field ''create_test_case'' (Some ''createTestCase'') (Model TestCase_fields) False,
    oc_arguments =
      [Field ''input'' None (Py ''CreateTestCaseInput'') False None],
    oc_variables =
      [GField ''input'' (Non_Null (Named ''CreateTestCaseInput'')) None],
    oc_body = Create_testcaseMutation_body\<rparr>"

definition Create_testresultMutation :: operation_class where
  "Create_testresultMutation = \<lparr>oc_kind = Mutation, oc_document = ''create_testresult'',
    oc_answer = Answer_Field ''create_test_result'' (Some ''createTestResult'') (Model TestResult_fields) False,
    oc_arguments =
      [Field ''input'' None (Py ''CreateTestResultInput'') False None],
    oc_variables =
      [GField ''input'' (Non_Null (Named ''CreateTestResultInput'')) None],
    oc_body = Create_testresultMutation_body\<rparr>"

definition GetAgentQuery :: operation_class where
  "GetAgentQuery = \<lparr>oc_kind = Query, oc_document = ''GetAgent'',
    oc_answer = Answer_Field ''agent'' None (Model Agent_fields) False,
    oc_arguments =
      [Field ''id'' None (Py ''ID'') False None],
    oc_variables =
      [GField ''id'' (Non_Null (Named ''ID'')) None],
    oc_body = GetAgentQuery_body\<rparr>"

definition ListAgentsQuery :: operation_class where
  "ListAgentsQuery = \<lparr>oc_kind = Query, oc_document = ''ListAgents'',
    oc_answer = Answer_Field ''agents'' None (Many (Model Agent_fields)) False,
    oc_arguments =
      [Field ''filters'' None (Opt (Py ''AgentFilter'')) True None,
       Field ''pagination'' None (Opt (Py ''OffsetPaginationInput'')) True None],
    oc_variables =
      [GField ''filters'' (Named ''AgentFilter'') None,
       GField ''pagination'' (Named ''OffsetPaginationInput'') None],
    oc_body = ListAgentsQuery_body\<rparr>"

definition GetAgentByIdentifiersQuery :: operation_class where
  "GetAgentByIdentifiersQuery = \<lparr>oc_kind = Query, oc_document = ''GetAgentByIdentifiers'',
    oc_answer = Answer_Field ''agent'' None (Model Agent_fields) False,
    oc_arguments =
      [Field ''app'' None (Py ''str'') False None,
       Field ''version'' None (Opt (Py ''str'')) True None,
       Field ''device_id'' (Some ''deviceId'') (Opt (Py ''str'')) True None],
    oc_variables =
      [GField ''app'' (Non_Null (Named ''String'')) None,
       GField ''version'' (Named ''String'') None,
       GField ''deviceId'' (Named ''String'') None],
    oc_body = GetAgentByIdentifiersQuery_body\<rparr>"

definition SearchAgentsQuery :: operation_class where
  "SearchAgentsQuery = \<lparr>oc_kind = Query, oc_document = ''SearchAgents'',
    oc_answer = Answer_Field ''options'' None (Many (Model SearchAgentsQueryOptions_fields)) False,
    oc_arguments =
      [Field ''search'' None (Opt (Py ''str'')) True None,
       Field ''values'' None (Opt (List_Of (Py ''ID''))) True None,
       Field ''requires'' None (Opt (List_Of (Py ''RequiresInput''))) True None,
       Field ''limit'' None (Opt (Py ''int'')) True None,
       Field ''offset'' None (Opt (Py ''int'')) True None],
    oc_variables =
      [GField ''search'' (Named ''String'') None,
       GField ''values'' (Listed (Non_Null (Named ''ID''))) None,
       GField ''requires'' (Listed (Non_Null (Named ''RequiresInput''))) None,
       GField ''limit'' (Named ''Int'') None,
       GField ''offset'' (Named ''Int'') None],
    oc_body = SearchAgentsQuery_body\<rparr>"

definition DesignAgentsQuery :: operation_class where
  "DesignAgentsQuery = \<lparr>oc_kind = Query, oc_document = ''DesignAgents'',
    oc_answer = Answer_Field ''agents'' None (Many (Model DesignAgent_fields)) False,
    oc_arguments =
      [Field ''filters'' None (Opt (Py ''AgentFilter'')) True None,
       Field ''pagination'' None (Opt (Py ''OffsetPaginationInput'')) True None],
    oc_variables =
      [GField ''filters'' (Named ''AgentFilter'') None,
       GField ''pagination'' (Named ''OffsetPaginationInput'') None],
    oc_body = DesignAgentsQuery_body\<rparr>"

definition StoredAssetQuery :: operation_class where
  "StoredAssetQuery = \<lparr>oc_kind = Query, oc_document = ''StoredAsset'',
    oc_answer = Answer_Field ''asset'' None (Nullable (Model StoredAssetQueryAsset_fields)) True,
    oc_arguments =
      [Field ''ref'' None (Py ''str'') False None],
    oc_variables =
      [GField ''ref'' (Non_Null (Named ''String'')) None],
    oc_body = StoredAssetQuery_body\<rparr>"

definition GetMaterializedBlokQuery :: operation_class where
  "GetMaterializedBlokQuery = \<lparr>oc_kind = Query, oc_document = ''GetMaterializedBlok'',
    oc_answer = Answer_Field ''materialized_blok'' (Some ''materializedBlok'') (Model DetailMaterializedBlok_fields) False,
    oc_arguments =
      [Field ''id'' None (Py ''ID'') False None],
    oc_variables =
      [GField ''id'' (Non_Null (Named ''ID'')) None],
    oc_body = GetMaterializedBlokQuery_body\<rparr>"

definition SearchMaterializedBloksQuery :: operation_class where
  "SearchMaterializedBloksQuery = \<lparr>oc_kind = Query, oc_document = ''SearchMaterializedBloks'',
    oc_answer = Answer_Field ''options'' None (Many (Model SearchMaterializedBloksQueryOptions_fields)) False,
    oc_arguments =
      [Field ''search'' None (Opt (Py ''str'')) True None,
       Field ''values'' None (Opt (List_Of (Py ''ID''))) True None,
       Field ''limit'' None (Opt (Py ''int'')) True None,
       Field ''offset'' None (Opt (Py ''int'')) True None],
    oc_variables =
      [GField ''search'' (Named ''String'') None,
       GField ''values'' (Listed (Non_Null (Named ''ID''))) None,
       GField ''limit'' (Named ''Int'') None,
       GField ''offset'' (Named ''Int'') None],
    oc_body = SearchMaterializedBloksQuery_body\<rparr>"

definition ListBloksQuery :: operation_class where
  "ListBloksQuery = \<lparr>oc_kind = Query, oc_document = ''ListBloks'',
    oc_answer = Answer_Field ''bloks'' None (Many (Model DetailBlok_fields)) False,
    oc_arguments =
      [Field ''search'' None (Opt (Py ''str'')) True None,
       Field ''provided'' None (Opt (Py ''bool'')) True None,
       Field ''limit'' None (Opt (Py ''int'')) True None,
       Field ''offset'' None (Opt (Py ''int'')) True None],
    oc_variables =
      [GField ''search'' (Named ''String'') None,
       GField ''provided'' (Named ''Boolean'') None,
       GField ''limit'' (Named ''Int'') None,
       GField ''offset'' (Named ''Int'') None],
    oc_body = ListBloksQuery_body\<rparr>"

definition BlokRevisionsQuery :: operation_class where
  "BlokRevisionsQuery = \<lparr>oc_kind = Query, oc_document = ''BlokRevisions'',
    oc_answer = Answer_Field ''blok'' None (Model BlokRevisionsQueryBlok_fields) False,
    oc_arguments =
      [Field ''id'' None (Py ''ID'') False None,
       Field ''limit'' None (Opt (Py ''int'')) True (Some ''20''),
       Field ''offset'' None (Opt (Py ''int'')) True (Some ''0'')],
    oc_variables =
      [GField ''id'' (Non_Null (Named ''ID'')) None,
       GField ''limit'' (Non_Null (Named ''Int'')) (Some ''20''),
       GField ''offset'' (Non_Null (Named ''Int'')) (Some ''0'')],
    oc_body = BlokRevisionsQuery_body\<rparr>"

definition ActionBloksQuery :: operation_class where
  "ActionBloksQuery = \<lparr>oc_kind = Query, oc_document = ''ActionBloks'',
    oc_answer = Answer_Field ''action'' None (Model ActionBloksQueryAction_fields) False,
    oc_arguments =
      [Field ''action'' None (Py ''ID'') False None],
    oc_variables =
      [GField ''action'' (Non_Null (Named ''ID'')) None],
    oc_body = ActionBloksQuery_body\<rparr>"

definition ModulesQuery :: operation_class where
  "ModulesQuery = \<lparr>oc_kind = Query, oc_document = ''Modules'',
    oc_answer = Answer_Field ''modules'' None (Many (Model Module_fields)) False,
    oc_arguments = [],
    oc_variables = [],
    oc_body = ModulesQuery_body\<rparr>"

definition ModuleQuery :: operation_class where
  "ModuleQuery = \<lparr>oc_kind = Query, oc_document = ''Module'',
    oc_answer = Answer_Field ''module'' None (Model Module_fields) False,
    oc_arguments =
      [Field ''id'' None (Py ''ID'') False None],
    oc_variables =
      [GField ''id'' (Non_Null (Named ''ID'')) None],
    oc_body = ModuleQuery_body\<rparr>"

definition BaseCatalogQuery :: operation_class where
  "BaseCatalogQuery = \<lparr>oc_kind = Query, oc_document = ''BaseCatalog'',
    oc_answer = Answer_Field ''base_catalog'' (Some ''baseCatalog'') (Model BaseCatalogQueryBaseCatalog_fields) False,
    oc_arguments = [],
    oc_variables = [],
    oc_body = BaseCatalogQuery_body\<rparr>"

definition GetDashboardQuery :: operation_class where
  "GetDashboardQuery = \<lparr>oc_kind = Query, oc_document = ''GetDashboard'',
    oc_answer = Answer_Field ''dashboard'' None (Model Dashboard_fields) False,
    oc_arguments =
      [Field ''id'' None (Py ''ID'') False None],
    oc_variables =
      [GField ''id'' (Non_Null (Named ''ID'')) None],
    oc_body = GetDashboardQuery_body\<rparr>"

definition GetMeActionsQuery :: operation_class where
  "GetMeActionsQuery = \<lparr>oc_kind = Query, oc_document = ''GetMeActions'',
    oc_answer = Answer_Field ''actions'' None (Many (Model GetMeActionsQueryActions_fields)) False,
    oc_arguments = [],
    oc_variables = [],
    oc_body = GetMeActionsQuery_body\<rparr>"

definition GetImplementationQuery :: operation_class where
  "GetImplementationQuery = \<lparr>oc_kind = Query, oc_document = ''GetImplementation'',
    oc_answer = Answer_Field ''implementation'' None (Model Implementation_fields) False,
    oc_arguments =
      [Field ''id'' None (Py ''ID'') False None],
    oc_variables =
      [GField ''id'' (Non_Null (Named ''ID'')) None],
    oc_body = GetImplementationQuery_body\<rparr>"

definition ListImplementationsQuery :: operation_class where
  "ListImplementationsQuery = \<lparr>oc_kind = Query, oc_document = ''ListImplementations'',
    oc_answer = Answer_Field ''implementations'' None (Many (Model Implementation_fields)) False,
    oc_arguments =
      [Field ''filters'' None (Opt (Py ''ImplementationFilter'')) True None,
       Field ''pagination'' None (Opt (Py ''OffsetPaginationInput'')) True None],
    oc_variables =
      [GField ''filters'' (Named ''ImplementationFilter'') None,
       GField ''pagination'' (Named ''OffsetPaginationInput'') None],
    oc_body = ListImplementationsQuery_body\<rparr>"

definition ResolvedImplementationsQuery :: operation_class where
  "ResolvedImplementationsQuery = \<lparr>oc_kind = Query, oc_document = ''ResolvedImplementations'',
    oc_answer = Answer_Field ''resolved_implementations'' (Some ''resolvedImplementations'') (Many (Model Implementation_fields)) False,
    oc_arguments =
      [Field ''resolution'' None (Py ''ID'') False None,
       Field ''dependency_key'' (Some ''dependencyKey'') (Py ''str'') False None,
       Field ''method_key'' (Some ''methodKey'') (Py ''str'') False None],
    oc_variables =
      [GField ''resolution'' (Non_Null (Named ''ID'')) None,
       GField ''dependencyKey'' (Non_Null (Named ''String'')) None,
       GField ''methodKey'' (Non_Null (Named ''String'')) None],
    oc_body = ResolvedImplementationsQuery_body\<rparr>"

definition FindQuery :: operation_class where
  "FindQuery = \<lparr>oc_kind = Query, oc_document = ''find'',
    oc_answer = Answer_Field ''action'' None (Model Action_fields) False,
    oc_arguments =
      [Field ''id'' None (Opt (Py ''ID'')) True None,
       Field ''implementation'' None (Opt (Py ''ID'')) True None,
       Field ''hash'' None (Opt (Py ''ActionHash'')) True None,
       Field ''matching'' None (Opt (Py ''ActionDemandInput'')) True None],
    oc_variables =
      [GField ''id'' (Named ''ID'') None,
       GField ''implementation'' (Named ''ID'') None,
       GField ''hash'' (Named ''ActionHash'') None,
       GField ''matching'' (Named ''ActionDemandInput'') None],
    oc_body = FindQuery_body\<rparr>"

definition RetrieveallQuery :: operation_class where
  "RetrieveallQuery = \<lparr>oc_kind = Query, oc_document = ''retrieveall'',
    oc_answer = Answer_Field ''actions'' None (Many (Model Action_fields)) False,
    oc_arguments = [],
    oc_variables = [],
    oc_body = RetrieveallQuery_body\<rparr>"

definition SearchActionsQuery :: operation_class where
  "SearchActionsQuery = \<lparr>oc_kind = Query, oc_document = ''SearchActions'',
    oc_answer = Answer_Field ''options'' None (Many (Model SearchActionsQueryOptions_fields)) False,
    oc_arguments =
      [Field ''search'' None (Opt (Py ''str'')) True None,
       Field ''values'' None (Opt (List_Of (Py ''ID''))) True None],
    oc_variables =
      [GField ''search'' (Named ''String'') None,
       GField ''values'' (Listed (Non_Null (Named ''ID''))) None],
    oc_body = SearchActionsQuery_body\<rparr>"

definition ListActionsQuery :: operation_class where
  "ListActionsQuery = \<lparr>oc_kind = Query, oc_document = ''ListActions'',
    oc_answer = Answer_Field ''actions'' None (Many (Model ListAction_fields)) False,
    oc_arguments =
      [Field ''filters'' None (Opt (Py ''ActionFilter'')) True None,
       Field ''pagination'' None (Opt (Py ''OffsetPaginationInput'')) True None],
    oc_variables =
      [GField ''filters'' (Named ''ActionFilter'') None,
       GField ''pagination'' (Named ''OffsetPaginationInput'') None],
    oc_body = ListActionsQuery_body\<rparr>"

definition PrimaryActionsQuery :: operation_class where
  "PrimaryActionsQuery = \<lparr>oc_kind = Query, oc_document = ''PrimaryActions'',
    oc_answer = Answer_Field ''actions'' None (Many (Model PrimaryAction_fields)) False,
    oc_arguments =
      [Field ''pagination'' None (Opt (Py ''OffsetPaginationInput'')) True None,
       Field ''identifier'' None (Opt (Py ''str'')) True None,
       Field ''ordering'' None (Opt (List_Of (Py ''ActionOrder''))) True None,
       Field ''search'' None (Opt (Py ''str'')) True None],
    oc_variables =
      [GField ''pagination'' (Named ''OffsetPaginationInput'') None,
       GField ''identifier'' (Named ''String'') None,
       GField ''ordering'' (Listed (Non_Null (Named ''ActionOrder''))) None,
       GField ''search'' (Named ''String'') None],
    oc_body = PrimaryActionsQuery_body\<rparr>"

definition ListShortcutsQuery :: operation_class where
  "ListShortcutsQuery = \<lparr>oc_kind = Query, oc_document = ''ListShortcuts'',
    oc_answer = Answer_Field ''shortcuts'' None (Many (Model ListShortcut_fields)) False,
    oc_arguments =
      [Field ''pagination'' None (Opt (Py ''OffsetPaginationInput'')) True None,
       Field ''filters'' None (Opt (Py ''ShortcutFilter'')) True None,
       Field ''ordering'' None (Opt (List_Of (Py ''ShortcutOrder''))) True None],
    oc_variables =
      [GField ''pagination'' (Named ''OffsetPaginationInput'') None,
       GField ''filters'' (Named ''ShortcutFilter'') None,
       GField ''ordering'' (Listed (Non_Null (Named ''ShortcutOrder''))) None],
    oc_body = ListShortcutsQuery_body\<rparr>"

definition GetShortcutQuery :: operation_class where
  "GetShortcutQuery = \<lparr>oc_kind = Query, oc_document = ''GetShortcut'',
    oc_answer = Answer_Field ''shortcut'' None (Model Shortcut_fields) False,
    oc_arguments =
      [Field ''id'' None (Py ''ID'') False None],
    oc_variables =
      [GField ''id'' (Non_Null (Named ''ID'')) None],
    oc_body = GetShortcutQuery_body\<rparr>"

definition SearchShortcutsQuery :: operation_class where
  "SearchShortcutsQuery = \<lparr>oc_kind = Query, oc_document = ''SearchShortcuts'',
    oc_answer = Answer_Field ''options'' None (Many (Model SearchShortcutsQueryOptions_fields)) False,
    oc_arguments =
      [Field ''search'' None (Opt (Py ''str'')) True None,
       Field ''values'' None (Opt (List_Of (Py ''ID''))) True None,
       Field ''limit'' None (Opt (Py ''int'')) True None,
       Field ''offset'' None (Opt (Py ''int'')) True None],
    oc_variables =
      [GField ''search'' (Named ''String'') None,
       GField ''values'' (Listed (Non_Null (Named ''ID''))) None,
       GField ''limit'' (Named ''Int'') None,
       GField ''offset'' (Named ''Int'') None],
    oc_body = SearchShortcutsQuery_body\<rparr>"

definition SpacesForAgentsQuery :: operation_class where
  "SpacesForAgentsQuery = \<lparr>oc_kind = Query, oc_document = ''SpacesForAgents'',
    oc_answer = Answer_Field ''spaces_for_agents'' (Some ''spacesForAgents'') (Many (Model SpacesForAgentsQuerySpacesForAgents_fields)) False,
    oc_arguments =
      [Field ''agents'' None (List_Of (Py ''ID'')) False None],
    oc_variables =
      [GField ''agents'' (Non_Null (Listed (Non_Null (Named ''ID'')))) None],
    oc_body = SpacesForAgentsQuery_body\<rparr>"

definition GetStateQuery :: operation_class where
  "GetStateQuery = \<lparr>oc_kind = Query, oc_document = ''GetState'',
    oc_answer = Answer_Field ''state'' None (Model State_fields) False,
    oc_arguments =
      [Field ''id'' None (Py ''ID'') False None],
    oc_variables =
      [GField ''id'' (Non_Null (Named ''ID'')) None],
    oc_body = GetStateQuery_body\<rparr>"

definition CheckoutAgentQuery :: operation_class where
  "CheckoutAgentQuery = \<lparr>oc_kind = Query, oc_document = ''CheckoutAgent'',
    oc_answer = Answer_Field ''checkout_agent'' (Some ''checkoutAgent'') (Model CheckoutAgentQueryCheckoutAgent_fields) False,
    oc_arguments =
      [Field ''agent'' None (Py ''ID'') False None,
       Field ''timestamp'' None (Opt (Py ''datetime'')) True None,
       Field ''forward_patch_count'' (Some ''forwardPatchCount'') (Opt (Py ''int'')) True (Some ''0''),
       Field ''backward_patch_count'' (Some ''backwardPatchCount'') (Opt (Py ''int'')) True (Some ''0'')],
    oc_variables =
      [GField ''agent'' (Non_Null (Named ''ID'')) None,
       GField ''timestamp'' (Named ''DateTime'') None,
       GField ''forwardPatchCount'' (Non_Null (Named ''Int'')) (Some ''0''),
       GField ''backwardPatchCount'' (Non_Null (Named ''Int'')) (Some ''0'')],
    oc_body = CheckoutAgentQuery_body\<rparr>"

definition RequestsQuery :: operation_class where
  "RequestsQuery = \<lparr>oc_kind = Query, oc_document = ''requests'',
    oc_answer = Answer_Field ''tasks'' None (Many (Model Task_fields)) False,
    oc_arguments = [],
    oc_variables = [],
    oc_body = RequestsQuery_body\<rparr>"

definition GetEventQuery :: operation_class where
  "GetEventQuery = \<lparr>oc_kind = Query, oc_document = ''GetEvent'',
    oc_answer = Answer_Field ''event'' None (Model TaskEvent_fields) False,
    oc_arguments =
      [Field ''id'' None (Py ''ID'') False None],
    oc_variables =
      [GField ''id'' (Non_Null (Named ''ID'')) None],
    oc_body = GetEventQuery_body\<rparr>"

definition TaskEventsQuery :: operation_class where
  "TaskEventsQuery = \<lparr>oc_kind = Query, oc_document = ''TaskEvents'',
    oc_answer = Answer_Field ''task'' None (Model TaskEventsQueryTask_fields) False,
    oc_arguments =
      [Field ''id'' None (Py ''ID'') False None],
    oc_variables =
      [GField ''id'' (Non_Null (Named ''ID'')) None],
    oc_body = TaskEventsQuery_body\<rparr>"

definition TaskRunViewQuery :: operation_class where
  "TaskRunViewQuery = \<lparr>oc_kind = Query, oc_document = ''TaskRunView'',
    oc_answer = Answer_Field ''task'' None (Model TaskRunViewQueryTask_fields) False,
    oc_arguments =
      [Field ''id'' None (Py ''ID'') False None],
    oc_variables =
      [GField ''id'' (Non_Null (Named ''ID'')) None],
    oc_body = TaskRunViewQuery_body\<rparr>"

definition SearchImplementationsQuery :: operation_class where
  "SearchImplementationsQuery = \<lparr>oc_kind = Query, oc_document = ''SearchImplementations'',
    oc_answer = Answer_Field ''options'' None (Many (Model SearchImplementationsQueryOptions_fields)) False,
    oc_arguments =
      [Field ''search'' None (Opt (Py ''str'')) True None,
       Field ''values'' None (Opt (List_Of (Py ''ID''))) True None],
    oc_variables =
      [GField ''search'' (Named ''String'') None,
       GField ''values'' (Listed (Non_Null (Named ''ID''))) None],
    oc_body = SearchImplementationsQuery_body\<rparr>"

definition ImplementationsForQuery :: operation_class where
  "ImplementationsForQuery = \<lparr>oc_kind = Query, oc_document = ''ImplementationsFor'',
    oc_answer = Answer_Field ''implementations'' None (Many (Model Implementation_fields)) False,
    oc_arguments =
      [Field ''hash'' None (Py ''ActionHash'') False None],
    oc_variables =
      [GField ''hash'' (Non_Null (Named ''ActionHash'')) None],
    oc_body = ImplementationsForQuery_body\<rparr>"

definition MyImplementationAtQuery :: operation_class where
  "MyImplementationAtQuery = \<lparr>oc_kind = Query, oc_document = ''MyImplementationAt'',
    oc_answer = Answer_Field ''my_implementation_at'' (Some ''myImplementationAt'') (Model Implementation_fields) False,
    oc_arguments =
      [Field ''interface'' None (Opt (Py ''str'')) True None,
       Field ''action_id'' (Some ''actionId'') (Opt (Py ''ID'')) True None],
    oc_variables =
      [GField ''interface'' (Named ''String'') None,
       GField ''actionId'' (Named ''ID'') None],
    oc_body = MyImplementationAtQuery_body\<rparr>"

definition GetTestCaseQuery :: operation_class where
  "GetTestCaseQuery = \<lparr>oc_kind = Query, oc_document = ''GetTestCase'',
    oc_answer = Answer_Field ''test_case'' (Some ''testCase'') (Model TestCase_fields) False,
    oc_arguments =
      [Field ''id'' None (Py ''ID'') False None],
    oc_variables =
      [GField ''id'' (Non_Null (Named ''ID'')) None],
    oc_body = GetTestCaseQuery_body\<rparr>"

definition GetTestResultQuery :: operation_class where
  "GetTestResultQuery = \<lparr>oc_kind = Query, oc_document = ''GetTestResult'',
    oc_answer = Answer_Field ''test_result'' (Some ''testResult'') (Model TestResult_fields) False,
    oc_arguments =
      [Field ''id'' None (Py ''ID'') False None],
    oc_variables =
      [GField ''id'' (Non_Null (Named ''ID'')) None],
    oc_body = GetTestResultQuery_body\<rparr>"

definition SearchTestCasesQuery :: operation_class where
  "SearchTestCasesQuery = \<lparr>oc_kind = Query, oc_document = ''SearchTestCases'',
    oc_answer = Answer_Field ''options'' None (Many (Model SearchTestCasesQueryOptions_fields)) False,
    oc_arguments =
      [Field ''search'' None (Opt (Py ''str'')) True None,
       Field ''values'' None (Opt (List_Of (Py ''ID''))) True None],
    oc_variables =
      [GField ''search'' (Named ''String'') None,
       GField ''values'' (Listed (Non_Null (Named ''ID''))) None],
    oc_body = SearchTestCasesQuery_body\<rparr>"

definition SearchTestResultsQuery :: operation_class where
  "SearchTestResultsQuery = \<lparr>oc_kind = Query, oc_document = ''SearchTestResults'',
    oc_answer = Answer_Field ''options'' None (Many (Model SearchTestResultsQueryOptions_fields)) False,
    oc_arguments =
      [Field ''search'' None (Opt (Py ''str'')) True None,
       Field ''values'' None (Opt (List_Of (Py ''ID''))) True None],
    oc_variables =
      [GField ''search'' (Named ''String'') None,
       GField ''values'' (Listed (Non_Null (Named ''ID''))) None],
    oc_body = SearchTestResultsQuery_body\<rparr>"

definition ListToolboxesQuery :: operation_class where
  "ListToolboxesQuery = \<lparr>oc_kind = Query, oc_document = ''ListToolboxes'',
    oc_answer = Answer_Field ''toolboxes'' None (Many (Model ListToolbox_fields)) False,
    oc_arguments =
      [Field ''pagination'' None (Opt (Py ''OffsetPaginationInput'')) True None,
       Field ''filters'' None (Opt (Py ''ToolboxFilter'')) True None,
       Field ''ordering'' None (Opt (List_Of (Py ''ToolboxOrder''))) True None],
    oc_variables =
      [GField ''pagination'' (Named ''OffsetPaginationInput'') None,
       GField ''filters'' (Named ''ToolboxFilter'') None,
       GField ''ordering'' (Listed (Non_Null (Named ''ToolboxOrder''))) None],
    oc_body = ListToolboxesQuery_body\<rparr>"

definition GetToolboxQuery :: operation_class where
  "GetToolboxQuery = \<lparr>oc_kind = Query, oc_document = ''GetToolbox'',
    oc_answer = Answer_Field ''toolbox'' None (Model Toolbox_fields) False,
    oc_arguments =
      [Field ''id'' None (Py ''ID'') False None],
    oc_variables =
      [GField ''id'' (Non_Null (Named ''ID'')) None],
    oc_body = GetToolboxQuery_body\<rparr>"

definition WatchMyTasksSubscription :: operation_class where
  "WatchMyTasksSubscription = \<lparr>oc_kind = Subscription, oc_document = ''WatchMyTasks'',
    oc_answer = Answer_Field ''mytasks'' None (Model TaskChangeEvent_fields) False,
    oc_arguments = [],
    oc_variables = [],
    oc_body = WatchMyTasksSubscription_body\<rparr>"

lemmas operation_classes =
  AssignMutation_def CancelMutation_def InterruptMutation_def PauseMutation_def
  ResumeMutation_def DecideMutation_def EnsureAgentMutation_def ImplementAgentMutation_def
  RequestAssetUploadMutation_def CreateAssetMutation_def CreateBlokMutation_def
  MaterializeBlokMutation_def ForkBlokMutation_def UpdateBlokMutation_def
  UpdateMaterializedBlokMutation_def EditBlokMutation_def RevertBlokMutation_def
  PinMaterializedBlokMutation_def RegisterModuleMutation_def CreateDashboardMutation_def
  RequestMediaUploadMutation_def FinishMediaUploadMutation_def RequestMediaAccessMutation_def
  ShelveMutation_def UnshelveMutation_def CreateShortcutMutation_def CreateSpaceMutation_def
  CollectMutation_def CreateHigherOrderImplementationMutation_def Create_testcaseMutation_def
  Create_testresultMutation_def GetAgentQuery_def ListAgentsQuery_def
  GetAgentByIdentifiersQuery_def SearchAgentsQuery_def DesignAgentsQuery_def
  StoredAssetQuery_def GetMaterializedBlokQuery_def SearchMaterializedBloksQuery_def
  ListBloksQuery_def BlokRevisionsQuery_def ActionBloksQuery_def ModulesQuery_def
  ModuleQuery_def BaseCatalogQuery_def GetDashboardQuery_def GetMeActionsQuery_def
  GetImplementationQuery_def ListImplementationsQuery_def ResolvedImplementationsQuery_def
  FindQuery_def RetrieveallQuery_def SearchActionsQuery_def ListActionsQuery_def
  PrimaryActionsQuery_def ListShortcutsQuery_def GetShortcutQuery_def SearchShortcutsQuery_def
  SpacesForAgentsQuery_def GetStateQuery_def CheckoutAgentQuery_def RequestsQuery_def
  GetEventQuery_def TaskEventsQuery_def TaskRunViewQuery_def SearchImplementationsQuery_def
  ImplementationsForQuery_def MyImplementationAtQuery_def GetTestCaseQuery_def
  GetTestResultQuery_def SearchTestCasesQuery_def SearchTestResultsQuery_def
  ListToolboxesQuery_def GetToolboxQuery_def WatchMyTasksSubscription_def

end
