(* ===== verification/Protocol_Inputs.thy ===== *)
theory Protocol_Inputs
  imports Graphql_Types
begin

text \<open>
  The input classes of the protocol: \<open>rekuest/protocol/schema.py\<close>. Each definition has the fields
  in the order the class body declares them; \<open>class_fields\<close> gives those the class has.
\<close>

definition ActionFilter :: "py_field list" where
  "ActionFilter =
      [Field ''name'' None (Opt (Py ''StrFilterLookup'')) True None,
       Field ''and_'' (Some ''AND'') (Opt (Py ''ActionFilter'')) True None,
       Field ''or_'' (Some ''OR'') (Opt (Py ''ActionFilter'')) True None,
       Field ''not_'' (Some ''NOT'') (Opt (Py ''ActionFilter'')) True None,
       Field ''distinct'' (Some ''DISTINCT'') (Opt (Py ''bool'')) True None,
       Field ''search'' None (Opt (Py ''str'')) True None,
       Field ''ids'' None (Opt (Tuple_Of (Py ''ID''))) True None,
       Field ''demands'' None (Opt (Tuple_Of (Py ''PortDemandInput''))) True None,
       Field ''any_demands'' (Some ''anyDemands'') (Opt (Tuple_Of (Tuple_Of (Py ''PortDemandInput'')))) True None,
       Field ''object_demands'' (Some ''objectDemands'') (Opt (Tuple_Of (Py ''PortDemandInput''))) True None,
       Field ''protocols'' None (Opt (Tuple_Of (Py ''str''))) True None,
       Field ''kind'' None (Opt (Py ''ActionKind'')) True None,
       Field ''in_collection'' (Some ''inCollection'') (Opt (Py ''str'')) True None,
       Field ''used_before'' (Some ''usedBefore'') (Opt (Py ''datetime'')) True None,
       Field ''used_after'' (Some ''usedAfter'') (Opt (Py ''datetime'')) True None,
       Field ''assignable'' None (Opt (Py ''bool'')) True None,
       Field ''stateful'' None (Opt (Py ''bool'')) True None,
       Field ''app_identifier'' (Some ''appIdentifier'') (Opt (Py ''str'')) True None]"

definition ActionOrderDefinedAt :: "py_field list" where
  "ActionOrderDefinedAt =
      [Field ''defined_at'' (Some ''definedAt'') (Py ''Ordering'') False None]"

definition ActionOrderUsedAt :: "py_field list" where
  "ActionOrderUsedAt =
      [Field ''used_at'' (Some ''usedAt'') (Py ''Ordering'') False None]"

definition ActionOrderAssignable :: "py_field list" where
  "ActionOrderAssignable =
      [Field ''assignable'' None (Py ''Ordering'') False None]"

definition AgentFilter :: "py_field list" where
  "AgentFilter =
      [Field ''and_'' (Some ''AND'') (Opt (Py ''AgentFilter'')) True None,
       Field ''or_'' (Some ''OR'') (Opt (Py ''AgentFilter'')) True None,
       Field ''not_'' (Some ''NOT'') (Opt (Py ''AgentFilter'')) True None,
       Field ''distinct'' (Some ''DISTINCT'') (Opt (Py ''bool'')) True None,
       Field ''client_id'' (Some ''clientId'') (Opt (Py ''str'')) True None,
       Field ''available'' None (Opt (Py ''bool'')) True None,
       Field ''supervisor'' None (Opt (Py ''str'')) True None,
       Field ''requires'' None (Opt (Tuple_Of (Py ''RequiresInput''))) True None,
       Field ''caller_of'' (Some ''callerOf'') (Opt (Py ''ID'')) True None,
       Field ''ids'' None (Opt (Tuple_Of (Py ''ID''))) True None,
       Field ''has_implementations'' (Some ''hasImplementations'') (Opt (Tuple_Of (Py ''str''))) True None,
       Field ''implements_protocols'' (Some ''implementsProtocols'') (Opt (Tuple_Of (Py ''str''))) True None,
       Field ''has_states'' (Some ''hasStates'') (Opt (Tuple_Of (Py ''str''))) True None,
       Field ''pinned'' None (Opt (Py ''bool'')) True None,
       Field ''search'' None (Opt (Py ''str'')) True None,
       Field ''dependency'' None (Opt (Py ''ID'')) True None,
       Field ''blok_dependency'' (Some ''blokDependency'') (Opt (Py ''ID'')) True None,
       Field ''distinct'' None (Opt (Py ''bool'')) True None,
       Field ''action_demands'' (Some ''actionDemands'') (Opt (Tuple_Of (Py ''ActionDemandInput''))) True None,
       Field ''state_demands'' (Some ''stateDemands'') (Opt (Tuple_Of (Py ''StateDemandInput''))) True None,
       Field ''user'' None (Opt (Py ''ID'')) True None,
       Field ''app_identifier'' (Some ''appIdentifier'') (Opt (Py ''ID'')) True None,
       Field ''version_number'' (Some ''versionNumber'') (Opt (Py ''str'')) True None,
       Field ''device_id'' (Some ''deviceId'') (Opt (Py ''ID'')) True None]"

definition AgentInput :: "py_field list" where
  "AgentInput =
      [Field ''name'' None (Opt (Py ''str'')) True None,
       Field ''description'' None (Opt (Py ''str'')) True None,
       Field ''kind'' None (Opt (Py ''AgentKind'')) True None,
       Field ''hook_url'' (Some ''hookUrl'') (Opt (Py ''str'')) True None,
       Field ''hook_url_secret'' (Some ''hookUrlSecret'') (Opt (Py ''str'')) True None]"

definition BlokAgentMappingInput :: "py_field list" where
  "BlokAgentMappingInput =
      [Field ''agent'' None (Py ''ID'') False None,
       Field ''key'' None (Py ''str'') False None]"

definition CatalogArgumentInput :: "py_field list" where
  "CatalogArgumentInput =
      [Field ''key'' None (Py ''str'') False None,
       Field ''kind'' None (Py ''CatalogValueKind'') False None,
       Field ''required'' None (Opt (Py ''bool'')) True (Some ''True''),
       Field ''description'' None (Opt (Py ''str'')) True None]"

definition CatalogComponentInput :: "py_field list" where
  "CatalogComponentInput =
      [Field ''name'' None (Py ''str'') False None,
       Field ''description'' None (Opt (Py ''str'')) True None,
       Field ''props'' None (Opt (Tuple_Of (Py ''CatalogPropInput''))) True (Some ''[]''),
       Field ''accepts_children'' (Some ''acceptsChildren'') (Opt (Py ''bool'')) True (Some ''True''),
       Field ''context'' None (Opt (Py ''ComponentContext'')) True (Some ''HTML''),
       Field ''children_context'' (Some ''childrenContext'') (Opt (Py ''ComponentContext'')) True None,
       Field ''inherits_context'' (Some ''inheritsContext'') (Opt (Py ''bool'')) True (Some ''False''),
       Field ''downstream_of'' (Some ''downstreamOf'') (Opt (Tuple_Of (Py ''str''))) True (Some ''[]''),
       Field ''not_downstream_of'' (Some ''notDownstreamOf'') (Opt (Tuple_Of (Py ''str''))) True (Some ''[]''),
       Field ''text_prop'' (Some ''textProp'') (Opt (Py ''str'')) True None,
       Field ''catalog'' None (Opt (Py ''str'')) True None]"

definition CatalogEventFieldInput :: "py_field list" where
  "CatalogEventFieldInput =
      [Field ''key'' None (Py ''str'') False None,
       Field ''kind'' None (Py ''CatalogValueKind'') False None,
       Field ''description'' None (Opt (Py ''str'')) True None]"

definition CatalogOperationInput :: "py_field list" where
  "CatalogOperationInput =
      [Field ''name'' None (Py ''str'') False None,
       Field ''description'' None (Opt (Py ''str'')) True None,
       Field ''arguments'' None (Opt (Tuple_Of (Py ''CatalogArgumentInput''))) True (Some ''[]''),
       Field ''returns'' None (Py ''CatalogValueKind'') False None]"

definition CatalogPropInput :: "py_field list" where
  "CatalogPropInput =
      [Field ''key'' None (Py ''str'') False None,
       Field ''kind'' None (Py ''CatalogValueKind'') False None,
       Field ''required'' None (Opt (Py ''bool'')) True (Some ''False''),
       Field ''description'' None (Opt (Py ''str'')) True None,
       Field ''event'' None (Opt (Tuple_Of (Py ''CatalogEventFieldInput''))) True None]"

definition CollectInput :: "py_field list" where
  "CollectInput =
      [Field ''drawers'' None (Tuple_Of (Py ''ID'')) False None]"

definition CreateAssetInput :: "py_field list" where
  "CreateAssetInput =
      [Field ''ref'' None (Py ''str'') False None,
       Field ''store'' None (Py ''MediaLike'') False None]"

definition CreateBlokInput :: "py_field list" where
  "CreateBlokInput =
      [Field ''name'' None (Py ''str'') False None,
       Field ''dependencies'' None (Opt (Tuple_Of (Py ''AgentDependencyInput''))) True None,
       Field ''description'' None (Opt (Py ''str'')) True None,
       Field ''module'' None (Opt (Py ''str'')) True None,
       Field ''components'' None (Opt (Tuple_Of (Py ''ComponentNodeInput''))) True None,
       Field ''source'' None (Opt (Py ''str'')) True None,
       Field ''vocab'' None (Py ''int'') False None,
       Field ''catalogs'' None (Opt (Tuple_Of (Py ''str''))) True (Some ''[]''),
       Field ''locals'' None (Opt (Tuple_Of (Py ''BlokLocalInput''))) True (Some ''[]''),
       Field ''demo'' None (Opt (Py ''BlokDemoInput'')) True None,
       Field ''queries'' None (Opt (Tuple_Of (Py ''BlokQueryInput''))) True (Some ''[]''),
       Field ''subscriptions'' None (Opt (Tuple_Of (Py ''BlokSubscriptionInput''))) True (Some ''[]''),
       Field ''context'' None (Opt (Py ''ComponentContext'')) True (Some ''HTML''),
       Field ''for_model'' (Some ''forModel'') (Opt (Py ''str'')) True None,
       Field ''for_node'' (Some ''forNode'') (Opt (Py ''str'')) True None,
       Field ''origin'' None (Opt (Py ''str'')) True None,
       Field ''origin_hash'' (Some ''originHash'') (Opt (Py ''str'')) True None]"

definition CreateDashboardInput :: "py_field list" where
  "CreateDashboardInput =
      [Field ''name'' None (Py ''str'') False None,
       Field ''bloks'' None (Opt (Tuple_Of (Py ''str''))) True (Some ''[]'')]"

definition CreateHigherOrderImplementationInput :: "py_field list" where
  "CreateHigherOrderImplementationInput =
      [Field ''lower'' None (Py ''ID'') False None,
       Field ''interface'' None (Py ''str'') False None,
       Field ''definition'' None (Py ''DefinitionInput'') False None,
       Field ''config'' None (Opt (Py ''Any'')) True None,
       Field ''dependencies'' None (Opt (Tuple_Of (Py ''AgentDependencyInput''))) True None]"

definition CreateShortcutInput :: "py_field list" where
  "CreateShortcutInput =
      [Field ''name'' None (Py ''str'') False None,
       Field ''description'' None (Opt (Py ''str'')) True None,
       Field ''action'' None (Py ''ID'') False None,
       Field ''args'' None (Py ''Args'') False None,
       Field ''allow_quick'' (Some ''allowQuick'') (Opt (Py ''bool'')) True (Some ''False''),
       Field ''use_returns'' (Some ''useReturns'') (Opt (Py ''bool'')) True (Some ''False''),
       Field ''bind_number'' (Some ''bindNumber'') (Opt (Py ''int'')) True None,
       Field ''toolbox'' None (Opt (Py ''ID'')) True None,
       Field ''bindings'' None (Opt (Py ''ShortcutBindingsInput'')) True None]"

definition CreateSpaceInput :: "py_field list" where
  "CreateSpaceInput =
      [Field ''name'' None (Py ''str'') False None,
       Field ''placements'' None (Opt (Tuple_Of (Py ''PlacementInput''))) True None]"

definition CreateTestCaseInput :: "py_field list" where
  "CreateTestCaseInput =
      [Field ''action'' None (Py ''ID'') False None,
       Field ''tester'' None (Py ''ID'') False None,
       Field ''description'' None (Opt (Py ''str'')) True None,
       Field ''name'' None (Opt (Py ''str'')) True None,
       Field ''is_benchmark'' (Some ''isBenchmark'') (Opt (Py ''bool'')) True (Some ''False'')]"

definition CreateTestResultInput :: "py_field list" where
  "CreateTestResultInput =
      [Field ''case'' None (Py ''ID'') False None,
       Field ''tester'' None (Py ''ID'') False None,
       Field ''implementation'' None (Py ''ID'') False None,
       Field ''passed'' None (Py ''bool'') False None,
       Field ''result'' None (Opt (Py ''Any'')) True None]"

definition EditBlokInput :: "py_field list" where
  "EditBlokInput =
      [Field ''blok'' None (Opt (Py ''ID'')) True None,
       Field ''materialized_blok'' (Some ''materializedBlok'') (Opt (Py ''ID'')) True None,
       Field ''base'' None (Opt (Py ''ID'')) True None,
       Field ''components'' None (Opt (Tuple_Of (Py ''ComponentNodeInput''))) True None,
       Field ''source'' None (Opt (Py ''str'')) True None,
       Field ''module'' None (Opt (Py ''str'')) True None,
       Field ''dependencies'' None (Opt (Tuple_Of (Py ''AgentDependencyInput''))) True None,
       Field ''args'' None (Opt (Tuple_Of (Py ''ArgPortInput''))) True None,
       Field ''vocab'' None (Opt (Py ''int'')) True None,
       Field ''catalogs'' None (Opt (Tuple_Of (Py ''str''))) True None,
       Field ''locals'' None (Opt (Tuple_Of (Py ''BlokLocalInput''))) True None,
       Field ''demo'' None (Opt (Py ''BlokDemoInput'')) True None,
       Field ''queries'' None (Opt (Tuple_Of (Py ''BlokQueryInput''))) True None,
       Field ''subscriptions'' None (Opt (Tuple_Of (Py ''BlokSubscriptionInput''))) True None,
       Field ''agent_mappings'' (Some ''agentMappings'') (Opt (Tuple_Of (Py ''MappedAgentInput''))) True None,
       Field ''message'' None (Opt (Py ''str'')) True None,
       Field ''task'' None (Opt (Py ''ID'')) True None,
       Field ''dry_run'' (Some ''dryRun'') (Opt (Py ''bool'')) True None]"

definition FinishMediaUploadInput :: "py_field list" where
  "FinishMediaUploadInput =
      [Field ''store_id'' (Some ''storeId'') (Py ''str'') False None,
       Field ''valid'' None (Opt (Py ''bool'')) True (Some ''True'')]"

definition ForkBlokInput :: "py_field list" where
  "ForkBlokInput =
      [Field ''id'' None (Py ''ID'') False None,
       Field ''name'' None (Opt (Py ''str'')) True None]"

definition ImplementationActionFilter :: "py_field list" where
  "ImplementationActionFilter =
      [Field ''and_'' (Some ''AND'') (Opt (Py ''ImplementationActionFilter'')) True None,
       Field ''or_'' (Some ''OR'') (Opt (Py ''ImplementationActionFilter'')) True None,
       Field ''not_'' (Some ''NOT'') (Opt (Py ''ImplementationActionFilter'')) True None,
       Field ''distinct'' (Some ''DISTINCT'') (Opt (Py ''bool'')) True None,
       Field ''search'' None (Opt (Py ''str'')) True None,
       Field ''name'' None (Opt (Py ''str'')) True None,
       Field ''ids'' None (Opt (Tuple_Of (Py ''ID''))) True None,
       Field ''demands'' None (Opt (Tuple_Of (Py ''PortDemandInput''))) True None,
       Field ''any_demands'' (Some ''anyDemands'') (Opt (Tuple_Of (Tuple_Of (Py ''PortDemandInput'')))) True None,
       Field ''kind'' None (Opt (Py ''ActionKind'')) True None,
       Field ''protocols'' None (Opt (Tuple_Of (Py ''str''))) True None]"

definition ImplementationAgentFilter :: "py_field list" where
  "ImplementationAgentFilter =
      [Field ''and_'' (Some ''AND'') (Opt (Py ''ImplementationAgentFilter'')) True None,
       Field ''or_'' (Some ''OR'') (Opt (Py ''ImplementationAgentFilter'')) True None,
       Field ''not_'' (Some ''NOT'') (Opt (Py ''ImplementationAgentFilter'')) True None,
       Field ''distinct'' (Some ''DISTINCT'') (Opt (Py ''bool'')) True None,
       Field ''caller_of'' (Some ''callerOf'') (Opt (Py ''ID'')) True None,
       Field ''client_id'' (Some ''clientId'') (Opt (Py ''str'')) True None,
       Field ''ids'' None (Opt (Tuple_Of (Py ''ID''))) True None,
       Field ''has_implementations'' (Some ''hasImplementations'') (Opt (Tuple_Of (Py ''str''))) True None,
       Field ''implements_protocols'' (Some ''implementsProtocols'') (Opt (Tuple_Of (Py ''str''))) True None,
       Field ''has_states'' (Some ''hasStates'') (Opt (Tuple_Of (Py ''str''))) True None]"

definition ImplementationFilter :: "py_field list" where
  "ImplementationFilter =
      [Field ''interface'' None (Opt (Py ''StrFilterLookup'')) True None,
       Field ''action'' None (Opt (Py ''ImplementationActionFilter'')) True None,
       Field ''agent'' None (Opt (Py ''ImplementationAgentFilter'')) True None,
       Field ''and_'' (Some ''AND'') (Opt (Py ''ImplementationFilter'')) True None,
       Field ''or_'' (Some ''OR'') (Opt (Py ''ImplementationFilter'')) True None,
       Field ''not_'' (Some ''NOT'') (Opt (Py ''ImplementationFilter'')) True None,
       Field ''distinct'' (Some ''DISTINCT'') (Opt (Py ''bool'')) True None,
       Field ''active'' None (Opt (Py ''bool'')) True None,
       Field ''ids'' None (Opt (Tuple_Of (Py ''ID''))) True None,
       Field ''action_hash'' (Some ''actionHash'') (Opt (Py ''ActionHash'')) True None,
       Field ''parameters'' None (Opt (Tuple_Of (Py ''ParamPair''))) True None,
       Field ''resolvable_for'' (Some ''resolvableFor'') (Opt (Py ''ID'')) True None,
       Field ''search'' None (Opt (Py ''str'')) True None,
       Field ''action_demand'' (Some ''actionDemand'') (Opt (Py ''ActionDemandInput'')) True None]"

definition InterruptInput :: "py_field list" where
  "InterruptInput =
      [Field ''task'' None (Py ''ID'') False None]"

definition MaterializeBlokInput :: "py_field list" where
  "MaterializeBlokInput =
      [Field ''blok'' None (Py ''ID'') False None,
       Field ''dashboard'' None (Opt (Py ''ID'')) True None,
       Field ''agent_mappings'' (Some ''agentMappings'') (Opt (Tuple_Of (Py ''BlokAgentMappingInput''))) True None,
       Field ''name'' None (Opt (Py ''str'')) True None,
       Field ''description'' None (Opt (Py ''str'')) True None,
       Field ''scope'' None (Opt (Py ''MaterializationScope'')) True (Some ''DASHBOARD'')]"

definition OffsetPaginationInput :: "py_field list" where
  "OffsetPaginationInput =
      [Field ''offset'' None (Opt (Py ''int'')) True (Some ''0''),
       Field ''limit'' None (Opt (Py ''int'')) True None]"

definition ParamPair :: "py_field list" where
  "ParamPair =
      [Field ''key'' None (Py ''str'') False None,
       Field ''value'' None (Py ''str'') False None]"

definition PinMaterializedBlokInput :: "py_field list" where
  "PinMaterializedBlokInput =
      [Field ''id'' None (Py ''ID'') False None,
       Field ''revision'' None (Opt (Py ''ID'')) True None]"

definition PlacementInput :: "py_field list" where
  "PlacementInput =
      [Field ''role'' None (Opt (Py ''str'')) True None,
       Field ''affine_matrix'' (Some ''affineMatrix'') (Opt (Tuple_Of (Tuple_Of (Py ''float'')))) True None,
       Field ''agent'' None (Opt (Py ''ID'')) True None,
       Field ''blok'' None (Opt (Py ''ID'')) True None]"

definition PortDemandInput :: "py_field list" where
  "PortDemandInput =
      [Field ''kind'' None (Py ''DemandKind'') False None,
       Field ''matches'' None (Opt (Tuple_Of (Py ''PortMatchInput''))) True None,
       Field ''force_length'' (Some ''forceLength'') (Opt (Py ''int'')) True None,
       Field ''force_non_nullable_length'' (Some ''forceNonNullableLength'') (Opt (Py ''int'')) True None,
       Field ''force_structure_length'' (Some ''forceStructureLength'') (Opt (Py ''int'')) True None]"

definition RegisterModuleInput :: "py_field list" where
  "RegisterModuleInput =
      [Field ''name'' None (Py ''str'') False None,
       Field ''description'' None (Opt (Py ''str'')) True None,
       Field ''components'' None (Opt (Tuple_Of (Py ''CatalogComponentInput''))) True (Some ''[]''),
       Field ''operations'' None (Opt (Tuple_Of (Py ''CatalogOperationInput''))) True (Some ''[]''),
       Field ''catalogs'' None (Opt (Tuple_Of (Py ''str''))) True (Some ''[]''),
       Field ''widget_defaults'' (Some ''widgetDefaults'') (Opt (Tuple_Of (Py ''WidgetDefaultInput''))) True (Some ''[]'')]"

definition RequestAssetUploadInput :: "py_field list" where
  "RequestAssetUploadInput =
      [Field ''ref'' None (Py ''str'') False None,
       Field ''size'' None (Opt (Py ''int'')) True None]"

definition RequestMediaAccessInput :: "py_field list" where
  "RequestMediaAccessInput =
      [Field ''store_id'' (Some ''storeId'') (Py ''str'') False None]"

definition RequestMediaUploadInput :: "py_field list" where
  "RequestMediaUploadInput =
      [Field ''original_file_name'' (Some ''originalFileName'') (Py ''str'') False None,
       Field ''file_size'' (Some ''fileSize'') (Py ''int'') False None,
       Field ''content_type'' (Some ''contentType'') (Opt (Py ''str'')) True None]"

definition RevertBlokInput :: "py_field list" where
  "RevertBlokInput =
      [Field ''blok'' None (Py ''ID'') False None,
       Field ''to'' None (Py ''ID'') False None,
       Field ''base'' None (Py ''ID'') False None,
       Field ''message'' None (Opt (Py ''str'')) True None,
       Field ''task'' None (Opt (Py ''ID'')) True None]"

definition ShelveInMemoryDrawerInput :: "py_field list" where
  "ShelveInMemoryDrawerInput =
      [Field ''identifier'' None (Py ''Identifier'') False None,
       Field ''resource_id'' (Some ''resourceId'') (Py ''str'') False None,
       Field ''label'' None (Opt (Py ''str'')) True None,
       Field ''description'' None (Opt (Py ''str'')) True None]"

definition ShortcutBindingsInput :: "py_field list" where
  "ShortcutBindingsInput =
      [Field ''users'' None (Opt (Tuple_Of (Py ''ID''))) True None,
       Field ''app'' None (Opt (Py ''str'')) True None,
       Field ''client'' None (Opt (Py ''str'')) True None,
       Field ''device'' None (Opt (Py ''str'')) True None]"

definition ShortcutFilter :: "py_field list" where
  "ShortcutFilter =
      [Field ''and_'' (Some ''AND'') (Opt (Py ''ShortcutFilter'')) True None,
       Field ''or_'' (Some ''OR'') (Opt (Py ''ShortcutFilter'')) True None,
       Field ''not_'' (Some ''NOT'') (Opt (Py ''ShortcutFilter'')) True None,
       Field ''distinct'' (Some ''DISTINCT'') (Opt (Py ''bool'')) True None,
       Field ''search'' None (Opt (Py ''str'')) True None,
       Field ''ids'' None (Opt (Tuple_Of (Py ''ID''))) True None,
       Field ''demands'' None (Opt (Tuple_Of (Py ''PortDemandInput''))) True None,
       Field ''any_demands'' (Some ''anyDemands'') (Opt (Tuple_Of (Tuple_Of (Py ''PortDemandInput'')))) True None,
       Field ''assignable'' None (Opt (Py ''bool'')) True None,
       Field ''toolbox'' None (Opt (Py ''ID'')) True None,
       Field ''pinned'' None (Opt (Py ''bool'')) True None]"

definition ShortcutOrderName :: "py_field list" where
  "ShortcutOrderName =
      [Field ''name'' None (Py ''Ordering'') False None]"

definition ShortcutOrderAssignable :: "py_field list" where
  "ShortcutOrderAssignable =
      [Field ''assignable'' None (Py ''Ordering'') False None]"

definition ShortcutOrderPinned :: "py_field list" where
  "ShortcutOrderPinned =
      [Field ''pinned'' None (Py ''Ordering'') False None]"

definition StrFilterLookup :: "py_field list" where
  "StrFilterLookup =
      [Field ''exact'' None (Opt (Py ''str'')) True None,
       Field ''i_exact'' (Some ''iExact'') (Opt (Py ''str'')) True None,
       Field ''contains'' None (Opt (Py ''str'')) True None,
       Field ''i_contains'' (Some ''iContains'') (Opt (Py ''str'')) True None,
       Field ''in_list'' (Some ''inList'') (Opt (Tuple_Of (Py ''str''))) True None,
       Field ''gt'' None (Opt (Py ''str'')) True None,
       Field ''gte'' None (Opt (Py ''str'')) True None,
       Field ''lt'' None (Opt (Py ''str'')) True None,
       Field ''lte'' None (Opt (Py ''str'')) True None,
       Field ''starts_with'' (Some ''startsWith'') (Opt (Py ''str'')) True None,
       Field ''i_starts_with'' (Some ''iStartsWith'') (Opt (Py ''str'')) True None,
       Field ''ends_with'' (Some ''endsWith'') (Opt (Py ''str'')) True None,
       Field ''i_ends_with'' (Some ''iEndsWith'') (Opt (Py ''str'')) True None,
       Field ''range'' None (Opt (Tuple_Of (Py ''str''))) True None,
       Field ''is_null'' (Some ''isNull'') (Opt (Py ''bool'')) True None,
       Field ''regex'' None (Opt (Py ''str'')) True None,
       Field ''i_regex'' (Some ''iRegex'') (Opt (Py ''str'')) True None]"

definition ToolboxFilter :: "py_field list" where
  "ToolboxFilter =
      [Field ''name'' None (Opt (Py ''StrFilterLookup'')) True None,
       Field ''and_'' (Some ''AND'') (Opt (Py ''ToolboxFilter'')) True None,
       Field ''or_'' (Some ''OR'') (Opt (Py ''ToolboxFilter'')) True None,
       Field ''not_'' (Some ''NOT'') (Opt (Py ''ToolboxFilter'')) True None,
       Field ''distinct'' (Some ''DISTINCT'') (Opt (Py ''bool'')) True None,
       Field ''ids'' None (Opt (Tuple_Of (Py ''ID''))) True None,
       Field ''search'' None (Opt (Py ''str'')) True None]"

definition ToolboxOrderName :: "py_field list" where
  "ToolboxOrderName =
      [Field ''name'' None (Py ''Ordering'') False None]"

definition UnshelveMemoryDrawerInput :: "py_field list" where
  "UnshelveMemoryDrawerInput =
      [Field ''id'' None (Py ''str'') False None]"

definition UpdateBlokInput :: "py_field list" where
  "UpdateBlokInput =
      [Field ''id'' None (Py ''ID'') False None,
       Field ''name'' None (Opt (Py ''str'')) True None,
       Field ''description'' None (Opt (Py ''str'')) True None,
       Field ''components'' None (Opt (Tuple_Of (Py ''ComponentNodeInput''))) True None,
       Field ''source'' None (Opt (Py ''str'')) True None,
       Field ''module'' None (Opt (Py ''str'')) True None,
       Field ''dependencies'' None (Opt (Tuple_Of (Py ''AgentDependencyInput''))) True None]"

definition UpdateMaterializedBlokInput :: "py_field list" where
  "UpdateMaterializedBlokInput =
      [Field ''id'' None (Py ''ID'') False None,
       Field ''agent_mappings'' (Some ''agentMappings'') (Opt (Tuple_Of (Py ''MappedAgentInput''))) True None]"

definition WidgetDefaultInput :: "py_field list" where
  "WidgetDefaultInput =
      [Field ''kind'' None (Opt (Py ''PortKind'')) True None,
       Field ''identifier'' None (Opt (Py ''str'')) True None,
       Field ''widget'' None (Opt (Py ''AssignWidgetInput'')) True None,
       Field ''return_widget'' (Some ''returnWidget'') (Opt (Py ''ReturnWidgetInput'')) True None]"

text \<open>The unions of the ordering inputs.\<close>

definition ActionOrder :: "py_field list list" where
  "ActionOrder = [ActionOrderDefinedAt, ActionOrderUsedAt, ActionOrderAssignable]"

definition ShortcutOrder :: "py_field list list" where
  "ShortcutOrder = [ShortcutOrderName, ShortcutOrderAssignable, ShortcutOrderPinned]"

definition ToolboxOrder :: "py_field list list" where
  "ToolboxOrder = [ToolboxOrderName]"

lemmas protocol_inputs =
  ActionFilter_def ActionOrderDefinedAt_def ActionOrderUsedAt_def ActionOrderAssignable_def
  AgentFilter_def AgentInput_def BlokAgentMappingInput_def CatalogArgumentInput_def
  CatalogComponentInput_def CatalogEventFieldInput_def CatalogOperationInput_def
  CatalogPropInput_def CollectInput_def CreateAssetInput_def CreateBlokInput_def
  CreateDashboardInput_def CreateHigherOrderImplementationInput_def CreateShortcutInput_def
  CreateSpaceInput_def CreateTestCaseInput_def CreateTestResultInput_def EditBlokInput_def
  FinishMediaUploadInput_def ForkBlokInput_def ImplementationActionFilter_def
  ImplementationAgentFilter_def ImplementationFilter_def InterruptInput_def
  MaterializeBlokInput_def OffsetPaginationInput_def ParamPair_def
  PinMaterializedBlokInput_def PlacementInput_def PortDemandInput_def RegisterModuleInput_def
  RequestAssetUploadInput_def RequestMediaAccessInput_def RequestMediaUploadInput_def
  RevertBlokInput_def ShelveInMemoryDrawerInput_def ShortcutBindingsInput_def
  ShortcutFilter_def ShortcutOrderName_def ShortcutOrderAssignable_def ShortcutOrderPinned_def
  StrFilterLookup_def ToolboxFilter_def ToolboxOrderName_def UnshelveMemoryDrawerInput_def
  UpdateBlokInput_def UpdateMaterializedBlokInput_def WidgetDefaultInput_def

end
