(* ===== verification/Server_Schema.thy ===== *)
theory Server_Schema
  imports Graphql_Types
begin

text \<open>
  What the server declares of the inputs of the operations: \<open>rekuest/api/schema.graphql\<close>, the
  snapshot the classes were generated from, and so their specification. The input types that
  only the classes of other packages implement are those an operation's own input names.
\<close>

section \<open>Enums\<close>

definition schema_AgentKind :: "string list" where
  "schema_AgentKind =
     [''WEBSOCKET'', ''WEBHOOK'']"

definition schema_AssignWidgetKind :: "string list" where
  "schema_AssignWidgetKind =
     [''SEARCH'', ''CHOICE'', ''SLIDER'', ''CUSTOM'', ''STRING'', ''STATE_CHOICE'', ''PROXY'']"

definition schema_CatalogValueKind :: "string list" where
  "schema_CatalogValueKind =
     [''STRING'', ''INT'', ''FLOAT'', ''BOOL'', ''DICT'', ''LIST'', ''ANY'', ''CALLBACK'',
      ''ASSET'']"

definition schema_ComponentContext :: "string list" where
  "schema_ComponentContext =
     [''HTML'', ''SCENE'', ''LOGO'', ''ACTION_LOGO'', ''OVERLAY'']"

definition schema_DemandKind :: "string list" where
  "schema_DemandKind =
     [''ARGS'', ''RETURNS'']"

definition schema_DiagnosticLevel :: "string list" where
  "schema_DiagnosticLevel =
     [''WARNING'', ''ERROR'']"

definition schema_LocalKind :: "string list" where
  "schema_LocalKind =
     [''INT'', ''STRING'', ''STRUCTURE'', ''LIST'', ''BOOL'', ''DICT'', ''FLOAT'', ''DATE'',
      ''UNION'', ''ENUM'', ''MODEL'', ''MEMORY_STRUCTURE'', ''INTERFACE'', ''QUANTITY'',
      ''ANY'']"

definition schema_LogLevel :: "string list" where
  "schema_LogLevel =
     [''DEBUG'', ''INFO'', ''ERROR'', ''WARN'', ''CRITICAL'']"

definition schema_MaterializationScope :: "string list" where
  "schema_MaterializationScope =
     [''DASHBOARD'', ''MESSAGE'', ''TASK'']"

definition schema_Ordering :: "string list" where
  "schema_Ordering =
     [''ASC'', ''ASC_NULLS_FIRST'', ''ASC_NULLS_LAST'', ''DESC'', ''DESC_NULLS_FIRST'',
      ''DESC_NULLS_LAST'']"

definition schema_ReturnWidgetKind :: "string list" where
  "schema_ReturnWidgetKind =
     [''CHOICE'', ''CUSTOM'']"

definition schema_TaskInstructKind :: "string list" where
  "schema_TaskInstructKind =
     [''ASSIGN'', ''CANCEL'', ''RESUME'', ''PAUSE'', ''INTERRUPT'', ''COLLECT'']"

section \<open>Input types\<close>

definition schema_ActionFilter :: "gql_field list" where
  "schema_ActionFilter =
      [GField ''name'' (Named ''StrFilterLookup'') None,
       GField ''AND'' (Named ''ActionFilter'') None,
       GField ''OR'' (Named ''ActionFilter'') None,
       GField ''NOT'' (Named ''ActionFilter'') None,
       GField ''DISTINCT'' (Named ''Boolean'') None,
       GField ''search'' (Named ''String'') None,
       GField ''ids'' (Listed (Non_Null (Named ''ID''))) None,
       GField ''demands'' (Listed (Non_Null (Named ''PortDemandInput''))) None,
       GField ''anyDemands'' (Listed (Non_Null (Listed (Non_Null (Named ''PortDemandInput''))))) None,
       GField ''objectDemands'' (Listed (Non_Null (Named ''PortDemandInput''))) None,
       GField ''protocols'' (Listed (Non_Null (Named ''String''))) None,
       GField ''kind'' (Named ''ActionKind'') None,
       GField ''inCollection'' (Named ''String'') None,
       GField ''usedBefore'' (Named ''DateTime'') None,
       GField ''usedAfter'' (Named ''DateTime'') None,
       GField ''assignable'' (Named ''Boolean'') None,
       GField ''stateful'' (Named ''Boolean'') None,
       GField ''appIdentifier'' (Named ''String'') None]"

definition schema_ActionOrder :: "gql_field list" where
  "schema_ActionOrder =
      [GField ''definedAt'' (Named ''Ordering'') None,
       GField ''usedAt'' (Named ''Ordering'') None,
       GField ''assignable'' (Named ''Ordering'') None]"

definition schema_AgentFilter :: "gql_field list" where
  "schema_AgentFilter =
      [GField ''AND'' (Named ''AgentFilter'') None,
       GField ''OR'' (Named ''AgentFilter'') None,
       GField ''NOT'' (Named ''AgentFilter'') None,
       GField ''DISTINCT'' (Named ''Boolean'') None,
       GField ''clientId'' (Named ''String'') None,
       GField ''available'' (Named ''Boolean'') None,
       GField ''supervisor'' (Named ''String'') None,
       GField ''requires'' (Listed (Non_Null (Named ''RequiresInput''))) None,
       GField ''callerOf'' (Named ''ID'') None,
       GField ''ids'' (Listed (Non_Null (Named ''ID''))) None,
       GField ''hasImplementations'' (Listed (Non_Null (Named ''String''))) None,
       GField ''implementsProtocols'' (Listed (Non_Null (Named ''String''))) None,
       GField ''hasStates'' (Listed (Non_Null (Named ''String''))) None,
       GField ''pinned'' (Named ''Boolean'') None,
       GField ''search'' (Named ''String'') None,
       GField ''dependency'' (Named ''ID'') None,
       GField ''blokDependency'' (Named ''ID'') None,
       GField ''distinct'' (Named ''Boolean'') None,
       GField ''actionDemands'' (Listed (Non_Null (Named ''ActionDemandInput''))) None,
       GField ''stateDemands'' (Listed (Non_Null (Named ''StateDemandInput''))) None,
       GField ''user'' (Named ''ID'') None,
       GField ''appIdentifier'' (Named ''ID'') None,
       GField ''versionNumber'' (Named ''String'') None,
       GField ''deviceId'' (Named ''ID'') None]"

definition schema_AgentInput :: "gql_field list" where
  "schema_AgentInput =
      [GField ''name'' (Named ''String'') (Some ''null''),
       GField ''description'' (Named ''String'') (Some ''null''),
       GField ''kind'' (Named ''AgentKind'') (Some ''null''),
       GField ''hookUrl'' (Named ''String'') (Some ''null''),
       GField ''hookUrlSecret'' (Named ''String'') (Some ''null'')]"

definition schema_AssignInput :: "gql_field list" where
  "schema_AssignInput =
      [GField ''action'' (Named ''ID'') (Some ''null''),
       GField ''resolution'' (Named ''ID'') (Some ''null''),
       GField ''implementation'' (Named ''ID'') (Some ''null''),
       GField ''agent'' (Named ''ID'') (Some ''null''),
       GField ''actionHash'' (Named ''ActionHash'') (Some ''null''),
       GField ''interface'' (Named ''String'') (Some ''null''),
       GField ''hooks'' (Listed (Non_Null (Named ''HookInput''))) (Some ''null''),
       GField ''args'' (Non_Null (Named ''Args'')) None,
       GField ''reference'' (Named ''String'') (Some ''null''),
       GField ''capture'' (Non_Null (Named ''Boolean'')) None,
       GField ''dependencies'' (Listed (Non_Null (Named ''ResolvedDependencyInput''))) (Some ''null''),
       GField ''step'' (Named ''Boolean'') (Some ''null''),
       GField ''notBefore'' (Named ''DateTime'') (Some ''null''),
       GField ''policy'' (Named ''TaskPolicy'') (Some ''null''),
       GField ''stateRequires'' (Listed (Non_Null (Named ''StateRequirementInput''))) (Some ''null''),
       GField ''space'' (Named ''ID'') (Some ''null'')]"

definition schema_BlokAgentMappingInput :: "gql_field list" where
  "schema_BlokAgentMappingInput =
      [GField ''agent'' (Non_Null (Named ''ID'')) None,
       GField ''key'' (Non_Null (Named ''String'')) None]"

definition schema_CancelInput :: "gql_field list" where
  "schema_CancelInput =
      [GField ''task'' (Non_Null (Named ''ID'')) None]"

definition schema_CatalogArgumentInput :: "gql_field list" where
  "schema_CatalogArgumentInput =
      [GField ''key'' (Non_Null (Named ''String'')) None,
       GField ''kind'' (Non_Null (Named ''CatalogValueKind'')) None,
       GField ''required'' (Non_Null (Named ''Boolean'')) (Some ''true''),
       GField ''description'' (Named ''String'') (Some ''null'')]"

definition schema_CatalogComponentInput :: "gql_field list" where
  "schema_CatalogComponentInput =
      [GField ''name'' (Non_Null (Named ''String'')) None,
       GField ''description'' (Named ''String'') (Some ''null''),
       GField ''props'' (Non_Null (Listed (Non_Null (Named ''CatalogPropInput'')))) (Some ''[]''),
       GField ''acceptsChildren'' (Non_Null (Named ''Boolean'')) (Some ''true''),
       GField ''context'' (Non_Null (Named ''ComponentContext'')) (Some ''HTML''),
       GField ''childrenContext'' (Named ''ComponentContext'') (Some ''null''),
       GField ''inheritsContext'' (Non_Null (Named ''Boolean'')) (Some ''false''),
       GField ''downstreamOf'' (Non_Null (Listed (Non_Null (Named ''String'')))) (Some ''[]''),
       GField ''notDownstreamOf'' (Non_Null (Listed (Non_Null (Named ''String'')))) (Some ''[]''),
       GField ''textProp'' (Named ''String'') (Some ''null''),
       GField ''catalog'' (Named ''String'') (Some ''null'')]"

definition schema_CatalogEventFieldInput :: "gql_field list" where
  "schema_CatalogEventFieldInput =
      [GField ''key'' (Non_Null (Named ''String'')) None,
       GField ''kind'' (Non_Null (Named ''CatalogValueKind'')) None,
       GField ''description'' (Named ''String'') (Some ''null'')]"

definition schema_CatalogOperationInput :: "gql_field list" where
  "schema_CatalogOperationInput =
      [GField ''name'' (Non_Null (Named ''String'')) None,
       GField ''description'' (Named ''String'') (Some ''null''),
       GField ''arguments'' (Non_Null (Listed (Non_Null (Named ''CatalogArgumentInput'')))) (Some ''[]''),
       GField ''returns'' (Non_Null (Named ''CatalogValueKind'')) None]"

definition schema_CatalogPropInput :: "gql_field list" where
  "schema_CatalogPropInput =
      [GField ''key'' (Non_Null (Named ''String'')) None,
       GField ''kind'' (Non_Null (Named ''CatalogValueKind'')) None,
       GField ''required'' (Non_Null (Named ''Boolean'')) (Some ''false''),
       GField ''description'' (Named ''String'') (Some ''null''),
       GField ''event'' (Listed (Non_Null (Named ''CatalogEventFieldInput''))) (Some ''null'')]"

definition schema_CollectInput :: "gql_field list" where
  "schema_CollectInput =
      [GField ''drawers'' (Non_Null (Listed (Non_Null (Named ''ID'')))) None]"

definition schema_CreateAssetInput :: "gql_field list" where
  "schema_CreateAssetInput =
      [GField ''ref'' (Non_Null (Named ''String'')) None,
       GField ''store'' (Non_Null (Named ''MediaLike'')) None]"

definition schema_CreateBlokInput :: "gql_field list" where
  "schema_CreateBlokInput =
      [GField ''name'' (Non_Null (Named ''String'')) None,
       GField ''dependencies'' (Listed (Non_Null (Named ''AgentDependencyInput''))) (Some ''null''),
       GField ''description'' (Named ''String'') (Some ''null''),
       GField ''module'' (Named ''String'') (Some ''null''),
       GField ''components'' (Listed (Non_Null (Named ''ComponentNodeInput''))) (Some ''null''),
       GField ''source'' (Named ''String'') (Some ''null''),
       GField ''vocab'' (Non_Null (Named ''Int'')) None,
       GField ''catalogs'' (Listed (Non_Null (Named ''String''))) (Some ''[]''),
       GField ''locals'' (Listed (Non_Null (Named ''BlokLocalInput''))) (Some ''[]''),
       GField ''demo'' (Named ''BlokDemoInput'') (Some ''null''),
       GField ''queries'' (Listed (Non_Null (Named ''BlokQueryInput''))) (Some ''[]''),
       GField ''subscriptions'' (Listed (Non_Null (Named ''BlokSubscriptionInput''))) (Some ''[]''),
       GField ''context'' (Named ''ComponentContext'') (Some ''HTML''),
       GField ''forModel'' (Named ''String'') (Some ''null''),
       GField ''forNode'' (Named ''String'') (Some ''null''),
       GField ''origin'' (Named ''String'') (Some ''null''),
       GField ''originHash'' (Named ''String'') (Some ''null'')]"

definition schema_CreateDashboardInput :: "gql_field list" where
  "schema_CreateDashboardInput =
      [GField ''name'' (Non_Null (Named ''String'')) None,
       GField ''bloks'' (Non_Null (Listed (Non_Null (Named ''String'')))) (Some ''[]'')]"

definition schema_CreateHigherOrderImplementationInput :: "gql_field list" where
  "schema_CreateHigherOrderImplementationInput =
      [GField ''lower'' (Non_Null (Named ''ID'')) None,
       GField ''interface'' (Non_Null (Named ''String'')) None,
       GField ''definition'' (Non_Null (Named ''DefinitionInput'')) None,
       GField ''config'' (Named ''AnyDefault'') (Some ''null''),
       GField ''dependencies'' (Listed (Non_Null (Named ''AgentDependencyInput''))) (Some ''null'')]"

definition schema_CreateShortcutInput :: "gql_field list" where
  "schema_CreateShortcutInput =
      [GField ''name'' (Non_Null (Named ''String'')) None,
       GField ''description'' (Named ''String'') (Some ''null''),
       GField ''action'' (Non_Null (Named ''ID'')) None,
       GField ''args'' (Non_Null (Named ''Args'')) None,
       GField ''allowQuick'' (Non_Null (Named ''Boolean'')) (Some ''false''),
       GField ''useReturns'' (Non_Null (Named ''Boolean'')) (Some ''false''),
       GField ''bindNumber'' (Named ''Int'') (Some ''null''),
       GField ''toolbox'' (Named ''ID'') (Some ''null''),
       GField ''bindings'' (Named ''ShortcutBindingsInput'') (Some ''null'')]"

definition schema_CreateSpaceInput :: "gql_field list" where
  "schema_CreateSpaceInput =
      [GField ''name'' (Non_Null (Named ''String'')) None,
       GField ''placements'' (Listed (Non_Null (Named ''PlacementInput''))) (Some ''null'')]"

definition schema_CreateTestCaseInput :: "gql_field list" where
  "schema_CreateTestCaseInput =
      [GField ''action'' (Non_Null (Named ''ID'')) None,
       GField ''tester'' (Non_Null (Named ''ID'')) None,
       GField ''description'' (Named ''String'') (Some ''null''),
       GField ''name'' (Named ''String'') (Some ''null''),
       GField ''isBenchmark'' (Non_Null (Named ''Boolean'')) (Some ''false'')]"

definition schema_CreateTestResultInput :: "gql_field list" where
  "schema_CreateTestResultInput =
      [GField ''case'' (Non_Null (Named ''ID'')) None,
       GField ''tester'' (Non_Null (Named ''ID'')) None,
       GField ''implementation'' (Non_Null (Named ''ID'')) None,
       GField ''passed'' (Non_Null (Named ''Boolean'')) None,
       GField ''result'' (Named ''AnyDefault'') (Some ''null'')]"

definition schema_DecideInput :: "gql_field list" where
  "schema_DecideInput =
      [GField ''task'' (Non_Null (Named ''ID'')) None,
       GField ''approved'' (Non_Null (Named ''Boolean'')) None,
       GField ''answer'' (Named ''String'') (Some ''null''),
       GField ''values'' (Named ''Args'') (Some ''null'')]"

definition schema_EditBlokInput :: "gql_field list" where
  "schema_EditBlokInput =
      [GField ''blok'' (Named ''ID'') (Some ''null''),
       GField ''materializedBlok'' (Named ''ID'') (Some ''null''),
       GField ''base'' (Named ''ID'') (Some ''null''),
       GField ''components'' (Listed (Non_Null (Named ''ComponentNodeInput''))) (Some ''null''),
       GField ''source'' (Named ''String'') (Some ''null''),
       GField ''module'' (Named ''String'') (Some ''null''),
       GField ''dependencies'' (Listed (Non_Null (Named ''AgentDependencyInput''))) (Some ''null''),
       GField ''args'' (Listed (Non_Null (Named ''ArgPortInput''))) (Some ''null''),
       GField ''vocab'' (Named ''Int'') (Some ''null''),
       GField ''catalogs'' (Listed (Non_Null (Named ''String''))) (Some ''null''),
       GField ''locals'' (Listed (Non_Null (Named ''BlokLocalInput''))) (Some ''null''),
       GField ''demo'' (Named ''BlokDemoInput'') (Some ''null''),
       GField ''queries'' (Listed (Non_Null (Named ''BlokQueryInput''))) (Some ''null''),
       GField ''subscriptions'' (Listed (Non_Null (Named ''BlokSubscriptionInput''))) (Some ''null''),
       GField ''agentMappings'' (Listed (Non_Null (Named ''MappedAgentInput''))) (Some ''null''),
       GField ''message'' (Named ''String'') (Some ''null''),
       GField ''task'' (Named ''ID'') (Some ''null''),
       GField ''dryRun'' (Named ''Boolean'') (Some ''null'')]"

definition schema_FinishMediaUploadInput :: "gql_field list" where
  "schema_FinishMediaUploadInput =
      [GField ''storeId'' (Non_Null (Named ''String'')) None,
       GField ''valid'' (Non_Null (Named ''Boolean'')) (Some ''true'')]"

definition schema_ForkBlokInput :: "gql_field list" where
  "schema_ForkBlokInput =
      [GField ''id'' (Non_Null (Named ''ID'')) None,
       GField ''name'' (Named ''String'') (Some ''null'')]"

definition schema_ImplementAgentInput :: "gql_field list" where
  "schema_ImplementAgentInput =
      [GField ''name'' (Named ''String'') (Some ''null''),
       GField ''description'' (Named ''String'') (Some ''null''),
       GField ''states'' (Listed (Non_Null (Named ''StateImplementationInput''))) (Some ''null''),
       GField ''implementations'' (Listed (Non_Null (Named ''ImplementationInput''))) (Some ''null''),
       GField ''locks'' (Listed (Non_Null (Named ''LockImplementationInput''))) (Some ''null''),
       GField ''bloks'' (Listed (Non_Null (Named ''BlokImplementationInput''))) (Some ''null''),
       GField ''assets'' (Listed (Non_Null (Named ''AssetInput''))) (Some ''null''),
       GField ''hash'' (Named ''String'') (Some ''null'')]"

definition schema_ImplementationActionFilter :: "gql_field list" where
  "schema_ImplementationActionFilter =
      [GField ''AND'' (Named ''ImplementationActionFilter'') None,
       GField ''OR'' (Named ''ImplementationActionFilter'') None,
       GField ''NOT'' (Named ''ImplementationActionFilter'') None,
       GField ''DISTINCT'' (Named ''Boolean'') None,
       GField ''search'' (Named ''String'') None,
       GField ''name'' (Named ''String'') None,
       GField ''ids'' (Listed (Non_Null (Named ''ID''))) None,
       GField ''demands'' (Listed (Non_Null (Named ''PortDemandInput''))) None,
       GField ''anyDemands'' (Listed (Non_Null (Listed (Non_Null (Named ''PortDemandInput''))))) None,
       GField ''kind'' (Named ''ActionKind'') None,
       GField ''protocols'' (Listed (Non_Null (Named ''String''))) None]"

definition schema_ImplementationAgentFilter :: "gql_field list" where
  "schema_ImplementationAgentFilter =
      [GField ''AND'' (Named ''ImplementationAgentFilter'') None,
       GField ''OR'' (Named ''ImplementationAgentFilter'') None,
       GField ''NOT'' (Named ''ImplementationAgentFilter'') None,
       GField ''DISTINCT'' (Named ''Boolean'') None,
       GField ''callerOf'' (Named ''ID'') None,
       GField ''clientId'' (Named ''String'') None,
       GField ''ids'' (Listed (Non_Null (Named ''ID''))) None,
       GField ''hasImplementations'' (Listed (Non_Null (Named ''String''))) None,
       GField ''implementsProtocols'' (Listed (Non_Null (Named ''String''))) None,
       GField ''hasStates'' (Listed (Non_Null (Named ''String''))) None]"

definition schema_ImplementationFilter :: "gql_field list" where
  "schema_ImplementationFilter =
      [GField ''interface'' (Named ''StrFilterLookup'') None,
       GField ''action'' (Named ''ImplementationActionFilter'') None,
       GField ''agent'' (Named ''ImplementationAgentFilter'') None,
       GField ''AND'' (Named ''ImplementationFilter'') None,
       GField ''OR'' (Named ''ImplementationFilter'') None,
       GField ''NOT'' (Named ''ImplementationFilter'') None,
       GField ''DISTINCT'' (Named ''Boolean'') None,
       GField ''active'' (Named ''Boolean'') None,
       GField ''ids'' (Listed (Non_Null (Named ''ID''))) None,
       GField ''actionHash'' (Named ''ActionHash'') None,
       GField ''parameters'' (Listed (Non_Null (Named ''ParamPair''))) None,
       GField ''resolvableFor'' (Named ''ID'') None,
       GField ''search'' (Named ''String'') None,
       GField ''actionDemand'' (Named ''ActionDemandInput'') None]"

definition schema_InterruptInput :: "gql_field list" where
  "schema_InterruptInput =
      [GField ''task'' (Non_Null (Named ''ID'')) None]"

definition schema_MaterializeBlokInput :: "gql_field list" where
  "schema_MaterializeBlokInput =
      [GField ''blok'' (Non_Null (Named ''ID'')) None,
       GField ''dashboard'' (Named ''ID'') (Some ''null''),
       GField ''agentMappings'' (Listed (Non_Null (Named ''BlokAgentMappingInput''))) (Some ''null''),
       GField ''name'' (Named ''String'') (Some ''null''),
       GField ''description'' (Named ''String'') (Some ''null''),
       GField ''scope'' (Non_Null (Named ''MaterializationScope'')) (Some ''DASHBOARD'')]"

definition schema_OffsetPaginationInput :: "gql_field list" where
  "schema_OffsetPaginationInput =
      [GField ''offset'' (Non_Null (Named ''Int'')) (Some ''0''),
       GField ''limit'' (Named ''Int'') None]"

definition schema_ParamPair :: "gql_field list" where
  "schema_ParamPair =
      [GField ''key'' (Non_Null (Named ''String'')) None,
       GField ''value'' (Non_Null (Named ''String'')) None]"

definition schema_PauseInput :: "gql_field list" where
  "schema_PauseInput =
      [GField ''task'' (Non_Null (Named ''ID'')) None]"

definition schema_PinMaterializedBlokInput :: "gql_field list" where
  "schema_PinMaterializedBlokInput =
      [GField ''id'' (Non_Null (Named ''ID'')) None,
       GField ''revision'' (Named ''ID'') (Some ''null'')]"

definition schema_PlacementInput :: "gql_field list" where
  "schema_PlacementInput =
      [GField ''role'' (Named ''String'') (Some ''null''),
       GField ''affineMatrix'' (Listed (Non_Null (Listed (Non_Null (Named ''Float''))))) (Some ''null''),
       GField ''agent'' (Named ''ID'') (Some ''null''),
       GField ''blok'' (Named ''ID'') (Some ''null'')]"

definition schema_PortDemandInput :: "gql_field list" where
  "schema_PortDemandInput =
      [GField ''kind'' (Non_Null (Named ''DemandKind'')) None,
       GField ''matches'' (Listed (Non_Null (Named ''PortMatchInput''))) (Some ''null''),
       GField ''forceLength'' (Named ''Int'') (Some ''null''),
       GField ''forceNonNullableLength'' (Named ''Int'') (Some ''null''),
       GField ''forceStructureLength'' (Named ''Int'') (Some ''null'')]"

definition schema_RegisterModuleInput :: "gql_field list" where
  "schema_RegisterModuleInput =
      [GField ''name'' (Non_Null (Named ''String'')) None,
       GField ''description'' (Named ''String'') (Some ''null''),
       GField ''components'' (Non_Null (Listed (Non_Null (Named ''CatalogComponentInput'')))) (Some ''[]''),
       GField ''operations'' (Non_Null (Listed (Non_Null (Named ''CatalogOperationInput'')))) (Some ''[]''),
       GField ''catalogs'' (Non_Null (Listed (Non_Null (Named ''String'')))) (Some ''[]''),
       GField ''widgetDefaults'' (Non_Null (Listed (Non_Null (Named ''WidgetDefaultInput'')))) (Some ''[]'')]"

definition schema_RequestAssetUploadInput :: "gql_field list" where
  "schema_RequestAssetUploadInput =
      [GField ''ref'' (Non_Null (Named ''String'')) None,
       GField ''size'' (Named ''Int'') (Some ''null'')]"

definition schema_RequestMediaAccessInput :: "gql_field list" where
  "schema_RequestMediaAccessInput =
      [GField ''storeId'' (Non_Null (Named ''String'')) None]"

definition schema_RequestMediaUploadInput :: "gql_field list" where
  "schema_RequestMediaUploadInput =
      [GField ''originalFileName'' (Non_Null (Named ''String'')) None,
       GField ''fileSize'' (Non_Null (Named ''ByteCount'')) None,
       GField ''contentType'' (Named ''String'') (Some ''null'')]"

definition schema_ResumeInput :: "gql_field list" where
  "schema_ResumeInput =
      [GField ''task'' (Non_Null (Named ''ID'')) None,
       GField ''step'' (Non_Null (Named ''Boolean'')) (Some ''false'')]"

definition schema_RevertBlokInput :: "gql_field list" where
  "schema_RevertBlokInput =
      [GField ''blok'' (Non_Null (Named ''ID'')) None,
       GField ''to'' (Non_Null (Named ''ID'')) None,
       GField ''base'' (Non_Null (Named ''ID'')) None,
       GField ''message'' (Named ''String'') (Some ''null''),
       GField ''task'' (Named ''ID'') (Some ''null'')]"

definition schema_ShelveInMemoryDrawerInput :: "gql_field list" where
  "schema_ShelveInMemoryDrawerInput =
      [GField ''identifier'' (Non_Null (Named ''Identifier'')) None,
       GField ''resourceId'' (Non_Null (Named ''String'')) None,
       GField ''label'' (Named ''String'') (Some ''null''),
       GField ''description'' (Named ''String'') (Some ''null'')]"

definition schema_ShortcutBindingsInput :: "gql_field list" where
  "schema_ShortcutBindingsInput =
      [GField ''users'' (Listed (Non_Null (Named ''ID''))) (Some ''null''),
       GField ''app'' (Named ''String'') (Some ''null''),
       GField ''client'' (Named ''String'') (Some ''null''),
       GField ''device'' (Named ''String'') (Some ''null'')]"

definition schema_ShortcutFilter :: "gql_field list" where
  "schema_ShortcutFilter =
      [GField ''AND'' (Named ''ShortcutFilter'') None,
       GField ''OR'' (Named ''ShortcutFilter'') None,
       GField ''NOT'' (Named ''ShortcutFilter'') None,
       GField ''DISTINCT'' (Named ''Boolean'') None,
       GField ''search'' (Named ''String'') None,
       GField ''ids'' (Listed (Non_Null (Named ''ID''))) None,
       GField ''demands'' (Listed (Non_Null (Named ''PortDemandInput''))) None,
       GField ''anyDemands'' (Listed (Non_Null (Listed (Non_Null (Named ''PortDemandInput''))))) None,
       GField ''assignable'' (Named ''Boolean'') None,
       GField ''toolbox'' (Named ''ID'') None,
       GField ''pinned'' (Named ''Boolean'') None]"

definition schema_ShortcutOrder :: "gql_field list" where
  "schema_ShortcutOrder =
      [GField ''name'' (Named ''Ordering'') None,
       GField ''assignable'' (Named ''Ordering'') None,
       GField ''pinned'' (Named ''Ordering'') None]"

definition schema_StrFilterLookup :: "gql_field list" where
  "schema_StrFilterLookup =
      [GField ''exact'' (Named ''String'') None,
       GField ''iExact'' (Named ''String'') None,
       GField ''contains'' (Named ''String'') None,
       GField ''iContains'' (Named ''String'') None,
       GField ''inList'' (Listed (Non_Null (Named ''String''))) None,
       GField ''gt'' (Named ''String'') None,
       GField ''gte'' (Named ''String'') None,
       GField ''lt'' (Named ''String'') None,
       GField ''lte'' (Named ''String'') None,
       GField ''startsWith'' (Named ''String'') None,
       GField ''iStartsWith'' (Named ''String'') None,
       GField ''endsWith'' (Named ''String'') None,
       GField ''iEndsWith'' (Named ''String'') None,
       GField ''range'' (Listed (Non_Null (Named ''String''))) None,
       GField ''isNull'' (Named ''Boolean'') None,
       GField ''regex'' (Named ''String'') None,
       GField ''iRegex'' (Named ''String'') None]"

definition schema_ToolboxFilter :: "gql_field list" where
  "schema_ToolboxFilter =
      [GField ''name'' (Named ''StrFilterLookup'') None,
       GField ''AND'' (Named ''ToolboxFilter'') None,
       GField ''OR'' (Named ''ToolboxFilter'') None,
       GField ''NOT'' (Named ''ToolboxFilter'') None,
       GField ''DISTINCT'' (Named ''Boolean'') None,
       GField ''ids'' (Listed (Non_Null (Named ''ID''))) None,
       GField ''search'' (Named ''String'') None]"

definition schema_ToolboxOrder :: "gql_field list" where
  "schema_ToolboxOrder =
      [GField ''name'' (Named ''Ordering'') None]"

definition schema_UnshelveMemoryDrawerInput :: "gql_field list" where
  "schema_UnshelveMemoryDrawerInput =
      [GField ''id'' (Non_Null (Named ''String'')) None]"

definition schema_UpdateBlokInput :: "gql_field list" where
  "schema_UpdateBlokInput =
      [GField ''id'' (Non_Null (Named ''ID'')) None,
       GField ''name'' (Named ''String'') (Some ''null''),
       GField ''description'' (Named ''String'') (Some ''null''),
       GField ''components'' (Listed (Non_Null (Named ''ComponentNodeInput''))) (Some ''null''),
       GField ''source'' (Named ''String'') (Some ''null''),
       GField ''module'' (Named ''String'') (Some ''null''),
       GField ''dependencies'' (Listed (Non_Null (Named ''AgentDependencyInput''))) (Some ''null'')]"

definition schema_UpdateMaterializedBlokInput :: "gql_field list" where
  "schema_UpdateMaterializedBlokInput =
      [GField ''id'' (Non_Null (Named ''ID'')) None,
       GField ''agentMappings'' (Listed (Non_Null (Named ''MappedAgentInput''))) (Some ''null'')]"

definition schema_WidgetDefaultInput :: "gql_field list" where
  "schema_WidgetDefaultInput =
      [GField ''kind'' (Named ''PortKind'') (Some ''null''),
       GField ''identifier'' (Named ''String'') (Some ''null''),
       GField ''widget'' (Named ''AssignWidgetInput'') (Some ''null''),
       GField ''returnWidget'' (Named ''ReturnWidgetInput'') (Some ''null'')]"

lemmas schema_enums =
  schema_AgentKind_def schema_AssignWidgetKind_def schema_CatalogValueKind_def
  schema_ComponentContext_def schema_DemandKind_def schema_DiagnosticLevel_def
  schema_LocalKind_def schema_LogLevel_def schema_MaterializationScope_def schema_Ordering_def
  schema_ReturnWidgetKind_def schema_TaskInstructKind_def

lemmas server_schema =
  schema_ActionFilter_def schema_ActionOrder_def schema_AgentFilter_def schema_AgentInput_def
  schema_AssignInput_def schema_BlokAgentMappingInput_def schema_CancelInput_def
  schema_CatalogArgumentInput_def schema_CatalogComponentInput_def
  schema_CatalogEventFieldInput_def schema_CatalogOperationInput_def
  schema_CatalogPropInput_def schema_CollectInput_def schema_CreateAssetInput_def
  schema_CreateBlokInput_def schema_CreateDashboardInput_def
  schema_CreateHigherOrderImplementationInput_def schema_CreateShortcutInput_def
  schema_CreateSpaceInput_def schema_CreateTestCaseInput_def schema_CreateTestResultInput_def
  schema_DecideInput_def schema_EditBlokInput_def schema_FinishMediaUploadInput_def
  schema_ForkBlokInput_def schema_ImplementAgentInput_def
  schema_ImplementationActionFilter_def schema_ImplementationAgentFilter_def
  schema_ImplementationFilter_def schema_InterruptInput_def schema_MaterializeBlokInput_def
  schema_OffsetPaginationInput_def schema_ParamPair_def schema_PauseInput_def
  schema_PinMaterializedBlokInput_def schema_PlacementInput_def schema_PortDemandInput_def
  schema_RegisterModuleInput_def schema_RequestAssetUploadInput_def
  schema_RequestMediaAccessInput_def schema_RequestMediaUploadInput_def schema_ResumeInput_def
  schema_RevertBlokInput_def schema_ShelveInMemoryDrawerInput_def
  schema_ShortcutBindingsInput_def schema_ShortcutFilter_def schema_ShortcutOrder_def
  schema_StrFilterLookup_def schema_ToolboxFilter_def schema_ToolboxOrder_def
  schema_UnshelveMemoryDrawerInput_def schema_UpdateBlokInput_def
  schema_UpdateMaterializedBlokInput_def schema_WidgetDefaultInput_def

end
