(* ===== verification/Protocol_Enums.thy ===== *)
theory Protocol_Enums
  imports Prelude
begin

text \<open>
  The enums of the protocol: \<open>rekuest/protocol/schema.py\<close>, the classes of \<open>str\<close> and \<open>Enum\<close>.

  A member is a constructor, named by its class and its own name; \<open>X_value\<close> is its value, which
  is also what \<open>str\<close> gives of it and what goes on the wire; \<open>X_members\<close> are the members in order.
  \<open>enum_of\<close> is the class applied to a value, where Python raises a \<open>ValueError\<close> for any other.
\<close>

definition enum_of :: "'e list \<Rightarrow> ('e \<Rightarrow> string) \<Rightarrow> string \<Rightarrow> 'e option" where
  "enum_of members val s = List.find (\<lambda>m. val m = s) members"

locale str_enum =
  fixes members :: "'e list" and val :: "'e \<Rightarrow> string"
  assumes all_members: "m \<in> set members"
    and values_differ: "distinct (map val members)"
begin

lemma reads_only_values: "enum_of members val s = Some m \<longleftrightarrow> val m = s"
proof -
  have found: "val m' = s" if "enum_of members val s = Some m'" for m'
    using that by (auto simp: enum_of_def find_Some_iff)
  have inj: "m' = m" if "val m' = val m" for m'
    using values_differ all_members [of m] all_members [of m'] that
    by (simp add: distinct_map inj_on_def)
  have "\<exists>m'. enum_of members val s = Some m'" if "val m = s"
    using all_members [of m] that by (cases "enum_of members val s") (auto simp: enum_of_def find_None_iff)
  then show ?thesis using found inj by (metis option.inject)
qed

lemma read_back: "enum_of members val (val m) = Some m"
  by (simp add: reads_only_values)

lemma refuses_others: "enum_of members val s = None \<longleftrightarrow> s \<notin> range val"
  using all_members by (auto simp: enum_of_def find_None_iff)

end

datatype AgentKind =
    AgentKind_WEBSOCKET
  | AgentKind_WEBHOOK

primrec AgentKind_value :: "AgentKind \<Rightarrow> string" where
  "AgentKind_value AgentKind_WEBSOCKET = ''WEBSOCKET''"
| "AgentKind_value AgentKind_WEBHOOK = ''WEBHOOK''"

definition AgentKind_members :: "AgentKind list" where
  "AgentKind_members =
     [AgentKind_WEBSOCKET,
      AgentKind_WEBHOOK]"

interpretation agentKind: str_enum AgentKind_members AgentKind_value
proof unfold_locales
  show "m \<in> set AgentKind_members" for m by (cases m) (simp_all add: AgentKind_members_def)
qed (simp add: AgentKind_members_def)

datatype AssignWidgetKind =
    AssignWidgetKind_SEARCH
  | AssignWidgetKind_CHOICE
  | AssignWidgetKind_SLIDER
  | AssignWidgetKind_CUSTOM
  | AssignWidgetKind_STRING
  | AssignWidgetKind_STATE_CHOICE
  | AssignWidgetKind_PROXY

primrec AssignWidgetKind_value :: "AssignWidgetKind \<Rightarrow> string" where
  "AssignWidgetKind_value AssignWidgetKind_SEARCH = ''SEARCH''"
| "AssignWidgetKind_value AssignWidgetKind_CHOICE = ''CHOICE''"
| "AssignWidgetKind_value AssignWidgetKind_SLIDER = ''SLIDER''"
| "AssignWidgetKind_value AssignWidgetKind_CUSTOM = ''CUSTOM''"
| "AssignWidgetKind_value AssignWidgetKind_STRING = ''STRING''"
| "AssignWidgetKind_value AssignWidgetKind_STATE_CHOICE = ''STATE_CHOICE''"
| "AssignWidgetKind_value AssignWidgetKind_PROXY = ''PROXY''"

definition AssignWidgetKind_members :: "AssignWidgetKind list" where
  "AssignWidgetKind_members =
     [AssignWidgetKind_SEARCH,
      AssignWidgetKind_CHOICE,
      AssignWidgetKind_SLIDER,
      AssignWidgetKind_CUSTOM,
      AssignWidgetKind_STRING,
      AssignWidgetKind_STATE_CHOICE,
      AssignWidgetKind_PROXY]"

interpretation assignWidgetKind: str_enum AssignWidgetKind_members AssignWidgetKind_value
proof unfold_locales
  show "m \<in> set AssignWidgetKind_members" for m by (cases m) (simp_all add: AssignWidgetKind_members_def)
qed (simp add: AssignWidgetKind_members_def)

datatype CatalogValueKind =
    CatalogValueKind_STRING
  | CatalogValueKind_INT
  | CatalogValueKind_FLOAT
  | CatalogValueKind_BOOL
  | CatalogValueKind_DICT
  | CatalogValueKind_LIST
  | CatalogValueKind_ANY
  | CatalogValueKind_CALLBACK
  | CatalogValueKind_ASSET

primrec CatalogValueKind_value :: "CatalogValueKind \<Rightarrow> string" where
  "CatalogValueKind_value CatalogValueKind_STRING = ''STRING''"
| "CatalogValueKind_value CatalogValueKind_INT = ''INT''"
| "CatalogValueKind_value CatalogValueKind_FLOAT = ''FLOAT''"
| "CatalogValueKind_value CatalogValueKind_BOOL = ''BOOL''"
| "CatalogValueKind_value CatalogValueKind_DICT = ''DICT''"
| "CatalogValueKind_value CatalogValueKind_LIST = ''LIST''"
| "CatalogValueKind_value CatalogValueKind_ANY = ''ANY''"
| "CatalogValueKind_value CatalogValueKind_CALLBACK = ''CALLBACK''"
| "CatalogValueKind_value CatalogValueKind_ASSET = ''ASSET''"

definition CatalogValueKind_members :: "CatalogValueKind list" where
  "CatalogValueKind_members =
     [CatalogValueKind_STRING,
      CatalogValueKind_INT,
      CatalogValueKind_FLOAT,
      CatalogValueKind_BOOL,
      CatalogValueKind_DICT,
      CatalogValueKind_LIST,
      CatalogValueKind_ANY,
      CatalogValueKind_CALLBACK,
      CatalogValueKind_ASSET]"

interpretation catalogValueKind: str_enum CatalogValueKind_members CatalogValueKind_value
proof unfold_locales
  show "m \<in> set CatalogValueKind_members" for m by (cases m) (simp_all add: CatalogValueKind_members_def)
qed (simp add: CatalogValueKind_members_def)

datatype ComponentContext =
    ComponentContext_HTML
  | ComponentContext_SCENE
  | ComponentContext_LOGO
  | ComponentContext_ACTION_LOGO
  | ComponentContext_OVERLAY

primrec ComponentContext_value :: "ComponentContext \<Rightarrow> string" where
  "ComponentContext_value ComponentContext_HTML = ''HTML''"
| "ComponentContext_value ComponentContext_SCENE = ''SCENE''"
| "ComponentContext_value ComponentContext_LOGO = ''LOGO''"
| "ComponentContext_value ComponentContext_ACTION_LOGO = ''ACTION_LOGO''"
| "ComponentContext_value ComponentContext_OVERLAY = ''OVERLAY''"

definition ComponentContext_members :: "ComponentContext list" where
  "ComponentContext_members =
     [ComponentContext_HTML,
      ComponentContext_SCENE,
      ComponentContext_LOGO,
      ComponentContext_ACTION_LOGO,
      ComponentContext_OVERLAY]"

interpretation componentContext: str_enum ComponentContext_members ComponentContext_value
proof unfold_locales
  show "m \<in> set ComponentContext_members" for m by (cases m) (simp_all add: ComponentContext_members_def)
qed (simp add: ComponentContext_members_def)

datatype DemandKind =
    DemandKind_ARGS
  | DemandKind_RETURNS

primrec DemandKind_value :: "DemandKind \<Rightarrow> string" where
  "DemandKind_value DemandKind_ARGS = ''ARGS''"
| "DemandKind_value DemandKind_RETURNS = ''RETURNS''"

definition DemandKind_members :: "DemandKind list" where
  "DemandKind_members =
     [DemandKind_ARGS,
      DemandKind_RETURNS]"

interpretation demandKind: str_enum DemandKind_members DemandKind_value
proof unfold_locales
  show "m \<in> set DemandKind_members" for m by (cases m) (simp_all add: DemandKind_members_def)
qed (simp add: DemandKind_members_def)

datatype DiagnosticLevel =
    DiagnosticLevel_WARNING
  | DiagnosticLevel_ERROR

primrec DiagnosticLevel_value :: "DiagnosticLevel \<Rightarrow> string" where
  "DiagnosticLevel_value DiagnosticLevel_WARNING = ''WARNING''"
| "DiagnosticLevel_value DiagnosticLevel_ERROR = ''ERROR''"

definition DiagnosticLevel_members :: "DiagnosticLevel list" where
  "DiagnosticLevel_members =
     [DiagnosticLevel_WARNING,
      DiagnosticLevel_ERROR]"

interpretation diagnosticLevel: str_enum DiagnosticLevel_members DiagnosticLevel_value
proof unfold_locales
  show "m \<in> set DiagnosticLevel_members" for m by (cases m) (simp_all add: DiagnosticLevel_members_def)
qed (simp add: DiagnosticLevel_members_def)

datatype LocalKind =
    LocalKind_INT
  | LocalKind_STRING
  | LocalKind_STRUCTURE
  | LocalKind_LIST
  | LocalKind_BOOL
  | LocalKind_DICT
  | LocalKind_FLOAT
  | LocalKind_DATE
  | LocalKind_UNION
  | LocalKind_ENUM
  | LocalKind_MODEL
  | LocalKind_MEMORY_STRUCTURE
  | LocalKind_INTERFACE
  | LocalKind_QUANTITY
  | LocalKind_ANY

primrec LocalKind_value :: "LocalKind \<Rightarrow> string" where
  "LocalKind_value LocalKind_INT = ''INT''"
| "LocalKind_value LocalKind_STRING = ''STRING''"
| "LocalKind_value LocalKind_STRUCTURE = ''STRUCTURE''"
| "LocalKind_value LocalKind_LIST = ''LIST''"
| "LocalKind_value LocalKind_BOOL = ''BOOL''"
| "LocalKind_value LocalKind_DICT = ''DICT''"
| "LocalKind_value LocalKind_FLOAT = ''FLOAT''"
| "LocalKind_value LocalKind_DATE = ''DATE''"
| "LocalKind_value LocalKind_UNION = ''UNION''"
| "LocalKind_value LocalKind_ENUM = ''ENUM''"
| "LocalKind_value LocalKind_MODEL = ''MODEL''"
| "LocalKind_value LocalKind_MEMORY_STRUCTURE = ''MEMORY_STRUCTURE''"
| "LocalKind_value LocalKind_INTERFACE = ''INTERFACE''"
| "LocalKind_value LocalKind_QUANTITY = ''QUANTITY''"
| "LocalKind_value LocalKind_ANY = ''ANY''"

definition LocalKind_members :: "LocalKind list" where
  "LocalKind_members =
     [LocalKind_INT,
      LocalKind_STRING,
      LocalKind_STRUCTURE,
      LocalKind_LIST,
      LocalKind_BOOL,
      LocalKind_DICT,
      LocalKind_FLOAT,
      LocalKind_DATE,
      LocalKind_UNION,
      LocalKind_ENUM,
      LocalKind_MODEL,
      LocalKind_MEMORY_STRUCTURE,
      LocalKind_INTERFACE,
      LocalKind_QUANTITY,
      LocalKind_ANY]"

interpretation localKind: str_enum LocalKind_members LocalKind_value
proof unfold_locales
  show "m \<in> set LocalKind_members" for m by (cases m) (simp_all add: LocalKind_members_def)
qed (simp add: LocalKind_members_def)

datatype LogLevel =
    LogLevel_DEBUG
  | LogLevel_INFO
  | LogLevel_ERROR
  | LogLevel_WARN
  | LogLevel_CRITICAL

primrec LogLevel_value :: "LogLevel \<Rightarrow> string" where
  "LogLevel_value LogLevel_DEBUG = ''DEBUG''"
| "LogLevel_value LogLevel_INFO = ''INFO''"
| "LogLevel_value LogLevel_ERROR = ''ERROR''"
| "LogLevel_value LogLevel_WARN = ''WARN''"
| "LogLevel_value LogLevel_CRITICAL = ''CRITICAL''"

definition LogLevel_members :: "LogLevel list" where
  "LogLevel_members =
     [LogLevel_DEBUG,
      LogLevel_INFO,
      LogLevel_ERROR,
      LogLevel_WARN,
      LogLevel_CRITICAL]"

interpretation logLevel: str_enum LogLevel_members LogLevel_value
proof unfold_locales
  show "m \<in> set LogLevel_members" for m by (cases m) (simp_all add: LogLevel_members_def)
qed (simp add: LogLevel_members_def)

datatype MaterializationScope =
    MaterializationScope_DASHBOARD
  | MaterializationScope_MESSAGE
  | MaterializationScope_TASK

primrec MaterializationScope_value :: "MaterializationScope \<Rightarrow> string" where
  "MaterializationScope_value MaterializationScope_DASHBOARD = ''DASHBOARD''"
| "MaterializationScope_value MaterializationScope_MESSAGE = ''MESSAGE''"
| "MaterializationScope_value MaterializationScope_TASK = ''TASK''"

definition MaterializationScope_members :: "MaterializationScope list" where
  "MaterializationScope_members =
     [MaterializationScope_DASHBOARD,
      MaterializationScope_MESSAGE,
      MaterializationScope_TASK]"

interpretation materializationScope: str_enum MaterializationScope_members MaterializationScope_value
proof unfold_locales
  show "m \<in> set MaterializationScope_members" for m by (cases m) (simp_all add: MaterializationScope_members_def)
qed (simp add: MaterializationScope_members_def)

datatype Ordering =
    Ordering_ASC
  | Ordering_ASC_NULLS_FIRST
  | Ordering_ASC_NULLS_LAST
  | Ordering_DESC
  | Ordering_DESC_NULLS_FIRST
  | Ordering_DESC_NULLS_LAST

primrec Ordering_value :: "Ordering \<Rightarrow> string" where
  "Ordering_value Ordering_ASC = ''ASC''"
| "Ordering_value Ordering_ASC_NULLS_FIRST = ''ASC_NULLS_FIRST''"
| "Ordering_value Ordering_ASC_NULLS_LAST = ''ASC_NULLS_LAST''"
| "Ordering_value Ordering_DESC = ''DESC''"
| "Ordering_value Ordering_DESC_NULLS_FIRST = ''DESC_NULLS_FIRST''"
| "Ordering_value Ordering_DESC_NULLS_LAST = ''DESC_NULLS_LAST''"

definition Ordering_members :: "Ordering list" where
  "Ordering_members =
     [Ordering_ASC,
      Ordering_ASC_NULLS_FIRST,
      Ordering_ASC_NULLS_LAST,
      Ordering_DESC,
      Ordering_DESC_NULLS_FIRST,
      Ordering_DESC_NULLS_LAST]"

interpretation ordering: str_enum Ordering_members Ordering_value
proof unfold_locales
  show "m \<in> set Ordering_members" for m by (cases m) (simp_all add: Ordering_members_def)
qed (simp add: Ordering_members_def)

datatype ReturnWidgetKind =
    ReturnWidgetKind_CHOICE
  | ReturnWidgetKind_CUSTOM

primrec ReturnWidgetKind_value :: "ReturnWidgetKind \<Rightarrow> string" where
  "ReturnWidgetKind_value ReturnWidgetKind_CHOICE = ''CHOICE''"
| "ReturnWidgetKind_value ReturnWidgetKind_CUSTOM = ''CUSTOM''"

definition ReturnWidgetKind_members :: "ReturnWidgetKind list" where
  "ReturnWidgetKind_members =
     [ReturnWidgetKind_CHOICE,
      ReturnWidgetKind_CUSTOM]"

interpretation returnWidgetKind: str_enum ReturnWidgetKind_members ReturnWidgetKind_value
proof unfold_locales
  show "m \<in> set ReturnWidgetKind_members" for m by (cases m) (simp_all add: ReturnWidgetKind_members_def)
qed (simp add: ReturnWidgetKind_members_def)

datatype TaskInstructKind =
    TaskInstructKind_ASSIGN
  | TaskInstructKind_CANCEL
  | TaskInstructKind_RESUME
  | TaskInstructKind_PAUSE
  | TaskInstructKind_INTERRUPT
  | TaskInstructKind_COLLECT

primrec TaskInstructKind_value :: "TaskInstructKind \<Rightarrow> string" where
  "TaskInstructKind_value TaskInstructKind_ASSIGN = ''ASSIGN''"
| "TaskInstructKind_value TaskInstructKind_CANCEL = ''CANCEL''"
| "TaskInstructKind_value TaskInstructKind_RESUME = ''RESUME''"
| "TaskInstructKind_value TaskInstructKind_PAUSE = ''PAUSE''"
| "TaskInstructKind_value TaskInstructKind_INTERRUPT = ''INTERRUPT''"
| "TaskInstructKind_value TaskInstructKind_COLLECT = ''COLLECT''"

definition TaskInstructKind_members :: "TaskInstructKind list" where
  "TaskInstructKind_members =
     [TaskInstructKind_ASSIGN,
      TaskInstructKind_CANCEL,
      TaskInstructKind_RESUME,
      TaskInstructKind_PAUSE,
      TaskInstructKind_INTERRUPT,
      TaskInstructKind_COLLECT]"

interpretation taskInstructKind: str_enum TaskInstructKind_members TaskInstructKind_value
proof unfold_locales
  show "m \<in> set TaskInstructKind_members" for m by (cases m) (simp_all add: TaskInstructKind_members_def)
qed (simp add: TaskInstructKind_members_def)

end
