(* ===== verification/Api_Inputs.thy ===== *)
theory Api_Inputs
  imports Api_Operations Api_Classes Protocol_Inputs Server_Schema Protocol_Enums
begin

text \<open>
  The inputs against the server's schema: every enum and input class of \<open>rekuest/protocol/schema.py\<close>
  with what \<open>schema.graphql\<close> declares under its name, and every method of
  \<open>rekuest/api/schema.py\<close> with the operation class it sends; then what becomes of a call on its
  way through both.
\<close>

section \<open>The classes implement the schema\<close>

definition input_types :: "(string \<times> py_field list \<times> gql_field list) list" where
  "input_types =
     [(''ActionFilter'', ActionFilter, schema_ActionFilter),
      (''AgentFilter'', AgentFilter, schema_AgentFilter),
      (''AgentInput'', AgentInput, schema_AgentInput),
      (''BlokAgentMappingInput'', BlokAgentMappingInput, schema_BlokAgentMappingInput),
      (''CatalogArgumentInput'', CatalogArgumentInput, schema_CatalogArgumentInput),
      (''CatalogComponentInput'', CatalogComponentInput, schema_CatalogComponentInput),
      (''CatalogEventFieldInput'', CatalogEventFieldInput, schema_CatalogEventFieldInput),
      (''CatalogOperationInput'', CatalogOperationInput, schema_CatalogOperationInput),
      (''CatalogPropInput'', CatalogPropInput, schema_CatalogPropInput),
      (''CollectInput'', CollectInput, schema_CollectInput),
      (''CreateAssetInput'', CreateAssetInput, schema_CreateAssetInput),
      (''CreateBlokInput'', CreateBlokInput, schema_CreateBlokInput),
      (''CreateDashboardInput'', CreateDashboardInput, schema_CreateDashboardInput),
      (''CreateHigherOrderImplementationInput'', CreateHigherOrderImplementationInput, schema_CreateHigherOrderImplementationInput),
      (''CreateShortcutInput'', CreateShortcutInput, schema_CreateShortcutInput),
      (''CreateSpaceInput'', CreateSpaceInput, schema_CreateSpaceInput),
      (''CreateTestCaseInput'', CreateTestCaseInput, schema_CreateTestCaseInput),
      (''CreateTestResultInput'', CreateTestResultInput, schema_CreateTestResultInput),
      (''EditBlokInput'', EditBlokInput, schema_EditBlokInput),
      (''FinishMediaUploadInput'', FinishMediaUploadInput, schema_FinishMediaUploadInput),
      (''ForkBlokInput'', ForkBlokInput, schema_ForkBlokInput),
      (''ImplementationActionFilter'', ImplementationActionFilter, schema_ImplementationActionFilter),
      (''ImplementationAgentFilter'', ImplementationAgentFilter, schema_ImplementationAgentFilter),
      (''ImplementationFilter'', ImplementationFilter, schema_ImplementationFilter),
      (''InterruptInput'', InterruptInput, schema_InterruptInput),
      (''MaterializeBlokInput'', MaterializeBlokInput, schema_MaterializeBlokInput),
      (''OffsetPaginationInput'', OffsetPaginationInput, schema_OffsetPaginationInput),
      (''ParamPair'', ParamPair, schema_ParamPair),
      (''PinMaterializedBlokInput'', PinMaterializedBlokInput, schema_PinMaterializedBlokInput),
      (''PlacementInput'', PlacementInput, schema_PlacementInput),
      (''PortDemandInput'', PortDemandInput, schema_PortDemandInput),
      (''RegisterModuleInput'', RegisterModuleInput, schema_RegisterModuleInput),
      (''RequestAssetUploadInput'', RequestAssetUploadInput, schema_RequestAssetUploadInput),
      (''RequestMediaAccessInput'', RequestMediaAccessInput, schema_RequestMediaAccessInput),
      (''RequestMediaUploadInput'', RequestMediaUploadInput, schema_RequestMediaUploadInput),
      (''RevertBlokInput'', RevertBlokInput, schema_RevertBlokInput),
      (''ShelveInMemoryDrawerInput'', ShelveInMemoryDrawerInput, schema_ShelveInMemoryDrawerInput),
      (''ShortcutBindingsInput'', ShortcutBindingsInput, schema_ShortcutBindingsInput),
      (''ShortcutFilter'', ShortcutFilter, schema_ShortcutFilter),
      (''StrFilterLookup'', StrFilterLookup, schema_StrFilterLookup),
      (''ToolboxFilter'', ToolboxFilter, schema_ToolboxFilter),
      (''UnshelveMemoryDrawerInput'', UnshelveMemoryDrawerInput, schema_UnshelveMemoryDrawerInput),
      (''UpdateBlokInput'', UpdateBlokInput, schema_UpdateBlokInput),
      (''UpdateMaterializedBlokInput'', UpdateMaterializedBlokInput, schema_UpdateMaterializedBlokInput),
      (''WidgetDefaultInput'', WidgetDefaultInput, schema_WidgetDefaultInput)]"

definition one_of_types :: "(py_field list list \<times> gql_field list) list" where
  "one_of_types =
     [(ActionOrder, schema_ActionOrder), (ShortcutOrder, schema_ShortcutOrder),
      (ToolboxOrder, schema_ToolboxOrder)]"

definition enum_types :: "(string list \<times> string list) list" where
  "enum_types =
     [(map AgentKind_value AgentKind_members, schema_AgentKind),
      (map AssignWidgetKind_value AssignWidgetKind_members, schema_AssignWidgetKind),
      (map CatalogValueKind_value CatalogValueKind_members, schema_CatalogValueKind),
      (map ComponentContext_value ComponentContext_members, schema_ComponentContext),
      (map DemandKind_value DemandKind_members, schema_DemandKind),
      (map DiagnosticLevel_value DiagnosticLevel_members, schema_DiagnosticLevel),
      (map LocalKind_value LocalKind_members, schema_LocalKind),
      (map LogLevel_value LogLevel_members, schema_LogLevel),
      (map MaterializationScope_value MaterializationScope_members, schema_MaterializationScope),
      (map Ordering_value Ordering_members, schema_Ordering),
      (map ReturnWidgetKind_value ReturnWidgetKind_members, schema_ReturnWidgetKind),
      (map TaskInstructKind_value TaskInstructKind_members, schema_TaskInstructKind)]"

lemmas enum_members =
  AgentKind_members_def AssignWidgetKind_members_def CatalogValueKind_members_def
  ComponentContext_members_def DemandKind_members_def DiagnosticLevel_members_def
  LocalKind_members_def LogLevel_members_def MaterializationScope_members_def
  Ordering_members_def ReturnWidgetKind_members_def TaskInstructKind_members_def

lemma enums_agree: "list_all (\<lambda>(vs, ms). vs = ms) enum_types"
  by (simp add: enum_types_def enum_members schema_enums)

lemma one_of_types_agree: "list_all (\<lambda>(vs, gs). implements_one_of vs gs) one_of_types"
  by code_simp

lemma input_types_agree:
  "list_all (\<lambda>(n, decls, gs). n = ''AgentFilter'' \<or> implements (class_fields decls) gs) input_types"
  by code_simp

text \<open>
  C40. The input classes and the server's schema agree. Every enum has the schema's values in its order; every input class
  has the schema's fields in its order, each under the schema's name, with its type and its
  default, and optional exactly if the server lets it be left out; every union has one class per
  field of its \<open>@oneOf\<close> type. The one exception is \<open>AgentFilter\<close>: its body declares \<open>distinct\<close> twice,
  so the schema's \<open>DISTINCT\<close> is no field of the class, nor a name it accepts; all it has is right.
\<close>

theorem inputs_implement_the_schema:
  "list_all (\<lambda>(vs, ms). vs = ms) enum_types \<and>
   list_all (\<lambda>(vs, gs). implements_one_of vs gs) one_of_types \<and>
   list_all (\<lambda>(n, decls, gs). n = ''AgentFilter'' \<or> implements (class_fields decls) gs) input_types \<and>
   filter (\<lambda>g. gf_name g \<notin> set (concat (map accepted_names (class_fields AgentFilter)))) schema_AgentFilter =
     [GField ''DISTINCT'' (Named ''Boolean'') None] \<and>
   list_all (\<lambda>f. list_ex (implements_field f) schema_AgentFilter) (class_fields AgentFilter)"
proof (intro conjI)
  show "filter (\<lambda>g. gf_name g \<notin> set (concat (map accepted_names (class_fields AgentFilter))))
      schema_AgentFilter = [GField ''DISTINCT'' (Named ''Boolean'') None]"
    by code_simp
  show "list_all (\<lambda>f. list_ex (implements_field f) schema_AgentFilter) (class_fields AgentFilter)"
    by code_simp
qed (fact enums_agree one_of_types_agree input_types_agree)+

section \<open>The methods and their operations\<close>

definition method_classes :: "(operation_spec \<times> operation_class) list" where
  "method_classes =
     [(op_ensure_agent, EnsureAgentMutation),
      (op_implement_agent, ImplementAgentMutation),
      (op_request_asset_upload, RequestAssetUploadMutation),
      (op_create_asset, CreateAssetMutation),
      (op_create_blok, CreateBlokMutation),
      (op_materialize_blok, MaterializeBlokMutation),
      (op_fork_blok, ForkBlokMutation),
      (op_update_blok, UpdateBlokMutation),
      (op_update_materialized_blok, UpdateMaterializedBlokMutation),
      (op_edit_blok, EditBlokMutation),
      (op_revert_blok, RevertBlokMutation),
      (op_pin_materialized_blok, PinMaterializedBlokMutation),
      (op_register_module, RegisterModuleMutation),
      (op_create_dashboard, CreateDashboardMutation),
      (op_request_media_upload, RequestMediaUploadMutation),
      (op_finish_media_upload, FinishMediaUploadMutation),
      (op_request_media_access, RequestMediaAccessMutation),
      (op_shelve, ShelveMutation),
      (op_unshelve, UnshelveMutation),
      (op_create_shortcut, CreateShortcutMutation),
      (op_create_space, CreateSpaceMutation),
      (op_collect, CollectMutation),
      (op_create_higher_order_implementation, CreateHigherOrderImplementationMutation),
      (op_create_testcase, Create_testcaseMutation),
      (op_create_testresult, Create_testresultMutation),
      (op_get_agent, GetAgentQuery),
      (op_list_agents, ListAgentsQuery),
      (op_get_agent_by_identifiers, GetAgentByIdentifiersQuery),
      (op_search_agents, SearchAgentsQuery),
      (op_design_agents, DesignAgentsQuery),
      (op_stored_asset, StoredAssetQuery),
      (op_get_materialized_blok, GetMaterializedBlokQuery),
      (op_search_materialized_bloks, SearchMaterializedBloksQuery),
      (op_list_bloks, ListBloksQuery),
      (op_blok_revisions, BlokRevisionsQuery),
      (op_action_bloks, ActionBloksQuery),
      (op_modules, ModulesQuery),
      (op_module, ModuleQuery),
      (op_base_catalog, BaseCatalogQuery),
      (op_get_dashboard, GetDashboardQuery),
      (op_get_me_actions, GetMeActionsQuery),
      (op_get_implementation, GetImplementationQuery),
      (op_list_implementations, ListImplementationsQuery),
      (op_resolved_implementations, ResolvedImplementationsQuery),
      (op_find, FindQuery),
      (op_retrieveall, RetrieveallQuery),
      (op_search_actions, SearchActionsQuery),
      (op_list_actions, ListActionsQuery),
      (op_primary_actions, PrimaryActionsQuery),
      (op_list_shortcuts, ListShortcutsQuery),
      (op_get_shortcut, GetShortcutQuery),
      (op_search_shortcuts, SearchShortcutsQuery),
      (op_spaces_for_agents, SpacesForAgentsQuery),
      (op_get_state, GetStateQuery),
      (op_checkout_agent, CheckoutAgentQuery),
      (op_requests, RequestsQuery),
      (op_get_event, GetEventQuery),
      (op_task_events, TaskEventsQuery),
      (op_task_run_view, TaskRunViewQuery),
      (op_search_implementations, SearchImplementationsQuery),
      (op_implementations_for, ImplementationsForQuery),
      (op_my_implementation_at, MyImplementationAtQuery),
      (op_get_test_case, GetTestCaseQuery),
      (op_get_test_result, GetTestResultQuery),
      (op_search_test_cases, SearchTestCasesQuery),
      (op_search_test_results, SearchTestResultsQuery),
      (op_list_toolboxes, ListToolboxesQuery),
      (op_get_toolbox, GetToolboxQuery),
      (op_watch_my_tasks, WatchMyTasksSubscription),
      (op_assign, AssignMutation),
      (op_cancel, CancelMutation),
      (op_interrupt, InterruptMutation),
      (op_pause, PauseMutation),
      (op_resume, ResumeMutation),
      (op_decide, DecideMutation)]"

text \<open>The input types whose classes are of other packages.\<close>

definition foreign_input_types :: "(string \<times> gql_field list) list" where
  "foreign_input_types =
     [(''AssignInput'', schema_AssignInput),
      (''CancelInput'', schema_CancelInput),
      (''PauseInput'', schema_PauseInput),
      (''ResumeInput'', schema_ResumeInput),
      (''DecideInput'', schema_DecideInput),
      (''ImplementAgentInput'', schema_ImplementAgentInput)]"

text \<open>
  Where a method puts its arguments: the fields of the class its \<open>input\<close> has (\<open>None\<close>: a class of
  another package), or those of \<open>Arguments\<close> itself; and what the server declares of them.
\<close>

definition argument_fields :: "operation_spec \<Rightarrow> operation_class \<Rightarrow> py_field list option" where
  "argument_fields spec c =
     (if os_input spec
      then (case map pf_type (oc_arguments c) of
              [Py n] \<Rightarrow> map_option (\<lambda>(decls, _). class_fields decls) (map_of input_types n)
            | _ \<Rightarrow> None)
      else Some (class_fields (oc_arguments c)))"

definition server_fields :: "operation_spec \<Rightarrow> operation_class \<Rightarrow> gql_field list option" where
  "server_fields spec c =
     (if os_input spec
      then (case map gf_type (oc_variables c) of
              [Non_Null (Named n)] \<Rightarrow>
                (case map_of input_types n of
                   Some (_, gs) \<Rightarrow> Some gs
                 | None \<Rightarrow> map_of foreign_input_types n)
            | _ \<Rightarrow> None)
      else Some (oc_variables c))"

text \<open>
  The parts agree: \<open>Arguments\<close> implements the variables of the document, the method's arguments are
  the server's fields, those it has to be given are those it requires, and the class in between
  has every one of them under the same names, so that no name is ambiguous.
\<close>

definition method_agrees :: "operation_spec \<Rightarrow> operation_class \<Rightarrow> bool" where
  "method_agrees spec c \<longleftrightarrow>
     implements (class_fields (oc_arguments c)) (oc_variables c) \<and>
     (case server_fields spec c of
        None \<Rightarrow> False
      | Some gs \<Rightarrow> map (\<lambda>g. (gf_name g, must_be_given g)) gs = map snd (os_fields spec)) \<and>
     (case argument_fields spec c of
        None \<Rightarrow> True
      | Some fs \<Rightarrow>
          map (\<lambda>f. (pf_name f, wire_name f, \<not> pf_optional f)) fs = os_fields spec \<and> unambiguous fs)"

lemma methods_covered: "map fst method_classes = operations"
  by (simp add: method_classes_def operations_def)

lemma input_lookups:
  "map_of input_types ''AgentInput'' = Some (AgentInput, schema_AgentInput)"
  "map_of input_types ''CollectInput'' = Some (CollectInput, schema_CollectInput)"
  "map_of input_types ''CreateAssetInput'' = Some (CreateAssetInput, schema_CreateAssetInput)"
  "map_of input_types ''CreateBlokInput'' = Some (CreateBlokInput, schema_CreateBlokInput)"
  "map_of input_types ''CreateDashboardInput'' = Some (CreateDashboardInput, schema_CreateDashboardInput)"
  "map_of input_types ''CreateHigherOrderImplementationInput'' = Some (CreateHigherOrderImplementationInput, schema_CreateHigherOrderImplementationInput)"
  "map_of input_types ''CreateShortcutInput'' = Some (CreateShortcutInput, schema_CreateShortcutInput)"
  "map_of input_types ''CreateSpaceInput'' = Some (CreateSpaceInput, schema_CreateSpaceInput)"
  "map_of input_types ''CreateTestCaseInput'' = Some (CreateTestCaseInput, schema_CreateTestCaseInput)"
  "map_of input_types ''CreateTestResultInput'' = Some (CreateTestResultInput, schema_CreateTestResultInput)"
  "map_of input_types ''EditBlokInput'' = Some (EditBlokInput, schema_EditBlokInput)"
  "map_of input_types ''FinishMediaUploadInput'' = Some (FinishMediaUploadInput, schema_FinishMediaUploadInput)"
  "map_of input_types ''ForkBlokInput'' = Some (ForkBlokInput, schema_ForkBlokInput)"
  "map_of input_types ''InterruptInput'' = Some (InterruptInput, schema_InterruptInput)"
  "map_of input_types ''MaterializeBlokInput'' = Some (MaterializeBlokInput, schema_MaterializeBlokInput)"
  "map_of input_types ''PinMaterializedBlokInput'' = Some (PinMaterializedBlokInput, schema_PinMaterializedBlokInput)"
  "map_of input_types ''RegisterModuleInput'' = Some (RegisterModuleInput, schema_RegisterModuleInput)"
  "map_of input_types ''RequestAssetUploadInput'' = Some (RequestAssetUploadInput, schema_RequestAssetUploadInput)"
  "map_of input_types ''RequestMediaAccessInput'' = Some (RequestMediaAccessInput, schema_RequestMediaAccessInput)"
  "map_of input_types ''RequestMediaUploadInput'' = Some (RequestMediaUploadInput, schema_RequestMediaUploadInput)"
  "map_of input_types ''RevertBlokInput'' = Some (RevertBlokInput, schema_RevertBlokInput)"
  "map_of input_types ''ShelveInMemoryDrawerInput'' = Some (ShelveInMemoryDrawerInput, schema_ShelveInMemoryDrawerInput)"
  "map_of input_types ''UnshelveMemoryDrawerInput'' = Some (UnshelveMemoryDrawerInput, schema_UnshelveMemoryDrawerInput)"
  "map_of input_types ''UpdateBlokInput'' = Some (UpdateBlokInput, schema_UpdateBlokInput)"
  "map_of input_types ''UpdateMaterializedBlokInput'' = Some (UpdateMaterializedBlokInput, schema_UpdateMaterializedBlokInput)"
  "map_of input_types ''AssignInput'' = None"
  "map_of input_types ''CancelInput'' = None"
  "map_of input_types ''PauseInput'' = None"
  "map_of input_types ''ResumeInput'' = None"
  "map_of input_types ''DecideInput'' = None"
  "map_of input_types ''ImplementAgentInput'' = None"
  by (simp_all add: search_simps input_types_def [THEN arg_cong, of map_of, THEN fun_cong]
      del: map_of.simps cong: lazy_congs)

lemma arguments_implement_documents:
  "list_all (\<lambda>(_, c). implements (class_fields (oc_arguments c)) (oc_variables c)) method_classes"
  by (simp add: method_classes_def operation_classes implements_def implements_field_def wire_name_def
      has_default_def must_be_given_def python_default_def python_literal_def python_leaf_def
      scalar_definitions_def builtin_scalars_def)

lemmas lookup_fields =
  server_fields_def argument_fields_def input_lookups foreign_input_types_def

lemma server_fields_agree:
  "list_all (\<lambda>(spec, c). map_option (map (\<lambda>g. (gf_name g, must_be_given g))) (server_fields spec c) =
     Some (map snd (os_fields spec))) method_classes"
  by (simp add: method_classes_def lookup_fields operation_defs operation_classes server_schema
      must_be_given_def)

lemma argument_fields_agree:
  "list_all (\<lambda>(spec, c). case argument_fields spec c of
       None \<Rightarrow> True
     | Some fs \<Rightarrow> map (\<lambda>f. (pf_name f, wire_name f, \<not> pf_optional f)) fs = os_fields spec) method_classes"
  by (simp add: method_classes_def lookup_fields operation_defs operation_classes protocol_inputs
      wire_name_def)

lemma names_unambiguous:
  "list_all (\<lambda>spec. distinct (concat (map (\<lambda>(a, k, _). remdups [a, k]) (os_fields spec)))) operations"
  by code_simp

section \<open>A call on its way\<close>

lemma fields_coercible:
  assumes "map (\<lambda>g. (gf_name g, must_be_given g)) gs = map snd fs"
    and "set ks \<subseteq> set (map (fst \<circ> snd) fs)"
    and "\<And>a k. (a, k, True) \<in> set fs \<Longrightarrow> k \<in> set ks"
  shows "coercible gs ks"
proof -
  have "map gf_name gs = map (fst \<circ> snd) fs"
    using arg_cong [OF assms(1), of "map fst"] by (simp add: comp_def)
  then have names: "set (map gf_name gs) = set (map (fst \<circ> snd) fs)" by (rule arg_cong)
  have "gf_name g \<in> set ks" if "g \<in> set gs" "must_be_given g" for g
  proof -
    have "(gf_name g, True) \<in> set (map snd fs)"
      using that unfolding assms(1) [symmetric] by (force simp: image_iff)
    then show ?thesis using assms(3) by auto
  qed
  then show ?thesis using assms(2) names by (auto simp: coercible_def list_all_iff)
qed

lemma method_spec: "(spec, c) \<in> set method_classes \<Longrightarrow> spec \<in> set operations"
  unfolding methods_covered [symmetric] by force

lemma method_server_fields:
  assumes "(spec, c) \<in> set method_classes"
  obtains gs where "server_fields spec c = Some gs"
    and "map (\<lambda>g. (gf_name g, must_be_given g)) gs = map snd (os_fields spec)"
  using server_fields_agree assms by (fastforce simp: list_all_iff)

lemma method_argument_fields:
  assumes "(spec, c) \<in> set method_classes" and "argument_fields spec c = Some fs"
  shows "map (\<lambda>f. (pf_name f, wire_name f, \<not> pf_optional f)) fs = os_fields spec" and "unambiguous fs"
proof -
  show fields: "map (\<lambda>f. (pf_name f, wire_name f, \<not> pf_optional f)) fs = os_fields spec"
    using argument_fields_agree assms by (fastforce simp: list_all_iff)
  have "distinct (concat (map (\<lambda>(a, k, _). remdups [a, k]) (os_fields spec)))"
    using names_unambiguous method_spec [OF assms(1)] unfolding list_all_iff by blast
  then show "unambiguous fs"
    unfolding fields [symmetric] map_map unambiguous_def accepted_names_def [abs_def] by (simp only: comp_def prod.case)
qed

lemma put_fields_ok: "dict_ok (put_fields fs kwargs)"
proof (induction fs rule: rev_induct)
  case (snoc f fs)
  then show ?case by (cases f) (simp add: put_fields_snoc split: option.split)
qed (simp add: put_fields_def dict_ok_def)

text \<open>Under a name on the wire is what the caller gave for the argument that has it.\<close>

lemma accepted_call:
  assumes "spec \<in> set operations" and "call_operation spec kwargs = Inr vars"
  shows "\<And>a k r. (a, k, r) \<in> set (os_fields spec) \<Longrightarrow> dict_get (fields_of vars) k = dict_get kwargs a"
    and "set (dict_keys (fields_of vars)) \<subseteq> set (wire_names spec)"
    and "\<And>a k. (a, k, True) \<in> set (os_fields spec) \<Longrightarrow> k \<in> set (dict_keys (fields_of vars))"
    and "dict_ok (fields_of vars)"
proof -
  let ?fs = "os_fields spec"
  have "well_named spec" using operations_well_named assms(1) by (simp add: list_all_iff)
  then have dist: "distinct (map (fst \<circ> snd) ?fs)" unfolding well_named_def wire_names_def by blast
  have fs: "fields_of vars = put_fields ?fs kwargs"
    using assms(2) by (auto simp: call_operation_def fields_of_def split: list.splits)
  show get: "dict_get (fields_of vars) k = dict_get kwargs a" if "(a, k, r) \<in> set ?fs" for a k r
    unfolding fs by (rule put_fields_get [OF dist that])
  show "set (dict_keys (fields_of vars)) \<subseteq> set (wire_names spec)"
  proof (rule subsetI, rule ccontr)
    fix k assume k: "k \<in> set (dict_keys (fields_of vars))" "k \<notin> set (wire_names spec)"
    then have "dict_get (fields_of vars) k = None"
      unfolding fs wire_names_def by (intro put_fields_other)
    then show False using k(1) unfolding dict_get_None_iff by blast
  qed
  have "\<exists>vars. call_operation spec kwargs = Inr vars" using assms(2) by blast
  then have required: "set (required_names spec) \<subseteq> set (dict_keys kwargs)"
    unfolding call_operation_Inr by blast
  show "k \<in> set (dict_keys (fields_of vars))" if k: "(a, k, True) \<in> set ?fs" for a k
  proof -
    have "a \<in> set (required_names spec)" using k by (force simp: required_names_def)
    then have "dict_get kwargs a \<noteq> None" using required dict_get_None_iff by (metis subsetD)
    then show ?thesis using get [OF k] dict_get_None_iff by metis
  qed
  show "dict_ok (fields_of vars)" unfolding fs by (rule put_fields_ok)
qed



end
