(* ===== verification/Server_Types.thy ===== *)
theory Server_Types
  imports Graphql_Types
begin

text \<open>
  What the server declares of its answers: \<open>rekuest/api/schema.graphql\<close>, the types the documents
  select from with the fields they select, and which object types an interface stands for.
\<close>

definition server_Action :: "(string \<times> gql_type) list" where
  "server_Action =
      [(''args'', Non_Null (Listed (Non_Null (Named ''ArgPort'')))),
       (''returns'', Non_Null (Listed (Non_Null (Named ''ReturnPort'')))),
       (''kind'', Non_Null (Named ''ActionKind'')), (''name'', Non_Null (Named ''String'')),
       (''description'', Named ''String''),
       (''collections'', Non_Null (Listed (Non_Null (Named ''Collection'')))),
       (''isDev'', Non_Null (Named ''Boolean'')),
       (''isTestFor'', Non_Null (Listed (Non_Null (Named ''Action'')))),
       (''id'', Non_Null (Named ''ID'')),
       (''portGroups'', Non_Null (Listed (Non_Null (Named ''PortGroup'')))),
       (''stateful'', Non_Null (Named ''Boolean'')),
       (''hash'', Non_Null (Named ''ActionHash'')), (''key'', Non_Null (Named ''String'')),
       (''bloks'', Non_Null (Listed (Non_Null (Named ''ActionBlok''))))]"

definition server_ActionArgument :: "(string \<times> gql_type) list" where
  "server_ActionArgument =
      [(''key'', Named ''String''), (''valueLiteral'', Named ''JSONSerializable''),
       (''valuePath'', Named ''String''), (''utilCall'', Named ''UtilCall''),
       (''valueList'', Listed (Non_Null (Named ''ActionArgument''))),
       (''valueDict'', Listed (Non_Null (Named ''ActionArgument'')))]"

definition server_ActionBlok :: "(string \<times> gql_type) list" where
  "server_ActionBlok =
      [(''id'', Non_Null (Named ''ID'')),
       (''context'', Non_Null (Named ''ComponentContext'')),
       (''blok'', Non_Null (Named ''Blok''))]"

definition server_ActionDemand :: "(string \<times> gql_type) list" where
  "server_ActionDemand =
      [(''hash'', Named ''ActionHash''), (''key'', Named ''String''),
       (''app'', Named ''String''), (''version'', Named ''String''),
       (''name'', Named ''String''),
       (''argMatches'', Listed (Non_Null (Named ''PortMatch''))),
       (''returnMatches'', Listed (Non_Null (Named ''PortMatch''))),
       (''protocols'', Listed (Non_Null (Named ''String''))),
       (''forceArgLength'', Named ''Int''), (''forceReturnLength'', Named ''Int''),
       (''pure'', Named ''Boolean''), (''idempotent'', Named ''Boolean''),
       (''stateful'', Named ''Boolean'')]"

definition server_ActionDependency :: "(string \<times> gql_type) list" where
  "server_ActionDependency =
      [(''key'', Non_Null (Named ''String'')), (''description'', Named ''String''),
       (''optional'', Non_Null (Named ''Boolean'')), (''demand'', Named ''ActionDemand'')]"

definition server_Agent :: "(string \<times> gql_type) list" where
  "server_Agent =
      [(''id'', Non_Null (Named ''ID'')), (''name'', Non_Null (Named ''String'')),
       (''hash'', Non_Null (Named ''String'')), (''supervisor'', Named ''String''),
       (''connected'', Non_Null (Named ''Boolean'')),
       (''active'', Non_Null (Named ''Boolean'')), (''client'', Non_Null (Named ''Client'')),
       (''user'', Non_Null (Named ''User'')),
       (''organization'', Non_Null (Named ''Organization'')),
       (''memoryShelve'', Named ''MemoryShelve''),
       (''declaredName'', Non_Null (Named ''String'')), (''app'', Non_Null (Named ''App'')),
       (''states'', Non_Null (Listed (Non_Null (Named ''State'')))),
       (''implementations'', Non_Null (Listed (Non_Null (Named ''Implementation''))))]"

definition server_AgentWithValues :: "(string \<times> gql_type) list" where
  "server_AgentWithValues =
      [(''agentId'', Non_Null (Named ''ID'')), (''values'', Non_Null (Named ''JSON'')),
       (''globalRevision'', Non_Null (Named ''Int'')),
       (''forwardPatches'', Non_Null (Listed (Non_Null (Named ''Patch'')))),
       (''backwardPatches'', Non_Null (Listed (Non_Null (Named ''Patch''))))]"

definition server_App :: "(string \<times> gql_type) list" where
  "server_App =
      [(''id'', Non_Null (Named ''ID'')), (''identifier'', Non_Null (Named ''String''))]"

definition server_ArgPort :: "(string \<times> gql_type) list" where
  "server_ArgPort =
      [(''key'', Non_Null (Named ''String'')), (''kind'', Non_Null (Named ''PortKind'')),
       (''identifier'', Named ''Identifier''),
       (''children'', Listed (Non_Null (Named ''ArgPort''))),
       (''nullable'', Non_Null (Named ''Boolean'')), (''referenceUnit'', Named ''String''),
       (''proposedUnits'', Listed (Non_Null (Named ''String''))),
       (''dimension'', Named ''String''),
       (''choices'', Listed (Non_Null (Named ''Choice''))),
       (''default'', Named ''AnyDefault''), (''label'', Named ''String''),
       (''description'', Named ''String''), (''widget'', Named ''AssignWidget''),
       (''validators'', Listed (Non_Null (Named ''Validator''))),
       (''effects'', Listed (Non_Null (Named ''Effect'')))]"

definition server_Asset :: "(string \<times> gql_type) list" where
  "server_Asset =
      [(''id'', Non_Null (Named ''ID'')), (''ref'', Non_Null (Named ''String'')),
       (''kind'', Non_Null (Named ''AssetKind''))]"

definition server_AssetUploadGrant :: "(string \<times> gql_type) list" where
  "server_AssetUploadGrant =
      [(''accessKey'', Non_Null (Named ''String'')),
       (''secretKey'', Non_Null (Named ''String'')),
       (''sessionToken'', Non_Null (Named ''String'')),
       (''path'', Non_Null (Named ''String'')), (''key'', Non_Null (Named ''String'')),
       (''bucket'', Non_Null (Named ''String'')), (''expiresIn'', Non_Null (Named ''Int'')),
       (''maxBytes'', Non_Null (Named ''ByteCount'')),
       (''store'', Non_Null (Named ''String''))]"

definition server_BaseCatalog :: "(string \<times> gql_type) list" where
  "server_BaseCatalog =
      [(''name'', Non_Null (Named ''String'')), (''version'', Non_Null (Named ''Int'')),
       (''description'', Named ''String''),
       (''operations'', Non_Null (Listed (Non_Null (Named ''CatalogOperation''))))]"

definition server_Blok :: "(string \<times> gql_type) list" where
  "server_Blok =
      [(''id'', Non_Null (Named ''ID'')), (''name'', Non_Null (Named ''String'')),
       (''description'', Named ''String''), (''provided'', Non_Null (Named ''Boolean'')),
       (''heldByAction'', Non_Null (Named ''Boolean'')), (''app'', Named ''App''),
       (''context'', Non_Null (Named ''ComponentContext'')),
       (''module'', Non_Null (Named ''Module'')),
       (''componentTree'', Non_Null (Named ''AnyDefault'')),
       (''vocab'', Non_Null (Named ''Int'')),
       (''catalogs'', Non_Null (Listed (Non_Null (Named ''String'')))),
       (''locals'', Non_Null (Listed (Non_Null (Named ''BlokLocal'')))),
       (''resolvedLocals'', Non_Null (Listed (Non_Null (Named ''ResolvedBlokLocal'')))),
       (''demo'', Named ''BlokDemo''),
       (''queries'', Non_Null (Listed (Non_Null (Named ''BlokQuery'')))),
       (''subscriptions'', Non_Null (Listed (Non_Null (Named ''BlokSubscription'')))),
       (''diagnostics'', Non_Null (Listed (Non_Null (Named ''Diagnostic'')))),
       (''dependencies'', Non_Null (Listed (Non_Null (Named ''BlokDependency'')))),
       (''args'', Non_Null (Listed (Non_Null (Named ''ArgPort'')))),
       (''head'', Named ''BlokRevision''),
       (''revisions'', Non_Null (Listed (Non_Null (Named ''BlokRevision''))))]"

definition server_BlokAgentMapping :: "(string \<times> gql_type) list" where
  "server_BlokAgentMapping =
      [(''key'', Non_Null (Named ''String'')), (''agent'', Non_Null (Named ''Agent''))]"

definition server_BlokDemo :: "(string \<times> gql_type) list" where
  "server_BlokDemo =
      [(''deps'', Named ''JSONSerializable''), (''args'', Named ''JSONSerializable''),
       (''task'', Named ''JSONSerializable''), (''queries'', Named ''JSONSerializable''),
       (''subscriptions'', Named ''JSONSerializable'')]"

definition server_BlokDependency :: "(string \<times> gql_type) list" where
  "server_BlokDependency =
      [(''key'', Non_Null (Named ''String'')), (''description'', Named ''String''),
       (''optional'', Non_Null (Named ''Boolean'')),
       (''autoResolvable'', Non_Null (Named ''Boolean'')), (''appFilter'', Named ''String''),
       (''versionFilter'', Named ''String''), (''minViableInstances'', Named ''Int''),
       (''maxViableInstances'', Named ''Int''),
       (''actionDependencies'', Non_Null (Listed (Non_Null (Named ''ActionDependency'')))),
       (''stateDependencies'', Non_Null (Listed (Non_Null (Named ''StateDependency''))))]"

definition server_BlokEdit :: "(string \<times> gql_type) list" where
  "server_BlokEdit =
      [(''applied'', Non_Null (Named ''Boolean'')),
       (''forked'', Non_Null (Named ''Boolean'')), (''blok'', Non_Null (Named ''Blok'')),
       (''revision'', Named ''BlokRevision''),
       (''materializedBlok'', Named ''MaterializedBlok''),
       (''diagnostics'', Non_Null (Listed (Non_Null (Named ''Diagnostic'')))),
       (''resolvedLocals'', Non_Null (Listed (Non_Null (Named ''ResolvedBlokLocal''))))]"

definition server_BlokLocal :: "(string \<times> gql_type) list" where
  "server_BlokLocal =
      [(''key'', Non_Null (Named ''String'')), (''label'', Named ''String''),
       (''kind'', Named ''LocalKind''), (''description'', Named ''String''),
       (''identifier'', Named ''Identifier''), (''nullable'', Non_Null (Named ''Boolean'')),
       (''default'', Named ''AnyDefault''), (''persist'', Non_Null (Named ''Boolean'')),
       (''referenceUnit'', Named ''String''),
       (''proposedUnits'', Listed (Non_Null (Named ''String''))),
       (''dimension'', Named ''String''),
       (''children'', Listed (Non_Null (Named ''ArgPort''))),
       (''choices'', Listed (Non_Null (Named ''Choice'')))]"

definition server_BlokQuery :: "(string \<times> gql_type) list" where
  "server_BlokQuery =
      [(''key'', Non_Null (Named ''String'')), (''service'', Non_Null (Named ''String'')),
       (''document'', Non_Null (Named ''String'')),
       (''variables'', Non_Null (Listed (Non_Null (Named ''ActionArgument'')))),
       (''poll'', Named ''Float''), (''more'', Named ''String'')]"

definition server_BlokRevision :: "(string \<times> gql_type) list" where
  "server_BlokRevision =
      [(''id'', Non_Null (Named ''ID'')), (''number'', Non_Null (Named ''Int'')),
       (''message'', Named ''String''), (''createdAt'', Non_Null (Named ''DateTime'')),
       (''author'', Named ''User''), (''task'', Named ''Task''),
       (''vocab'', Non_Null (Named ''Int'')),
       (''catalogs'', Non_Null (Listed (Non_Null (Named ''String'')))),
       (''locals'', Non_Null (Listed (Non_Null (Named ''BlokLocal'')))),
       (''resolvedLocals'', Non_Null (Listed (Non_Null (Named ''ResolvedBlokLocal''))))]"

definition server_BlokSubscription :: "(string \<times> gql_type) list" where
  "server_BlokSubscription =
      [(''key'', Non_Null (Named ''String'')), (''service'', Non_Null (Named ''String'')),
       (''document'', Non_Null (Named ''String'')),
       (''variables'', Non_Null (Listed (Non_Null (Named ''ActionArgument'')))),
       (''keep'', Named ''Int''), (''history'', Named ''String'')]"

definition server_CatalogArgument :: "(string \<times> gql_type) list" where
  "server_CatalogArgument =
      [(''key'', Non_Null (Named ''String'')),
       (''kind'', Non_Null (Named ''CatalogValueKind'')),
       (''required'', Non_Null (Named ''Boolean'')), (''description'', Named ''String'')]"

definition server_CatalogComponent :: "(string \<times> gql_type) list" where
  "server_CatalogComponent =
      [(''name'', Non_Null (Named ''String'')), (''description'', Named ''String''),
       (''acceptsChildren'', Non_Null (Named ''Boolean'')),
       (''context'', Non_Null (Named ''ComponentContext'')),
       (''childrenContext'', Named ''ComponentContext''),
       (''inheritsContext'', Non_Null (Named ''Boolean'')),
       (''downstreamOf'', Non_Null (Listed (Non_Null (Named ''String'')))),
       (''notDownstreamOf'', Non_Null (Listed (Non_Null (Named ''String'')))),
       (''textProp'', Named ''String''), (''catalog'', Named ''String''),
       (''props'', Non_Null (Listed (Non_Null (Named ''CatalogProp''))))]"

definition server_CatalogEventField :: "(string \<times> gql_type) list" where
  "server_CatalogEventField =
      [(''key'', Non_Null (Named ''String'')),
       (''kind'', Non_Null (Named ''CatalogValueKind'')),
       (''description'', Named ''String'')]"

definition server_CatalogOperation :: "(string \<times> gql_type) list" where
  "server_CatalogOperation =
      [(''name'', Non_Null (Named ''String'')), (''description'', Named ''String''),
       (''returns'', Non_Null (Named ''CatalogValueKind'')),
       (''arguments'', Non_Null (Listed (Non_Null (Named ''CatalogArgument''))))]"

definition server_CatalogProp :: "(string \<times> gql_type) list" where
  "server_CatalogProp =
      [(''key'', Non_Null (Named ''String'')),
       (''kind'', Non_Null (Named ''CatalogValueKind'')),
       (''required'', Non_Null (Named ''Boolean'')), (''description'', Named ''String''),
       (''event'', Listed (Non_Null (Named ''CatalogEventField'')))]"

definition server_Choice :: "(string \<times> gql_type) list" where
  "server_Choice =
      [(''value'', Non_Null (Named ''AnyDefault'')),
       (''label'', Non_Null (Named ''String'')), (''description'', Named ''String'')]"

definition server_ChoiceAssignWidget :: "(string \<times> gql_type) list" where
  "server_ChoiceAssignWidget =
      [(''kind'', Non_Null (Named ''AssignWidgetKind'')),
       (''placeholder'', Named ''String'')]"

definition server_ChoiceReturnWidget :: "(string \<times> gql_type) list" where
  "server_ChoiceReturnWidget =
      [(''kind'', Non_Null (Named ''ReturnWidgetKind''))]"

definition server_Client :: "(string \<times> gql_type) list" where
  "server_Client =
      [(''id'', Non_Null (Named ''ID'')), (''clientId'', Non_Null (Named ''String''))]"

definition server_Collection :: "(string \<times> gql_type) list" where
  "server_Collection =
      [(''name'', Non_Null (Named ''String''))]"

definition server_ComponentProp :: "(string \<times> gql_type) list" where
  "server_ComponentProp =
      [(''key'', Non_Null (Named ''String'')), (''staticValue'', Named ''JSONSerializable''),
       (''dynamicValue'', Named ''DynamicValue''), (''declaresValue'', Named ''String''),
       (''utilCall'', Named ''UtilCall'')]"

definition server_CustomAssignWidget :: "(string \<times> gql_type) list" where
  "server_CustomAssignWidget =
      [(''kind'', Non_Null (Named ''AssignWidgetKind'')),
       (''component'', Non_Null (Named ''String'')),
       (''props'', Listed (Non_Null (Named ''ComponentProp''))),
       (''dependencies'', Listed (Non_Null (Named ''String'')))]"

definition server_CustomEffect :: "(string \<times> gql_type) list" where
  "server_CustomEffect =
      [(''kind'', Non_Null (Named ''EffectKind'')),
       (''dependencies'', Non_Null (Listed (Non_Null (Named ''String'')))),
       (''call'', Non_Null (Named ''UtilCall'')),
       (''callJson'', Non_Null (Named ''JSONSerializable'')), (''source'', Named ''String'')]"

definition server_CustomReturnWidget :: "(string \<times> gql_type) list" where
  "server_CustomReturnWidget =
      [(''kind'', Non_Null (Named ''ReturnWidgetKind'')),
       (''component'', Non_Null (Named ''String'')),
       (''props'', Listed (Non_Null (Named ''ComponentProp'')))]"

definition server_Dashboard :: "(string \<times> gql_type) list" where
  "server_Dashboard =
      [(''id'', Non_Null (Named ''ID'')), (''name'', Named ''String'')]"

definition server_Diagnostic :: "(string \<times> gql_type) list" where
  "server_Diagnostic =
      [(''level'', Non_Null (Named ''DiagnosticLevel'')),
       (''code'', Non_Null (Named ''String'')), (''message'', Non_Null (Named ''String'')),
       (''path'', Named ''String'')]"

definition server_DynamicValue :: "(string \<times> gql_type) list" where
  "server_DynamicValue =
      [(''literal'', Named ''String''), (''path'', Named ''String'')]"

definition server_HideEffect :: "(string \<times> gql_type) list" where
  "server_HideEffect =
      [(''kind'', Non_Null (Named ''EffectKind'')),
       (''dependencies'', Non_Null (Listed (Non_Null (Named ''String'')))),
       (''call'', Non_Null (Named ''UtilCall'')),
       (''callJson'', Non_Null (Named ''JSONSerializable'')), (''source'', Named ''String'')]"

definition server_Implementation :: "(string \<times> gql_type) list" where
  "server_Implementation =
      [(''id'', Non_Null (Named ''ID'')), (''agent'', Non_Null (Named ''Agent'')),
       (''action'', Non_Null (Named ''Action'')),
       (''params'', Non_Null (Named ''AnyDefault'')),
       (''interface'', Non_Null (Named ''String'')),
       (''diagnostics'', Non_Null (Listed (Non_Null (Named ''Diagnostic'')))),
       (''name'', Non_Null (Named ''String''))]"

definition server_MaterializedBlok :: "(string \<times> gql_type) list" where
  "server_MaterializedBlok =
      [(''id'', Non_Null (Named ''ID'')), (''name'', Named ''String''),
       (''description'', Named ''String''), (''declaredBy'', Named ''Agent''),
       (''blok'', Non_Null (Named ''Blok'')),
       (''agentMappings'', Non_Null (Listed (Non_Null (Named ''BlokAgentMapping'')))),
       (''pinnedRevision'', Named ''BlokRevision''),
       (''unboundDependencies'', Non_Null (Listed (Non_Null (Named ''String''))))]"

definition server_MediaAccessGrant :: "(string \<times> gql_type) list" where
  "server_MediaAccessGrant =
      [(''accessKey'', Non_Null (Named ''String'')),
       (''secretKey'', Non_Null (Named ''String'')),
       (''sessionToken'', Non_Null (Named ''String'')),
       (''expiresIn'', Non_Null (Named ''Int'')), (''path'', Non_Null (Named ''String'')),
       (''key'', Non_Null (Named ''String'')), (''bucket'', Non_Null (Named ''String''))]"

definition server_MediaStore :: "(string \<times> gql_type) list" where
  "server_MediaStore =
      [(''path'', Non_Null (Named ''String'')), (''key'', Non_Null (Named ''String'')),
       (''bucket'', Non_Null (Named ''String''))]"

definition server_MediaUploadGrant :: "(string \<times> gql_type) list" where
  "server_MediaUploadGrant =
      [(''accessKey'', Non_Null (Named ''String'')),
       (''secretKey'', Non_Null (Named ''String'')),
       (''sessionToken'', Non_Null (Named ''String'')),
       (''path'', Non_Null (Named ''String'')), (''key'', Non_Null (Named ''String'')),
       (''bucket'', Non_Null (Named ''String'')), (''expiresIn'', Non_Null (Named ''Int'')),
       (''maxBytes'', Non_Null (Named ''ByteCount'')),
       (''store'', Non_Null (Named ''String''))]"

definition server_MemoryDrawer :: "(string \<times> gql_type) list" where
  "server_MemoryDrawer =
      [(''id'', Non_Null (Named ''ID''))]"

definition server_MemoryShelve :: "(string \<times> gql_type) list" where
  "server_MemoryShelve =
      [(''id'', Non_Null (Named ''ID''))]"

definition server_MessageEffect :: "(string \<times> gql_type) list" where
  "server_MessageEffect =
      [(''kind'', Non_Null (Named ''EffectKind'')),
       (''dependencies'', Non_Null (Listed (Non_Null (Named ''String'')))),
       (''call'', Non_Null (Named ''UtilCall'')),
       (''callJson'', Non_Null (Named ''JSONSerializable'')), (''source'', Named ''String''),
       (''message'', Non_Null (Named ''String''))]"

definition server_Module :: "(string \<times> gql_type) list" where
  "server_Module =
      [(''id'', Non_Null (Named ''ID'')), (''name'', Non_Null (Named ''String'')),
       (''description'', Named ''String''), (''isRegistered'', Non_Null (Named ''Boolean'')),
       (''catalogs'', Non_Null (Listed (Non_Null (Named ''String'')))),
       (''components'', Non_Null (Listed (Non_Null (Named ''CatalogComponent'')))),
       (''operations'', Non_Null (Listed (Non_Null (Named ''CatalogOperation''))))]"

definition server_Mutation :: "(string \<times> gql_type) list" where
  "server_Mutation =
      [(''assign'', Non_Null (Named ''Task'')), (''cancel'', Non_Null (Named ''Task'')),
       (''interrupt'', Non_Null (Named ''Task'')), (''pause'', Non_Null (Named ''Task'')),
       (''resume'', Non_Null (Named ''Task'')), (''decide'', Non_Null (Named ''Task'')),
       (''ensureAgent'', Non_Null (Named ''Agent'')),
       (''implementAgent'', Non_Null (Named ''Agent'')),
       (''requestAssetUpload'', Non_Null (Named ''AssetUploadGrant'')),
       (''createAsset'', Non_Null (Named ''Asset'')),
       (''createBlok'', Non_Null (Named ''Blok'')),
       (''materializeBlok'', Non_Null (Named ''MaterializedBlok'')),
       (''forkBlok'', Non_Null (Named ''Blok'')),
       (''updateBlok'', Non_Null (Named ''Blok'')),
       (''updateMaterializedBlok'', Non_Null (Named ''MaterializedBlok'')),
       (''editBlok'', Non_Null (Named ''BlokEdit'')),
       (''revertBlok'', Non_Null (Named ''BlokRevision'')),
       (''pinMaterializedBlok'', Non_Null (Named ''MaterializedBlok'')),
       (''registerModule'', Non_Null (Named ''Module'')),
       (''createDashboard'', Non_Null (Named ''Dashboard'')),
       (''requestMediaUpload'', Non_Null (Named ''MediaUploadGrant'')),
       (''finishMediaUpload'', Non_Null (Named ''MediaStore'')),
       (''requestMediaAccess'', Non_Null (Named ''MediaAccessGrant'')),
       (''shelveInMemoryDrawer'', Non_Null (Named ''MemoryDrawer'')),
       (''unshelveMemoryDrawer'', Non_Null (Named ''ID'')),
       (''createShortcut'', Non_Null (Named ''Shortcut'')),
       (''createSpace'', Non_Null (Named ''Space'')),
       (''collect'', Non_Null (Listed (Non_Null (Named ''String'')))),
       (''createHigherOrderImplementation'', Non_Null (Named ''Implementation'')),
       (''createTestCase'', Non_Null (Named ''TestCase'')),
       (''createTestResult'', Non_Null (Named ''TestResult''))]"

definition server_Organization :: "(string \<times> gql_type) list" where
  "server_Organization =
      [(''identifier'', Non_Null (Named ''String''))]"

definition server_Patch :: "(string \<times> gql_type) list" where
  "server_Patch =
      [(''id'', Non_Null (Named ''ID'')), (''op'', Non_Null (Named ''String'')),
       (''path'', Non_Null (Named ''String'')), (''interface'', Non_Null (Named ''String'')),
       (''timestamp'', Non_Null (Named ''DateTime'')),
       (''globalFutureRevision'', Non_Null (Named ''Int'')), (''task'', Named ''Task'')]"

definition server_PortGroup :: "(string \<times> gql_type) list" where
  "server_PortGroup =
      [(''key'', Non_Null (Named ''String''))]"

definition server_PortMatch :: "(string \<times> gql_type) list" where
  "server_PortMatch =
      [(''at'', Named ''Int''), (''key'', Named ''String''), (''kind'', Named ''PortKind''),
       (''identifier'', Named ''String''), (''nullable'', Named ''Boolean''),
       (''dimension'', Named ''String''),
       (''children'', Listed (Non_Null (Named ''PortMatch'')))]"

definition server_ProxyWidget :: "(string \<times> gql_type) list" where
  "server_ProxyWidget =
      [(''kind'', Non_Null (Named ''AssignWidgetKind''))]"

definition server_Query :: "(string \<times> gql_type) list" where
  "server_Query =
      [(''agent'', Non_Null (Named ''Agent'')),
       (''agents'', Non_Null (Listed (Non_Null (Named ''Agent'')))),
       (''asset'', Named ''Asset''),
       (''materializedBlok'', Non_Null (Named ''MaterializedBlok'')),
       (''materializedBloks'', Non_Null (Listed (Non_Null (Named ''MaterializedBlok'')))),
       (''bloks'', Non_Null (Listed (Non_Null (Named ''Blok'')))),
       (''blok'', Non_Null (Named ''Blok'')), (''action'', Non_Null (Named ''Action'')),
       (''modules'', Non_Null (Listed (Non_Null (Named ''Module'')))),
       (''module'', Non_Null (Named ''Module'')),
       (''baseCatalog'', Non_Null (Named ''BaseCatalog'')),
       (''dashboard'', Non_Null (Named ''Dashboard'')),
       (''actions'', Non_Null (Listed (Non_Null (Named ''Action'')))),
       (''implementation'', Non_Null (Named ''Implementation'')),
       (''implementations'', Non_Null (Listed (Non_Null (Named ''Implementation'')))),
       (''resolvedImplementations'', Non_Null (Listed (Non_Null (Named ''Implementation'')))),
       (''shortcuts'', Non_Null (Listed (Non_Null (Named ''Shortcut'')))),
       (''shortcut'', Non_Null (Named ''Shortcut'')),
       (''spacesForAgents'', Non_Null (Listed (Non_Null (Named ''SpaceForAgents'')))),
       (''state'', Non_Null (Named ''State'')),
       (''checkoutAgent'', Non_Null (Named ''AgentWithValues'')),
       (''tasks'', Non_Null (Listed (Non_Null (Named ''Task'')))),
       (''event'', Non_Null (Named ''TaskEvent'')), (''task'', Non_Null (Named ''Task'')),
       (''myImplementationAt'', Non_Null (Named ''Implementation'')),
       (''testCase'', Non_Null (Named ''TestCase'')),
       (''testResult'', Non_Null (Named ''TestResult'')),
       (''testCases'', Non_Null (Listed (Non_Null (Named ''TestCase'')))),
       (''testResults'', Non_Null (Listed (Non_Null (Named ''TestResult'')))),
       (''toolboxes'', Non_Null (Listed (Non_Null (Named ''Toolbox'')))),
       (''toolbox'', Non_Null (Named ''Toolbox''))]"

definition server_ResolvedBlokLocal :: "(string \<times> gql_type) list" where
  "server_ResolvedBlokLocal =
      [(''key'', Non_Null (Named ''String'')), (''label'', Named ''String''),
       (''kind'', Non_Null (Named ''LocalKind'')), (''description'', Named ''String''),
       (''identifier'', Named ''Identifier''), (''nullable'', Non_Null (Named ''Boolean'')),
       (''default'', Named ''AnyDefault''), (''persist'', Non_Null (Named ''Boolean'')),
       (''referenceUnit'', Named ''String''),
       (''proposedUnits'', Listed (Non_Null (Named ''String''))),
       (''dimension'', Named ''String''),
       (''children'', Listed (Non_Null (Named ''ArgPort''))),
       (''choices'', Listed (Non_Null (Named ''Choice'')))]"

definition server_ReturnPort :: "(string \<times> gql_type) list" where
  "server_ReturnPort =
      [(''key'', Non_Null (Named ''String'')), (''label'', Named ''String''),
       (''nullable'', Non_Null (Named ''Boolean'')), (''description'', Named ''String''),
       (''kind'', Non_Null (Named ''PortKind'')), (''identifier'', Named ''Identifier''),
       (''referenceUnit'', Named ''String''),
       (''proposedUnits'', Listed (Non_Null (Named ''String''))),
       (''dimension'', Named ''String''),
       (''children'', Listed (Non_Null (Named ''ReturnPort''))),
       (''choices'', Listed (Non_Null (Named ''Choice''))),
       (''widget'', Named ''ReturnWidget''),
       (''effects'', Listed (Non_Null (Named ''Effect'')))]"

definition server_SearchAssignWidget :: "(string \<times> gql_type) list" where
  "server_SearchAssignWidget =
      [(''kind'', Non_Null (Named ''AssignWidgetKind'')),
       (''query'', Non_Null (Named ''String'')), (''ward'', Non_Null (Named ''String'')),
       (''dependencies'', Listed (Non_Null (Named ''String'')))]"

definition server_Shortcut :: "(string \<times> gql_type) list" where
  "server_Shortcut =
      [(''id'', Non_Null (Named ''ID'')), (''name'', Non_Null (Named ''String'')),
       (''description'', Named ''String''), (''action'', Non_Null (Named ''Action'')),
       (''savedArgs'', Non_Null (Named ''AnyDefault'')),
       (''args'', Non_Null (Listed (Non_Null (Named ''ArgPort'')))),
       (''returns'', Non_Null (Listed (Non_Null (Named ''ReturnPort'')))),
       (''useReturns'', Non_Null (Named ''Boolean'')),
       (''allowQuick'', Non_Null (Named ''Boolean''))]"

definition server_SliderAssignWidget :: "(string \<times> gql_type) list" where
  "server_SliderAssignWidget =
      [(''kind'', Non_Null (Named ''AssignWidgetKind'')), (''min'', Named ''Float''),
       (''max'', Named ''Float''), (''step'', Named ''Float'')]"

definition server_Space :: "(string \<times> gql_type) list" where
  "server_Space =
      [(''id'', Non_Null (Named ''ID'')), (''name'', Non_Null (Named ''String''))]"

definition server_SpaceForAgents :: "(string \<times> gql_type) list" where
  "server_SpaceForAgents =
      [(''placed'', Non_Null (Named ''Int'')), (''space'', Non_Null (Named ''Space''))]"

definition server_State :: "(string \<times> gql_type) list" where
  "server_State =
      [(''key'', Named ''String''), (''interface'', Non_Null (Named ''String'')),
       (''definition'', Non_Null (Named ''StateDefinition'')),
       (''id'', Non_Null (Named ''ID'')), (''agent'', Non_Null (Named ''Agent''))]"

definition server_StateChoiceAssignWidget :: "(string \<times> gql_type) list" where
  "server_StateChoiceAssignWidget =
      [(''kind'', Non_Null (Named ''AssignWidgetKind''))]"

definition server_StateDefinition :: "(string \<times> gql_type) list" where
  "server_StateDefinition =
      [(''name'', Non_Null (Named ''String'')),
       (''ports'', Non_Null (Listed (Non_Null (Named ''ReturnPort'')))),
       (''id'', Non_Null (Named ''ID''))]"

definition server_StateDemand :: "(string \<times> gql_type) list" where
  "server_StateDemand =
      [(''hash'', Named ''ActionHash''), (''key'', Named ''String''),
       (''app'', Named ''String''), (''matches'', Listed (Non_Null (Named ''PortMatch''))),
       (''protocols'', Listed (Non_Null (Named ''String'')))]"

definition server_StateDependency :: "(string \<times> gql_type) list" where
  "server_StateDependency =
      [(''key'', Non_Null (Named ''String'')), (''description'', Named ''String''),
       (''optional'', Non_Null (Named ''Boolean'')), (''demand'', Named ''StateDemand'')]"

definition server_StringAssignWidget :: "(string \<times> gql_type) list" where
  "server_StringAssignWidget =
      [(''kind'', Non_Null (Named ''AssignWidgetKind'')),
       (''placeholder'', Named ''String''), (''asParagraph'', Named ''Boolean'')]"

definition server_Subscription :: "(string \<times> gql_type) list" where
  "server_Subscription =
      [(''mytasks'', Non_Null (Named ''TaskChangeEvent''))]"

definition server_Task :: "(string \<times> gql_type) list" where
  "server_Task =
      [(''args'', Non_Null (Named ''AnyDefault'')), (''id'', Non_Null (Named ''ID'')),
       (''parent'', Named ''Task''),
       (''latestEventKind'', Non_Null (Named ''TaskEventKind'')),
       (''policy'', Non_Null (Named ''TaskPolicy'')),
       (''events'', Non_Null (Listed (Non_Null (Named ''TaskEvent'')))),
       (''instructs'', Non_Null (Listed (Non_Null (Named ''TaskInstruct'')))),
       (''reference'', Named ''String''), (''updatedAt'', Non_Null (Named ''DateTime'')),
       (''action'', Non_Null (Named ''Action'')), (''space'', Named ''Space''),
       (''actionBloks'', Non_Null (Listed (Non_Null (Named ''ActionBlok'')))),
       (''dependencyAgents'', Non_Null (Listed (Non_Null (Named ''TaskDependencyAgent''))))]"

definition server_TaskChange :: "(string \<times> gql_type) list" where
  "server_TaskChange =
      [(''id'', Non_Null (Named ''ID'')), (''reference'', Named ''String''),
       (''isDone'', Non_Null (Named ''Boolean'')),
       (''latestEventKind'', Non_Null (Named ''TaskEventKind'')),
       (''latestInstructKind'', Non_Null (Named ''TaskInstructKind'')),
       (''updatedAt'', Non_Null (Named ''DateTime'')),
       (''createdAt'', Non_Null (Named ''DateTime''))]"

definition server_TaskChangeEvent :: "(string \<times> gql_type) list" where
  "server_TaskChangeEvent =
      [(''create'', Named ''TaskChange''), (''event'', Named ''TaskEventChange'')]"

definition server_TaskDependencyAgent :: "(string \<times> gql_type) list" where
  "server_TaskDependencyAgent =
      [(''key'', Non_Null (Named ''String'')), (''agent'', Non_Null (Named ''Agent''))]"

definition server_TaskEvent :: "(string \<times> gql_type) list" where
  "server_TaskEvent =
      [(''id'', Non_Null (Named ''ID'')), (''returns'', Named ''AnyDefault''),
       (''level'', Non_Null (Named ''LogLevel'')),
       (''kind'', Non_Null (Named ''TaskEventKind'')), (''reference'', Named ''String''),
       (''message'', Named ''String''), (''progress'', Named ''Int''),
       (''value'', Named ''AnyDefault''), (''createdAt'', Non_Null (Named ''DateTime''))]"

definition server_TaskEventChange :: "(string \<times> gql_type) list" where
  "server_TaskEventChange =
      [(''id'', Non_Null (Named ''ID'')), (''task'', Non_Null (Named ''ID'')),
       (''kind'', Non_Null (Named ''TaskEventKind'')), (''returns'', Named ''AnyDefault''),
       (''message'', Named ''String''), (''progress'', Named ''Int''),
       (''value'', Named ''AnyDefault''), (''createdAt'', Non_Null (Named ''DateTime''))]"

definition server_TaskInstruct :: "(string \<times> gql_type) list" where
  "server_TaskInstruct =
      [(''id'', Non_Null (Named ''ID''))]"

definition server_TestCase :: "(string \<times> gql_type) list" where
  "server_TestCase =
      [(''id'', Non_Null (Named ''ID'')), (''action'', Non_Null (Named ''Action'')),
       (''isBenchmark'', Non_Null (Named ''Boolean'')),
       (''description'', Non_Null (Named ''String'')),
       (''name'', Non_Null (Named ''String''))]"

definition server_TestResult :: "(string \<times> gql_type) list" where
  "server_TestResult =
      [(''id'', Non_Null (Named ''ID'')), (''case'', Non_Null (Named ''TestCase'')),
       (''passed'', Non_Null (Named ''Boolean'')),
       (''createdAt'', Non_Null (Named ''DateTime''))]"

definition server_Toolbox :: "(string \<times> gql_type) list" where
  "server_Toolbox =
      [(''id'', Non_Null (Named ''ID'')), (''name'', Non_Null (Named ''String'')),
       (''description'', Non_Null (Named ''String''))]"

definition server_User :: "(string \<times> gql_type) list" where
  "server_User =
      [(''sub'', Non_Null (Named ''ID''))]"

definition server_UtilCall :: "(string \<times> gql_type) list" where
  "server_UtilCall =
      [(''operation'', Non_Null (Named ''String'')),
       (''arguments'', Listed (Non_Null (Named ''ActionArgument'')))]"

definition server_Validator :: "(string \<times> gql_type) list" where
  "server_Validator =
      [(''call'', Non_Null (Named ''UtilCall'')),
       (''callJson'', Non_Null (Named ''JSONSerializable'')), (''source'', Named ''String''),
       (''errorMessage'', Named ''String''),
       (''dependencies'', Listed (Non_Null (Named ''String''))),
       (''label'', Named ''String'')]"

definition server_types :: "(string \<times> (string \<times> gql_type) list) list" where
  "server_types =
     [(''Action'', server_Action),
      (''ActionArgument'', server_ActionArgument),
      (''ActionBlok'', server_ActionBlok),
      (''ActionDemand'', server_ActionDemand),
      (''ActionDependency'', server_ActionDependency),
      (''Agent'', server_Agent),
      (''AgentWithValues'', server_AgentWithValues),
      (''App'', server_App),
      (''ArgPort'', server_ArgPort),
      (''Asset'', server_Asset),
      (''AssetUploadGrant'', server_AssetUploadGrant),
      (''BaseCatalog'', server_BaseCatalog),
      (''Blok'', server_Blok),
      (''BlokAgentMapping'', server_BlokAgentMapping),
      (''BlokDemo'', server_BlokDemo),
      (''BlokDependency'', server_BlokDependency),
      (''BlokEdit'', server_BlokEdit),
      (''BlokLocal'', server_BlokLocal),
      (''BlokQuery'', server_BlokQuery),
      (''BlokRevision'', server_BlokRevision),
      (''BlokSubscription'', server_BlokSubscription),
      (''CatalogArgument'', server_CatalogArgument),
      (''CatalogComponent'', server_CatalogComponent),
      (''CatalogEventField'', server_CatalogEventField),
      (''CatalogOperation'', server_CatalogOperation),
      (''CatalogProp'', server_CatalogProp),
      (''Choice'', server_Choice),
      (''ChoiceAssignWidget'', server_ChoiceAssignWidget),
      (''ChoiceReturnWidget'', server_ChoiceReturnWidget),
      (''Client'', server_Client),
      (''Collection'', server_Collection),
      (''ComponentProp'', server_ComponentProp),
      (''CustomAssignWidget'', server_CustomAssignWidget),
      (''CustomEffect'', server_CustomEffect),
      (''CustomReturnWidget'', server_CustomReturnWidget),
      (''Dashboard'', server_Dashboard),
      (''Diagnostic'', server_Diagnostic),
      (''DynamicValue'', server_DynamicValue),
      (''HideEffect'', server_HideEffect),
      (''Implementation'', server_Implementation),
      (''MaterializedBlok'', server_MaterializedBlok),
      (''MediaAccessGrant'', server_MediaAccessGrant),
      (''MediaStore'', server_MediaStore),
      (''MediaUploadGrant'', server_MediaUploadGrant),
      (''MemoryDrawer'', server_MemoryDrawer),
      (''MemoryShelve'', server_MemoryShelve),
      (''MessageEffect'', server_MessageEffect),
      (''Module'', server_Module),
      (''Mutation'', server_Mutation),
      (''Organization'', server_Organization),
      (''Patch'', server_Patch),
      (''PortGroup'', server_PortGroup),
      (''PortMatch'', server_PortMatch),
      (''ProxyWidget'', server_ProxyWidget),
      (''Query'', server_Query),
      (''ResolvedBlokLocal'', server_ResolvedBlokLocal),
      (''ReturnPort'', server_ReturnPort),
      (''SearchAssignWidget'', server_SearchAssignWidget),
      (''Shortcut'', server_Shortcut),
      (''SliderAssignWidget'', server_SliderAssignWidget),
      (''Space'', server_Space),
      (''SpaceForAgents'', server_SpaceForAgents),
      (''State'', server_State),
      (''StateChoiceAssignWidget'', server_StateChoiceAssignWidget),
      (''StateDefinition'', server_StateDefinition),
      (''StateDemand'', server_StateDemand),
      (''StateDependency'', server_StateDependency),
      (''StringAssignWidget'', server_StringAssignWidget),
      (''Subscription'', server_Subscription),
      (''Task'', server_Task),
      (''TaskChange'', server_TaskChange),
      (''TaskChangeEvent'', server_TaskChangeEvent),
      (''TaskDependencyAgent'', server_TaskDependencyAgent),
      (''TaskEvent'', server_TaskEvent),
      (''TaskEventChange'', server_TaskEventChange),
      (''TaskInstruct'', server_TaskInstruct),
      (''TestCase'', server_TestCase),
      (''TestResult'', server_TestResult),
      (''Toolbox'', server_Toolbox),
      (''User'', server_User),
      (''UtilCall'', server_UtilCall),
      (''Validator'', server_Validator)]"

definition server_interfaces :: "(string \<times> string list) list" where
  "server_interfaces =
     [(''AssignWidget'', [''ChoiceAssignWidget'', ''CustomAssignWidget'', ''ProxyWidget'',
        ''SearchAssignWidget'', ''SliderAssignWidget'', ''StateChoiceAssignWidget'',
        ''StringAssignWidget'']),
      (''Effect'', [''CustomEffect'', ''HideEffect'', ''MessageEffect'']),
      (''ReturnWidget'', [''ChoiceReturnWidget'', ''CustomReturnWidget''])]"

lemmas server_type_fields =
  server_Action_def server_ActionArgument_def server_ActionBlok_def server_ActionDemand_def
  server_ActionDependency_def server_Agent_def server_AgentWithValues_def server_App_def
  server_ArgPort_def server_Asset_def server_AssetUploadGrant_def server_BaseCatalog_def
  server_Blok_def server_BlokAgentMapping_def server_BlokDemo_def server_BlokDependency_def
  server_BlokEdit_def server_BlokLocal_def server_BlokQuery_def server_BlokRevision_def
  server_BlokSubscription_def server_CatalogArgument_def server_CatalogComponent_def
  server_CatalogEventField_def server_CatalogOperation_def server_CatalogProp_def
  server_Choice_def server_ChoiceAssignWidget_def server_ChoiceReturnWidget_def
  server_Client_def server_Collection_def server_ComponentProp_def
  server_CustomAssignWidget_def server_CustomEffect_def server_CustomReturnWidget_def
  server_Dashboard_def server_Diagnostic_def server_DynamicValue_def server_HideEffect_def
  server_Implementation_def server_MaterializedBlok_def server_MediaAccessGrant_def
  server_MediaStore_def server_MediaUploadGrant_def server_MemoryDrawer_def
  server_MemoryShelve_def server_MessageEffect_def server_Module_def server_Mutation_def
  server_Organization_def server_Patch_def server_PortGroup_def server_PortMatch_def
  server_ProxyWidget_def server_Query_def server_ResolvedBlokLocal_def server_ReturnPort_def
  server_SearchAssignWidget_def server_Shortcut_def server_SliderAssignWidget_def
  server_Space_def server_SpaceForAgents_def server_State_def
  server_StateChoiceAssignWidget_def server_StateDefinition_def server_StateDemand_def
  server_StateDependency_def server_StringAssignWidget_def server_Subscription_def
  server_Task_def server_TaskChange_def server_TaskChangeEvent_def
  server_TaskDependencyAgent_def server_TaskEvent_def server_TaskEventChange_def
  server_TaskInstruct_def server_TestCase_def server_TestResult_def server_Toolbox_def
  server_User_def server_UtilCall_def server_Validator_def

end
