(* ===== verification/Api_Answers.thy ===== *)
theory Api_Answers
  imports Api_Inputs Server_Types
begin

text \<open>
  Answers: what the server may send for a document, by its schema, and what a class reads. The
  classes are those of \<open>rekuest/api/schema.py\<close>; a document selects what \<open>Api_Documents\<close> says of it,
  of types as \<open>Server_Types\<close> declares them. \<open>fits\<close> compares the three field by field, and
  \<open>fits_accepted\<close> shows that it is enough.
\<close>

section \<open>What the server may send\<close>

definition possible :: "string \<Rightarrow> string list" where
  "possible n = (case map_of server_interfaces n of None \<Rightarrow> [n] | Some ts \<Rightarrow> ts)"

definition fields_of_type :: "string \<Rightarrow> (string \<times> gql_type) list option" where
  "fields_of_type = map_of server_types"

definition server_field :: "string \<Rightarrow> string \<Rightarrow> gql_type option" where
  "server_field t f = (case fields_of_type t of None \<Rightarrow> None | Some fs \<Rightarrow> map_of fs f)"

text \<open>
  The fields selected of an object of type \<open>t\<close>: a fragment counts if it is on the type or on an
  interface of it.
\<close>

fun collect :: "string \<Rightarrow> item list \<Rightarrow> (string \<times> string \<times> item list) list" where
  "collect t [] = []"
| "collect t (Sel key f sub # is) = (key, f, sub) # collect t is"
| "collect t (On c fs # is) = (if t \<in> set (possible c) then collect t fs else []) @ collect t is"

text \<open>
  An answer: a null, a value of a scalar or enum (of which only its type matters here), the name
  of a type, a list, or an object with its type and fields.
\<close>

datatype answer =
    Null
  | Scalar string
  | Type_Name string
  | Items "answer list"
  | Object string "(string, answer) dict"

lemma dict_get_smaller:
  "dict_get fs k = Some v \<Longrightarrow> size v \<le> size_list (size_prod (\<lambda>_. 0) size) fs"
  by (induction fs) (auto split: if_splits)

lemma list_member_smaller: "a \<in> set as \<Longrightarrow> size a \<le> size_list size as"
  by (induction as) auto

text \<open>
  By the schema, an object has every field selected of it, each of its declared type; nothing that is
  \<open>Non_Null\<close> is null; an interface is one of its object types.
\<close>

function may_send :: "gql_type \<Rightarrow> item list \<Rightarrow> answer \<Rightarrow> bool" where
  "may_send (Non_Null g) sub a \<longleftrightarrow> a \<noteq> Null \<and> may_send g sub a"
| "may_send (Listed g) sub Null \<longleftrightarrow> True"
| "may_send (Listed g) sub (Items as) \<longleftrightarrow> (\<forall>a\<in>set as. may_send g sub a)"
| "may_send (Listed g) sub (Scalar n) \<longleftrightarrow> False"
| "may_send (Listed g) sub (Type_Name n) \<longleftrightarrow> False"
| "may_send (Listed g) sub (Object t fs) \<longleftrightarrow> False"
| "may_send (Named n) sub Null \<longleftrightarrow> True"
| "may_send (Named n) sub (Scalar m) \<longleftrightarrow> sub = [] \<and> m = n"
| "may_send (Named n) sub (Type_Name m) \<longleftrightarrow> False"
| "may_send (Named n) sub (Items as) \<longleftrightarrow> False"
| "may_send (Named n) sub (Object t fs) \<longleftrightarrow> sub \<noteq> [] \<and> t \<in> set (possible n) \<and>
     (\<forall>(key, f, sub') \<in> set (collect t sub).
        case dict_get fs key of
          None \<Rightarrow> False
        | Some a \<Rightarrow>
            if f = ''__typename'' then a = Type_Name t
            else (case server_field t f of None \<Rightarrow> False | Some g \<Rightarrow> may_send g sub' a))"
  by pat_completeness auto

termination
  by (relation "measures [\<lambda>(g, sub, a). size a, \<lambda>(g, sub, a). size g]")
    (auto simp: less_Suc_eq_le dest: dict_get_smaller list_member_smaller)

section \<open>What a class reads\<close>

text \<open>The variant of a union is the model whose \<open>typename\<close> is the literal for the object's type.\<close>

definition model_literal :: "answer_field list \<Rightarrow> string option" where
  "model_literal fs =
     (case List.find (\<lambda>f. answer_key f = ''__typename'') fs of
        None \<Rightarrow> None
      | Some f \<Rightarrow> (case af_type f of Literal t \<Rightarrow> Some t | _ \<Rightarrow> None))"

text \<open>
  What pydantic documents that such types accept, at least: a scalar's Python class its values, a model an
  object whose fields under their aliases are accepted, where a missing one has a default; further
  keys are ignored.
\<close>

inductive accepted :: "answer_type \<Rightarrow> answer \<Rightarrow> bool" where
  scalar: "python_leaf n = m \<Longrightarrow> accepted (Value m) (Scalar n)"
| type_name: "accepted (Value ''str'') (Type_Name n)"
| literal: "accepted (Literal n) (Type_Name n)"
| none: "accepted (Nullable p) Null"
| some: "accepted p a \<Longrightarrow> accepted (Nullable p) a"
| items: "\<forall>a\<in>set as. accepted p a \<Longrightarrow> accepted (Many p) (Items as)"
| object: "\<forall>f\<in>set fs. (dict_get d (answer_key f) = None \<longrightarrow> af_optional f) \<and>
      (\<forall>a. dict_get d (answer_key f) = Some a \<longrightarrow> accepted (af_type f) a) \<Longrightarrow>
    accepted (Model fs) (Object t d)"
| variant: "List.find (\<lambda>fs. model_literal fs = Some t) vs = Some fs \<Longrightarrow>
    accepted (Model fs) (Object t d) \<Longrightarrow> accepted (Variants vs other) (Object t d)"
| other: "List.find (\<lambda>fs. model_literal fs = Some t) vs = None \<Longrightarrow>
    accepted (Model other) (Object t d) \<Longrightarrow> accepted (Variants vs other) (Object t d)"

text \<open>The class's \<open>model_validate\<close> is pydantic's; what is relied on is that it keeps to its documentation.\<close>

definition keeps_documentation :: "(answer_type \<Rightarrow> answer \<Rightarrow> bool) \<Rightarrow> bool" where
  "keeps_documentation validate \<longleftrightarrow> (\<forall>p a. accepted p a \<longrightarrow> validate p a)"

inductive_cases accepted_modelE: "accepted (Model fs) (Object t d)"

section \<open>When a class fits what is selected for it\<close>

lemma variant_smaller: "fs \<in> set vs \<Longrightarrow> size_list size fs < size_list (size_list size) vs"
  by (induction vs) auto

lemma field_type_smaller: "2 * size (af_type p) \<le> Suc (2 * size p + k)"
  by (cases p) simp

text \<open>
  Of a model, every field is selected under its key, and fits what the server declares of the
  field selected; only a nullable type fits a field that may be null; an interface is fitted by a
  variant for every type it stands for.
\<close>

function (sequential) fits :: "answer_type \<Rightarrow> gql_type \<Rightarrow> item list \<Rightarrow> bool"
  and fields_fit :: "answer_field list \<Rightarrow> string \<Rightarrow> (string \<times> string \<times> item list) list \<Rightarrow> bool"
  and field_fits :: "answer_type \<Rightarrow> string \<Rightarrow> string \<Rightarrow> item list \<Rightarrow> bool" where
  "fits (Nullable p) g sub = fits p (Non_Null (nullable g)) sub"
| "fits (Value m) (Non_Null (Named n)) sub = (sub = [] \<and> python_leaf n = m)"
| "fits (Many p) (Non_Null (Listed g)) sub = fits p g sub"
| "fits (Model fs) (Non_Null (Named n)) sub =
     (sub \<noteq> [] \<and> possible n = [n] \<and> fields_fit fs n (collect n sub))"
| "fits (Variants vs other) (Non_Null (Named n)) sub = (sub \<noteq> [] \<and>
     list_all (\<lambda>t. list_ex (\<lambda>fs. model_literal fs = Some t \<and>
       List.find (\<lambda>fs. model_literal fs = Some t) vs = Some fs \<and> fits (Model fs) (Non_Null (Named t)) sub) vs) (possible n))"
| "fits _ _ _ = False"
| "fields_fit [] n sel = True"
| "fields_fit (p # ps) n sel =
     ((case map_of sel (answer_key p) of None \<Rightarrow> False | Some (f, sub) \<Rightarrow> field_fits (af_type p) n f sub) \<and>
      fields_fit ps n sel)"
| "field_fits p n f sub =
     (if f = ''__typename'' then p = Literal n \<or> p = Value ''str''
      else (case server_field n f of None \<Rightarrow> False | Some g \<Rightarrow> fits p g sub))"
  by pat_completeness auto

termination
  by (relation "measure (\<lambda>x. case x of
        Inl (p, g, sub) \<Rightarrow> 2 * size p
      | Inr (Inl (fs, n, sel)) \<Rightarrow> 2 * size_list size fs + 1
      | Inr (Inr (p, n, f, sub)) \<Rightarrow> 2 * size p + 1)")
    (auto dest: variant_smaller simp: less_Suc_eq_le field_type_smaller)

lemma may_send_nullable: "may_send g sub a \<Longrightarrow> a \<noteq> Null \<Longrightarrow> may_send (Non_Null (nullable g)) sub a"
  by (cases g) simp_all

definition field_sent :: "string \<Rightarrow> string \<Rightarrow> item list \<Rightarrow> answer \<Rightarrow> bool" where
  "field_sent t f sub a \<longleftrightarrow>
     (if f = ''__typename'' then a = Type_Name t
      else (case server_field t f of None \<Rightarrow> False | Some g \<Rightarrow> may_send g sub a))"

lemma may_send_object:
  "may_send (Named n) sub (Object t d) \<longleftrightarrow> sub \<noteq> [] \<and> t \<in> set (possible n) \<and>
     (\<forall>(key, f, sub') \<in> set (collect t sub). \<exists>a. dict_get d key = Some a \<and> field_sent t f sub' a)"
proof -
  have "(case dict_get d key of None \<Rightarrow> False | Some a \<Rightarrow>
      if f = ''__typename'' then a = Type_Name t
      else (case server_field t f of None \<Rightarrow> False | Some g \<Rightarrow> may_send g sub' a)) \<longleftrightarrow>
      (\<exists>a. dict_get d key = Some a \<and> field_sent t f sub' a)" for key f sub'
    by (cases "dict_get d key") (simp_all add: field_sent_def)
  then show ?thesis unfolding may_send.simps by presburger
qed

lemma model_accepted:
  assumes "may_send (Named n) sub (Object t d)" and "possible n = [n]"
    and "\<forall>p\<in>set fs. \<exists>f sub'. map_of (collect n sub) (answer_key p) = Some (f, sub') \<and>
      (\<forall>a. field_sent n f sub' a \<longrightarrow> accepted (af_type p) a)"
  shows "accepted (Model fs) (Object t d)"
proof (rule accepted.object, rule ballI)
  fix p assume "p \<in> set fs"
  then obtain f sub' where f: "map_of (collect n sub) (answer_key p) = Some (f, sub')"
      "\<forall>a. field_sent n f sub' a \<longrightarrow> accepted (af_type p) a"
    using assms(3) by blast
  have "(answer_key p, f, sub') \<in> set (collect n sub)" using f(1) by (rule map_of_SomeD)
  then have "\<exists>a. dict_get d (answer_key p) = Some a \<and> field_sent n f sub' a"
    using assms(1,2) unfolding may_send_object by force
  then show "(dict_get d (answer_key p) = None \<longrightarrow> af_optional p) \<and>
      (\<forall>a. dict_get d (answer_key p) = Some a \<longrightarrow> accepted (af_type p) a)"
    using f(2) by auto
qed

text \<open>Whatever the server may send where a type fits is accepted by it.\<close>

lemma fits_accepted:
  "fits p g sub \<Longrightarrow> may_send g sub a \<Longrightarrow> accepted p a"
  and fields_fit_accepted:
  "fields_fit fs n sel \<Longrightarrow> \<forall>p\<in>set fs. \<exists>f sub. map_of sel (answer_key p) = Some (f, sub) \<and>
      (\<forall>a. field_sent n f sub a \<longrightarrow> accepted (af_type p) a)"
  and field_fits_accepted:
  "field_fits q t f sub' \<Longrightarrow> \<forall>b. field_sent t f sub' b \<longrightarrow> accepted q b"
proof (induction p g sub and fs n sel and q t f sub' arbitrary: a
    rule: fits_fields_fit_field_fits.induct)
  case (1 p g sub)
  show ?case
  proof (cases "a = Null")
    case False
    show ?thesis
      by (rule accepted.some, rule 1) (use 1 False may_send_nullable in simp_all)
  qed (simp add: accepted.none)
next
  case (2 m n sub)
  then show ?case by (cases a) (auto intro: accepted.scalar)
next
  case (3 p g sub)
  then show ?case by (cases a) (auto intro!: accepted.items)
next
  case (4 fs n sub)
  obtain t d where a: "a = Object t d" using 4(2,3) by (cases a) auto
  have "may_send (Named n) sub (Object t d)"
    using 4(3) unfolding a may_send.simps(1) by blast
  then show ?case unfolding a by (rule model_accepted) (use 4 in auto)
next
  case (5 vs other n sub)
  obtain t d where a: "a = Object t d" "t \<in> set (possible n)" using 5(2,3) by (cases a) auto
  then obtain fs where fs: "fs \<in> set vs" "List.find (\<lambda>fs. model_literal fs = Some t) vs = Some fs"
      "fits (Model fs) (Non_Null (Named t)) sub"
    using 5(2) by (auto simp: list_all_iff list_ex_iff)
  have "possible t = [t]" using fs(3) by simp
  then have "may_send (Non_Null (Named t)) sub a" using 5(3) a(1) by simp
  then have "accepted (Model fs) a" using 5(1) fs 5(2) a by auto
  then show ?case unfolding a(1) by (rule accepted.variant [OF fs(2)])
next
  case (8 p ps n sel)
  then show ?case by (cases "map_of sel (answer_key p)") auto
next
  case (9 p n f sub)
  then show ?case
    by (cases "f = ''__typename''"; cases "server_field n f")
      (auto simp: field_sent_def intro: accepted.literal accepted.type_name)
qed simp_all

section \<open>The classes fit\<close>

named_theorems fits_facts

lemma fits_model:
  "sub \<noteq> [] \<Longrightarrow> possible n = [n] \<Longrightarrow> fields_fit fs n (collect n sub) \<Longrightarrow>
     fits (Model fs) (Non_Null (Named n)) sub"
  by simp

lemmas python_leaf_search =
  python_leaf_def [unfolded scalar_definitions_def builtin_scalars_def append.simps]

lemma fields_of_type_entries: "list_all (\<lambda>(k, v). fields_of_type k = Some v) server_types"
proof -
  have "distinct (map fst server_types)" by (simp add: server_types_def)
  then show ?thesis by (auto simp: list_all_iff fields_of_type_def)
qed

lemmas fits_simps =
  fields_of_type_entries [unfolded server_types_def list.pred_inject prod.case]
  server_type_fields [THEN arg_cong, of map_of, THEN fun_cong]
  server_interfaces_def [THEN arg_cong, of map_of, THEN fun_cong]
  possible_def server_field_def model_fields_def answer_key_def python_leaf_search search_simps

lemma variant_literals [fits_facts]:
  "model_literal ArgPortWidgetBaseChoiceAssignWidget_fields = Some ''ChoiceAssignWidget''"
  "model_literal ArgPortWidgetBaseCustomAssignWidget_fields = Some ''CustomAssignWidget''"
  "model_literal ArgPortWidgetBaseProxyWidget_fields = Some ''ProxyWidget''"
  "model_literal ArgPortWidgetBaseSearchAssignWidget_fields = Some ''SearchAssignWidget''"
  "model_literal ArgPortWidgetBaseSliderAssignWidget_fields = Some ''SliderAssignWidget''"
  "model_literal ArgPortWidgetBaseStateChoiceAssignWidget_fields = Some ''StateChoiceAssignWidget''"
  "model_literal ArgPortWidgetBaseStringAssignWidget_fields = Some ''StringAssignWidget''"
  "model_literal ArgPortEffectsBaseCustomEffect_fields = Some ''CustomEffect''"
  "model_literal ArgPortEffectsBaseHideEffect_fields = Some ''HideEffect''"
  "model_literal ArgPortEffectsBaseMessageEffect_fields = Some ''MessageEffect''"
  "model_literal ReturnPortWidgetBaseChoiceReturnWidget_fields = Some ''ChoiceReturnWidget''"
  "model_literal ReturnPortWidgetBaseCustomReturnWidget_fields = Some ''CustomReturnWidget''"
  "model_literal ReturnPortEffectsBaseCustomEffect_fields = Some ''CustomEffect''"
  "model_literal ReturnPortEffectsBaseHideEffect_fields = Some ''HideEffect''"
  "model_literal ReturnPortEffectsBaseMessageEffect_fields = Some ''MessageEffect''"
  by (simp_all add: model_literal_def model_fields_def answer_key_def
      ArgPortEffectsBase_fields_def ArgPortEffectsBaseCustomEffect_fields_def
      ArgPortEffectsBaseHideEffect_fields_def ArgPortEffectsBaseMessageEffect_fields_def
      ArgPortWidgetBase_fields_def ArgPortWidgetBaseChoiceAssignWidget_fields_def
      ArgPortWidgetBaseCustomAssignWidget_fields_def ArgPortWidgetBaseProxyWidget_fields_def
      ArgPortWidgetBaseSearchAssignWidget_fields_def
      ArgPortWidgetBaseSliderAssignWidget_fields_def
      ArgPortWidgetBaseStateChoiceAssignWidget_fields_def
      ArgPortWidgetBaseStringAssignWidget_fields_def ChoiceAssignWidget_fields_def
      ChoiceReturnWidget_fields_def CustomAssignWidget_fields_def CustomEffect_fields_def
      CustomReturnWidget_fields_def MessageEffect_fields_def PortAssignWidgetBase_fields_def
      PortAssignWidgetChoiceAssignWidget_fields_def
      PortAssignWidgetCustomAssignWidget_fields_def PortAssignWidgetProxyWidget_fields_def
      PortAssignWidgetSearchAssignWidget_fields_def
      PortAssignWidgetSliderAssignWidget_fields_def
      PortAssignWidgetStateChoiceAssignWidget_fields_def
      PortAssignWidgetStringAssignWidget_fields_def PortEffectBase_fields_def
      PortEffectCustomEffect_fields_def PortEffectHideEffect_fields_def
      PortEffectMessageEffect_fields_def ReturnPortEffectsBase_fields_def
      ReturnPortEffectsBaseCustomEffect_fields_def ReturnPortEffectsBaseHideEffect_fields_def
      ReturnPortEffectsBaseMessageEffect_fields_def ReturnPortWidgetBase_fields_def
      ReturnPortWidgetBaseChoiceReturnWidget_fields_def
      ReturnPortWidgetBaseCustomReturnWidget_fields_def ReturnWidgetBase_fields_def
      ReturnWidgetChoiceReturnWidget_fields_def ReturnWidgetCustomReturnWidget_fields_def
      SearchAssignWidget_fields_def SliderAssignWidget_fields_def
      StringAssignWidget_fields_def)

lemma fits_plain [fits_facts]:
  "fits (Model TaskParent_fields) (Non_Null (Named ''Task'')) TaskParent_body"
  "fits (Model TaskEvents_fields) (Non_Null (Named ''TaskEvent'')) TaskEvents_body"
  "fits (Model TaskInstructs_fields) (Non_Null (Named ''TaskInstruct'')) TaskInstructs_body"
  "fits (Model AgentClient_fields) (Non_Null (Named ''Client'')) AgentClient_body"
  "fits (Model AgentUser_fields) (Non_Null (Named ''User'')) AgentUser_body"
  "fits (Model AgentOrganization_fields) (Non_Null (Named ''Organization''))
      AgentOrganization_body"
  "fits (Model AgentMemoryShelve_fields) (Non_Null (Named ''MemoryShelve''))
      AgentMemoryShelve_body"
  "fits (Model AssetUploadGrant_fields) (Non_Null (Named ''AssetUploadGrant'')) [On
      ''AssetUploadGrant'' AssetUploadGrant_body, Get ''__typename'']"
  "fits (Model CreateAssetMutationCreateAsset_fields) (Non_Null (Named ''Asset''))
      CreateAssetMutationCreateAsset_body"
  "fits (Model Blok_fields) (Non_Null (Named ''Blok'')) [On ''Blok'' Blok_body, Get
      ''__typename'']"
  "fits (Model MaterializedBlok_fields) (Non_Null (Named ''MaterializedBlok'')) [On
      ''MaterializedBlok'' MaterializedBlok_body, Get ''__typename'']"
  "fits (Model DetailBlokApp_fields) (Non_Null (Named ''App'')) DetailBlokApp_body"
  "fits (Model DetailBlokModule_fields) (Non_Null (Named ''Module'')) DetailBlokModule_body"
  "fits (Model ArgChildPortNestedChildren_fields) (Non_Null (Named ''ArgPort''))
      ArgChildPortNestedChildren_body"
  "fits (Model ArgChildPortNestedChoices_fields) (Non_Null (Named ''Choice''))
      ArgChildPortNestedChoices_body"
  "fits (Model ArgChildPortChoices_fields) (Non_Null (Named ''Choice'')) ArgChildPortChoices_body"
  "fits (Model BlokLocalChoices_fields) (Non_Null (Named ''Choice'')) BlokLocalChoices_body"
  "fits (Model ResolvedBlokLocalChoices_fields) (Non_Null (Named ''Choice''))
      ResolvedBlokLocalChoices_body"
  "fits (Model BlokDemo_fields) (Non_Null (Named ''BlokDemo'')) [On ''BlokDemo'' BlokDemo_body,
      Get ''__typename'']"
  "fits (Model ActionArgumentLeafUtilCall_fields) (Non_Null (Named ''UtilCall''))
      ActionArgumentLeafUtilCall_body"
  "fits (Model BlokDiagnostic_fields) (Non_Null (Named ''Diagnostic'')) [On ''Diagnostic''
      BlokDiagnostic_body, Get ''__typename'']"
  "fits (Model BlokPortMatchChildrenChildrenChildren_fields) (Non_Null (Named ''PortMatch''))
      BlokPortMatchChildrenChildrenChildren_body"
  "fits (Model ArgPortWidgetBaseChoiceAssignWidget_fields) (Non_Null (Named
      ''ChoiceAssignWidget'')) [On ''AssignWidget'' PortAssignWidget_body, Get ''__typename'']"
  "fits (Model ComponentPropDynamicValue_fields) (Non_Null (Named ''DynamicValue''))
      ComponentPropDynamicValue_body"
  "fits (Model ArgPortWidgetBaseProxyWidget_fields) (Non_Null (Named ''ProxyWidget'')) [On
      ''AssignWidget'' PortAssignWidget_body, Get ''__typename'']"
  "fits (Model ArgPortWidgetBaseSearchAssignWidget_fields) (Non_Null (Named
      ''SearchAssignWidget'')) [On ''AssignWidget'' PortAssignWidget_body, Get ''__typename'']"
  "fits (Model ArgPortWidgetBaseSliderAssignWidget_fields) (Non_Null (Named
      ''SliderAssignWidget'')) [On ''AssignWidget'' PortAssignWidget_body, Get ''__typename'']"
  "fits (Model ArgPortWidgetBaseStateChoiceAssignWidget_fields) (Non_Null (Named
      ''StateChoiceAssignWidget'')) [On ''AssignWidget'' PortAssignWidget_body, Get
      ''__typename'']"
  "fits (Model ArgPortWidgetBaseStringAssignWidget_fields) (Non_Null (Named
      ''StringAssignWidget'')) [On ''AssignWidget'' PortAssignWidget_body, Get ''__typename'']"
  "fits (Model ArgPortChoices_fields) (Non_Null (Named ''Choice'')) ArgPortChoices_body"
  "fits (Model BlokRevisionAuthor_fields) (Non_Null (Named ''User'')) BlokRevisionAuthor_body"
  "fits (Model BlokRevisionTask_fields) (Non_Null (Named ''Task'')) BlokRevisionTask_body"
  "fits (Model DetailMaterializedBlokDeclaredBy_fields) (Non_Null (Named ''Agent''))
      DetailMaterializedBlokDeclaredBy_body"
  "fits (Model DetailMaterializedBlokAgentMappingsAgent_fields) (Non_Null (Named ''Agent''))
      DetailMaterializedBlokAgentMappingsAgent_body"
  "fits (Model CatalogEventField_fields) (Non_Null (Named ''CatalogEventField'')) [On
      ''CatalogEventField'' CatalogEventField_body, Get ''__typename'']"
  "fits (Model CatalogArgument_fields) (Non_Null (Named ''CatalogArgument'')) [On
      ''CatalogArgument'' CatalogArgument_body, Get ''__typename'']"
  "fits (Model Dashboard_fields) (Non_Null (Named ''Dashboard'')) [On ''Dashboard''
      Dashboard_body, Get ''__typename'']"
  "fits (Model MediaUploadGrant_fields) (Non_Null (Named ''MediaUploadGrant'')) [On
      ''MediaUploadGrant'' MediaUploadGrant_body, Get ''__typename'']"
  "fits (Model MediaStore_fields) (Non_Null (Named ''MediaStore'')) [On ''MediaStore''
      MediaStore_body, Get ''__typename'']"
  "fits (Model MediaAccessGrant_fields) (Non_Null (Named ''MediaAccessGrant'')) [On
      ''MediaAccessGrant'' MediaAccessGrant_body, Get ''__typename'']"
  "fits (Model ShelveMutationShelveInMemoryDrawer_fields) (Non_Null (Named ''MemoryDrawer''))
      ShelveMutationShelveInMemoryDrawer_body"
  "fits (Model ReturnChildPortNestedChildren_fields) (Non_Null (Named ''ReturnPort''))
      ReturnChildPortNestedChildren_body"
  "fits (Model ReturnChildPortNestedChoices_fields) (Non_Null (Named ''Choice''))
      ReturnChildPortNestedChoices_body"
  "fits (Model ReturnChildPortChoices_fields) (Non_Null (Named ''Choice''))
      ReturnChildPortChoices_body"
  "fits (Model ReturnPortWidgetBaseChoiceReturnWidget_fields) (Non_Null (Named
      ''ChoiceReturnWidget'')) [On ''ReturnWidget'' ReturnWidget_body, Get ''__typename'']"
  "fits (Model ReturnPortChoices_fields) (Non_Null (Named ''Choice'')) ReturnPortChoices_body"
  "fits (Model DefinitionCollections_fields) (Non_Null (Named ''Collection''))
      DefinitionCollections_body"
  "fits (Model DefinitionIsTestFor_fields) (Non_Null (Named ''Action'')) DefinitionIsTestFor_body"
  "fits (Model DefinitionPortGroups_fields) (Non_Null (Named ''PortGroup''))
      DefinitionPortGroups_body"
  "fits (Model CreateSpaceMutationCreateSpace_fields) (Non_Null (Named ''Space''))
      CreateSpaceMutationCreateSpace_body"
  "fits (Model ImplementationAgent_fields) (Non_Null (Named ''Agent'')) ImplementationAgent_body"
  "fits (Model ImplementationDiagnostics_fields) (Non_Null (Named ''Diagnostic''))
      ImplementationDiagnostics_body"
  "fits (Model TestCaseAction_fields) (Non_Null (Named ''Action'')) TestCaseAction_body"
  "fits (Model TestResultCase_fields) (Non_Null (Named ''TestCase'')) TestResultCase_body"
  "fits (Model SearchAgentsQueryOptions_fields) (Non_Null (Named ''Agent''))
      SearchAgentsQueryOptions_body"
  "fits (Model DesignAgentApp_fields) (Non_Null (Named ''App'')) DesignAgentApp_body"
  "fits (Model StoredAssetQueryAsset_fields) (Non_Null (Named ''Asset''))
      StoredAssetQueryAsset_body"
  "fits (Model SearchMaterializedBloksQueryOptions_fields) (Non_Null (Named ''MaterializedBlok''))
      SearchMaterializedBloksQueryOptions_body"
  "fits (Model GetMeActionsQueryActions_fields) (Non_Null (Named ''Action''))
      GetMeActionsQueryActions_body"
  "fits (Model SearchActionsQueryOptions_fields) (Non_Null (Named ''Action''))
      SearchActionsQueryOptions_body"
  "fits (Model PrimaryAction_fields) (Non_Null (Named ''Action'')) [On ''Action''
      PrimaryAction_body, Get ''__typename'']"
  "fits (Model ListShortcutAction_fields) (Non_Null (Named ''Action'')) ListShortcutAction_body"
  "fits (Model SearchShortcutsQueryOptions_fields) (Non_Null (Named ''Shortcut''))
      SearchShortcutsQueryOptions_body"
  "fits (Model SpacesForAgentsQuerySpacesForAgentsSpace_fields) (Non_Null (Named ''Space''))
      SpacesForAgentsQuerySpacesForAgentsSpace_body"
  "fits (Model StateAgent_fields) (Non_Null (Named ''Agent'')) StateAgent_body"
  "fits (Model StatePatchTaskAction_fields) (Non_Null (Named ''Action''))
      StatePatchTaskAction_body"
  "fits (Model TaskEvent_fields) (Non_Null (Named ''TaskEvent'')) [On ''TaskEvent''
      TaskEvent_body, Get ''__typename'']"
  "fits (Model TaskRunViewQueryTaskSpace_fields) (Non_Null (Named ''Space''))
      TaskRunViewQueryTaskSpace_body"
  "fits (Model TaskDependencyAgentAgent_fields) (Non_Null (Named ''Agent''))
      TaskDependencyAgentAgent_body"
  "fits (Model SearchImplementationsQueryOptions_fields) (Non_Null (Named ''Implementation''))
      SearchImplementationsQueryOptions_body"
  "fits (Model SearchTestCasesQueryOptions_fields) (Non_Null (Named ''TestCase''))
      SearchTestCasesQueryOptions_body"
  "fits (Model SearchTestResultsQueryOptions_fields) (Non_Null (Named ''TestResult''))
      SearchTestResultsQueryOptions_body"
  "fits (Model ListToolbox_fields) (Non_Null (Named ''Toolbox'')) [On ''Toolbox''
      ListToolbox_body, Get ''__typename'']"
  "fits (Model Toolbox_fields) (Non_Null (Named ''Toolbox'')) [On ''Toolbox'' Toolbox_body, Get
      ''__typename'']"
  "fits (Model TaskChange_fields) (Non_Null (Named ''TaskChange'')) [On ''TaskChange''
      TaskChange_body, Get ''__typename'']"
  "fits (Model TaskEventChange_fields) (Non_Null (Named ''TaskEventChange'')) [On
      ''TaskEventChange'' TaskEventChange_body, Get ''__typename'']"
  "fits (Model CustomEffect_fields) (Non_Null (Named ''CustomEffect'')) [On ''CustomEffect''
      CustomEffect_body, Get ''__typename'']"
  "fits (Model MessageEffect_fields) (Non_Null (Named ''MessageEffect'')) [On ''MessageEffect''
      MessageEffect_body, Get ''__typename'']"
  "fits (Model StringAssignWidget_fields) (Non_Null (Named ''StringAssignWidget'')) [On
      ''StringAssignWidget'' StringAssignWidget_body, Get ''__typename'']"
  "fits (Model SliderAssignWidget_fields) (Non_Null (Named ''SliderAssignWidget'')) [On
      ''SliderAssignWidget'' SliderAssignWidget_body, Get ''__typename'']"
  "fits (Model SearchAssignWidget_fields) (Non_Null (Named ''SearchAssignWidget'')) [On
      ''SearchAssignWidget'' SearchAssignWidget_body, Get ''__typename'']"
  "fits (Model ChoiceAssignWidget_fields) (Non_Null (Named ''ChoiceAssignWidget'')) [On
      ''ChoiceAssignWidget'' ChoiceAssignWidget_body, Get ''__typename'']"
  "fits (Model ChoiceReturnWidget_fields) (Non_Null (Named ''ChoiceReturnWidget'')) [On
      ''ChoiceReturnWidget'' ChoiceReturnWidget_body, Get ''__typename'']"
  by (rule fits_model; simp add: fits_simps fits_facts
      ActionArgumentLeafUtilCall_body_def AgentClient_body_def AgentMemoryShelve_body_def
      AgentOrganization_body_def AgentUser_body_def ArgChildPortChoices_body_def
      ArgChildPortNestedChildren_body_def ArgChildPortNestedChoices_body_def
      ArgPortChoices_body_def AssetUploadGrant_body_def Blok_body_def BlokDemo_body_def
      BlokDiagnostic_body_def BlokLocalChoices_body_def
      BlokPortMatchChildrenChildrenChildren_body_def BlokRevisionAuthor_body_def
      BlokRevisionTask_body_def CatalogArgument_body_def CatalogEventField_body_def
      ChoiceAssignWidget_body_def ChoiceReturnWidget_body_def
      ComponentPropDynamicValue_body_def CreateAssetMutationCreateAsset_body_def
      CreateSpaceMutationCreateSpace_body_def CustomAssignWidget_body_def
      CustomEffect_body_def CustomReturnWidget_body_def Dashboard_body_def
      DefinitionCollections_body_def DefinitionIsTestFor_body_def
      DefinitionPortGroups_body_def DesignAgentApp_body_def DetailBlokApp_body_def
      DetailBlokModule_body_def DetailMaterializedBlokAgentMappingsAgent_body_def
      DetailMaterializedBlokDeclaredBy_body_def GetMeActionsQueryActions_body_def
      ImplementationAgent_body_def ImplementationDiagnostics_body_def
      ListShortcutAction_body_def ListToolbox_body_def MaterializedBlok_body_def
      MediaAccessGrant_body_def MediaStore_body_def MediaUploadGrant_body_def
      MessageEffect_body_def PortAssignWidget_body_def PrimaryAction_body_def
      ResolvedBlokLocalChoices_body_def ReturnChildPortChoices_body_def
      ReturnChildPortNestedChildren_body_def ReturnChildPortNestedChoices_body_def
      ReturnPortChoices_body_def ReturnWidget_body_def SearchActionsQueryOptions_body_def
      SearchAgentsQueryOptions_body_def SearchAssignWidget_body_def
      SearchImplementationsQueryOptions_body_def SearchMaterializedBloksQueryOptions_body_def
      SearchShortcutsQueryOptions_body_def SearchTestCasesQueryOptions_body_def
      SearchTestResultsQueryOptions_body_def ShelveMutationShelveInMemoryDrawer_body_def
      SliderAssignWidget_body_def SpacesForAgentsQuerySpacesForAgentsSpace_body_def
      StateAgent_body_def StatePatchTaskAction_body_def StoredAssetQueryAsset_body_def
      StringAssignWidget_body_def TaskChange_body_def TaskDependencyAgentAgent_body_def
      TaskEvent_body_def TaskEventChange_body_def TaskEvents_body_def TaskInstructs_body_def
      TaskParent_body_def TaskRunViewQueryTaskSpace_body_def TestCaseAction_body_def
      TestResultCase_body_def Toolbox_body_def ActionArgumentLeafUtilCall_fields_def
      AgentClient_fields_def AgentMemoryShelve_fields_def AgentOrganization_fields_def
      AgentUser_fields_def ArgChildPortChoices_fields_def
      ArgChildPortNestedChildren_fields_def ArgChildPortNestedChoices_fields_def
      ArgPortChoices_fields_def ArgPortWidgetBase_fields_def
      ArgPortWidgetBaseChoiceAssignWidget_fields_def ArgPortWidgetBaseProxyWidget_fields_def
      ArgPortWidgetBaseSearchAssignWidget_fields_def
      ArgPortWidgetBaseSliderAssignWidget_fields_def
      ArgPortWidgetBaseStateChoiceAssignWidget_fields_def
      ArgPortWidgetBaseStringAssignWidget_fields_def AssetUploadGrant_fields_def
      Blok_fields_def BlokDemo_fields_def BlokDiagnostic_fields_def
      BlokLocalChoices_fields_def BlokPortMatchChildrenChildrenChildren_fields_def
      BlokRevisionAuthor_fields_def BlokRevisionTask_fields_def CatalogArgument_fields_def
      CatalogEventField_fields_def ChoiceAssignWidget_fields_def ChoiceReturnWidget_fields_def
      ComponentPropDynamicValue_fields_def CreateAssetMutationCreateAsset_fields_def
      CreateSpaceMutationCreateSpace_fields_def CustomEffect_fields_def Dashboard_fields_def
      DefinitionCollections_fields_def DefinitionIsTestFor_fields_def
      DefinitionPortGroups_fields_def DesignAgentApp_fields_def DetailBlokApp_fields_def
      DetailBlokModule_fields_def DetailMaterializedBlokAgentMappingsAgent_fields_def
      DetailMaterializedBlokDeclaredBy_fields_def GetMeActionsQueryActions_fields_def
      ImplementationAgent_fields_def ImplementationDiagnostics_fields_def
      ListShortcutAction_fields_def ListToolbox_fields_def MaterializedBlok_fields_def
      MediaAccessGrant_fields_def MediaStore_fields_def MediaUploadGrant_fields_def
      MessageEffect_fields_def PortAssignWidgetBase_fields_def
      PortAssignWidgetChoiceAssignWidget_fields_def PortAssignWidgetProxyWidget_fields_def
      PortAssignWidgetSearchAssignWidget_fields_def
      PortAssignWidgetSliderAssignWidget_fields_def
      PortAssignWidgetStateChoiceAssignWidget_fields_def
      PortAssignWidgetStringAssignWidget_fields_def PrimaryAction_fields_def
      ResolvedBlokLocalChoices_fields_def ReturnChildPortChoices_fields_def
      ReturnChildPortNestedChildren_fields_def ReturnChildPortNestedChoices_fields_def
      ReturnPortChoices_fields_def ReturnPortWidgetBase_fields_def
      ReturnPortWidgetBaseChoiceReturnWidget_fields_def ReturnWidgetBase_fields_def
      ReturnWidgetChoiceReturnWidget_fields_def SearchActionsQueryOptions_fields_def
      SearchAgentsQueryOptions_fields_def SearchAssignWidget_fields_def
      SearchImplementationsQueryOptions_fields_def
      SearchMaterializedBloksQueryOptions_fields_def SearchShortcutsQueryOptions_fields_def
      SearchTestCasesQueryOptions_fields_def SearchTestResultsQueryOptions_fields_def
      ShelveMutationShelveInMemoryDrawer_fields_def SliderAssignWidget_fields_def
      SpacesForAgentsQuerySpacesForAgentsSpace_fields_def StateAgent_fields_def
      StatePatchTaskAction_fields_def StoredAssetQueryAsset_fields_def
      StringAssignWidget_fields_def TaskChange_fields_def TaskDependencyAgentAgent_fields_def
      TaskEvent_fields_def TaskEventChange_fields_def TaskEvents_fields_def
      TaskInstructs_fields_def TaskParent_fields_def TaskRunViewQueryTaskSpace_fields_def
      TestCaseAction_fields_def TestResultCase_fields_def Toolbox_fields_def
      del: fits.simps(4) map_of.simps cong: lazy_congs)+

lemma fits_nested_once [fits_facts]:
  "fits (Model Task_fields) (Non_Null (Named ''Task'')) [On ''Task'' Task_body, Get
      ''__typename'']"
  "fits (Model Agent_fields) (Non_Null (Named ''Agent'')) [On ''Agent'' Agent_body, Get
      ''__typename'']"
  "fits (Model ArgChildPortNested_fields) (Non_Null (Named ''ArgPort'')) [On ''ArgPort''
      ArgChildPortNested_body, Get ''__typename'']"
  "fits (Model ActionArgumentLeaf_fields) (Non_Null (Named ''ActionArgument'')) [On
      ''ActionArgument'' ActionArgumentLeaf_body, Get ''__typename'']"
  "fits (Model BlokPortMatchChildrenChildren_fields) (Non_Null (Named ''PortMatch''))
      BlokPortMatchChildrenChildren_body"
  "fits (Model DetailMaterializedBlokAgentMappings_fields) (Non_Null (Named ''BlokAgentMapping''))
      DetailMaterializedBlokAgentMappings_body"
  "fits (Model CatalogProp_fields) (Non_Null (Named ''CatalogProp'')) [On ''CatalogProp''
      CatalogProp_body, Get ''__typename'']"
  "fits (Model CatalogOperation_fields) (Non_Null (Named ''CatalogOperation'')) [On
      ''CatalogOperation'' CatalogOperation_body, Get ''__typename'']"
  "fits (Model ReturnChildPortNested_fields) (Non_Null (Named ''ReturnPort'')) [On ''ReturnPort''
      ReturnChildPortNested_body, Get ''__typename'']"
  "fits (Model TestCase_fields) (Non_Null (Named ''TestCase'')) [On ''TestCase'' TestCase_body,
      Get ''__typename'']"
  "fits (Model TestResult_fields) (Non_Null (Named ''TestResult'')) [On ''TestResult''
      TestResult_body, Get ''__typename'']"
  "fits (Model SpacesForAgentsQuerySpacesForAgents_fields) (Non_Null (Named ''SpaceForAgents''))
      SpacesForAgentsQuerySpacesForAgents_body"
  "fits (Model StatePatchTask_fields) (Non_Null (Named ''Task'')) StatePatchTask_body"
  "fits (Model TaskEventsQueryTask_fields) (Non_Null (Named ''Task'')) TaskEventsQueryTask_body"
  "fits (Model TaskDependencyAgent_fields) (Non_Null (Named ''TaskDependencyAgent'')) [On
      ''TaskDependencyAgent'' TaskDependencyAgent_body, Get ''__typename'']"
  "fits (Model TaskChangeEvent_fields) (Non_Null (Named ''TaskChangeEvent'')) [On
      ''TaskChangeEvent'' TaskChangeEvent_body, Get ''__typename'']"
  by (rule fits_model; simp add: fits_simps fits_facts
      ActionArgumentLeaf_body_def Agent_body_def ArgChildPortNested_body_def
      BlokPortMatchChildrenChildren_body_def CatalogOperation_body_def CatalogProp_body_def
      DetailMaterializedBlokAgentMappings_body_def ReturnChildPortNested_body_def
      SpacesForAgentsQuerySpacesForAgents_body_def StatePatchTask_body_def Task_body_def
      TaskChangeEvent_body_def TaskDependencyAgent_body_def TaskEventsQueryTask_body_def
      TestCase_body_def TestResult_body_def ActionArgumentLeaf_fields_def Agent_fields_def
      ArgChildPortNested_fields_def BlokPortMatchChildrenChildren_fields_def
      CatalogOperation_fields_def CatalogProp_fields_def
      DetailMaterializedBlokAgentMappings_fields_def ReturnChildPortNested_fields_def
      SpacesForAgentsQuerySpacesForAgents_fields_def StatePatchTask_fields_def Task_fields_def
      TaskChangeEvent_fields_def TaskDependencyAgent_fields_def TaskEventsQueryTask_fields_def
      TestCase_fields_def TestResult_fields_def
      del: fits.simps(4) map_of.simps cong: lazy_congs)+

lemma fits_nested_2 [fits_facts]:
  "fits (Model ArgChildPort_fields) (Non_Null (Named ''ArgPort'')) [On ''ArgPort''
      ArgChildPort_body, Get ''__typename'']"
  "fits (Model ActionArgumentNestedUtilCall_fields) (Non_Null (Named ''UtilCall''))
      ActionArgumentNestedUtilCall_body"
  "fits (Model BlokPortMatchChildren_fields) (Non_Null (Named ''PortMatch''))
      BlokPortMatchChildren_body"
  "fits (Model CatalogComponent_fields) (Non_Null (Named ''CatalogComponent'')) [On
      ''CatalogComponent'' CatalogComponent_body, Get ''__typename'']"
  "fits (Model ReturnChildPort_fields) (Non_Null (Named ''ReturnPort'')) [On ''ReturnPort''
      ReturnChildPort_body, Get ''__typename'']"
  "fits (Model BaseCatalogQueryBaseCatalog_fields) (Non_Null (Named ''BaseCatalog''))
      BaseCatalogQueryBaseCatalog_body"
  "fits (Model StatePatch_fields) (Non_Null (Named ''Patch'')) [On ''Patch'' StatePatch_body, Get
      ''__typename'']"
  by (rule fits_model; simp add: fits_simps fits_facts
      ActionArgumentNestedUtilCall_body_def ArgChildPort_body_def
      BaseCatalogQueryBaseCatalog_body_def BlokPortMatchChildren_body_def
      CatalogComponent_body_def ReturnChildPort_body_def StatePatch_body_def
      ActionArgumentNestedUtilCall_fields_def ArgChildPort_fields_def
      BaseCatalogQueryBaseCatalog_fields_def BlokPortMatchChildren_fields_def
      CatalogComponent_fields_def ReturnChildPort_fields_def StatePatch_fields_def
      del: fits.simps(4) map_of.simps cong: lazy_congs)+

lemma fits_nested_3 [fits_facts]:
  "fits (Model BlokLocal_fields) (Non_Null (Named ''BlokLocal'')) [On ''BlokLocal''
      BlokLocal_body, Get ''__typename'']"
  "fits (Model ResolvedBlokLocal_fields) (Non_Null (Named ''ResolvedBlokLocal'')) [On
      ''ResolvedBlokLocal'' ResolvedBlokLocal_body, Get ''__typename'']"
  "fits (Model ActionArgumentNested_fields) (Non_Null (Named ''ActionArgument'')) [On
      ''ActionArgument'' ActionArgumentNested_body, Get ''__typename'']"
  "fits (Model BlokPortMatch_fields) (Non_Null (Named ''PortMatch'')) [On ''PortMatch''
      BlokPortMatch_body, Get ''__typename'']"
  "fits (Model Module_fields) (Non_Null (Named ''Module'')) [On ''Module'' Module_body, Get
      ''__typename'']"
  "fits (Model CheckoutAgentQueryCheckoutAgent_fields) (Non_Null (Named ''AgentWithValues''))
      CheckoutAgentQueryCheckoutAgent_body"
  by (rule fits_model; simp add: fits_simps fits_facts
      ActionArgumentNested_body_def BlokLocal_body_def BlokPortMatch_body_def
      CheckoutAgentQueryCheckoutAgent_body_def Module_body_def ResolvedBlokLocal_body_def
      ActionArgumentNested_fields_def BlokLocal_fields_def BlokPortMatch_fields_def
      CheckoutAgentQueryCheckoutAgent_fields_def Module_fields_def
      ResolvedBlokLocal_fields_def
      del: fits.simps(4) map_of.simps cong: lazy_congs)+

lemma fits_nested_4 [fits_facts]:
  "fits (Model ActionArgumentUtilCall_fields) (Non_Null (Named ''UtilCall''))
      ActionArgumentUtilCall_body"
  "fits (Model BlokDependencyActionDependenciesDemand_fields) (Non_Null (Named ''ActionDemand''))
      BlokDependencyActionDependenciesDemand_body"
  "fits (Model BlokDependencyStateDependenciesDemand_fields) (Non_Null (Named ''StateDemand''))
      BlokDependencyStateDependenciesDemand_body"
  "fits (Model BlokRevision_fields) (Non_Null (Named ''BlokRevision'')) [On ''BlokRevision''
      BlokRevision_body, Get ''__typename'']"
  by (rule fits_model; simp add: fits_simps fits_facts
      ActionArgumentUtilCall_body_def BlokDependencyActionDependenciesDemand_body_def
      BlokDependencyStateDependenciesDemand_body_def BlokRevision_body_def
      ActionArgumentUtilCall_fields_def BlokDependencyActionDependenciesDemand_fields_def
      BlokDependencyStateDependenciesDemand_fields_def BlokRevision_fields_def
      del: fits.simps(4) map_of.simps cong: lazy_congs)+

lemma fits_nested_5 [fits_facts]:
  "fits (Model ActionArgument_fields) (Non_Null (Named ''ActionArgument'')) [On ''ActionArgument''
      ActionArgument_body, Get ''__typename'']"
  "fits (Model BlokDependencyActionDependencies_fields) (Non_Null (Named ''ActionDependency''))
      BlokDependencyActionDependencies_body"
  "fits (Model BlokDependencyStateDependencies_fields) (Non_Null (Named ''StateDependency''))
      BlokDependencyStateDependencies_body"
  "fits (Model BlokRevisionsQueryBlok_fields) (Non_Null (Named ''Blok''))
      BlokRevisionsQueryBlok_body"
  by (rule fits_model; simp add: fits_simps fits_facts
      ActionArgument_body_def BlokDependencyActionDependencies_body_def
      BlokDependencyStateDependencies_body_def BlokRevisionsQueryBlok_body_def
      ActionArgument_fields_def BlokDependencyActionDependencies_fields_def
      BlokDependencyStateDependencies_fields_def BlokRevisionsQueryBlok_fields_def
      del: fits.simps(4) map_of.simps cong: lazy_congs)+

lemma fits_nested_6 [fits_facts]:
  "fits (Model BlokQuery_fields) (Non_Null (Named ''BlokQuery'')) [On ''BlokQuery''
      BlokQuery_body, Get ''__typename'']"
  "fits (Model BlokSubscription_fields) (Non_Null (Named ''BlokSubscription'')) [On
      ''BlokSubscription'' BlokSubscription_body, Get ''__typename'']"
  "fits (Model BlokDependency_fields) (Non_Null (Named ''BlokDependency'')) [On ''BlokDependency''
      BlokDependency_body, Get ''__typename'']"
  "fits (Model UtilCall_fields) (Non_Null (Named ''UtilCall'')) [On ''UtilCall'' UtilCall_body,
      Get ''__typename'']"
  by (rule fits_model; simp add: fits_simps fits_facts
      BlokDependency_body_def BlokQuery_body_def BlokSubscription_body_def UtilCall_body_def
      BlokDependency_fields_def BlokQuery_fields_def BlokSubscription_fields_def
      UtilCall_fields_def
      del: fits.simps(4) map_of.simps cong: lazy_congs)+

lemma fits_nested_7 [fits_facts]:
  "fits (Model ComponentProp_fields) (Non_Null (Named ''ComponentProp'')) [On ''ComponentProp''
      ComponentProp_body, Get ''__typename'']"
  "fits (Model ArgPortValidators_fields) (Non_Null (Named ''Validator'')) ArgPortValidators_body"
  "fits (Model ArgPortEffectsBaseCustomEffect_fields) (Non_Null (Named ''CustomEffect'')) [On
      ''Effect'' PortEffect_body, Get ''__typename'']"
  "fits (Model ArgPortEffectsBaseHideEffect_fields) (Non_Null (Named ''HideEffect'')) [On
      ''Effect'' PortEffect_body, Get ''__typename'']"
  "fits (Model ArgPortEffectsBaseMessageEffect_fields) (Non_Null (Named ''MessageEffect'')) [On
      ''Effect'' PortEffect_body, Get ''__typename'']"
  "fits (Model ReturnPortEffectsBaseCustomEffect_fields) (Non_Null (Named ''CustomEffect'')) [On
      ''Effect'' PortEffect_body, Get ''__typename'']"
  "fits (Model ReturnPortEffectsBaseHideEffect_fields) (Non_Null (Named ''HideEffect'')) [On
      ''Effect'' PortEffect_body, Get ''__typename'']"
  "fits (Model ReturnPortEffectsBaseMessageEffect_fields) (Non_Null (Named ''MessageEffect'')) [On
      ''Effect'' PortEffect_body, Get ''__typename'']"
  by (rule fits_model; simp add: fits_simps fits_facts
      ArgPortValidators_body_def ComponentProp_body_def CustomEffect_body_def
      MessageEffect_body_def PortEffect_body_def ArgPortEffectsBase_fields_def
      ArgPortEffectsBaseCustomEffect_fields_def ArgPortEffectsBaseHideEffect_fields_def
      ArgPortEffectsBaseMessageEffect_fields_def ArgPortValidators_fields_def
      ComponentProp_fields_def CustomEffect_fields_def MessageEffect_fields_def
      PortEffectBase_fields_def PortEffectCustomEffect_fields_def
      PortEffectHideEffect_fields_def PortEffectMessageEffect_fields_def
      ReturnPortEffectsBase_fields_def ReturnPortEffectsBaseCustomEffect_fields_def
      ReturnPortEffectsBaseHideEffect_fields_def ReturnPortEffectsBaseMessageEffect_fields_def
      del: fits.simps(4) map_of.simps cong: lazy_congs)+

lemma fits_nested_8 [fits_facts]:
  "fits (Model ArgPortWidgetBaseCustomAssignWidget_fields) (Non_Null (Named
      ''CustomAssignWidget'')) [On ''AssignWidget'' PortAssignWidget_body, Get ''__typename'']"
  "fits (Model ReturnPortWidgetBaseCustomReturnWidget_fields) (Non_Null (Named
      ''CustomReturnWidget'')) [On ''ReturnWidget'' ReturnWidget_body, Get ''__typename'']"
  "fits (Model CustomAssignWidget_fields) (Non_Null (Named ''CustomAssignWidget'')) [On
      ''CustomAssignWidget'' CustomAssignWidget_body, Get ''__typename'']"
  "fits (Model CustomReturnWidget_fields) (Non_Null (Named ''CustomReturnWidget'')) [On
      ''CustomReturnWidget'' CustomReturnWidget_body, Get ''__typename'']"
  by (rule fits_model; simp add: fits_simps fits_facts
      ChoiceAssignWidget_body_def ChoiceReturnWidget_body_def CustomAssignWidget_body_def
      CustomReturnWidget_body_def PortAssignWidget_body_def ReturnWidget_body_def
      SearchAssignWidget_body_def SliderAssignWidget_body_def StringAssignWidget_body_def
      ArgPortWidgetBase_fields_def ArgPortWidgetBaseCustomAssignWidget_fields_def
      CustomAssignWidget_fields_def CustomReturnWidget_fields_def
      PortAssignWidgetBase_fields_def PortAssignWidgetCustomAssignWidget_fields_def
      ReturnPortWidgetBase_fields_def ReturnPortWidgetBaseCustomReturnWidget_fields_def
      ReturnWidgetBase_fields_def ReturnWidgetCustomReturnWidget_fields_def
      del: fits.simps(4) map_of.simps cong: lazy_congs)+

lemma fits_nested_9 [fits_facts]:
  "fits (Model ArgPort_fields) (Non_Null (Named ''ArgPort'')) [On ''ArgPort'' ArgPort_body, Get
      ''__typename'']"
  "fits (Model ReturnPort_fields) (Non_Null (Named ''ReturnPort'')) [On ''ReturnPort''
      ReturnPort_body, Get ''__typename'']"
  by (rule fits_model; simp add: fits_simps fits_facts
      ArgPort_body_def ReturnPort_body_def ArgPort_fields_def ReturnPort_fields_def
      del: fits.simps(4) map_of.simps cong: lazy_congs)+

lemma fits_nested_10 [fits_facts]:
  "fits (Model DetailBlok_fields) (Non_Null (Named ''Blok'')) [On ''Blok'' DetailBlok_body, Get
      ''__typename'']"
  "fits (Model Action_fields) (Non_Null (Named ''Action'')) [On ''Action'' Action_body, Get
      ''__typename'']"
  "fits (Model DesignAgentStatesDefinition_fields) (Non_Null (Named ''StateDefinition''))
      DesignAgentStatesDefinition_body"
  "fits (Model DesignAgentImplementationsAction_fields) (Non_Null (Named ''Action''))
      DesignAgentImplementationsAction_body"
  "fits (Model ListAction_fields) (Non_Null (Named ''Action'')) [On ''Action'' ListAction_body,
      Get ''__typename'']"
  "fits (Model ListShortcut_fields) (Non_Null (Named ''Shortcut'')) [On ''Shortcut''
      ListShortcut_body, Get ''__typename'']"
  "fits (Model StateDefinition_fields) (Non_Null (Named ''StateDefinition'')) [On
      ''StateDefinition'' StateDefinition_body, Get ''__typename'']"
  "fits (Model Definition_fields) (Non_Null (Named ''Action'')) [On ''Action'' Definition_body,
      Get ''__typename'']"
  by (rule fits_model; simp add: fits_simps fits_facts
      Action_body_def Definition_body_def DesignAgentImplementationsAction_body_def
      DesignAgentStatesDefinition_body_def DetailBlok_body_def ListAction_body_def
      ListShortcut_body_def StateDefinition_body_def Action_fields_def Definition_fields_def
      DesignAgentImplementationsAction_fields_def DesignAgentStatesDefinition_fields_def
      DetailBlok_fields_def ListAction_fields_def ListShortcut_fields_def
      StateDefinition_fields_def
      del: fits.simps(4) map_of.simps cong: lazy_congs)+

lemma fits_nested_11 [fits_facts]:
  "fits (Model DetailMaterializedBlok_fields) (Non_Null (Named ''MaterializedBlok'')) [On
      ''MaterializedBlok'' DetailMaterializedBlok_body, Get ''__typename'']"
  "fits (Model Shortcut_fields) (Non_Null (Named ''Shortcut'')) [On ''Shortcut'' Shortcut_body,
      Get ''__typename'']"
  "fits (Model Implementation_fields) (Non_Null (Named ''Implementation'')) [On ''Implementation''
      Implementation_body, Get ''__typename'']"
  "fits (Model DesignAgentStates_fields) (Non_Null (Named ''State'')) DesignAgentStates_body"
  "fits (Model DesignAgentImplementations_fields) (Non_Null (Named ''Implementation''))
      DesignAgentImplementations_body"
  "fits (Model ActionBlok_fields) (Non_Null (Named ''ActionBlok'')) [On ''ActionBlok''
      ActionBlok_body, Get ''__typename'']"
  "fits (Model State_fields) (Non_Null (Named ''State'')) [On ''State'' State_body, Get
      ''__typename'']"
  by (rule fits_model; simp add: fits_simps fits_facts
      ActionBlok_body_def DesignAgentImplementations_body_def DesignAgentStates_body_def
      DetailMaterializedBlok_body_def Implementation_body_def Shortcut_body_def State_body_def
      ActionBlok_fields_def DesignAgentImplementations_fields_def DesignAgentStates_fields_def
      DetailMaterializedBlok_fields_def Implementation_fields_def Shortcut_fields_def
      State_fields_def
      del: fits.simps(4) map_of.simps cong: lazy_congs)+

lemma fits_nested_12 [fits_facts]:
  "fits (Model BlokEdit_fields) (Non_Null (Named ''BlokEdit'')) [On ''BlokEdit'' BlokEdit_body,
      Get ''__typename'']"
  "fits (Model DesignAgent_fields) (Non_Null (Named ''Agent'')) [On ''Agent'' DesignAgent_body,
      Get ''__typename'']"
  "fits (Model ActionBloksQueryAction_fields) (Non_Null (Named ''Action''))
      ActionBloksQueryAction_body"
  "fits (Model TaskRunViewQueryTask_fields) (Non_Null (Named ''Task'')) TaskRunViewQueryTask_body"
  by (rule fits_model; simp add: fits_simps fits_facts
      ActionBloksQueryAction_body_def BlokEdit_body_def DesignAgent_body_def
      TaskRunViewQueryTask_body_def ActionBloksQueryAction_fields_def BlokEdit_fields_def
      DesignAgent_fields_def TaskRunViewQueryTask_fields_def
      del: fits.simps(4) map_of.simps cong: lazy_congs)+

section \<open>The operations\<close>

definition root_type :: "operation_class \<Rightarrow> string" where
  "root_type c = (case oc_kind c of
     Query \<Rightarrow> ''Query'' | Mutation \<Rightarrow> ''Mutation'' | Subscription \<Rightarrow> ''Subscription'')"

lemma operations_fit:
  "list_all (\<lambda>(_, c). fits (Model [oc_answer c]) (Non_Null (Named (root_type c))) (oc_body c)) method_classes"
  unfolding method_classes_def list.pred_inject prod.case
  by (intro conjI list.pred_inject(1); rule fits_model;
      simp add: fits_simps fits_facts root_type_def operation_classes operation_bodies
        del: fits.simps(4) map_of.simps cong: lazy_congs)

lemma operations_match:
  "list_all (\<lambda>(spec, c). os_answer spec = af_name (oc_answer c) \<and>
     (os_stream spec \<longleftrightarrow> oc_kind c = Subscription)) method_classes"
  by (simp add: method_classes_def operation_defs operation_classes)

text \<open>
  C35. Answers are read. Whatever the server may send for a document, by its own schema, the operation's
  class accepts, and the field its methods return is there and is accepted: no answer of the server
  fails a call for a missing field, a null or a type. A method streams exactly if its document is a
  subscription.
\<close>

theorem answers_are_read:
  assumes "(spec, c) \<in> set method_classes"
    and "may_send (Non_Null (Named (root_type c))) (oc_body c) a"
    and "keeps_documentation validate"
  shows "validate (Model [oc_answer c]) a \<and>
    (\<exists>d v. a = Object (root_type c) d \<and> dict_get d (answer_key (oc_answer c)) = Some v \<and>
       validate (af_type (oc_answer c)) v) \<and>
    os_answer spec = af_name (oc_answer c) \<and> (os_stream spec \<longleftrightarrow> oc_kind c = Subscription)"
proof -
  let ?t = "root_type c" and ?sub = "oc_body c"
  have fit: "fits (Model [oc_answer c]) (Non_Null (Named ?t)) ?sub"
    using operations_fit assms(1) by (auto simp: list_all_iff)
  then have accepted: "accepted (Model [oc_answer c]) a" using assms(2) by (rule fits_accepted)
  have sent: "may_send (Named ?t) ?sub a" and "a \<noteq> Null"
    using assms(2) unfolding may_send.simps(1) by blast+
  have sub: "?sub \<noteq> []" "possible ?t = [?t]" "fields_fit [oc_answer c] ?t (collect ?t ?sub)"
    using fit by auto
  then obtain d where a: "a = Object ?t d" using sent \<open>a \<noteq> Null\<close> by (cases a) auto
  obtain f s where f: "map_of (collect ?t ?sub) (answer_key (oc_answer c)) = Some (f, s)"
    using fields_fit_accepted [OF sub(3)] by auto
  then have "\<exists>v. dict_get d (answer_key (oc_answer c)) = Some v"
    using sent map_of_SomeD [OF f] unfolding a may_send_object by blast
  then obtain v where v: "dict_get d (answer_key (oc_answer c)) = Some v" by blast
  then have "accepted (af_type (oc_answer c)) v"
    using accepted unfolding a by (auto elim: accepted_modelE)
  moreover have "os_answer spec = af_name (oc_answer c)" "os_stream spec \<longleftrightarrow> oc_kind c = Subscription"
    using operations_match assms(1) by (auto simp: list_all_iff)
  moreover have "validate p b" if "accepted p b" for p b
    using assms(3) that unfolding keeps_documentation_def by blast
  ultimately show ?thesis using accepted a v by blast
qed

theorem answers_are_read_witness:
  "accepted (Model [oc_answer UnshelveMutation])
     (Object ''Mutation'' [(''unshelveMemoryDrawer'', Scalar ''ID'')])"
proof -
  have "(op_unshelve, UnshelveMutation) \<in> set method_classes" by (simp add: method_classes_def)
  moreover have "may_send (Non_Null (Named (root_type UnshelveMutation))) (oc_body UnshelveMutation)
      (Object ''Mutation'' [(''unshelveMemoryDrawer'', Scalar ''ID'')])"
    by (simp add: root_type_def UnshelveMutation_def UnshelveMutation_body_def fits_simps
        del: map_of.simps cong: lazy_congs)
  moreover have "keeps_documentation accepted" by (simp add: keeps_documentation_def)
  ultimately show ?thesis using answers_are_read by blast
qed

end
